(* ===== verification/Prelude.thy ===== *)
theory Prelude
  imports Main "HOL-Library.Word" "HOL-Library.Char_ord" "HOL-Library.List_Lexorder"
begin

text \<open>
  Shared vocabulary of the development: machine integers, the outcome type of fallible Rust
  code (a value, an error value, or a panic), the string operations of the Rust standard
  library the components use, and ordered maps (\<open>BTreeMap\<close>) as strictly sorted association
  lists, with the lookup lemmas the component proofs rewrite with.
\<close>

named_theorems omap_simps \<open>lookup equations of ordered maps\<close>
named_theorems str_simps \<open>equations of the string operations\<close>

type_synonym u8 = "8 word"
type_synonym u16 = "16 word"
type_synonym u32 = "32 word"
type_synonym u64 = "64 word"
type_synonym bytes = "u8 list"

subsection \<open>Outcomes of fallible code\<close>

text \<open>
  \<open>Ok\<close> and \<open>Err\<close> are the constructors of \<open>Result\<close>; \<open>Panic\<close> is a panic (a failed
  \<open>assert!\<close>, \<open>unwrap\<close>, \<open>expect\<close> or an index out of range), which no caller of this
  code base catches.
\<close>

datatype ('a, 'e) outcome = Ok 'a | Err 'e | Panic

fun obind :: "('a, 'e) outcome \<Rightarrow> ('a \<Rightarrow> ('b, 'e) outcome) \<Rightarrow> ('b, 'e) outcome" where
  "obind (Ok a) f = f a"
| "obind (Err e) f = Err e"
| "obind Panic f = Panic"

fun omap :: "('a \<Rightarrow> 'b) \<Rightarrow> ('a, 'e) outcome \<Rightarrow> ('b, 'e) outcome" where
  "omap f (Ok a) = Ok (f a)"
| "omap f (Err e) = Err e"
| "omap f Panic = Panic"

fun omap_err :: "('e \<Rightarrow> 'f) \<Rightarrow> ('a, 'e) outcome \<Rightarrow> ('a, 'f) outcome" where
  "omap_err f (Ok a) = Ok a"
| "omap_err f (Err e) = Err (f e)"
| "omap_err f Panic = Panic"

fun unwrap :: "'a option \<Rightarrow> ('a, 'e) outcome" where
  "unwrap (Some a) = Ok a"
| "unwrap None = Panic"

fun ok_or :: "'e \<Rightarrow> 'a option \<Rightarrow> ('a, 'e) outcome" where
  "ok_or e (Some a) = Ok a"
| "ok_or e None = Err e"

fun is_ok :: "('a, 'e) outcome \<Rightarrow> bool" where
  "is_ok (Ok a) = True"
| "is_ok _ = False"

lemma obind_eq_Ok: "obind r f = Ok b \<longleftrightarrow> (\<exists>a. r = Ok a \<and> f a = Ok b)"
  by (cases r) auto

lemma omap_eq_Ok: "omap f r = Ok b \<longleftrightarrow> (\<exists>a. r = Ok a \<and> b = f a)"
  by (cases r) auto

lemma omap_err_eq_Ok [simp]: "omap_err f r = Ok b \<longleftrightarrow> r = Ok b"
  by (cases r) auto

lemma unwrap_eq_Ok [simp]: "unwrap x = Ok a \<longleftrightarrow> x = Some a"
  by (cases x) auto

lemma ok_or_eq_Ok [simp]: "ok_or e x = Ok a \<longleftrightarrow> x = Some a"
  by (cases x) auto

lemma is_ok_iff: "is_ok r \<longleftrightarrow> (\<exists>a. r = Ok a)"
  by (cases r) auto

lemmas outcome_simps = obind_eq_Ok omap_eq_Ok is_ok_iff

subsection \<open>String operations\<close>

text \<open>
  A Rust \<open>str\<close> is its UTF-8 bytes, one \<open>char\<close> each. Case folding is given for ASCII,
  which is what the compared literals are made of; other bytes are left alone.
\<close>

fun starts_with :: "'a list \<Rightarrow> 'a list \<Rightarrow> bool" where
  "starts_with s [] = True"
| "starts_with [] (p # ps) = False"
| "starts_with (c # cs) (p # ps) = (c = p \<and> starts_with cs ps)"

text \<open>\<open>str::find\<close>: the offset of the first occurrence.\<close>

fun find_str :: "'a list \<Rightarrow> 'a list \<Rightarrow> nat option" where
  "find_str [] pat = (if pat = [] then Some 0 else None)"
| "find_str (c # cs) pat =
     (if starts_with (c # cs) pat then Some 0 else map_option Suc (find_str cs pat))"

definition contains_str :: "'a list \<Rightarrow> 'a list \<Rightarrow> bool" where
  "contains_str s pat = (find_str s pat \<noteq> None)"

text \<open>\<open>str::split\<close> on a character: never empty, and the separators are dropped.\<close>

fun split_on :: "'a \<Rightarrow> 'a list \<Rightarrow> 'a list list" where
  "split_on c [] = [[]]"
| "split_on c (x # xs) =
     (if x = c then [] # split_on c xs
      else (case split_on c xs of [] \<Rightarrow> [[x]] | y # ys \<Rightarrow> (x # y) # ys))"

text \<open>\<open>join\<close> with a one character separator.\<close>

fun join_with :: "'a \<Rightarrow> 'a list list \<Rightarrow> 'a list" where
  "join_with c [] = []"
| "join_with c [x] = x"
| "join_with c (x # y # ys) = x @ c # join_with c (y # ys)"

definition lower_char :: "char \<Rightarrow> char" where
  "lower_char c = (if CHR ''A'' \<le> c \<and> c \<le> CHR ''Z'' then char_of (of_char c + (32 :: nat)) else c)"

definition upper_char :: "char \<Rightarrow> char" where
  "upper_char c = (if CHR ''a'' \<le> c \<and> c \<le> CHR ''z'' then char_of (of_char c - (32 :: nat)) else c)"

definition to_lowercase :: "string \<Rightarrow> string" where
  "to_lowercase = map lower_char"

definition to_uppercase :: "string \<Rightarrow> string" where
  "to_uppercase = map upper_char"

text \<open>The bytes of a string, and back (\<open>as_bytes\<close>, \<open>into_bytes\<close>).\<close>

definition as_bytes :: "string \<Rightarrow> bytes" where
  "as_bytes = map (\<lambda>c. word_of_nat (of_char c))"

text \<open>Big-endian bytes, as \<open>put_u16\<close>, \<open>put_u32\<close>, \<open>put_u64\<close> and \<open>to_be_bytes\<close> write them.\<close>

definition be_bytes :: "nat \<Rightarrow> nat \<Rightarrow> bytes" where
  "be_bytes n x = map (\<lambda>i. word_of_nat (x div 256 ^ (n - 1 - i))) [0..<n]"

text \<open>Reading them back.\<close>

definition of_be_bytes :: "bytes \<Rightarrow> nat" where
  "of_be_bytes bs = fold (\<lambda>b acc. acc * 256 + unat b) bs 0"

lemma starts_with_iff: "starts_with s p \<longleftrightarrow> (\<exists>t. s = p @ t)"
  by (induction s p rule: starts_with.induct) auto

lemma starts_with_append [str_simps]: "starts_with (p @ s) (p @ q) \<longleftrightarrow> starts_with s q"
  by (induction p) auto

lemma starts_with_self_append [simp]: "starts_with (p @ s) p"
  by (simp add: starts_with_iff)

lemma contains_str_iff: "contains_str s pat \<longleftrightarrow> (\<exists>u v. s = u @ pat @ v)"
proof (induction s)
  case Nil
  then show ?case by (simp add: contains_str_def)
next
  case (Cons c cs)
  have "contains_str (c # cs) pat \<longleftrightarrow> starts_with (c # cs) pat \<or> contains_str cs pat"
    by (simp add: contains_str_def)
  also have "\<dots> \<longleftrightarrow> (\<exists>v. c # cs = pat @ v) \<or> (\<exists>u v. cs = u @ pat @ v)"
    by (simp add: starts_with_iff Cons.IH)
  also have "\<dots> \<longleftrightarrow> (\<exists>u v. c # cs = u @ pat @ v)"
    by (metis append_Cons append_Nil append_eq_Cons_conv)
  finally show ?case .
qed

lemma find_str_Some:
  "find_str s pat = Some i \<Longrightarrow> i + length pat \<le> length s \<and> take (length pat) (drop i s) = pat"
proof (induction s arbitrary: i)
  case Nil
  then show ?case by (auto split: if_splits)
next
  case (Cons c cs)
  show ?case
  proof (cases "starts_with (c # cs) pat")
    case True
    then obtain t where t: "c # cs = pat @ t" by (auto simp: starts_with_iff)
    have "i = 0" using True Cons.prems by simp
    then show ?thesis unfolding t by simp
  next
    case False
    with Cons.prems obtain j where "find_str cs pat = Some j" "i = Suc j" by auto
    with Cons.IH show ?thesis by simp
  qed
qed

lemma split_on_not_Nil [simp]: "split_on c s \<noteq> []"
  by (induction s) (auto split: list.splits)

lemma split_on_no_sep [str_simps]: "c \<notin> set s \<Longrightarrow> split_on c s = [s]"
  by (induction s) auto

lemma split_on_append [str_simps]:
  "c \<notin> set p \<Longrightarrow> split_on c (p @ c # s) = p # split_on c s"
  by (induction p) auto

lemma join_split_on: "join_with c (split_on c s) = s"
proof (induction s)
  case Nil
  then show ?case by simp
next
  case (Cons x xs)
  then show ?case
    by (cases "split_on c xs"; cases "tl (split_on c xs)") (auto simp: neq_Nil_conv)
qed

lemma split_on_no_sep_in: "p \<in> set (split_on c s) \<Longrightarrow> c \<notin> set p"
proof (induction s arbitrary: p)
  case Nil
  then show ?case by simp
next
  case (Cons x xs)
  then show ?case
    by (cases "split_on c xs") (auto split: if_splits)
qed

lemma length_as_bytes [simp]: "length (as_bytes s) = length s"
  by (simp add: as_bytes_def)

lemma as_bytes_append [simp]: "as_bytes (s @ t) = as_bytes s @ as_bytes t"
  by (simp add: as_bytes_def)

lemma as_bytes_inj: "as_bytes s = as_bytes t \<longleftrightarrow> s = t"
proof -
  have "inj (\<lambda>c. word_of_nat (of_char c) :: u8)"
  proof (rule injI)
    fix c d :: char
    assume *: "(word_of_nat (of_char c) :: u8) = word_of_nat (of_char d)"
    have "of_char c < (256 :: nat)" "of_char d < (256 :: nat)" by simp_all
    have "unat (word_of_nat (of_char e) :: u8) = of_char e" for e :: char
      by (simp add: unat_of_nat take_bit_eq_mod)
    with * have "(of_char c :: nat) = of_char d" by metis
    then show "c = d" by simp
  qed
  then show ?thesis by (simp add: as_bytes_def inj_map_eq_map)
qed

lemma length_be_bytes [simp]: "length (be_bytes n x) = n"
  by (simp add: be_bytes_def)

lemma be_bytes_0 [simp]: "be_bytes 0 x = []"
  by (simp add: be_bytes_def)

lemma be_bytes_Suc: "be_bytes (Suc n) x = be_bytes n (x div 256) @ [word_of_nat x]"
proof -
  have "word_of_nat (x div 256 ^ (n - i)) = (word_of_nat (x div 256 div 256 ^ (n - 1 - i)) :: u8)"
    if "i < n" for i
  proof -
    have "256 ^ (n - i) = 256 * (256 :: nat) ^ (n - 1 - i)"
      using that by (cases "n - i") auto
    then show ?thesis by (simp add: div_mult2_eq)
  qed
  then show ?thesis by (simp add: be_bytes_def)
qed

lemma unat_word_of_nat_u8: "unat (word_of_nat x :: u8) = x mod 256"
  by (simp add: unat_of_nat)

lemma unat_u8_less: "unat (b :: u8) < 256"
  using unsigned_less [of b, where 'a = nat] by simp

lemma unat_u64_less: "unat (b :: u64) < 2 ^ 64"
  using unsigned_less [of b, where 'a = nat] by simp

lemma of_be_bytes_snoc: "of_be_bytes (bs @ [b]) = of_be_bytes bs * 256 + unat b"
  by (simp add: of_be_bytes_def)

lemma of_be_bytes_Nil [simp]: "of_be_bytes [] = 0"
  by (simp add: of_be_bytes_def)

lemma of_be_bytes_be_bytes: "of_be_bytes (be_bytes n x) = x mod 256 ^ n"
proof (induction n arbitrary: x)
  case 0
  then show ?case by simp
next
  case (Suc n)
  have "of_be_bytes (be_bytes (Suc n) x) = (x div 256 mod 256 ^ n) * 256 + x mod 256"
    by (simp add: be_bytes_Suc of_be_bytes_snoc Suc.IH unat_word_of_nat_u8)
  also have "\<dots> = x mod 256 ^ Suc n"
    by (simp add: mod_mult2_eq mult.commute)
  finally show ?case .
qed

lemma of_be_bytes_bound: "of_be_bytes bs < 256 ^ length bs"
proof (induction bs rule: rev_induct)
  case (snoc b bs)
  have "unat b < 256" by (rule unat_u8_less)
  with snoc show ?case by (simp add: of_be_bytes_snoc)
qed simp

lemma be_bytes_of_be_bytes: "length bs = n \<Longrightarrow> be_bytes n (of_be_bytes bs) = bs"
proof (induction bs arbitrary: n rule: rev_induct)
  case (snoc b bs)
  have b: "unat b < 256" by (rule unat_u8_less)
  then have "(of_be_bytes bs * 256 + unat b) div 256 = of_be_bytes bs" by simp
  moreover have "(word_of_nat (of_be_bytes bs * 256 + unat b) :: u8) = b"
  proof (rule unsigned_word_eqI [where 'a = nat])
    show "unat (word_of_nat (of_be_bytes bs * 256 + unat b) :: u8) = unat b"
      using b by (subst unat_word_of_nat_u8) simp
  qed
  ultimately show ?case using snoc by (auto simp: be_bytes_Suc of_be_bytes_snoc)
qed simp

definition put_u64 :: "u64 \<Rightarrow> bytes" where
  "put_u64 x = be_bytes 8 (unat x)"

lemma put_u64_inj: "put_u64 x = put_u64 y \<longleftrightarrow> x = y"
proof -
  have "of_be_bytes (put_u64 z) = unat z" for z
    using unat_u64_less [of z] by (simp add: put_u64_def of_be_bytes_be_bytes)
  then show ?thesis by (metis unsigned_word_eqI)
qed

subsection \<open>Ordered maps\<close>

text \<open>
  A \<open>BTreeMap\<close> is an association list sorted strictly by key; iteration is the list itself.
\<close>

type_synonym ('k, 'v) bmap = "('k \<times> 'v) list"

definition bt_get :: "('k, 'v) bmap \<Rightarrow> 'k \<Rightarrow> 'v option" where
  "bt_get m k = map_of m k"

fun bt_insert :: "'k::linorder \<Rightarrow> 'v \<Rightarrow> ('k, 'v) bmap \<Rightarrow> ('k, 'v) bmap" where
  "bt_insert k v [] = [(k, v)]"
| "bt_insert k v ((k', v') # m) =
     (if k < k' then (k, v) # (k', v') # m
      else if k = k' then (k, v) # m
      else (k', v') # bt_insert k v m)"

definition bt_remove :: "'k \<Rightarrow> ('k, 'v) bmap \<Rightarrow> ('k, 'v) bmap" where
  "bt_remove k m = filter (\<lambda>(k', v). k' \<noteq> k) m"

definition bt_sorted :: "('k::linorder, 'v) bmap \<Rightarrow> bool" where
  "bt_sorted m = sorted_wrt (<) (map fst m)"

lemma bt_get_Nil [omap_simps]: "bt_get [] k = None"
  by (simp add: bt_get_def)

lemma bt_get_Cons [omap_simps]: "bt_get ((k', v) # m) k = (if k = k' then Some v else bt_get m k)"
  by (simp add: bt_get_def)

lemma bt_get_insert [omap_simps]:
  "bt_sorted m \<Longrightarrow> bt_get (bt_insert k v m) k' = (if k' = k then Some v else bt_get m k')"
proof (induction m)
  case Nil
  then show ?case by (simp add: bt_get_def)
next
  case (Cons p m)
  obtain a b where p: "p = (a, b)" by (cases p)
  from Cons.prems have "bt_sorted m" by (simp add: bt_sorted_def)
  then have IH: "bt_get (bt_insert k v m) k' = (if k' = k then Some v else bt_get m k')"
    by (rule Cons.IH)
  then show ?case using p by (auto simp: omap_simps)
qed

lemma bt_get_remove [omap_simps]: "bt_get (bt_remove k m) k' = (if k' = k then None else bt_get m k')"
  by (induction m) (auto simp: bt_get_def bt_remove_def)

lemma bt_insert_keys: "fst ` set (bt_insert k v m) = insert k (fst ` set m)"
  by (induction k v m rule: bt_insert.induct) auto

lemma bt_sorted_Nil [simp]: "bt_sorted []"
  by (simp add: bt_sorted_def)

lemma bt_sorted_insert [simp]: "bt_sorted m \<Longrightarrow> bt_sorted (bt_insert k v m)"
proof (induction k v m rule: bt_insert.induct)
  case (1 k v)
  then show ?case by (simp add: bt_sorted_def)
next
  case (2 k v k' v' m)
  have keys: "\<forall>x \<in> set (bt_insert k v m). fst x = k \<or> (\<exists>y \<in> set m. fst y = fst x)"
    using bt_insert_keys [of k v m] by (metis image_iff insert_iff)
  have sm: "bt_sorted m" and hd: "\<forall>x \<in> set m. k' < fst x"
    using "2.prems" by (auto simp: bt_sorted_def)
  show ?case
  proof (cases k k' rule: linorder_cases)
    case less
    then show ?thesis using "2.prems" by (auto simp: bt_sorted_def)
  next
    case equal
    then show ?thesis using "2.prems" by (auto simp: bt_sorted_def)
  next
    case greater
    then have "bt_sorted (bt_insert k v m)" using 2 sm by auto
    moreover have "\<forall>x \<in> set (bt_insert k v m). k' < fst x"
      using keys hd greater by metis
    ultimately show ?thesis using greater by (auto simp: bt_sorted_def)
  qed
qed

lemma bt_sorted_remove [simp]: "bt_sorted m \<Longrightarrow> bt_sorted (bt_remove k m)"
  by (induction m) (auto simp: bt_sorted_def bt_remove_def)

text \<open>A strictly sorted map is determined by its lookups, so lookup lemmas give equalities.\<close>

lemma bt_get_in: "bt_sorted m \<Longrightarrow> (k, v) \<in> set m \<longleftrightarrow> bt_get m k = Some v"
proof -
  assume "bt_sorted m"
  then have "distinct (map fst m)"
    by (metis bt_sorted_def strict_sorted_iff)
  then show ?thesis by (simp add: bt_get_def)
qed

lemma bt_eqI:
  assumes "bt_sorted m" "bt_sorted n" "\<And>k. bt_get m k = bt_get n k"
  shows "m = n"
proof -
  have set_eq: "set m = set n"
    using assms by (metis (no_types, lifting) bt_get_in pred_equals_eq2 set_eqI surj_pair)
  have "sorted (map fst m)" "sorted (map fst n)" "distinct (map fst m)" "distinct (map fst n)"
    using assms(1,2) by (auto simp: bt_sorted_def strict_sorted_iff)
  then show "m = n"
    using set_eq by (intro map_sorted_distinct_set_unique [of fst]) (auto simp: distinct_map)
qed

end
