(* ===== verification/SignerModel.thy ===== *)
theory SignerModel
  imports Prelude
begin

text \<open>
  The requests a client may have sent to its node, as the signer sees them
  (\<open>libs/gl-client/src/signer/model\<close>): one constructor per variant of \<open>Request\<close>, and the
  two decoders that map a gRPC URI and a payload to a request. The payload messages are
  generated from the protobuf files; the fields the signer reads are records here, the other
  messages are the type parameter \<open>'m\<close>. The protobuf decoder of each message type is an
  argument, as are the names of the generated types it is called with.
\<close>

subsection \<open>Messages whose fields the signer reads\<close>

record sign_message_request = smr_message :: string
record fund_channel_request = fcr_id :: bytes
record pay_request = pay_bolt11 :: string
record pre_approve_invoice_request = pai_bolt11 :: string
record gl_config = close_to_addr :: string
record send_pay_request = spr_bolt11 :: "string option"

record trampoline_pay_request =
  tp_bolt11 :: string
  tp_trampoline_node_id :: bytes
  tp_amount_msat :: u64
  tp_label :: string
  tp_maxdelay :: u32
  tp_description :: string

text \<open>The variants of \<open>Request\<close>, each with the prefix \<open>Req\<close>.\<close>

datatype (plugins only: code size) 'm request =
    ReqGlConfig gl_config
  | ReqLspInvoice 'm
  | ReqGetinfo 'm
  | ReqListPeers 'm
  | ReqListFunds 'm
  | ReqSendPay send_pay_request
  | ReqListChannels 'm
  | ReqAddGossip 'm
  | ReqAutoCleanOnce 'm
  | ReqCheckMessage 'm
  | ReqClose 'm
  | ReqConnect 'm
  | ReqCreateInvoice 'm
  | ReqDatastore 'm
  | ReqCreateOnion 'm
  | ReqDelDatastore 'm
  | ReqDelExpiredInvoice 'm
  | ReqDelInvoice 'm
  | ReqInvoice 'm
  | ReqListDatastore 'm
  | ReqListInvoices 'm
  | ReqSendOnion 'm
  | ReqListSendPays 'm
  | ReqListTransactions 'm
  | ReqPay pay_request
  | ReqPreApproveInvoice pre_approve_invoice_request
  | ReqListNodes 'm
  | ReqWaitAnyInvoice 'm
  | ReqWaitInvoice 'm
  | ReqWaitSendPay 'm
  | ReqNewAddr 'm
  | ReqWithdraw 'm
  | ReqKeySend 'm
  | ReqFundPsbt 'm
  | ReqSendPsbt 'm
  | ReqSignPsbt 'm
  | ReqUtxoPsbt 'm
  | ReqTxDiscard 'm
  | ReqTxPrepare 'm
  | ReqTxSend 'm
  | ReqDisconnect 'm
  | ReqFeerates 'm
  | ReqFundChannel fund_channel_request
  | ReqGetRoute 'm
  | ReqListForwards 'm
  | ReqListPays 'm
  | ReqPing 'm
  | ReqSetChannel 'm
  | ReqSignMessage sign_message_request
  | ReqFetchInvoice 'm
  | ReqStop 'm
  | ReqListClosedChannels 'm
  | ReqStaticBackup 'm
  | ReqTrampolinePay trampoline_pay_request

text \<open>The protobuf decoders: by type name for the opaque messages, one each for the others.\<close>

record 'm proto =
  dec :: "string \<Rightarrow> bytes \<Rightarrow> 'm option"
  dec_sign_message :: "bytes \<Rightarrow> sign_message_request option"
  dec_fund_channel :: "bytes \<Rightarrow> fund_channel_request option"
  dec_pay :: "bytes \<Rightarrow> pay_request option"
  dec_pre_approve_invoice :: "bytes \<Rightarrow> pre_approve_invoice_request option"
  dec_gl_config :: "bytes \<Rightarrow> gl_config option"
  dec_send_pay :: "bytes \<Rightarrow> send_pay_request option"
  dec_trampoline_pay :: "bytes \<Rightarrow> trampoline_pay_request option"

datatype decode_error = ProstError | UnknownUri string

definition decode_as :: "('a \<Rightarrow> 'm request) \<Rightarrow> (bytes \<Rightarrow> 'a option) \<Rightarrow> bytes \<Rightarrow> 'm request option" where
  "decode_as con d p = map_option con (d p)"

subsection \<open>Decoding\<close>

text \<open>
  The match arms of \<open>cln::decode_request\<close> as a table from the URI to the decoder of its
  message, in the order of the code (the first matching arm wins, as in \<open>map_of\<close>).
\<close>

definition cln_arms :: "'m proto \<Rightarrow> (string \<times> (bytes \<Rightarrow> 'm request option)) list" where
  "cln_arms P =
    [(''/cln.Node/Getinfo'', decode_as ReqGetinfo (dec P ''GetinfoRequest'')),
     (''/cln.Node/ListPeers'', decode_as ReqListPeers (dec P ''ListpeersRequest'')),
     (''/cln.Node/ListFunds'', decode_as ReqListFunds (dec P ''ListfundsRequest'')),
     (''/cln.Node/SendPay'', decode_as ReqSendPay (dec_send_pay P)),
     (''/cln.Node/ListChannels'', decode_as ReqListChannels (dec P ''ListchannelsRequest'')),
     (''/cln.Node/AddGossip'', decode_as ReqAddGossip (dec P ''AddgossipRequest'')),
     (''/cln.Nonde/AutoCleanOnce'', decode_as ReqAutoCleanOnce (dec P ''AutocleanonceRequest'')),
     (''/cln.Node/CheckMessage'', decode_as ReqCheckMessage (dec P ''CheckmessageRequest'')),
     (''/cln.Node/Close'', decode_as ReqClose (dec P ''CloseRequest'')),
     (''/cln.Node/ConnectPeer'', decode_as ReqConnect (dec P ''ConnectRequest'')),
     (''/cln.Node/CreateInvoice'', decode_as ReqCreateInvoice (dec P ''CreateinvoiceRequest'')),
     (''/cln.Node/Datastore'', decode_as ReqDatastore (dec P ''DatastoreRequest'')),
     (''/cln.Node/CreateOnion'', decode_as ReqCreateOnion (dec P ''CreateonionRequest'')),
     (''/cln.Node/DelDatastore'', decode_as ReqDelDatastore (dec P ''DeldatastoreRequest'')),
     (''/cln.Node/DelExpiredInvoice'', decode_as ReqDelExpiredInvoice (dec P ''DelinvoiceRequest'')),
     (''/cln.Node/DelInvoice'', decode_as ReqDelInvoice (dec P ''DelinvoiceRequest'')),
     (''/cln.Node/Invoice'', decode_as ReqInvoice (dec P ''InvoiceRequest'')),
     (''/cln.Node/ListDatastore'', decode_as ReqListDatastore (dec P ''ListdatastoreRequest'')),
     (''/cln.Node/ListInvoices'', decode_as ReqListInvoices (dec P ''ListinvoicesRequest'')),
     (''/cln.Node/SendOnion'', decode_as ReqSendOnion (dec P ''SendonionRequest'')),
     (''/cln.Node/ListSendPays'', decode_as ReqListSendPays (dec P ''ListsendpaysRequest'')),
     (''/cln.Node/ListTransactions'', decode_as ReqListTransactions (dec P ''ListtransactionsRequest'')),
     (''/cln.Node/Pay'', decode_as ReqPay (dec_pay P)),
     (''/cln.Node/ListNodes'', decode_as ReqListNodes (dec P ''ListnodesRequest'')),
     (''/cln.Node/WaitAnyInvoice'', decode_as ReqWaitAnyInvoice (dec P ''WaitanyinvoiceRequest'')),
     (''/cln.Node/WaitInvoice'', decode_as ReqWaitInvoice (dec P ''WaitinvoiceRequest'')),
     (''/cln.Node/WaitSendPay'', decode_as ReqWaitSendPay (dec P ''WaitsendpayRequest'')),
     (''/cln.Node/NewAddr'', decode_as ReqNewAddr (dec P ''NewaddrRequest'')),
     (''/cln.Node/Withdraw'', decode_as ReqWithdraw (dec P ''WithdrawRequest'')),
     (''/cln.Node/KeySend'', decode_as ReqKeySend (dec P ''KeysendRequest'')),
     (''/cln.Node/FundPsbt'', decode_as ReqFundPsbt (dec P ''FundpsbtRequest'')),
     (''/cln.Node/SendPsbt'', decode_as ReqSendPsbt (dec P ''SendpsbtRequest'')),
     (''/cln.Node/SignPsbt'', decode_as ReqSignPsbt (dec P ''SignpsbtRequest'')),
     (''/cln.Node/UtxoPsbt'', decode_as ReqUtxoPsbt (dec P ''UtxopsbtRequest'')),
     (''/cln.Node/TxDiscard'', decode_as ReqTxDiscard (dec P ''TxdiscardRequest'')),
     (''/cln.Node/TxPrepare'', decode_as ReqTxPrepare (dec P ''TxprepareRequest'')),
     (''/cln.Node/TxSend'', decode_as ReqTxSend (dec P ''TxsendRequest'')),
     (''/cln.Node/Disconnect'', decode_as ReqDisconnect (dec P ''DisconnectRequest'')),
     (''/cln.Node/Feerates'', decode_as ReqFeerates (dec P ''FeeratesRequest'')),
     (''/cln.Node/FundChannel'', decode_as ReqFundChannel (dec_fund_channel P)),
     (''/cln.Node/GetRoute'', decode_as ReqGetRoute (dec P ''GetrouteRequest'')),
     (''/cln.Node/ListForwards'', decode_as ReqListForwards (dec P ''ListforwardsRequest'')),
     (''/cln.Node/ListPays'', decode_as ReqListPays (dec P ''ListpaysRequest'')),
     (''/cln.Node/Ping'', decode_as ReqPing (dec P ''PingRequest'')),
     (''/cln.Node/SetChannel'', decode_as ReqSetChannel (dec P ''SetchannelRequest'')),
     (''/cln.Node/SignMessage'', decode_as ReqSignMessage (dec_sign_message P)),
     (''/cln.Node/FetchInvoice'', decode_as ReqFetchInvoice (dec P ''FetchinvoiceRequest'')),
     (''/cln.Node/Stop'', decode_as ReqStop (dec P ''StopRequest'')),
     (''/cln.Node/ListClosedChannels'', decode_as ReqListClosedChannels (dec P ''ListclosedchannelsRequest'')),
     (''/cln.Node/StaticBackup'', decode_as ReqStaticBackup (dec P ''StaticbackupRequest'')),
     (''/cln.Node/PreApproveInvoice'', decode_as ReqPreApproveInvoice (dec_pre_approve_invoice P))]"

definition greenlight_arms :: "'m proto \<Rightarrow> (string \<times> (bytes \<Rightarrow> 'm request option)) list" where
  "greenlight_arms P =
    [(''/greenlight.Node/Configure'', decode_as ReqGlConfig (dec_gl_config P)),
     (''/greenlight.Node/TrampolinePay'', decode_as ReqTrampolinePay (dec_trampoline_pay P)),
     (''/greenlight.Node/LspInvoice'', decode_as ReqLspInvoice (dec P ''LspInvoiceRequest''))]"

definition decode_arms ::
  "(string \<times> (bytes \<Rightarrow> 'm request option)) list \<Rightarrow> string \<Rightarrow> bytes \<Rightarrow> ('m request, decode_error) outcome" where
  "decode_arms arms uri p =
     (case map_of arms uri of
        Some d \<Rightarrow> ok_or ProstError (d p)
      | None \<Rightarrow> Err (UnknownUri uri))"

definition cln_decode_request :: "'m proto \<Rightarrow> string \<Rightarrow> bytes \<Rightarrow> ('m request, decode_error) outcome" where
  "cln_decode_request P = decode_arms (cln_arms P)"

definition greenlight_decode_request :: "'m proto \<Rightarrow> string \<Rightarrow> bytes \<Rightarrow> ('m request, decode_error) outcome" where
  "greenlight_decode_request P = decode_arms (greenlight_arms P)"

text \<open>\<open>or_else\<close> of the two decoders, as \<open>decode_request\<close> of the signer calls them.\<close>

definition decode_payload :: "'m proto \<Rightarrow> string \<Rightarrow> bytes \<Rightarrow> ('m request, decode_error) outcome" where
  "decode_payload P uri p =
     (case cln_decode_request P uri p of
        Err _ \<Rightarrow> greenlight_decode_request P uri p
      | r \<Rightarrow> r)"

lemma decode_arms_Ok:
  "decode_arms arms uri p = Ok r \<longleftrightarrow> (\<exists>d. map_of arms uri = Some d \<and> d p = Some r)"
  by (auto simp: decode_arms_def split: option.splits)

lemma decode_arms_not_Panic [simp]: "decode_arms arms uri p \<noteq> Panic"
  by (auto simp: decode_arms_def split: option.splits) (metis ok_or.simps outcome.distinct option.exhaust)

lemma decode_payload_Ok:
  "decode_payload P uri p = Ok r \<longleftrightarrow>
     cln_decode_request P uri p = Ok r \<or>
     (\<nexists>r'. cln_decode_request P uri p = Ok r') \<and> greenlight_decode_request P uri p = Ok r"
  by (auto simp: decode_payload_def cln_decode_request_def split: outcome.splits)

text \<open>Which URI a decoded request came with: the arms read backwards.\<close>

lemma decode_arms_in: "decode_arms arms uri p = Ok r \<Longrightarrow> \<exists>d. (uri, d) \<in> set arms \<and> d p = Some r"
  by (auto simp: decode_arms_Ok dest: map_of_SomeD)

end
