(* ===== verification/Resolver.thy ===== *)
theory Resolver
  imports SignerModel
begin

text \<open>
  Justification of a signature request by the client's own requests
  (\<open>libs/gl-client/src/signer/resolve.rs\<close>), the approvals derived from them
  (\<open>auth.rs\<close>) and the reporting approver (\<open>approver.rs\<close>). The messages of the signer
  protocol belong to VLS: the variants and fields the resolver looks at are constructors and
  records here, every other variant is \<open>MsgOther\<close>, and \<open>'b\<close> is the body of a message
  whose fields are not read.
\<close>

record new_channel_msg = peer_id :: bytes
record sign_message_msg = sm_message :: bytes
record sign_invoice_msg = u5bytes :: bytes hrp :: bytes
record preapprove_invoice_msg = invstring :: bytes

datatype (plugins only: code size) 'b message =
    MsgGetHeartbeat 'b
  | MsgEcdh 'b
  | MsgPing 'b
  | MsgPong 'b
  | MsgSignChannelAnnouncement 'b
  | MsgSignChannelUpdate 'b
  | MsgSignNodeAnnouncement 'b
  | MsgCheckPubKey 'b
  | MsgGetChannelBasepoints 'b
  | MsgValidateCommitmentTx 'b
  | MsgSignWithdrawal 'b
  | MsgSetupChannel 'b
  | MsgGetPerCommitmentPoint 'b
  | MsgValidateRevocation 'b
  | MsgNewChannel new_channel_msg
  | MsgSignCommitmentTx 'b
  | MsgSignGossipMessage 'b
  | MsgSignMutualCloseTx 'b
  | MsgSignMutualCloseTx2 'b
  | MsgSignRemoteCommitmentTx 'b
  | MsgSignRemoteCommitmentTx2 'b
  | MsgSignRemoteHtlcTx 'b
  | MsgSignPenaltyToUs 'b
  | MsgSignAnyPenaltyToUs 'b
  | MsgSignAnyDelayedPaymentToUs 'b
  | MsgSignAnyLocalHtlcTx 'b
  | MsgSignAnyRemoteHtlcToUs 'b
  | MsgLockOutpoint 'b
  | MsgCheckOutpoint 'b
  | MsgSignAnyChannelAnnouncement 'b
  | MsgRevokeCommitmentTx 'b
  | MsgForgetChannel 'b
  | MsgSignMessage sign_message_msg
  | MsgSignInvoice sign_invoice_msg
  | MsgPreapproveInvoice preapprove_invoice_msg
  | MsgOther 'b

datatype 'm signer_error =
    SchedulerConnection
  | SchedulerError string
  | NodeConnection string
  | NodeDisconnect string
  | AuthError string
  | InvalidUri string
  | ResolverError bytes "'m request list"
  | Upgrade string
  | Protocol string
  | OtherError string
  | ApprovePairingRequestError string

subsection \<open>\<open>Resolver::try_resolve\<close>\<close>

text \<open>Messages that need no context request.\<close>

fun resolves_alone :: "'b message \<Rightarrow> bool" where
  "resolves_alone (MsgGetHeartbeat m) = True"
| "resolves_alone (MsgEcdh m) = True"
| "resolves_alone (MsgPing m) = True"
| "resolves_alone (MsgPong m) = True"
| "resolves_alone (MsgSignChannelAnnouncement m) = True"
| "resolves_alone (MsgSignChannelUpdate m) = True"
| "resolves_alone (MsgSignNodeAnnouncement m) = True"
| "resolves_alone (MsgCheckPubKey m) = True"
| "resolves_alone (MsgGetChannelBasepoints m) = True"
| "resolves_alone (MsgValidateCommitmentTx m) = True"
| "resolves_alone (MsgSignWithdrawal m) = True"
| "resolves_alone (MsgSetupChannel m) = True"
| "resolves_alone (MsgGetPerCommitmentPoint m) = True"
| "resolves_alone (MsgValidateRevocation m) = True"
| "resolves_alone (MsgNewChannel m) = True"
| "resolves_alone (MsgSignCommitmentTx m) = True"
| "resolves_alone (MsgSignGossipMessage m) = True"
| "resolves_alone (MsgSignMutualCloseTx m) = True"
| "resolves_alone (MsgSignMutualCloseTx2 m) = True"
| "resolves_alone (MsgSignRemoteCommitmentTx m) = True"
| "resolves_alone (MsgSignRemoteCommitmentTx2 m) = True"
| "resolves_alone (MsgSignRemoteHtlcTx m) = True"
| "resolves_alone (MsgSignPenaltyToUs m) = True"
| "resolves_alone (MsgSignAnyPenaltyToUs m) = True"
| "resolves_alone (MsgSignAnyDelayedPaymentToUs m) = True"
| "resolves_alone (MsgSignAnyLocalHtlcTx m) = True"
| "resolves_alone (MsgSignAnyRemoteHtlcToUs m) = True"
| "resolves_alone (MsgLockOutpoint m) = True"
| "resolves_alone (MsgCheckOutpoint m) = True"
| "resolves_alone (MsgSignAnyChannelAnnouncement m) = True"
| "resolves_alone (MsgRevokeCommitmentTx m) = True"
| "resolves_alone (MsgForgetChannel m) = True"
| "resolves_alone _ = False"

text \<open>The pairs of a message and a context request that match.\<close>

definition resolves_with :: "'b message \<Rightarrow> 'm request \<Rightarrow> bool" where
  "resolves_with req cr =
     (case req of
        MsgSignMessage m1 \<Rightarrow>
          (case cr of ReqSignMessage m2 \<Rightarrow> sm_message m1 = as_bytes (smr_message m2) | _ \<Rightarrow> False)
      | MsgNewChannel m1 \<Rightarrow> (case cr of ReqFundChannel m2 \<Rightarrow> peer_id m1 = fcr_id m2 | _ \<Rightarrow> False)
      | MsgSignInvoice l \<Rightarrow> (case cr of ReqLspInvoice r \<Rightarrow> True | ReqInvoice r \<Rightarrow> True | _ \<Rightarrow> False)
      | MsgPreapproveInvoice l \<Rightarrow>
          (case cr of
             ReqPay r \<Rightarrow> invstring l = as_bytes (pay_bolt11 r)
           | ReqPreApproveInvoice r \<Rightarrow> invstring l = as_bytes (pai_bolt11 r)
           | ReqTrampolinePay r \<Rightarrow> invstring l = as_bytes (tp_bolt11 r)
           | _ \<Rightarrow> False)
      | _ \<Rightarrow> False)"

fun find_resolution :: "'b message \<Rightarrow> 'm request list \<Rightarrow> bool" where
  "find_resolution req [] = False"
| "find_resolution req (cr # crs) = (if resolves_with req cr then True else find_resolution req crs)"

text \<open>\<open>ser\<close> is the serialisation of the message by VLS.\<close>

definition try_resolve ::
  "('b message \<Rightarrow> bytes) \<Rightarrow> 'b message \<Rightarrow> 'm request list \<Rightarrow> (unit, 'm signer_error) outcome" where
  "try_resolve ser req reqctx =
     (if resolves_alone req then Ok ()
      else if find_resolution req reqctx then Ok ()
      else Err (ResolverError (ser req) reqctx))"

subsection \<open>Approvals\<close>

datatype 'inv approval = ApprovalInvoice 'inv | ApprovalOther

datatype gl_error = IllegalArgument string

text \<open>
  \<open>GreenlightAuthorizer::authorize\<close>: one approval for each \<open>Pay\<close> request, unless one of
  their invoices does not parse. \<open>parse_invoice\<close> is \<open>Invoice::from_str\<close>.
\<close>

fun authorize_loop ::
  "(string \<Rightarrow> ('inv, string) outcome) \<Rightarrow> 'm request list \<Rightarrow> 'inv approval list
     \<Rightarrow> ('inv approval list, gl_error) outcome" where
  "authorize_loop parse_invoice [] approvals = Ok approvals"
| "authorize_loop parse_invoice (request # requests) approvals =
     (case request of
        ReqPay req \<Rightarrow>
          (case parse_invoice (pay_bolt11 req) of
             Ok invoice \<Rightarrow> authorize_loop parse_invoice requests (approvals @ [ApprovalInvoice invoice])
           | Err e \<Rightarrow> Err (IllegalArgument (''Failed to parse invoice from Pay request: '' @ e))
           | Panic \<Rightarrow> Panic)
      | _ \<Rightarrow> authorize_loop parse_invoice requests approvals)"

definition authorize ::
  "(string \<Rightarrow> ('inv, string) outcome) \<Rightarrow> 'm request list \<Rightarrow> ('inv approval list, gl_error) outcome" where
  "authorize parse_invoice requests = authorize_loop parse_invoice requests []"

text \<open>
  The approver the signer installs under its memoised approvals: it logs what it is asked
  (the list of notes) and defers to the inner approver, one function per kind of approval.
\<close>

datatype ('inv, 'hash, 'tx) approval_note =
    UnapprovedInvoice 'inv | UnapprovedKeysend 'hash u64 | UnapprovedOnchain 'tx "u64 list" "nat list"

record ('inv, 'hash, 'tx) approver =
  approve_invoice :: "'inv \<Rightarrow> bool"
  approve_keysend :: "'hash \<Rightarrow> u64 \<Rightarrow> bool"
  approve_onchain :: "'tx \<Rightarrow> u64 list \<Rightarrow> nat list \<Rightarrow> bool"

definition reporting_approve_invoice ::
  "('inv, 'hash, 'tx) approver \<Rightarrow> 'inv \<Rightarrow> ('inv, 'hash, 'tx) approval_note list
     \<Rightarrow> bool \<times> ('inv, 'hash, 'tx) approval_note list" where
  "reporting_approve_invoice inner invoice notes =
     (approve_invoice inner invoice, notes @ [UnapprovedInvoice invoice])"

definition reporting_approve_keysend ::
  "('inv, 'hash, 'tx) approver \<Rightarrow> 'hash \<Rightarrow> u64 \<Rightarrow> ('inv, 'hash, 'tx) approval_note list
     \<Rightarrow> bool \<times> ('inv, 'hash, 'tx) approval_note list" where
  "reporting_approve_keysend inner hash amount_msat notes =
     (approve_keysend inner hash amount_msat, notes @ [UnapprovedKeysend hash amount_msat])"

definition reporting_approve_onchain ::
  "('inv, 'hash, 'tx) approver \<Rightarrow> 'tx \<Rightarrow> u64 list \<Rightarrow> nat list \<Rightarrow> ('inv, 'hash, 'tx) approval_note list
     \<Rightarrow> bool \<times> ('inv, 'hash, 'tx) approval_note list" where
  "reporting_approve_onchain inner tx vals unknown_indices notes =
     (approve_onchain inner tx vals unknown_indices, notes @ [UnapprovedOnchain tx vals unknown_indices])"

subsection \<open>Lemmas\<close>

lemma find_resolution_iff: "find_resolution req crs \<longleftrightarrow> (\<exists>cr \<in> set crs. resolves_with req cr)"
  by (induction crs) auto

lemma try_resolve_Ok:
  "try_resolve ser req crs = Ok u \<longleftrightarrow> resolves_alone req \<or> (\<exists>cr \<in> set crs. resolves_with req cr)"
  by (simp add: try_resolve_def find_resolution_iff)

lemma try_resolve_Err:
  "try_resolve ser req crs = Err e \<Longrightarrow> e = ResolverError (ser req) crs"
  by (auto simp: try_resolve_def split: if_splits)

lemma resolves_with_preapprove:
  "resolves_with (MsgPreapproveInvoice l) cr \<longleftrightarrow>
     (\<exists>r. cr = ReqPay r \<and> invstring l = as_bytes (pay_bolt11 r)) \<or>
     (\<exists>r. cr = ReqPreApproveInvoice r \<and> invstring l = as_bytes (pai_bolt11 r)) \<or>
     (\<exists>r. cr = ReqTrampolinePay r \<and> invstring l = as_bytes (tp_bolt11 r))"
  by (cases cr) (auto simp: resolves_with_def)

lemma resolves_with_sign_invoice:
  "resolves_with (MsgSignInvoice l) cr \<longleftrightarrow> (\<exists>r. cr = ReqLspInvoice r \<or> cr = ReqInvoice r)"
  by (cases cr) (auto simp: resolves_with_def)

lemma resolves_with_sign_message:
  "resolves_with (MsgSignMessage l) cr \<longleftrightarrow> (\<exists>r. cr = ReqSignMessage r \<and> sm_message l = as_bytes (smr_message r))"
  by (cases cr) (auto simp: resolves_with_def)

text \<open>The invoices of the \<open>Pay\<close> requests among the context requests.\<close>

definition pay_invoices :: "'m request list \<Rightarrow> string list" where
  "pay_invoices reqs = List.map_filter (\<lambda>r. case r of ReqPay p \<Rightarrow> Some (pay_bolt11 p) | _ \<Rightarrow> None) reqs"

lemma pay_invoices_simps [simp]:
  "pay_invoices [] = []"
  "pay_invoices (ReqPay p # reqs) = pay_bolt11 p # pay_invoices reqs"
  "\<forall>p. r \<noteq> ReqPay p \<Longrightarrow> pay_invoices (r # reqs) = pay_invoices reqs"
  by (simp_all add: pay_invoices_def map_filter_simps split: request.split)

lemma set_pay_invoices: "b \<in> set (pay_invoices reqs) \<longleftrightarrow> (\<exists>p. ReqPay p \<in> set reqs \<and> pay_bolt11 p = b)"
proof (induction reqs)
  case (Cons r reqs)
  then show ?case by (cases "\<exists>p. r = ReqPay p") auto
qed simp

lemma authorize_loop_skip:
  "\<forall>p. r \<noteq> ReqPay p \<Longrightarrow> authorize_loop f (r # reqs) acc = authorize_loop f reqs acc"
  by (cases r) simp_all

lemma authorize_loop_Ok:
  "authorize_loop parse_invoice reqs acc = Ok as \<Longrightarrow>
     \<exists>invs. as = acc @ map ApprovalInvoice invs \<and>
       list_all2 (\<lambda>bolt11 i. parse_invoice bolt11 = Ok i) (pay_invoices reqs) invs"
proof (induction reqs arbitrary: acc)
  case Nil
  then show ?case by simp
next
  case (Cons r reqs)
  show ?case
  proof (cases "\<exists>p. r = ReqPay p")
    case True
    then obtain p where p: "r = ReqPay p" by blast
    with Cons.prems obtain i where i: "parse_invoice (pay_bolt11 p) = Ok i"
      "authorize_loop parse_invoice reqs (acc @ [ApprovalInvoice i]) = Ok as"
      by (auto split: outcome.splits)
    from Cons.IH [OF i(2)] obtain invs where "as = (acc @ [ApprovalInvoice i]) @ map ApprovalInvoice invs"
      "list_all2 (\<lambda>bolt11 i. parse_invoice bolt11 = Ok i) (pay_invoices reqs) invs"
      by blast
    then show ?thesis using p i(1) by (intro exI [of _ "i # invs"]) simp
  next
    case False
    then show ?thesis using Cons authorize_loop_skip [of r parse_invoice reqs acc] by simp
  qed
qed

lemma authorize_Ok:
  assumes "authorize parse_invoice reqs = Ok as"
  shows "\<forall>a \<in> set as. \<exists>p i. ReqPay p \<in> set reqs \<and> parse_invoice (pay_bolt11 p) = Ok i \<and> a = ApprovalInvoice i"
proof
  fix a assume "a \<in> set as"
  moreover obtain invs where "as = map ApprovalInvoice invs"
    "list_all2 (\<lambda>bolt11 i. parse_invoice bolt11 = Ok i) (pay_invoices reqs) invs"
    using authorize_loop_Ok assms unfolding authorize_def by fastforce
  ultimately obtain i b where "a = ApprovalInvoice i" "b \<in> set (pay_invoices reqs)" "parse_invoice b = Ok i"
    by (fastforce simp: list_all2_conv_all_nth in_set_conv_nth)
  then show "\<exists>p i. ReqPay p \<in> set reqs \<and> parse_invoice (pay_bolt11 p) = Ok i \<and> a = ApprovalInvoice i"
    by (auto simp: set_pay_invoices)
qed

end
