(* ===== verification/Runes.thy ===== *)
theory Runes
  imports Prelude
begin

text \<open>
  Restrictions of runes (\<open>libs/gl-client/src/runes.rs\<close>): the predefined rule sets, the
  carving of a restricted rune from another, and the context a request is checked in. Runes,
  restrictions and alternatives belong to the runeauth crate; what the code calls of it is a
  record of functions, and alternatives and restrictions carry the fields the code reads.
\<close>

datatype condition =
    Missing | Equal | NotEqual | BeginsWith | EndsWith | Contains
  | IntLT | IntGT | LexLT | LexGT | Comment

record alternative =
  alt_field :: string
  alt_condition :: condition
  alt_value :: string

record restriction =
  alternatives :: "alternative list"

datatype rune_error = Unknown string | RuneLibError string

record 'r rune_lib =
  alternative_new :: "string \<Rightarrow> condition \<Rightarrow> string \<Rightarrow> bool \<Rightarrow> (alternative, rune_error) outcome"
  restriction_new :: "alternative list \<Rightarrow> (restriction, rune_error) outcome"
  restriction_of_str :: "string \<Rightarrow> (restriction, rune_error) outcome"
  rune_new :: "bytes \<Rightarrow> restriction list \<Rightarrow> string option \<Rightarrow> string option \<Rightarrow> ('r, rune_error) outcome"
  rune_authcode :: "'r \<Rightarrow> bytes"
  rune_from_base64 :: "string \<Rightarrow> ('r, rune_error) outcome"
  rune_to_base64 :: "'r \<Rightarrow> string"
  rune_to_string :: "'r \<Rightarrow> string"
  rune_get_id :: "'r \<Rightarrow> string option"
  add_restriction :: "restriction \<Rightarrow> 'r \<Rightarrow> 'r"
  add_restriction_str :: "string \<Rightarrow> 'r \<Rightarrow> 'r"
  check_with_reason ::
    "'r \<Rightarrow> string \<Rightarrow> (alternative \<Rightarrow> (unit, rune_error) outcome) \<Rightarrow> (unit, rune_error) outcome"
  condition_check :: "string \<Rightarrow> alternative \<Rightarrow> (unit, rune_error) outcome"

subsection \<open>Rule sets\<close>

datatype def_rules = ReadOnly | PayRule | AddRules "def_rules list"

definition rune_alternative ::
  "'r rune_lib \<Rightarrow> string \<Rightarrow> condition \<Rightarrow> string \<Rightarrow> (alternative, rune_error) outcome" where
  "rune_alternative lib fld cond val = alternative_new lib fld cond val False"

text \<open>\<open>unwrap\<close> on a \<open>Result\<close>.\<close>

fun unwrap_result :: "('a, 'e) outcome \<Rightarrow> ('a, 'f) outcome" where
  "unwrap_result (Ok a) = Ok a"
| "unwrap_result _ = Panic"

fun generate :: "'r rune_lib \<Rightarrow> def_rules \<Rightarrow> (restriction list, rune_error) outcome"
  and generate_alternatives ::
    "'r rune_lib \<Rightarrow> def_rules list \<Rightarrow> alternative list \<Rightarrow> (alternative list, rune_error) outcome" where
  "generate lib ReadOnly =
     obind (unwrap_result (rune_alternative lib ''method'' BeginsWith ''Get'')) (\<lambda>a1.
     obind (unwrap_result (rune_alternative lib ''method'' BeginsWith ''List'')) (\<lambda>a2.
     obind (unwrap_result (restriction_new lib [a1, a2])) (\<lambda>r. Ok [r])))"
| "generate lib PayRule =
     obind (unwrap_result (rune_alternative lib ''method'' Equal ''pay'')) (\<lambda>a.
     obind (unwrap_result (restriction_new lib [a])) (\<lambda>r. Ok [r]))"
| "generate lib (AddRules rules) =
     obind (generate_alternatives lib rules []) (\<lambda>alt_set.
     obind (restriction_new lib alt_set) (\<lambda>r. Ok [r]))"
| "generate_alternatives lib [] acc = Ok acc"
| "generate_alternatives lib (rule # rules) acc =
     obind (generate lib rule) (\<lambda>rs.
       generate_alternatives lib rules (acc @ concat (map alternatives rs)))"

text \<open>\<open>Display\<close>: alternatives are joined by a bar, starting afresh while the text is empty.\<close>

fun display :: "def_rules \<Rightarrow> string"
  and display_fold :: "def_rules list \<Rightarrow> string \<Rightarrow> string" where
  "display ReadOnly = ''readonly''"
| "display PayRule = ''pay''"
| "display (AddRules rules) = display_fold rules []"
| "display_fold [] acc = acc"
| "display_fold (r # rules) acc =
     display_fold rules (if acc = [] then display r else acc @ ''|'' @ display r)"

subsection \<open>Carving\<close>

fun generate_all ::
  "('t \<Rightarrow> (restriction list, rune_error) outcome) \<Rightarrow> 't list \<Rightarrow> restriction list
     \<Rightarrow> (restriction list, rune_error) outcome" where
  "generate_all gen [] acc = Ok acc"
| "generate_all gen (res # rest) acc = obind (gen res) (\<lambda>r. generate_all gen rest (acc @ r))"

definition carve ::
  "'r rune_lib \<Rightarrow> ('t \<Rightarrow> (restriction list, rune_error) outcome) \<Rightarrow> 'r \<Rightarrow> 't list
     \<Rightarrow> (string, rune_error) outcome" where
  "carve lib gen origin rules =
     omap (\<lambda>restrictions. rune_to_base64 lib (fold (add_restriction lib) restrictions origin))
       (generate_all gen rules [])"

subsection \<open>Checking in a context\<close>

text \<open>
  The time is the duration since the epoch in seconds, or the error when the clock is before
  it. \<open>show_nat\<close> is the decimal rendering of \<open>u64::to_string\<close>.
\<close>

fun show_nat :: "nat \<Rightarrow> string" where
  "show_nat n = (if n < 10 then [char_of (48 + n)] else show_nat (n div 10) @ [char_of (48 + n mod 10)])"

declare show_nat.simps [simp del]

record rune_context =
  ctx_method :: string
  ctx_pubkey :: string
  ctx_unique_id :: string
  ctx_time :: "(u64, string) outcome"

definition check_alternative :: "'r rune_lib \<Rightarrow> rune_context \<Rightarrow> alternative \<Rightarrow> (unit, rune_error) outcome" where
  "check_alternative lib ctx alt =
     obind
       (if alt_field alt = '''' then Ok (ctx_unique_id ctx)
        else if alt_field alt = ''method'' then Ok (ctx_method ctx)
        else if alt_field alt = ''pubkey'' then Ok (ctx_pubkey ctx)
        else if alt_field alt = ''time'' then
          omap (\<lambda>t. show_nat (unat t))
            (omap_err (\<lambda>e. Unknown (''Can not extract seconds from timestamp '' @ e)) (ctx_time ctx))
        else Ok [])
       (\<lambda>v. condition_check lib v alt)"

subsection \<open>What is relied on of runeauth\<close>

text \<open>
  The constructors keep what they are given, and the comparison operators mean what the
  documentation of \<open>create_rune\<close> says of \<open>=\<close> and \<open>^\<close>.
\<close>

definition faithful_constructors :: "'r rune_lib \<Rightarrow> bool" where
  "faithful_constructors lib \<longleftrightarrow>
     (\<forall>c v. alternative_new lib ''method'' c v False =
        Ok \<lparr>alt_field = ''method'', alt_condition = c, alt_value = v\<rparr>) \<and>
     (\<forall>alts. alts \<noteq> [] \<longrightarrow> restriction_new lib alts = Ok \<lparr>alternatives = alts\<rparr>)"

definition faithful_conditions :: "'r rune_lib \<Rightarrow> bool" where
  "faithful_conditions lib \<longleftrightarrow>
     (\<forall>v alt. alt_condition alt = Equal \<longrightarrow> condition_check lib v alt = Ok () \<longrightarrow> v = alt_value alt) \<and>
     (\<forall>v alt. alt_condition alt = BeginsWith \<longrightarrow> condition_check lib v alt = Ok () \<longrightarrow>
        starts_with v (alt_value alt))"

text \<open>
  \<open>restrictions_of\<close> gives the restrictions a rune carries; a rune checks only if each of its
  restrictions has an alternative that passes, and adding a restriction adds it.
\<close>

definition checks_restrictions :: "'r rune_lib \<Rightarrow> ('r \<Rightarrow> restriction list) \<Rightarrow> bool" where
  "checks_restrictions lib restrictions_of \<longleftrightarrow>
     (\<forall>master rune64 rune chk. rune_from_base64 lib rune64 = Ok rune \<longrightarrow>
        check_with_reason lib master rune64 chk = Ok () \<longrightarrow>
        (\<forall>r \<in> set (restrictions_of rune). \<exists>alt \<in> set (alternatives r). chk alt = Ok ()))"

definition keeps_restrictions :: "'r rune_lib \<Rightarrow> ('r \<Rightarrow> restriction list) \<Rightarrow> bool" where
  "keeps_restrictions lib restrictions_of \<longleftrightarrow>
     (\<forall>rune r. restrictions_of (add_restriction lib r rune) = restrictions_of rune @ [r])"

text \<open>Reading the base64 form \<open>s\<close> gives the rune it was written from.\<close>

definition base64_faithful :: "'r rune_lib \<Rightarrow> string \<Rightarrow> bool" where
  "base64_faithful lib s \<longleftrightarrow> (\<forall>r. rune_to_base64 lib r = s \<longrightarrow> rune_from_base64 lib s = Ok r)"

subsection \<open>Lemmas\<close>

text \<open>The alternatives a rule set stands for, in order.\<close>

definition alt_of :: "string \<Rightarrow> condition \<Rightarrow> string \<Rightarrow> alternative" where
  "alt_of f c v = \<lparr>alt_field = f, alt_condition = c, alt_value = v\<rparr>"

fun rule_alternatives :: "def_rules \<Rightarrow> alternative list" where
  "rule_alternatives ReadOnly = [alt_of ''method'' BeginsWith ''Get'', alt_of ''method'' BeginsWith ''List'']"
| "rule_alternatives PayRule = [alt_of ''method'' Equal ''pay'']"
| "rule_alternatives (AddRules rules) = concat (map rule_alternatives rules)"

text \<open>A rule set without an empty \<open>Add\<close>.\<close>

fun rules_nonempty :: "def_rules \<Rightarrow> bool" where
  "rules_nonempty (AddRules rules) = (rules \<noteq> [] \<and> (\<forall>r \<in> set rules. rules_nonempty r))"
| "rules_nonempty _ = True"

lemma rule_alternatives_not_Nil: "rules_nonempty r \<Longrightarrow> rule_alternatives r \<noteq> []"
  by (induction r) (auto simp: neq_Nil_conv)

lemma restriction_new_nonempty:
  "faithful_constructors lib \<Longrightarrow> alts \<noteq> [] \<Longrightarrow> restriction_new lib alts = Ok \<lparr>alternatives = alts\<rparr>"
  by (simp add: faithful_constructors_def)

lemma generate_spec:
  shows "faithful_constructors lib \<Longrightarrow> rules_nonempty rule \<Longrightarrow>
           generate lib rule = Ok [\<lparr>alternatives = rule_alternatives rule\<rparr>]"
    and "faithful_constructors lib \<Longrightarrow> \<forall>r \<in> set rules. rules_nonempty r \<Longrightarrow>
           generate_alternatives lib rules acc = Ok (acc @ concat (map rule_alternatives rules))"
proof (induction lib rule and lib rules acc rule: generate_generate_alternatives.induct)
  case (3 lib rules)
  then have "concat (map rule_alternatives rules) \<noteq> []"
    using rule_alternatives_not_Nil [of "AddRules rules"] by simp
  with 3 restriction_new_nonempty [of lib "concat (map rule_alternatives rules)"]
  show ?case by simp
qed (simp_all add: rune_alternative_def faithful_constructors_def alt_of_def)

lemma generate_all_spec:
  assumes "\<forall>t \<in> set ts. gen t = Ok (rs t)"
  shows "generate_all gen ts acc = Ok (acc @ concat (map rs ts))"
  using assms by (induction ts arbitrary: acc) simp_all

lemma fold_add_restriction:
  "keeps_restrictions lib restrictions_of \<Longrightarrow>
     restrictions_of (fold (add_restriction lib) rs rune) = restrictions_of rune @ rs"
  by (induction rs arbitrary: rune) (simp_all add: keeps_restrictions_def)

text \<open>When an alternative on the method passes in a context.\<close>

lemma method_alternative_Ok:
  assumes "faithful_conditions lib" "check_alternative lib ctx (alt_of ''method'' c v) = Ok ()"
  shows "c = Equal \<Longrightarrow> ctx_method ctx = v"
    and "c = BeginsWith \<Longrightarrow> starts_with (ctx_method ctx) v"
  using assms by (auto simp: check_alternative_def alt_of_def faithful_conditions_def
      dest!: spec [of _ "ctx_method ctx"] spec [of _ "\<lparr>alt_field = ''method'', alt_condition = c, alt_value = v\<rparr>"])

section \<open>Properties\<close>

text \<open>
  A concrete instance of the rune functions: a rune is its list of restrictions, and the
  three runes of the examples have one character names in base64.
\<close>

definition pay_restriction :: restriction where
  "pay_restriction = \<lparr>alternatives = [alt_of ''method'' Equal ''pay'']\<rparr>"

definition key_restriction :: restriction where
  "key_restriction = \<lparr>alternatives = [alt_of ''pubkey'' Equal ''00'']\<rparr>"

definition read_restriction :: restriction where
  "read_restriction =
     \<lparr>alternatives = [alt_of ''method'' BeginsWith ''Get'', alt_of ''method'' BeginsWith ''List'']\<rparr>"

definition demo_condition :: "string \<Rightarrow> alternative \<Rightarrow> bool" where
  "demo_condition v alt =
     (case alt_condition alt of
        Equal \<Rightarrow> v = alt_value alt
      | BeginsWith \<Rightarrow> starts_with v (alt_value alt)
      | _ \<Rightarrow> False)"

definition demo_rune :: "string \<Rightarrow> (restriction list, rune_error) outcome" where
  "demo_rune s =
     (if s = ''K'' then Ok [key_restriction]
      else if s = ''P'' then Ok [key_restriction, pay_restriction]
      else if s = ''R'' then Ok [key_restriction, read_restriction]
      else Err (RuneLibError ''base64''))"

definition demo_lib :: "restriction list rune_lib" where
  "demo_lib = \<lparr>
     alternative_new = (\<lambda>f c v _. Ok (alt_of f c v)),
     restriction_new = (\<lambda>alts. Ok \<lparr>alternatives = alts\<rparr>),
     restriction_of_str = (\<lambda>s. if s = ''pubkey=00'' then Ok key_restriction
                              else if s = ''method=pay'' then Ok pay_restriction
                              else Err (RuneLibError s)),
     rune_new = (\<lambda>_ rs _ _. Ok rs),
     rune_authcode = (\<lambda>_. []),
     rune_from_base64 = demo_rune,
     rune_to_base64 = (\<lambda>r. if r = [key_restriction] then ''K''
                          else if r = [key_restriction, pay_restriction] then ''P''
                          else if r = [key_restriction, read_restriction] then ''R'' else []),
     rune_to_string = (\<lambda>r. if key_restriction \<in> set r then ''pubkey=00'' else []),
     rune_get_id = (\<lambda>_. Some ''0''),
     add_restriction = (\<lambda>r rune. rune @ [r]),
     add_restriction_str = (\<lambda>_ rune. rune),
     check_with_reason = (\<lambda>_ s chk. obind (demo_rune s) (\<lambda>rs.
        if \<forall>r \<in> set rs. \<exists>a \<in> set (alternatives r). chk a = Ok () then Ok ()
        else Err (RuneLibError ''check''))),
     condition_check = (\<lambda>v alt. if demo_condition v alt then Ok () else Err (RuneLibError ''condition''))\<rparr>"

lemma demo_lib_ok:
  "faithful_constructors demo_lib" "faithful_conditions demo_lib"
  "keeps_restrictions demo_lib (\<lambda>r. r)" "checks_restrictions demo_lib (\<lambda>r. r)"
  by (auto simp: faithful_constructors_def faithful_conditions_def keeps_restrictions_def
      checks_restrictions_def demo_lib_def alt_of_def demo_condition_def obind_eq_Ok split: if_splits)

text \<open>
  Carving only restricts. A rune carved from another by rule sets carries the origin's
  restrictions and, for each rule set, one restriction whose alternatives are those of the
  rule sets it adds up; hence whatever request the carved rune allows satisfies every
  restriction of the origin and one alternative of each rule.
\<close>

theorem carve_attenuates:
  assumes "faithful_constructors lib" "keeps_restrictions lib restrictions_of"
    and "checks_restrictions lib restrictions_of"
    and "\<forall>rule \<in> set rules. rules_nonempty rule"
    and "carve lib (generate lib) origin rules = Ok s" "base64_faithful lib s"
    and "check_with_reason lib master s (check_alternative lib ctx) = Ok ()"
  shows "(\<forall>r \<in> set (restrictions_of origin). \<exists>a \<in> set (alternatives r). check_alternative lib ctx a = Ok ()) \<and>
         (\<forall>rule \<in> set rules. \<exists>a \<in> set (rule_alternatives rule). check_alternative lib ctx a = Ok ())"
proof -
  let ?rs = "map (\<lambda>rule. \<lparr>alternatives = rule_alternatives rule\<rparr>) rules"
  have "generate_all (generate lib) rules [] = Ok ([] @ concat (map (\<lambda>rule. [\<lparr>alternatives = rule_alternatives rule\<rparr>]) rules))"
    using assms(1,4) generate_spec(1) by (intro generate_all_spec) blast
  then have gen: "generate_all (generate lib) rules [] = Ok ?rs" by (simp add: concat_map_singleton)
  then have "rune_to_base64 lib (fold (add_restriction lib) ?rs origin) = s"
    using assms(5) by (simp add: carve_def)
  then have "rune_from_base64 lib s = Ok (fold (add_restriction lib) ?rs origin)"
    using assms(6) by (simp add: base64_faithful_def)
  moreover have "restrictions_of (fold (add_restriction lib) ?rs origin) = restrictions_of origin @ ?rs"
    using assms(2) by (rule fold_add_restriction)
  ultimately have "\<forall>r \<in> set (restrictions_of origin @ ?rs).
      \<exists>a \<in> set (alternatives r). check_alternative lib ctx a = Ok ()"
    using assms(3,7) unfolding checks_restrictions_def by metis
  then show ?thesis by (simp add: ball_Un)
qed

definition demo_ctx :: "string \<Rightarrow> rune_context" where
  "demo_ctx m = \<lparr>ctx_method = m, ctx_pubkey = ''00'', ctx_unique_id = ''0-gl0'', ctx_time = Ok 7\<rparr>"

lemma demo_restrictions_distinct:
  "pay_restriction \<noteq> key_restriction" "read_restriction \<noteq> key_restriction" "read_restriction \<noteq> pay_restriction"
  by (simp_all add: pay_restriction_def key_restriction_def read_restriction_def alt_of_def)

lemma carve_attenuates_witness:
  "carve demo_lib (generate demo_lib) [key_restriction] [PayRule] = Ok ''P'' \<and>
   check_with_reason demo_lib [] ''P'' (check_alternative demo_lib (demo_ctx ''pay'')) = Ok () \<and>
   (\<exists>a \<in> set (rule_alternatives PayRule). check_alternative demo_lib (demo_ctx ''pay'') a = Ok ())"
proof -
  have c: "carve demo_lib (generate demo_lib) [key_restriction] [PayRule] = Ok ''P''"
    using demo_restrictions_distinct
    by (simp add: carve_def rune_alternative_def) (simp add: demo_lib_def pay_restriction_def key_restriction_def alt_of_def)
  have k: "check_with_reason demo_lib [] ''P'' (check_alternative demo_lib (demo_ctx ''pay'')) = Ok ()"
    by (simp add: demo_lib_def demo_rune_def check_alternative_def demo_ctx_def key_restriction_def
        pay_restriction_def alt_of_def demo_condition_def)
  have b: "base64_faithful demo_lib ''P''"
    using demo_restrictions_distinct by (simp add: base64_faithful_def demo_lib_def demo_rune_def)
  have "(\<forall>r \<in> set [key_restriction]. \<exists>a \<in> set (alternatives r).
            check_alternative demo_lib (demo_ctx ''pay'') a = Ok ()) \<and>
        (\<forall>rule \<in> set [PayRule]. \<exists>a \<in> set (rule_alternatives rule).
            check_alternative demo_lib (demo_ctx ''pay'') a = Ok ())"
    using demo_lib_ok(1,3,4) _ c b k by (rule carve_attenuates) simp
  with c k show ?thesis by simp
qed

end
