(* ===== verification/SignerAuth.thy ===== *)
theory SignerAuth
  imports Resolver Runes
begin

text \<open>
  How the signer authenticates the requests a node attaches to a signature request
  (\<open>libs/gl-client/src/signer/mod.rs\<close>): signature and rune of each pending request, decoding
  of the authenticated ones, creation of runes, approval of pairing requests, and the
  signatures the signer gives to its own client. ECDSA, base64, hex and the clock are a record
  of functions; runes are those of theory \<open>Runes\<close>.
\<close>

record pending_request =
  pr_request :: bytes
  pr_uri :: string
  pr_signature :: bytes
  pr_pubkey :: bytes
  pr_timestamp :: u64
  pr_rune :: bytes

record crypto =
  ecdsa_verify :: "bytes \<Rightarrow> bytes \<Rightarrow> bytes \<Rightarrow> bool"
  b64_encode :: "bytes \<Rightarrow> string"
  b64_decode :: "string \<Rightarrow> (bytes, string) outcome"
  hex_of :: "bytes \<Rightarrow> string"
  now_secs :: "(u64, string) outcome"

text \<open>The part of \<open>Signer\<close> that authentication reads: its id, init message and master rune.\<close>

record 'r signer =
  signer_node_id :: bytes
  signer_init :: bytes
  master_rune :: 'r

datatype anyhow_error = Msg string | RuneErr rune_error

definition RUNE_VERSION :: string where "RUNE_VERSION = ''gl0''"

subsection \<open>Runes of requests\<close>

definition verify_rune ::
  "crypto \<Rightarrow> 'r rune_lib \<Rightarrow> 'r signer \<Rightarrow> pending_request \<Rightarrow> (unit, anyhow_error) outcome" where
  "verify_rune cr lib signer request =
     (let rune64 = b64_encode cr (pr_rune request) in
      obind (omap_err RuneErr (rune_from_base64 lib rune64)) (\<lambda>rune.
      if \<not> contains_str (rune_to_string lib rune) ''pubkey='' then Err (Msg ''rune is missing pubkey field'')
      else
      let ver_id = (case rune_get_id lib rune of
                      Some uid \<Rightarrow> uid @ ''-'' @ RUNE_VERSION
                    | None \<Rightarrow> []) in
      case drop 1 (split_on (CHR ''/'') (pr_uri request)) of
        [] \<Rightarrow> Err (Msg ''can not extract service from uri'')
      | service # rest \<Rightarrow>
          if service \<noteq> ''cln.Node'' \<and> service \<noteq> ''greenlight.Node''
          then Err (Msg (''service '' @ service @ '' is not valid''))
          else
          (case rest of
             [] \<Rightarrow> Err (Msg ''can not extract uri form request'')
           | m # _ \<Rightarrow>
               let ctx = \<lparr>ctx_method = to_lowercase m, ctx_pubkey = hex_of cr (pr_pubkey request),
                          ctx_unique_id = ver_id, ctx_time = now_secs cr\<rparr> in
               omap_err RuneErr
                 (check_with_reason lib (master_rune signer) rune64 (check_alternative lib ctx)))))"

subsection \<open>\<open>check_request_auth\<close>\<close>

definition signed_payload :: "pending_request \<Rightarrow> bytes" where
  "signed_payload r =
     (if pr_timestamp r \<noteq> 0 then pr_request r @ put_u64 (pr_timestamp r) else pr_request r)"

definition check_one_request ::
  "crypto \<Rightarrow> 'r rune_lib \<Rightarrow> 'r signer \<Rightarrow> pending_request \<Rightarrow> (pending_request, string) outcome" where
  "check_one_request cr lib signer r =
     (if \<not> ecdsa_verify cr (pr_pubkey r) (signed_payload r) (pr_signature r)
      then Err ''signature verification failed''
      else omap (\<lambda>_. r) (omap_err (\<lambda>_. ''rune verification failed'') (verify_rune cr lib signer r)))"

definition check_request_auth ::
  "crypto \<Rightarrow> 'r rune_lib \<Rightarrow> 'r signer \<Rightarrow> pending_request list \<Rightarrow> (pending_request, string) outcome list" where
  "check_request_auth cr lib signer requests =
     map (check_one_request cr lib signer)
       (filter (\<lambda>r. pr_pubkey r \<noteq> [] \<and> pr_signature r \<noteq> [] \<and> pr_rune r \<noteq> []) requests)"

subsection \<open>Decoding\<close>

text \<open>
  The first byte of the frame must be the uncompressed flag; an empty frame, another flag or
  a frame shorter than its header is a panic.
\<close>

definition decode_request :: "'m proto \<Rightarrow> pending_request \<Rightarrow> ('m request, decode_error) outcome" where
  "decode_request P r =
     (case pr_request r of
        [] \<Rightarrow> Panic
      | flag # _ \<Rightarrow>
          if flag \<noteq> 0 then Panic
          else if length (pr_request r) < 5 then Panic
          else decode_payload P (pr_uri r) (drop 5 (pr_request r)))"

text \<open>
  The context requests of \<open>process_request\<close>: the authenticated requests that decode. The
  iterator chain is lazy and collected in order, so a panic of one request is a panic of all.
\<close>

fun decode_all :: "'m proto \<Rightarrow> pending_request list \<Rightarrow> ('m request list, decode_error) outcome" where
  "decode_all P [] = Ok []"
| "decode_all P (r # rs) =
     (case decode_request P r of
        Ok q \<Rightarrow> omap (\<lambda>qs. q # qs) (decode_all P rs)
      | Err _ \<Rightarrow> decode_all P rs
      | Panic \<Rightarrow> Panic)"

definition ok_values :: "('a, 'e) outcome list \<Rightarrow> 'a list" where
  "ok_values rs = List.map_filter (\<lambda>r. case r of Ok a \<Rightarrow> Some a | _ \<Rightarrow> None) rs"

definition context_requests ::
  "crypto \<Rightarrow> 'r rune_lib \<Rightarrow> 'r signer \<Rightarrow> 'm proto \<Rightarrow> pending_request list
     \<Rightarrow> ('m request list, decode_error) outcome" where
  "context_requests cr lib signer P requests =
     decode_all P (ok_values (check_request_auth cr lib signer requests))"

subsection \<open>Creation of runes\<close>

definition has_pubkey_field :: "restriction list \<Rightarrow> bool" where
  "has_pubkey_field res =
     (\<exists>r \<in> set res. \<exists>a \<in> set (alternatives r). alt_field a = ''pubkey'' \<and> alt_condition a = Equal)"

fun restrictions_of_strs ::
  "'r rune_lib \<Rightarrow> string list list \<Rightarrow> (restriction list, rune_error) outcome" where
  "restrictions_of_strs lib [] = Ok []"
| "restrictions_of_strs lib (alts # rest) =
     obind (restriction_of_str lib (join_with (CHR ''|'') alts)) (\<lambda>r.
       omap (\<lambda>rs. r # rs) (restrictions_of_strs lib rest))"

definition create_rune ::
  "'r rune_lib \<Rightarrow> 'r signer \<Rightarrow> string option \<Rightarrow> string list list \<Rightarrow> (string, anyhow_error) outcome" where
  "create_rune lib signer rune restrictions =
     (case rune of
        Some rune \<Rightarrow>
          omap (\<lambda>r. rune_to_base64 lib
                  (fold (\<lambda>alts r. add_restriction_str lib (join_with (CHR ''|'') alts) r) restrictions r))
            (omap_err RuneErr (rune_from_base64 lib rune))
      | None \<Rightarrow>
          obind (omap_err RuneErr (restrictions_of_strs lib restrictions)) (\<lambda>res.
          if \<not> has_pubkey_field res then Err (Msg ''Missing a restriction on the pubkey'')
          else omap (rune_to_base64 lib)
                 (omap_err RuneErr
                   (rune_new lib (rune_authcode lib (master_rune signer)) res (Some (show_nat 0))
                     (Some RUNE_VERSION)))))"

subsection \<open>Pairing approval\<close>

record approve_pairing_request =
  ap_device_id :: string
  ap_timestamp :: u64
  ap_device_name :: string
  ap_restrictions :: string
  ap_sig :: bytes
  ap_pubkey :: bytes
  ap_rune :: string

record approve_pairing_response =
  ar_request_id :: u32
  ar_device_id :: string
  ar_node_id :: bytes
  ar_rune :: string

definition pairing_payload :: "'r signer \<Rightarrow> approve_pairing_request \<Rightarrow> bytes" where
  "pairing_payload signer req =
     as_bytes (ap_device_id req) @ put_u64 (ap_timestamp req) @ signer_node_id signer @
     as_bytes (ap_device_name req) @ as_bytes (ap_restrictions req)"

text \<open>The response is sent on the stream; a closed stream is the caller's error.\<close>

definition process_pairing_approval ::
  "crypto \<Rightarrow> 'r rune_lib \<Rightarrow> 'r signer \<Rightarrow> u32 \<Rightarrow> approve_pairing_request
     \<Rightarrow> (approve_pairing_response, anyhow_error) outcome" where
  "process_pairing_approval cr lib signer req_id req =
     (if \<not> ecdsa_verify cr (ap_pubkey req) (pairing_payload signer req) (ap_sig req)
      then Err (Msg ''could not approve pairing request'')
      else
      obind (omap_err Msg (b64_decode cr (ap_rune req))) (\<lambda>rune.
      obind (verify_rune cr lib signer
               \<lparr>pr_request = [], pr_uri = ''/cln.Node/ApprovePairing'', pr_signature = ap_sig req,
                pr_pubkey = ap_pubkey req, pr_timestamp = ap_timestamp req, pr_rune = rune\<rparr>) (\<lambda>_.
      let restrs = map (split_on (CHR ''|'')) (split_on (CHR ''&'') (ap_restrictions req)) in
      obind (create_rune lib signer None restrs) (\<lambda>new_rune.
      Ok \<lparr>ar_request_id = req_id, ar_device_id = ap_device_id req,
          ar_node_id = signer_node_id signer, ar_rune = new_rune\<rparr>))))"

subsection \<open>Signatures for the client\<close>

text \<open>
  \<open>handler\<close> is the result of building a fresh handler of VLS, a function on messages;
  \<open>enc_sign_message\<close> builds the message, \<open>parse\<close> is \<open>msgs::from_vec\<close>. Slices out of range
  are panics.
\<close>

fun slice :: "nat \<Rightarrow> nat \<Rightarrow> 'a list \<Rightarrow> ('a list, 'e) outcome" where
  "slice a b xs = (if a \<le> b \<and> b \<le> length xs then Ok (take (b - a) (drop a xs)) else Panic)"

declare slice.simps [simp del]

definition sign_message ::
  "('v \<Rightarrow> (bytes, string) outcome, string) outcome \<Rightarrow> (bytes \<Rightarrow> 'v) \<Rightarrow> bytes \<Rightarrow> (bytes \<times> u8, string) outcome" where
  "sign_message handler enc_sign_message msg =
     (if length msg > 65535 then Err ''Message exceeds max len of 65535''
      else
      obind handler (\<lambda>handle.
      (case handle (enc_sign_message msg) of
         Ok complete_sig \<Rightarrow>
           obind (slice 2 66 complete_sig) (\<lambda>sig.
             if 66 < length complete_sig then Ok (sig, complete_sig ! 66) else Panic)
       | _ \<Rightarrow> Panic)))"

definition sign_challenge ::
  "('v \<Rightarrow> (bytes, string) outcome, string) outcome \<Rightarrow> (bytes \<Rightarrow> 'v) \<Rightarrow> bytes \<Rightarrow> (bytes, string) outcome" where
  "sign_challenge handler enc_sign_message challenge =
     (if length challenge \<noteq> 32 then Err ''challenge is not 32 bytes long''
      else omap fst (sign_message handler enc_sign_message challenge))"

definition sign_device_key ::
  "('v \<Rightarrow> (bytes, string) outcome, string) outcome \<Rightarrow> (bytes \<Rightarrow> 'v) \<Rightarrow> bytes \<Rightarrow> (bytes, string) outcome" where
  "sign_device_key handler enc_sign_message key =
     (if length key \<noteq> 65 then Err ''key is not 65 bytes long''
      else omap fst (sign_message handler enc_sign_message key))"

definition sign_invoice ::
  "('v \<Rightarrow> (bytes, string) outcome, string) outcome \<Rightarrow> (bytes \<Rightarrow> ('v, string) outcome) \<Rightarrow> bytes \<Rightarrow> (bytes, string) outcome" where
  "sign_invoice handler parse msg =
     (if length msg > 65535 then Err ''Message exceeds max len of 65535''
      else
      obind handler (\<lambda>handle.
      obind (parse msg) (\<lambda>v.
      obind (omap_err (\<lambda>_. ''Sign invoice failed'') (handle v)) (\<lambda>sig. slice 2 67 sig))))"

subsection \<open>Lemmas\<close>

text \<open>The service and the method of a URI, as \<open>verify_rune\<close> splits them off.\<close>

definition uri_method :: "string \<Rightarrow> string \<Rightarrow> string \<Rightarrow> bool" where
  "uri_method uri service m \<longleftrightarrow> (\<exists>rest. drop 1 (split_on (CHR ''/'') uri) = service # m # rest)"

definition request_context :: "crypto \<Rightarrow> 'r rune_lib \<Rightarrow> pending_request \<Rightarrow> 'r \<Rightarrow> string \<Rightarrow> rune_context" where
  "request_context cr lib request rune m =
     \<lparr>ctx_method = to_lowercase m, ctx_pubkey = hex_of cr (pr_pubkey request),
      ctx_unique_id = (case rune_get_id lib rune of Some uid \<Rightarrow> uid @ ''-'' @ RUNE_VERSION | None \<Rightarrow> []),
      ctx_time = now_secs cr\<rparr>"

text \<open>Acceptance by \<open>verify_rune\<close>, as one characterisation.\<close>

lemma verify_rune_Ok:
  "verify_rune cr lib signer request = Ok () \<longleftrightarrow>
     (\<exists>rune service m.
        rune_from_base64 lib (b64_encode cr (pr_rune request)) = Ok rune \<and>
        contains_str (rune_to_string lib rune) ''pubkey='' \<and>
        uri_method (pr_uri request) service m \<and> service \<in> {''cln.Node'', ''greenlight.Node''} \<and>
        check_with_reason lib (master_rune signer) (b64_encode cr (pr_rune request))
          (check_alternative lib (request_context cr lib request rune m)) = Ok ())"
proof (cases "drop 1 (split_on (CHR ''/'') (pr_uri request))")
  case Nil
  then show ?thesis by (auto simp: verify_rune_def obind_eq_Ok uri_method_def Let_def)
next
  case (Cons service rest)
  then show ?thesis
    by (cases rest)
      (auto simp: verify_rune_def obind_eq_Ok uri_method_def request_context_def Let_def)
qed

lemma check_one_request_Ok:
  "check_one_request cr lib signer r = Ok p \<longleftrightarrow>
     p = r \<and> ecdsa_verify cr (pr_pubkey r) (signed_payload r) (pr_signature r) \<and>
     verify_rune cr lib signer r = Ok ()"
  by (auto simp: check_one_request_def omap_eq_Ok)

lemma ok_values_set: "a \<in> set (ok_values rs) \<longleftrightarrow> Ok a \<in> set rs"
  by (induction rs) (auto simp: ok_values_def map_filter_simps split: outcome.splits)

text \<open>The requests \<open>check_request_auth\<close> lets through.\<close>

definition authenticated ::
  "crypto \<Rightarrow> 'r rune_lib \<Rightarrow> 'r signer \<Rightarrow> pending_request \<Rightarrow> bool" where
  "authenticated cr lib signer r \<longleftrightarrow>
     pr_pubkey r \<noteq> [] \<and> pr_signature r \<noteq> [] \<and> pr_rune r \<noteq> [] \<and>
     ecdsa_verify cr (pr_pubkey r) (signed_payload r) (pr_signature r) \<and>
     verify_rune cr lib signer r = Ok ()"

lemma authenticated_requests:
  "set (ok_values (check_request_auth cr lib signer rs)) = {r \<in> set rs. authenticated cr lib signer r}"
proof -
  have "Ok r = check_one_request cr lib signer x \<longleftrightarrow>
      r = x \<and> ecdsa_verify cr (pr_pubkey x) (signed_payload x) (pr_signature x) \<and>
      verify_rune cr lib signer x = Ok ()" for r x
    by (metis check_one_request_Ok)
  then show ?thesis
    by (auto simp: ok_values_set check_request_auth_def authenticated_def image_iff)
qed

lemma decode_all_Ok:
  "decode_all P rs = Ok qs \<Longrightarrow> q \<in> set qs \<longleftrightarrow> (\<exists>r \<in> set rs. decode_request P r = Ok q)"
proof (induction rs arbitrary: qs)
  case (Cons r rs)
  then show ?case by (cases "decode_request P r") (auto simp: omap_eq_Ok)
qed simp

lemma context_requests_Ok:
  "context_requests cr lib signer P rs = Ok qs \<Longrightarrow>
     q \<in> set qs \<longleftrightarrow> (\<exists>r \<in> set rs. authenticated cr lib signer r \<and> decode_request P r = Ok q)"
  unfolding context_requests_def by (auto simp: decode_all_Ok authenticated_requests)

lemma decode_request_Ok:
  "decode_request P r = Ok q \<longleftrightarrow>
     5 \<le> length (pr_request r) \<and> hd (pr_request r) = 0 \<and>
     decode_payload P (pr_uri r) (drop 5 (pr_request r)) = Ok q"
  by (auto simp: decode_request_def split: list.splits if_splits)

text \<open>The URIs of the decoders, and what a method name says about the request.\<close>

lemma arm_uris:
  "map fst (cln_arms P) = map fst (cln_arms undefined)"
  by (simp add: cln_arms_def)

definition method_of_uri :: "string \<Rightarrow> string" where
  "method_of_uri uri = to_lowercase (split_on (CHR ''/'') uri ! 2)"

lemma uri_method_of: "uri_method uri service m \<Longrightarrow> method_of_uri uri = to_lowercase m"
proof -
  assume "uri_method uri service m"
  then obtain rest where "drop 1 (split_on (CHR ''/'') uri) = service # m # rest"
    by (auto simp: uri_method_def)
  then have "split_on (CHR ''/'') uri ! 2 = m"
    by (cases "split_on (CHR ''/'') uri") auto
  then show ?thesis by (simp add: method_of_uri_def)
qed

lemma pay_uri_cln:
  "(uri, d) \<in> set (cln_arms P) \<Longrightarrow> method_of_uri uri = ''pay'' \<Longrightarrow> uri = ''/cln.Node/Pay''"
proof -
  have "list_all (\<lambda>u. method_of_uri u = ''pay'' \<longrightarrow> u = ''/cln.Node/Pay'') (map fst (cln_arms P))"
    unfolding cln_arms_def list.map fst_conv by code_simp
  then show "(uri, d) \<in> set (cln_arms P) \<Longrightarrow> method_of_uri uri = ''pay'' \<Longrightarrow> uri = ''/cln.Node/Pay''"
    unfolding list_all_iff by force
qed

lemma pay_uri_greenlight:
  "(uri, d) \<in> set (greenlight_arms P) \<Longrightarrow> method_of_uri uri \<noteq> ''pay''"
proof -
  have "list_all (\<lambda>u. method_of_uri u \<noteq> ''pay'') (map fst (greenlight_arms P))"
    unfolding greenlight_arms_def list.map fst_conv by code_simp
  then show "(uri, d) \<in> set (greenlight_arms P) \<Longrightarrow> method_of_uri uri \<noteq> ''pay''"
    unfolding list_all_iff by force
qed

lemma pay_arm: "cln_decode_request P ''/cln.Node/Pay'' p = Ok q \<Longrightarrow> \<exists>r. q = ReqPay r"
  by (auto simp: cln_decode_request_def decode_arms_def cln_arms_def decode_as_def)

text \<open>A payload that decodes under the method \<open>pay\<close> is a \<open>Pay\<close> request.\<close>

lemma decode_pay:
  assumes "decode_payload P uri p = Ok q" "method_of_uri uri = ''pay''"
  shows "\<exists>r. q = ReqPay r"
proof -
  have "cln_decode_request P uri p = Ok q \<or> greenlight_decode_request P uri p = Ok q"
    using assms(1) by (auto simp: decode_payload_Ok)
  then show ?thesis
  proof
    assume c: "cln_decode_request P uri p = Ok q"
    then have "uri = ''/cln.Node/Pay''"
      using assms(2) pay_uri_cln decode_arms_in unfolding cln_decode_request_def by blast
    with c show ?thesis using pay_arm by blast
  next
    assume "greenlight_decode_request P uri p = Ok q"
    then show ?thesis
      using assms(2) pay_uri_greenlight decode_arms_in unfolding greenlight_decode_request_def by blast
  qed
qed

text \<open>Lower case text holds no capital letter.\<close>

lemma lower_char_not_upper: "lower_char c = d \<Longrightarrow> \<not> (CHR ''A'' \<le> d \<and> d \<le> CHR ''Z'')"
proof -
  have "\<not> (CHR ''A'' \<le> lower_char c \<and> lower_char c \<le> CHR ''Z'')"
  proof (cases "CHR ''A'' \<le> c \<and> c \<le> CHR ''Z''")
    case True
    then have "of_char c \<ge> (65 :: nat)" "of_char c \<le> (90 :: nat)"
      by (simp_all add: less_eq_char_def)
    then have "of_char (char_of (of_char c + (32 :: nat)) :: char) = (of_char c + 32 :: nat)"
      by (simp add: of_char_of)
    then show ?thesis using True \<open>of_char c \<ge> (65 :: nat)\<close>
      by (simp add: lower_char_def less_eq_char_def)
  next
    case False
    then have "lower_char c = c" by (auto simp: lower_char_def)
    with False show ?thesis by simp
  qed
  then show "lower_char c = d \<Longrightarrow> \<not> (CHR ''A'' \<le> d \<and> d \<le> CHR ''Z'')" by blast
qed

lemma lowercase_not_starts_upper:
  "CHR ''A'' \<le> d \<Longrightarrow> d \<le> CHR ''Z'' \<Longrightarrow> \<not> starts_with (to_lowercase m) (d # ds)"
  using lower_char_not_upper by (cases m) (auto simp: to_lowercase_def)

text \<open>What an accepted request says about the restrictions its rune carries.\<close>

lemma verify_rune_restrictions:
  assumes "verify_rune cr lib signer r = Ok ()" "checks_restrictions lib restrictions_of"
    and "rune_from_base64 lib (b64_encode cr (pr_rune r)) = Ok rune"
    and "rs \<in> set (restrictions_of rune)"
  obtains service m a where "uri_method (pr_uri r) service m" "a \<in> set (alternatives rs)"
    "check_alternative lib (request_context cr lib r rune m) a = Ok ()"
  using assms unfolding verify_rune_Ok checks_restrictions_def by fastforce

section \<open>Properties\<close>

text \<open>
  C26: what a client signature binds. Two pending requests have the same signed payload
  exactly when request and timestamp agree, or when one has no timestamp and its request is
  the other's followed by the eight bytes of the other's timestamp: a request without a
  timestamp is accepted as well, so the node may present a signed request and its timestamp
  as one longer request without timestamp.
\<close>

theorem signed_payload_binds:
  "signed_payload r = signed_payload s \<longleftrightarrow>
     pr_request r = pr_request s \<and> pr_timestamp r = pr_timestamp s \<or>
     pr_timestamp r \<noteq> 0 \<and> pr_timestamp s = 0 \<and> pr_request s = pr_request r @ put_u64 (pr_timestamp r) \<or>
     pr_timestamp s \<noteq> 0 \<and> pr_timestamp r = 0 \<and> pr_request r = pr_request s @ put_u64 (pr_timestamp s)"
proof -
  have "length (put_u64 (pr_timestamp r)) = length (put_u64 (pr_timestamp s))"
    by (simp add: put_u64_def)
  then show ?thesis by (auto simp: signed_payload_def put_u64_inj)
qed

text \<open>
  C28: a rune restricted to payments authorises payments only. A request whose rune carries
  the restriction of \<open>DefRules::Pay\<close> and that passes authentication decodes to a \<open>Pay\<close>
  request or not at all.
\<close>

theorem pay_rune_only_pays:
  assumes "checks_restrictions lib restrictions_of" "faithful_conditions lib"
    and "rune_from_base64 lib (b64_encode cr (pr_rune r)) = Ok rune"
    and "\<lparr>alternatives = rule_alternatives PayRule\<rparr> \<in> set (restrictions_of rune)"
    and "authenticated cr lib signer r" "decode_request P r = Ok q"
  shows "\<exists>p. q = ReqPay p"
proof -
  have "verify_rune cr lib signer r = Ok ()" using assms(5) by (simp add: authenticated_def)
  from this assms(1,3,4) obtain service m a where um: "uri_method (pr_uri r) service m"
    and "a \<in> set (alternatives \<lparr>alternatives = rule_alternatives PayRule\<rparr>)"
    and "check_alternative lib (request_context cr lib r rune m) a = Ok ()"
    by (rule verify_rune_restrictions)
  then have "check_alternative lib (request_context cr lib r rune m) (alt_of ''method'' Equal ''pay'') = Ok ()"
    by simp
  then have "to_lowercase m = ''pay''"
    using method_alternative_Ok(1) [OF assms(2)] by (force simp: request_context_def)
  then have "method_of_uri (pr_uri r) = ''pay''" using uri_method_of [OF um] by simp
  then show ?thesis using decode_pay assms(6) unfolding decode_request_Ok by blast
qed

definition demo_crypto :: crypto where
  "demo_crypto = \<lparr>ecdsa_verify = (\<lambda>pk d s. s = pk @ d),
     b64_encode = (\<lambda>b. if b = [80] then ''P'' else if b = [82] then ''R'' else ''K''),
     b64_decode = (\<lambda>s. Ok [75]),
     hex_of = (\<lambda>b. concat (map (\<lambda>x. if x = 0 then ''00'' else ''ff'') b)), now_secs = Ok 7\<rparr>"

definition demo_signer_id :: "restriction list signer" where
  "demo_signer_id = \<lparr>signer_node_id = [2, 3], signer_init = [], master_rune = []\<rparr>"

definition demo_proto :: "bytes proto" where
  "demo_proto = \<lparr>dec = (\<lambda>_ b. Some b), dec_sign_message = (\<lambda>b. None), dec_fund_channel = (\<lambda>b. None),
     dec_pay = (\<lambda>b. if b = [105] then Some \<lparr>pay_bolt11 = ''i''\<rparr> else None), dec_pre_approve_invoice = (\<lambda>b. None),
     dec_gl_config = (\<lambda>b. None), dec_send_pay = (\<lambda>b. None), dec_trampoline_pay = (\<lambda>b. None)\<rparr>"

text \<open>A signed call of \<open>Pay\<close> with the rune \<open>P\<close>.\<close>

definition demo_pay :: pending_request where
  "demo_pay = \<lparr>pr_request = [0, 0, 0, 0, 1, 105], pr_uri = ''/cln.Node/Pay'',
     pr_signature = [0, 0, 0, 0, 0, 1, 105], pr_pubkey = [0], pr_timestamp = 0, pr_rune = [80]\<rparr>"

lemma demo_pay_authenticated: "authenticated demo_crypto demo_lib demo_signer_id demo_pay"
proof -
  have c: "contains_str ''pubkey=00'' ''pubkey=''" by (simp add: contains_str_def)
  have "verify_rune demo_crypto demo_lib demo_signer_id demo_pay = Ok ()"
    by (simp add: verify_rune_def demo_crypto_def demo_lib_def demo_rune_def demo_signer_id_def demo_pay_def c
        check_alternative_def key_restriction_def pay_restriction_def alt_of_def demo_condition_def
        to_lowercase_def lower_char_def Let_def char_of_eq_iff take_bit_eq_mod)
  then show ?thesis
    by (simp add: authenticated_def demo_crypto_def demo_pay_def signed_payload_def)
qed

lemma demo_pay_decodes: "decode_request demo_proto demo_pay = Ok (ReqPay \<lparr>pay_bolt11 = ''i''\<rparr>)"
  by (simp add: decode_request_def demo_pay_def demo_proto_def decode_payload_def cln_decode_request_def
      decode_arms_def cln_arms_def decode_as_def)

lemma demo_pay_rune:
  "rune_from_base64 demo_lib (b64_encode demo_crypto (pr_rune demo_pay)) = Ok [key_restriction, pay_restriction]"
  by (simp add: demo_lib_def demo_rune_def demo_crypto_def demo_pay_def)

lemma pay_rune_only_pays_witness:
  "authenticated demo_crypto demo_lib demo_signer_id demo_pay \<and>
   (\<exists>q. decode_request demo_proto demo_pay = Ok q \<and> (\<exists>p. q = ReqPay p))"
proof -
  have "\<lparr>alternatives = rule_alternatives PayRule\<rparr> \<in> set [key_restriction, pay_restriction]"
    by (simp add: pay_restriction_def)
  from pay_rune_only_pays [OF demo_lib_ok(4,2) demo_pay_rune this demo_pay_authenticated demo_pay_decodes]
  show ?thesis using demo_pay_authenticated demo_pay_decodes by blast
qed

text \<open>
  A rune restricted to reading authorises nothing. The rule set \<open>DefRules::ReadOnly\<close>
  asks for a method that begins with \<open>Get\<close> or \<open>List\<close>, while the signer checks the method
  in lower case: no request that carries such a rune is authenticated.
\<close>

theorem read_only_rune_authorises_nothing:
  assumes "checks_restrictions lib restrictions_of" "faithful_conditions lib"
    and "rune_from_base64 lib (b64_encode cr (pr_rune r)) = Ok rune"
    and "\<lparr>alternatives = rule_alternatives ReadOnly\<rparr> \<in> set (restrictions_of rune)"
  shows "\<not> authenticated cr lib signer r"
proof
  assume "authenticated cr lib signer r"
  then have "verify_rune cr lib signer r = Ok ()" by (simp add: authenticated_def)
  from this assms(1,3,4) obtain service m a where
    a: "a \<in> set (alternatives \<lparr>alternatives = rule_alternatives ReadOnly\<rparr>)"
    and ok: "check_alternative lib (request_context cr lib r rune m) a = Ok ()"
    by (rule verify_rune_restrictions)
  then obtain v where "a = alt_of ''method'' BeginsWith v" "v = ''Get'' \<or> v = ''List''" by auto
  then have "starts_with (to_lowercase m) v"
    using method_alternative_Ok(2) [OF assms(2)] ok by (force simp: request_context_def)
  then show False
    using \<open>v = ''Get'' \<or> v = ''List''\<close> lowercase_not_starts_upper by (auto simp: less_eq_char_def)
qed

lemma read_only_rune_authorises_nothing_witness:
  "\<not> authenticated demo_crypto demo_lib demo_signer_id (demo_pay\<lparr>pr_uri := ''/cln.Node/Getinfo'', pr_rune := [82]\<rparr>)"
proof -
  let ?r = "demo_pay\<lparr>pr_uri := ''/cln.Node/Getinfo'', pr_rune := [82]\<rparr>"
  have "rune_from_base64 demo_lib (b64_encode demo_crypto (pr_rune ?r)) = Ok [key_restriction, read_restriction]"
    by (simp add: demo_lib_def demo_rune_def demo_crypto_def)
  moreover have "\<lparr>alternatives = rule_alternatives ReadOnly\<rparr> \<in> set [key_restriction, read_restriction]"
    by (simp add: read_restriction_def)
  ultimately show ?thesis using demo_lib_ok(2,4) by (intro read_only_rune_authorises_nothing)
qed

text \<open>
  C30: the signature of a pairing approval does not separate the device name from the
  restrictions. Whoever relays an approval the signer accepts can move any prefix of the
  restrictions into the device name: the signer accepts the result as well and issues a rune
  with the remaining restrictions only (if they still name a public key).
\<close>

theorem pairing_restrictions_can_be_dropped:
  assumes "process_pairing_approval cr lib signer req_id req = Ok resp"
    and "ap_restrictions req = moved @ rest"
  shows "process_pairing_approval cr lib signer req_id
           (req\<lparr>ap_device_name := ap_device_name req @ moved, ap_restrictions := rest\<rparr>) =
         omap (\<lambda>rune. resp\<lparr>ar_rune := rune\<rparr>)
           (create_rune lib signer None (map (split_on (CHR ''|'')) (split_on (CHR ''&'') rest)))"
proof -
  let ?req' = "req\<lparr>ap_device_name := ap_device_name req @ moved, ap_restrictions := rest\<rparr>"
  have p: "pairing_payload signer ?req' = pairing_payload signer req"
    using assms(2) by (simp add: pairing_payload_def)
  from assms(1) obtain new_rune where
    "resp = \<lparr>ar_request_id = req_id, ar_device_id = ap_device_id req,
             ar_node_id = signer_node_id signer, ar_rune = new_rune\<rparr>"
    by (auto simp: process_pairing_approval_def obind_eq_Ok Let_def split: if_splits)
  then show ?thesis
    using assms(1) p
    by (cases "create_rune lib signer None (map (split_on (CHR ''|'')) (split_on (CHR ''&'') rest))")
      (auto simp: process_pairing_approval_def obind_eq_Ok Let_def split: if_splits)
qed

definition demo_pairing :: approve_pairing_request where
  "demo_pairing = \<lparr>ap_device_id = ''d'', ap_timestamp = 1, ap_device_name = ''n'',
     ap_restrictions = ''method=pay&pubkey=00'',
     ap_sig = [0] @ as_bytes ''d'' @ put_u64 1 @ [2, 3] @ as_bytes ''n'' @ as_bytes ''method=pay&pubkey=00'',
     ap_pubkey = [0], ap_rune = ''K''\<rparr>"

lemma pairing_restrictions_can_be_dropped_witness:
  "\<exists>resp. process_pairing_approval demo_crypto demo_lib demo_signer_id 5 demo_pairing = Ok resp \<and>
     process_pairing_approval demo_crypto demo_lib demo_signer_id 5
       (demo_pairing\<lparr>ap_device_name := ''nmethod=pay&'', ap_restrictions := ''pubkey=00''\<rparr>) =
     Ok (resp\<lparr>ar_rune := ''K''\<rparr>)"
proof -
  have c: "contains_str ''pubkey=00'' ''pubkey=''" by (simp add: contains_str_def)
  have v: "verify_rune demo_crypto demo_lib demo_signer_id
      \<lparr>pr_request = [], pr_uri = ''/cln.Node/ApprovePairing'', pr_signature = ap_sig demo_pairing,
       pr_pubkey = ap_pubkey demo_pairing, pr_timestamp = ap_timestamp demo_pairing, pr_rune = [75]\<rparr> = Ok ()"
    by (simp add: verify_rune_def demo_crypto_def demo_lib_def demo_rune_def demo_signer_id_def demo_pairing_def c
        check_alternative_def key_restriction_def alt_of_def demo_condition_def Let_def)
  have r: "create_rune demo_lib demo_signer_id None [[''method=pay''], [''pubkey=00'']] = Ok []"
    "create_rune demo_lib demo_signer_id None [[''pubkey=00'']] = Ok ''K''"
    using demo_restrictions_distinct
    by (simp_all add: create_rune_def demo_lib_def has_pubkey_field_def key_restriction_def
        pay_restriction_def alt_of_def)
  obtain resp where ok: "process_pairing_approval demo_crypto demo_lib demo_signer_id 5 demo_pairing = Ok resp"
    using v r(1)
    by (simp add: process_pairing_approval_def pairing_payload_def Let_def)
      (simp add: demo_crypto_def demo_pairing_def demo_signer_id_def)
  have "ap_restrictions demo_pairing = ''method=pay&'' @ ''pubkey=00''" by (simp add: demo_pairing_def)
  from pairing_restrictions_can_be_dropped [OF ok this] show ?thesis
    using ok r(2) by (simp add: demo_pairing_def)
qed

end
