(* ===== verification/NodeContext.thy ===== *)
theory NodeContext
  imports SignerAuth
begin

text \<open>
  The way of a client request to the signer: the client's \<open>AuthService\<close> signs it
  (\<open>libs/gl-client/src/node/service.rs\<close>), the node's \<open>SignatureContextService\<close> takes the
  signature from the headers (\<open>libs/gl-plugin/src/node/mod.rs\<close>), and the request context keeps
  it while the call is running (\<open>libs/gl-plugin/src/context.rs\<close>), from where it is attached to
  the requests for the signer. Headers are an ordered map, a body is the list of its chunks,
  \<open>None\<close> for a chunk that fails. PEM, PKCS#8, ECDSA and base64 are records of functions.
\<close>

record context_request =
  cx_pubkey :: bytes
  cx_signature :: bytes
  cx_rune :: bytes
  cx_payload :: bytes
  cx_uri :: string
  cx_timestamp :: "u64 option"

definition context_request_new ::
  "string \<Rightarrow> bytes \<Rightarrow> bytes \<Rightarrow> bytes \<Rightarrow> u64 option \<Rightarrow> bytes \<Rightarrow> context_request" where
  "context_request_new uri payload pubkey signature timestamp rune =
     \<lparr>cx_pubkey = pubkey, cx_signature = signature, cx_rune = rune, cx_payload = payload,
      cx_uri = uri, cx_timestamp = timestamp\<rparr>"

definition pending_of_context :: "context_request \<Rightarrow> pending_request" where
  "pending_of_context r =
     \<lparr>pr_request = cx_payload r, pr_uri = cx_uri r, pr_signature = cx_signature r,
      pr_pubkey = cx_pubkey r, pr_timestamp = (case cx_timestamp r of Some t \<Rightarrow> t | None \<Rightarrow> 0),
      pr_rune = cx_rune r\<rparr>"

subsection \<open>The request context\<close>

type_synonym req_context = "context_request list"

definition context_new :: req_context where "context_new = []"

definition snapshot :: "req_context \<Rightarrow> context_request list" where "snapshot ctx = ctx"

definition add_request :: "context_request \<Rightarrow> req_context \<Rightarrow> req_context" where
  "add_request r ctx = ctx @ [r]"

definition remove_request :: "context_request \<Rightarrow> req_context \<Rightarrow> req_context" where
  "remove_request r ctx = filter (\<lambda>a. cx_signature a \<noteq> cx_signature r) ctx"

subsection \<open>Signing on the client\<close>

record http_request =
  hq_uri :: "string option"
  hq_headers :: "(string, string) bmap"
  hq_body :: "bytes option list"

record auth_lib =
  al_pkcs8_keys :: "bytes \<Rightarrow> (bytes list, string) outcome"
  al_from_pkcs8 :: "bytes \<Rightarrow> (bytes \<times> (bytes \<Rightarrow> bytes option), string) outcome"
  al_encode :: "bytes \<Rightarrow> string"
  al_header_value :: "string \<Rightarrow> bool"

record auth_service =
  as_key :: bytes
  as_rune :: string

definition auth_layer_new :: "auth_lib \<Rightarrow> bytes \<Rightarrow> string \<Rightarrow> (auth_service, string) outcome" where
  "auth_layer_new A pem rune =
     obind (omap_err (\<lambda>e. ''Could not decode PEM string into PKCS#8 format: '' @ e) (al_pkcs8_keys A pem)) (\<lambda>keys.
     case keys of
       [] \<Rightarrow> Panic
     | key # _ \<Rightarrow>
         obind (omap_err (\<lambda>e. ''Could not decide keypair from PEM string: '' @ e) (al_from_pkcs8 A key)) (\<lambda>_.
         Ok \<lparr>as_key = key, as_rune = rune\<rparr>))"

text \<open>A value that is no header value makes the \<open>unwrap\<close> of its parse panic.\<close>

definition header_insert ::
  "auth_lib \<Rightarrow> string \<Rightarrow> string \<Rightarrow> (string, string) bmap \<Rightarrow> ((string, string) bmap, 'e) outcome" where
  "header_insert A name v headers =
     (if al_header_value A v then Ok (bt_insert name v headers) else Panic)"

text \<open>
  \<open>AuthService::call\<close>: \<open>time\<close> is the number of milliseconds since the epoch, or the error of
  a clock before it. Only the first chunk of the body is taken. The result is the request
  handed to the channel.
\<close>

definition auth_call ::
  "auth_lib \<Rightarrow> auth_service \<Rightarrow> (nat, string) outcome \<Rightarrow> http_request \<Rightarrow> (http_request, string) outcome" where
  "auth_call A service time request =
     (case al_from_pkcs8 A (as_key service) of
        Ok (pubkey, sign) \<Rightarrow>
          obind time (\<lambda>t.
          (case hq_body request of
             Some data # _ \<Rightarrow>
               if 2 ^ 64 \<le> t then Err ''out of range integral type conversion attempted''
               else
               let ts = put_u64 (word_of_nat t); buf = data @ put_u64 (word_of_nat t) in
               obind (unwrap (sign buf)) (\<lambda>sig.
               obind (header_insert A ''glauthpubkey'' (al_encode A pubkey) (hq_headers request)) (\<lambda>h.
               obind (header_insert A ''glauthsig'' (al_encode A sig) h) (\<lambda>h.
               obind (header_insert A ''glts'' (al_encode A ts) h) (\<lambda>h.
               obind (header_insert A ''glrune'' (as_rune service) h) (\<lambda>h.
               Ok (request\<lparr>hq_headers := h, hq_body := [Some data]\<rparr>))))))
           | _ \<Rightarrow> Panic))
      | _ \<Rightarrow> Panic)"

subsection \<open>Reception on the node\<close>

record header_codec =
  hc_standard :: "string \<Rightarrow> bytes option"
  hc_url_safe :: "string \<Rightarrow> bytes option"

definition MAX_MESSAGE_SIZE :: nat where "MAX_MESSAGE_SIZE = 4000000"

text \<open>The body as it is buffered: \<open>Ok None\<close> when it grows past the limit.\<close>

fun buffer_body :: "bytes option list \<Rightarrow> bytes \<Rightarrow> (bytes option, 'e) outcome" where
  "buffer_body [] buf = Ok (Some buf)"
| "buffer_body (None # chunks) buf = Panic"
| "buffer_body (Some chunk # chunks) buf =
     (if MAX_MESSAGE_SIZE < length buf + length chunk then Ok None
      else buffer_body chunks (buf @ chunk))"

definition header_bytes :: "(string \<Rightarrow> bytes option) \<Rightarrow> string \<Rightarrow> http_request \<Rightarrow> bytes option" where
  "header_bytes decode name request = Option.bind (bt_get (hq_headers request) name) decode"

definition header_timestamp :: "header_codec \<Rightarrow> http_request \<Rightarrow> (u64 option, 'e) outcome" where
  "header_timestamp C request =
     (case header_bytes (hc_standard C) ''glts'' request of
        None \<Rightarrow> Ok None
      | Some s \<Rightarrow> if length s < 8 then Panic else Ok (Some (word_of_nat (of_be_bytes (take 8 s)))))"

text \<open>
  What \<open>SignatureContextService::call\<close> does before the inner service runs: it refuses a body
  that is too large, passes a request without signature headers through, and registers any
  other. The first component is the event it broadcasts.
\<close>

datatype call_entry =
    TooLarge
  | PassedThrough http_request
  | Registered context_request http_request

definition call_entry_of :: "header_codec \<Rightarrow> string \<Rightarrow> http_request \<Rightarrow> (call_entry, string) outcome" where
  "call_entry_of C uri request =
     (let pubkey = header_bytes (hc_standard C) ''glauthpubkey'' request;
          sig = header_bytes (hc_standard C) ''glauthsig'' request in
      obind (header_timestamp C request) (\<lambda>timestamp.
      let rune = header_bytes (hc_url_safe C) ''glrune'' request in
      case (pubkey, sig, rune) of
        (Some pk, Some sig, Some rune) \<Rightarrow>
          omap (\<lambda>b.
            case b of
              None \<Rightarrow> TooLarge
            | Some buf \<Rightarrow>
                Registered (context_request_new uri buf pk sig timestamp rune)
                  (request\<lparr>hq_body := [Some buf]\<rparr>)) (buffer_body (hq_body request) [])
      | _ \<Rightarrow> Ok (PassedThrough request)))"

definition signature_context_call ::
  "header_codec \<Rightarrow> http_request \<Rightarrow> string list \<times> (call_entry, string) outcome" where
  "signature_context_call C request =
     (case hq_uri request of
        None \<Rightarrow> ([], Panic)
      | Some uri \<Rightarrow> ([uri], call_entry_of C uri request))"

text \<open>The context before and after the inner service has run.\<close>

fun call_begins :: "call_entry \<Rightarrow> req_context \<Rightarrow> req_context" where
  "call_begins (Registered r _) ctx = add_request r ctx"
| "call_begins _ ctx = ctx"

fun call_ends :: "call_entry \<Rightarrow> req_context \<Rightarrow> req_context" where
  "call_ends (Registered r _) ctx = remove_request r ctx"
| "call_ends _ ctx = ctx"

subsection \<open>Runs of the context\<close>

datatype context_event = Begins call_entry | Ends call_entry

fun context_step :: "context_event \<Rightarrow> req_context \<Rightarrow> req_context" where
  "context_step (Begins e) ctx = call_begins e ctx"
| "context_step (Ends e) ctx = call_ends e ctx"

definition context_run :: "context_event list \<Rightarrow> req_context" where
  "context_run evs = fold context_step evs context_new"

text \<open>The calls that end a request: those with its signature.\<close>

fun ends_with_signature :: "bytes \<Rightarrow> context_event \<Rightarrow> bool" where
  "ends_with_signature s (Ends (Registered r _)) = (cx_signature r = s)"
| "ends_with_signature s _ = False"

fun begins_request :: "context_request \<Rightarrow> context_event \<Rightarrow> bool" where
  "begins_request r (Begins (Registered r' _)) = (r' = r)"
| "begins_request r _ = False"

subsection \<open>Lemmas\<close>

lemma context_step_set:
  "r \<in> set (context_step e ctx) \<longleftrightarrow>
     begins_request r e \<or> (r \<in> set ctx \<and> \<not> ends_with_signature (cx_signature r) e)"
  by (cases "(r, e)" rule: begins_request.cases; cases "(cx_signature r, e)" rule: ends_with_signature.cases)
    (auto simp: add_request_def remove_request_def)

lemma context_run_snoc: "context_run (evs @ [e]) = context_step e (context_run evs)"
  by (simp add: context_run_def)

lemma buffer_body_chunks:
  "length buf + length (concat chunks) \<le> MAX_MESSAGE_SIZE \<Longrightarrow>
     buffer_body (map Some chunks) buf = Ok (Some (buf @ concat chunks))"
  by (induction chunks arbitrary: buf) auto

lemma header_insert_Ok:
  "header_insert A k v h = Ok h' \<longleftrightarrow> al_header_value A v \<and> h' = bt_insert k v h"
  by (auto simp: header_insert_def)

text \<open>What the client adds to a request, read off a call that succeeds.\<close>

lemma auth_call_Ok:
  assumes "auth_call A service time request = Ok sent" "al_from_pkcs8 A (as_key service) = Ok (pk, sign)"
    and "bt_sorted (hq_headers request)"
  obtains t data rest sig where "time = Ok t" "t < 2 ^ 64" "hq_body request = Some data # rest"
    "sign (data @ put_u64 (word_of_nat t)) = Some sig"
    "hq_uri sent = hq_uri request" "hq_body sent = [Some data]"
    "bt_get (hq_headers sent) ''glauthpubkey'' = Some (al_encode A pk)"
    "bt_get (hq_headers sent) ''glauthsig'' = Some (al_encode A sig)"
    "bt_get (hq_headers sent) ''glts'' = Some (al_encode A (put_u64 (word_of_nat t)))"
    "bt_get (hq_headers sent) ''glrune'' = Some (as_rune service)"
proof -
  obtain t where "time = Ok t" using assms(1,2) by (cases time) (auto simp: auth_call_def)
  moreover obtain data rest where "hq_body request = Some data # rest"
    using assms(1,2) \<open>time = Ok t\<close>
    by (cases "hq_body request"; cases "hd (hq_body request)") (auto simp: auth_call_def)
  ultimately obtain t data rest sig where t: "time = Ok t" "t < 2 ^ 64"
    and b: "hq_body request = Some data # rest" and s: "sign (data @ put_u64 (word_of_nat t)) = Some sig"
    and sent: "sent = request\<lparr>hq_headers := bt_insert ''glrune'' (as_rune service)
        (bt_insert ''glts'' (al_encode A (put_u64 (word_of_nat t)))
        (bt_insert ''glauthsig'' (al_encode A sig)
        (bt_insert ''glauthpubkey'' (al_encode A pk) (hq_headers request)))), hq_body := [Some data]\<rparr>"
    using assms(1,2) by (auto simp: auth_call_def obind_eq_Ok header_insert_Ok Let_def split: if_splits)
  show thesis using that [OF t b s] assms(3) by (simp add: sent omap_simps)
qed

lemma of_be_put_u64 [simp]: "word_of_nat (of_be_bytes (put_u64 w)) = (w :: u64)"
proof -
  have "of_be_bytes (put_u64 w) = unat w"
    using unat_u64_less [of w] by (simp add: put_u64_def of_be_bytes_be_bytes)
  then show ?thesis by simp
qed

lemma length_put_u64 [simp]: "length (put_u64 w) = 8"
  by (simp add: put_u64_def)

text \<open>The last event of one kind, with none of the other kind after it, when an event is added.\<close>

lemma last_since_snoc:
  "(\<exists>before b after. evs @ [e] = before @ b # after \<and> P b \<and> (\<nexists>x. x \<in> set after \<and> Q x)) \<longleftrightarrow>
     P e \<or> ((\<exists>before b after. evs = before @ b # after \<and> P b \<and> (\<nexists>x. x \<in> set after \<and> Q x)) \<and> \<not> Q e)"
  (is "?L \<longleftrightarrow> P e \<or> (?R \<and> \<not> Q e)")
proof
  assume ?L
  then obtain before b after where "evs @ [e] = before @ b # after" "P b" "\<nexists>x. x \<in> set after \<and> Q x"
    by blast
  then show "P e \<or> (?R \<and> \<not> Q e)" by (cases after rule: rev_cases) auto
next
  assume "P e \<or> (?R \<and> \<not> Q e)"
  then consider "P e" | before b after where "evs = before @ b # after" "P b"
    "\<nexists>x. x \<in> set after \<and> Q x" "\<not> Q e" by blast
  then show ?L
  proof cases
    case 1
    then show ?thesis by (intro exI [of _ evs] exI [of _ e] exI [of _ "[]"]) simp
  next
    case 2
    then show ?thesis by (intro exI [of _ before] exI [of _ b] exI [of _ "after @ [e]"]) auto
  qed
qed

section \<open>Properties\<close>

text \<open>
  C6: what the client signs is what the signer checks. If the client's call succeeds, the
  node gets its headers and body, in whatever chunks, and the body is within the limit, then
  the node registers a request whose signature the signer accepts, so that only the rune
  decides; its payload, URI and time are those of the client.
\<close>

theorem client_signature_reaches_signer:
  assumes "auth_call A service (Ok t) request = Ok sent"
    and "al_from_pkcs8 A (as_key service) = Ok (pk, sign)"
    and "bt_sorted (hq_headers request)" "hq_body request = Some data # rest" "hq_uri request = Some uri"
    and "\<forall>b. hc_standard C (al_encode A b) = Some b" "hc_url_safe C (as_rune service) = Some rune"
    and "got = sent\<lparr>hq_body := map Some chunks\<rparr>" "concat chunks = data" "length data \<le> MAX_MESSAGE_SIZE"
    and "\<forall>m s. sign m = Some s \<longrightarrow> ecdsa_verify cr pk m s" "0 < t"
  shows "\<exists>r fwd. signature_context_call C got = ([uri], Ok (Registered r fwd)) \<and>
    hq_body fwd = [Some data] \<and>
    pr_request (pending_of_context r) = data \<and> pr_uri (pending_of_context r) = uri \<and>
    pr_pubkey (pending_of_context r) = pk \<and> pr_rune (pending_of_context r) = rune \<and>
    pr_timestamp (pending_of_context r) = word_of_nat t \<and>
    check_one_request cr lib signer (pending_of_context r) =
      omap (\<lambda>_. pending_of_context r)
        (omap_err (\<lambda>_. ''rune verification failed'') (verify_rune cr lib signer (pending_of_context r)))"
proof -
  from assms(1-3) obtain sig where s: "t < 2 ^ 64" "sign (data @ put_u64 (word_of_nat t)) = Some sig"
    "hq_uri sent = Some uri"
    "bt_get (hq_headers sent) ''glauthpubkey'' = Some (al_encode A pk)"
    "bt_get (hq_headers sent) ''glauthsig'' = Some (al_encode A sig)"
    "bt_get (hq_headers sent) ''glts'' = Some (al_encode A (put_u64 (word_of_nat t)))"
    "bt_get (hq_headers sent) ''glrune'' = Some (as_rune service)"
    using assms(4,5) by (elim auth_call_Ok) auto
  define r where "r = context_request_new uri data pk sig (Some (word_of_nat t)) rune"
  have w: "(word_of_nat t :: u64) \<noteq> 0" using s(1) assms(12) by (simp add: word_of_nat_eq_0_iff nat_dvd_not_less)
  have "buffer_body (hq_body got) [] = (Ok (Some data) :: (bytes option, string) outcome)"
    using buffer_body_chunks [of "[]" chunks] assms(8-10) by simp
  then have "call_entry_of C uri got = Ok (Registered r (got\<lparr>hq_body := [Some data]\<rparr>))"
    using s assms(6-8)
    by (simp add: call_entry_of_def header_bytes_def header_timestamp_def r_def)
  moreover have "hq_uri got = Some uri" using s(3) assms(8) by simp
  moreover have "ecdsa_verify cr pk (data @ put_u64 (word_of_nat t)) sig" using assms(11) s(2) by blast
  ultimately show ?thesis using w
    by (intro exI [of _ r] exI [of _ "got\<lparr>hq_body := [Some data]\<rparr>"])
      (simp add: signature_context_call_def check_one_request_def signed_payload_def
        pending_of_context_def r_def context_request_new_def)
qed

definition demo_auth :: auth_lib where
  "demo_auth = \<lparr>al_pkcs8_keys = (\<lambda>pem. Ok [pem]), al_from_pkcs8 = (\<lambda>key. Ok (key, Some)),
     al_encode = map (\<lambda>b. char_of (unat b)), al_header_value = (\<lambda>_. True)\<rparr>"

definition demo_ecdsa :: crypto where
  "demo_ecdsa = \<lparr>ecdsa_verify = (\<lambda>pk m s. s = m), b64_encode = (\<lambda>_. []), b64_decode = (\<lambda>_. Err []),
     hex_of = (\<lambda>_. []), now_secs = Ok 0\<rparr>"

definition demo_headers :: header_codec where
  "demo_headers = \<lparr>hc_standard = (\<lambda>s. Some (as_bytes s)), hc_url_safe = (\<lambda>s. Some (as_bytes s))\<rparr>"

lemma client_signature_reaches_signer_witness:
  "\<exists>sent. auth_call demo_auth \<lparr>as_key = [7], as_rune = ''r''\<rparr> (Ok 5)
      \<lparr>hq_uri = Some ''/cln.Node/Pay'', hq_headers = [], hq_body = [Some [0, 0]]\<rparr> = Ok sent \<and>
    (\<exists>r fwd. signature_context_call demo_headers (sent\<lparr>hq_body := map Some [[0], [0]]\<rparr>) =
       ([''/cln.Node/Pay''], Ok (Registered r fwd)))"
proof -
  obtain sent where sent: "auth_call demo_auth \<lparr>as_key = [7], as_rune = ''r''\<rparr> (Ok 5)
      \<lparr>hq_uri = Some ''/cln.Node/Pay'', hq_headers = [], hq_body = [Some [0, 0]]\<rparr> = Ok sent"
    by (simp add: auth_call_def demo_auth_def header_insert_def Let_def)
  have "unat b mod 256 = unat b" for b :: u8 by (simp add: unat_u8_less)
  then have "\<forall>b. hc_standard demo_headers (al_encode demo_auth b) = Some b"
    by (simp add: demo_headers_def demo_auth_def as_bytes_def comp_def)
  moreover have "hc_url_safe demo_headers ''r'' = Some (as_bytes ''r'')"
    "al_from_pkcs8 demo_auth [7] = Ok ([7], Some)" "ecdsa_verify demo_ecdsa [7] m m" for m
    by (simp_all add: demo_headers_def demo_auth_def demo_ecdsa_def)
  ultimately have "\<exists>r fwd. signature_context_call demo_headers (sent\<lparr>hq_body := map Some [[0], [0]]\<rparr>) =
       ([''/cln.Node/Pay''], Ok (Registered r fwd)) \<and> hq_body fwd = [Some [0, 0]]"
    using client_signature_reaches_signer [OF sent, where sign = Some and pk = "[7]" and C = demo_headers
        and cr = demo_ecdsa and data = "[0, 0]" and rest = "[]" and uri = "''/cln.Node/Pay''"
        and rune = "as_bytes ''r''" and chunks = "[[0], [0]]"
        and got = "sent\<lparr>hq_body := map Some [[0], [0]]\<rparr>"]
    by (simp add: MAX_MESSAGE_SIZE_def) blast
  with sent show ?thesis by blast
qed

text \<open>
  C32: the context holds exactly the requests that are running. After any interleaving of
  calls, a request is attached to what the signer is asked if and only if it has begun, and
  since then no call with the same signature has ended.
\<close>

theorem context_holds_running_requests:
  "r \<in> set (snapshot (context_run evs)) \<longleftrightarrow>
     (\<exists>before b after. evs = before @ b # after \<and> begins_request r b \<and>
        (\<nexists>e. e \<in> set after \<and> ends_with_signature (cx_signature r) e))"
proof (induction evs rule: rev_induct)
  case Nil
  then show ?case by (simp add: context_run_def context_new_def snapshot_def)
next
  case (snoc e evs)
  then show ?case
    unfolding snapshot_def context_run_snoc context_step_set last_since_snoc by blast
qed

end
