(* ===== verification/Versioned_Store.thy ===== *)
theory Versioned_Store
  imports Prelude "HOL-Library.Multiset" "HOL-Library.Option_ord"
begin

text \<open>
  The interface between the signer, the node and their shared state: a store of versioned
  entries that is synchronised by merging. The signer merges what the node sends with every
  request, the node merges what the signer returns with every response
  (\<open>libs/gl-client/src/signer/mod.rs\<close>, \<open>libs/gl-plugin/src/node/mod.rs\<close>), and both rely on
  the laws below only. The provider is \<open>libs/gl-client/src/persist.rs\<close> (theory
  \<open>Persist\<close>).
\<close>

text \<open>
  Combining the entries two replicas hold for one key: the higher version wins, and on equal
  versions the local entry stays.
\<close>

fun vjoin :: "(u64 \<times> 'v) option \<Rightarrow> (u64 \<times> 'v) option \<Rightarrow> (u64 \<times> 'v) option" where
  "vjoin None b = b"
| "vjoin a None = a"
| "vjoin (Some a) (Some b) = (if fst a < fst b then Some b else Some a)"

text \<open>The order "at most as recent as" on the entries of a key, and its version projection.\<close>

fun vle :: "(u64 \<times> 'v) option \<Rightarrow> (u64 \<times> 'v) option \<Rightarrow> bool" where
  "vle None b = True"
| "vle (Some a) None = False"
| "vle (Some a) (Some b) = (fst a < fst b \<or> a = b)"

lemma vjoin_None_right [simp]: "vjoin a None = a"
  by (cases a) auto

lemma vjoin_idem [simp]: "vjoin a a = a"
  by (cases a) auto

lemma vjoin_assoc: "vjoin (vjoin a b) c = vjoin a (vjoin b c)"
  by (cases a; cases b; cases c) auto

lemma vjoin_absorb: "vjoin (vjoin a b) b = vjoin a b"
  by (simp add: vjoin_assoc)

lemma vjoin_vle: "vle a b \<Longrightarrow> vjoin a b = b"
  by (cases a; cases b) auto

lemma vle_vjoin: "vle a (vjoin a b)"
  by (cases a; cases b) auto

lemma vle_refl [simp]: "vle a a"
  by (cases a) auto

lemma vle_trans: "vle a b \<Longrightarrow> vle b c \<Longrightarrow> vle a c"
  by (cases a; cases b; cases c) auto

lemma vle_antisym: "vle a b \<Longrightarrow> vle b a \<Longrightarrow> a = b"
  by (cases a; cases b) auto

text \<open>
  Two entries are coherent when they do not hold two values under one version. Nothing in the
  code keeps replicas coherent: two signers of one node may both write the next version of a key.
\<close>

fun vcoherent :: "(u64 \<times> 'v) option \<Rightarrow> (u64 \<times> 'v) option \<Rightarrow> bool" where
  "vcoherent (Some a) (Some b) = (fst a = fst b \<longrightarrow> a = b)"
| "vcoherent _ _ = True"

lemma vjoin_commute: "vcoherent a b \<Longrightarrow> vjoin a b = vjoin b a"
  by (cases a; cases b) auto

lemma vle_vjoin_right: "vcoherent a b \<Longrightarrow> vle b (vjoin a b)"
  by (cases a; cases b) auto

lemma vjoin_of_vle: "vle a b \<Longrightarrow> vjoin b a = b"
  by (cases a; cases b) auto

text \<open>
  What joining guarantees of any entries: the higher version, and after joining in both
  directions one entry, unless both sides held different values under one version.
\<close>

lemma vjoin_version: "map_option fst (vjoin a b) = max (map_option fst a) (map_option fst b)"
  by (cases a; cases b) (auto simp: max_def)

lemma vjoin_both_ways:
  "map_option fst (vjoin b (vjoin a b)) = map_option fst (vjoin a b)"
  "vjoin b (vjoin a b) = vjoin a b \<or> \<not> vcoherent a b"
  by (cases a; cases b; auto)+

text \<open>
  The entry of a key along an exchange: the signer joins the node's entry \<open>n\<close> to its own \<open>s\<close>
  and goes on to \<open>s'\<close>, and the node joins that.
\<close>

lemma vjoin_exchange:
  "vle (vjoin s n) s' \<Longrightarrow> vjoin n s' = s' \<or> \<not> vcoherent n s \<and> s' = s \<and> vjoin n s' = n"
  by (cases s; cases n; cases s') (auto split: if_splits)

lemma vjoin_left_commute: "vcoherent b c \<Longrightarrow> vjoin (vjoin a b) c = vjoin (vjoin a c) b"
  by (metis vjoin_assoc vjoin_commute)

locale versioned_store =
  fixes merge :: "'s \<Rightarrow> 's \<Rightarrow> 's"
    and lookup :: "'s \<Rightarrow> 'k \<Rightarrow> (u64 \<times> 'v) option"
    and invar :: "'s \<Rightarrow> bool"
  assumes invar_merge: "invar a \<Longrightarrow> invar b \<Longrightarrow> invar (merge a b)"
    and lookup_merge: "invar a \<Longrightarrow> invar b \<Longrightarrow> lookup (merge a b) k = vjoin (lookup a k) (lookup b k)"
    and store_eqI: "invar a \<Longrightarrow> invar b \<Longrightarrow> (\<And>k. lookup a k = lookup b k) \<Longrightarrow> a = b"
begin

definition store_le :: "'s \<Rightarrow> 's \<Rightarrow> bool" where
  "store_le a b \<longleftrightarrow> (\<forall>k. vle (lookup a k) (lookup b k))"

definition coherent :: "'s \<Rightarrow> 's \<Rightarrow> bool" where
  "coherent a b \<longleftrightarrow> (\<forall>k. vcoherent (lookup a k) (lookup b k))"

lemma merge_idem: "invar a \<Longrightarrow> merge a a = a"
  by (rule store_eqI) (simp_all add: invar_merge lookup_merge)

lemma merge_assoc:
  "invar a \<Longrightarrow> invar b \<Longrightarrow> invar c \<Longrightarrow> merge (merge a b) c = merge a (merge b c)"
  by (rule store_eqI) (simp_all add: invar_merge lookup_merge vjoin_assoc)

lemma merge_absorb: "invar a \<Longrightarrow> invar b \<Longrightarrow> merge (merge a b) b = merge a b"
  by (simp add: merge_assoc merge_idem)

lemma merge_commute: "invar a \<Longrightarrow> invar b \<Longrightarrow> coherent a b \<Longrightarrow> merge a b = merge b a"
  by (rule store_eqI) (auto simp: invar_merge lookup_merge coherent_def intro: vjoin_commute)

lemma le_merge: "invar a \<Longrightarrow> invar b \<Longrightarrow> store_le a (merge a b)"
  by (simp add: store_le_def lookup_merge vle_vjoin)

lemma merge_of_le: "invar a \<Longrightarrow> invar b \<Longrightarrow> store_le a b \<Longrightarrow> merge a b = b"
  by (rule store_eqI) (simp_all add: invar_merge lookup_merge store_le_def vjoin_vle)

lemma store_le_trans: "store_le a b \<Longrightarrow> store_le b c \<Longrightarrow> store_le a c"
  by (meson store_le_def vle_trans)

text \<open>
  One exchange, as the node and the signer run it: the signer merges the node's state and
  moves on, and the node, whose state may have changed, merges what the signer returns. At a
  key that stayed with the node and became no older with the signer both then agree, but for a
  conflict the signer did not write over.
\<close>

lemma exchange_lookup:
  assumes "invar node'" "invar signer'"
    and "vle (vjoin (lookup signer k) (lookup node k)) (lookup signer' k)" "lookup node' k = lookup node k"
  shows "lookup (merge node' signer') k = lookup signer' k \<or>
    \<not> vcoherent (lookup node k) (lookup signer k) \<and> lookup signer' k = lookup signer k \<and>
    lookup (merge node' signer') k = lookup node k"
  using vjoin_exchange [OF assms(3)] assms(1,2,4) by (simp add: lookup_merge)

lemma merge_version:
  "invar a \<Longrightarrow> invar b \<Longrightarrow>
     map_option fst (lookup (merge a b) k) = max (map_option fst (lookup a k)) (map_option fst (lookup b k))"
  by (simp add: lookup_merge vjoin_version)

text \<open>Merging back what was merged: the versions agree, and so do the values without a conflict.\<close>

lemma merge_both_ways:
  assumes "invar a" "invar b"
  shows "map_option fst (lookup (merge b (merge a b)) k) = map_option fst (lookup (merge a b) k)"
    "lookup (merge b (merge a b)) k = lookup (merge a b) k \<or> \<not> vcoherent (lookup a k) (lookup b k)"
  using assms vjoin_both_ways by (simp_all add: lookup_merge invar_merge)

text \<open>
  Updates that are pairwise coherent may be merged in any order, which is what a transport
  that delivers out of order needs.
\<close>

lemma lookup_fold_merge:
  assumes "invar s" "\<forall>u \<in> set us. invar u"
  shows "invar (fold (\<lambda>u s. merge s u) us s) \<and>
         lookup (fold (\<lambda>u s. merge s u) us s) k = fold (\<lambda>u a. vjoin a (lookup u k)) us (lookup s k)"
  using assms by (induction us arbitrary: s) (simp_all add: invar_merge lookup_merge)

lemma merge_order_irrelevant:
  assumes "invar s" "\<forall>u \<in> set us. invar u" "mset us = mset us'"
    and coh: "\<forall>u \<in> set us. \<forall>v \<in> set us. coherent u v"
  shows "fold (\<lambda>u s. merge s u) us s = fold (\<lambda>u s. merge s u) us' s"
proof (rule store_eqI)
  have us': "\<forall>u \<in> set us'. invar u" using assms(2,3) by (metis set_mset_mset)
  show "invar (fold (\<lambda>u s. merge s u) us s)" "invar (fold (\<lambda>u s. merge s u) us' s)"
    using lookup_fold_merge assms(1,2) us' by blast+
  fix k
  have "fold (\<lambda>u a. vjoin a (lookup u k)) us = fold (\<lambda>u a. vjoin a (lookup u k)) us'"
  proof (rule fold_multiset_equiv)
    fix u v assume "u \<in> set us" "v \<in> set us"
    then have "vcoherent (lookup u k) (lookup v k)" using coh by (simp add: coherent_def)
    then show "(\<lambda>a. vjoin a (lookup u k)) \<circ> (\<lambda>a. vjoin a (lookup v k)) =
               (\<lambda>a. vjoin a (lookup v k)) \<circ> (\<lambda>a. vjoin a (lookup u k))"
      by (intro ext) (simp add: vjoin_left_commute [of "lookup u k"])
  qed (rule assms(3))
  then show "lookup (fold (\<lambda>u s. merge s u) us s) k = lookup (fold (\<lambda>u s. merge s u) us' s) k"
    using lookup_fold_merge [OF assms(1,2)] lookup_fold_merge [OF assms(1) us'] by simp
qed

lemma merge_back_of_le: "invar a \<Longrightarrow> invar b \<Longrightarrow> store_le a b \<Longrightarrow> merge b a = b"
  by (rule store_eqI) (simp_all add: invar_merge lookup_merge store_le_def vjoin_of_vle)

lemma store_le_refl [simp]: "store_le a a"
  by (simp add: store_le_def)

end

end
