(* ===== verification/Persist.thy ===== *)
theory Persist
  imports Versioned_Store
begin

text \<open>
  The signer state of \<open>libs/gl-client/src/persist.rs\<close>: \<open>State\<close>, an ordered map from key
  strings to versioned JSON values, its operations, its synchronisation (\<open>merge\<close>,
  \<open>diff\<close>), its wire form (a vector of \<open>SignerStateEntry\<close>), and the \<open>MemoryPersister\<close>
  on top of it. JSON values are a type parameter \<open>'j\<close>; conversions of the VLS and serde
  libraries (hex encoding, \<open>NodeChannelId::new\<close>, \<open>from_value\<close>, ...) are arguments. Versions
  are \<open>u64\<close>. \<open>expect\<close>, \<open>unwrap\<close> and \<open>assert!\<close> that fail are \<open>Panic\<close>.
\<close>

record 'j signer_state =
  state_values :: "(string, u64 \<times> 'j) bmap"

datatype persist_error = Internal string

definition NODE_PREFIX :: string where "NODE_PREFIX = ''nodes''"
definition NODE_STATE_PREFIX :: string where "NODE_STATE_PREFIX = ''nodestates''"
definition CHANNEL_PREFIX :: string where "CHANNEL_PREFIX = ''channels''"
definition ALLOWLIST_PREFIX :: string where "ALLOWLIST_PREFIX = ''allowlists''"
definition TRACKER_PREFIX :: string where "TRACKER_PREFIX = ''trackers''"

lemmas prefix_defs =
  NODE_PREFIX_def NODE_STATE_PREFIX_def CHANNEL_PREFIX_def ALLOWLIST_PREFIX_def TRACKER_PREFIX_def

text \<open>\<open>format!("{PREFIX}/{key}")\<close>\<close>

definition prefixed :: "string \<Rightarrow> string \<Rightarrow> string" where
  "prefixed p key = p @ CHR ''/'' # key"

subsection \<open>Operations of \<open>State\<close>\<close>

definition state_get :: "'j signer_state \<Rightarrow> string \<Rightarrow> (u64 \<times> 'j) option" where
  "state_get s k = bt_get (state_values s) k"

definition state_put :: "string \<Rightarrow> u64 \<times> 'j \<Rightarrow> 'j signer_state \<Rightarrow> 'j signer_state" where
  "state_put k v s = s\<lparr>state_values := bt_insert k v (state_values s)\<rparr>"

definition state_new :: "'j signer_state" where
  "state_new = \<lparr>state_values = []\<rparr>"

definition insert_node :: "string \<Rightarrow> 'j \<Rightarrow> 'j \<Rightarrow> 'j signer_state \<Rightarrow> ('j signer_state, persist_error) outcome" where
  "insert_node key node_entry node_state_entry s =
     (let node_key = prefixed NODE_PREFIX key; state_key = prefixed NODE_STATE_PREFIX key in
      if state_get s node_key \<noteq> None then Panic
      else if state_get s state_key \<noteq> None then Panic
      else Ok (state_put state_key (0, node_state_entry) (state_put node_key (0, node_entry) s)))"

definition update_node :: "string \<Rightarrow> 'j \<Rightarrow> 'j signer_state \<Rightarrow> ('j signer_state, persist_error) outcome" where
  "update_node key node_state s =
     (let key = prefixed NODE_STATE_PREFIX key in
      case state_get s key of
        None \<Rightarrow> Panic
      | Some v \<Rightarrow> Ok (state_put key (fst v + 1, node_state) s))"

definition delete_node :: "string \<Rightarrow> 'j signer_state \<Rightarrow> ('j signer_state, persist_error) outcome" where
  "delete_node key s =
     Ok (s\<lparr>state_values :=
            bt_remove (prefixed NODE_STATE_PREFIX key)
              (bt_remove (prefixed NODE_PREFIX key) (state_values s))\<rparr>)"

definition insert_channel :: "string \<Rightarrow> 'j \<Rightarrow> 'j signer_state \<Rightarrow> ('j signer_state, persist_error) outcome" where
  "insert_channel key channel_entry s =
     (let key = prefixed CHANNEL_PREFIX key in
      if state_get s key \<noteq> None then Panic
      else Ok (state_put key (0, channel_entry) s))"

text \<open>Note that the key is used as it is given: no prefix is put before it.\<close>

definition delete_channel :: "string \<Rightarrow> 'j signer_state \<Rightarrow> 'j signer_state" where
  "delete_channel key s = s\<lparr>state_values := bt_remove key (state_values s)\<rparr>"

definition update_channel :: "string \<Rightarrow> 'j \<Rightarrow> 'j signer_state \<Rightarrow> ('j signer_state, persist_error) outcome" where
  "update_channel key channel_entry s =
     (let key = prefixed CHANNEL_PREFIX key in
      case state_get s key of
        None \<Rightarrow> Panic
      | Some v \<Rightarrow> Ok (state_put key (fst v + 1, channel_entry) s))"

definition get_channel :: "('j \<Rightarrow> 'c option) \<Rightarrow> string \<Rightarrow> 'j signer_state \<Rightarrow> ('c, persist_error) outcome" where
  "get_channel from_value key s =
     obind (unwrap (state_get s (prefixed CHANNEL_PREFIX key))) (\<lambda>value. unwrap (from_value (snd value)))"

fun collect_channels ::
  "(string \<Rightarrow> bytes option) \<Rightarrow> (bytes \<Rightarrow> 'cid) \<Rightarrow> ('j \<Rightarrow> 'c option) \<Rightarrow> (string \<times> u64 \<times> 'j) list
     \<Rightarrow> (('cid \<times> 'c) list, persist_error) outcome" where
  "collect_channels hex_decode channel_id from_value [] = Ok []"
| "collect_channels hex_decode channel_id from_value ((k, v) # kvs) =
     obind (unwrap (hex_decode (last (split_on (CHR ''/'') k)))) (\<lambda>key.
     obind (unwrap (from_value (snd v))) (\<lambda>value.
     omap (\<lambda>rest. (channel_id key, value) # rest)
       (collect_channels hex_decode channel_id from_value kvs)))"

definition get_node_channels ::
  "(bytes \<Rightarrow> string) \<Rightarrow> (string \<Rightarrow> bytes option) \<Rightarrow> (bytes \<Rightarrow> 'cid) \<Rightarrow> ('j \<Rightarrow> 'c option)
     \<Rightarrow> bytes \<Rightarrow> 'j signer_state \<Rightarrow> (('cid \<times> 'c) list, persist_error) outcome" where
  "get_node_channels hex_encode hex_decode channel_id from_value node_id s =
     (let prefix = prefixed CHANNEL_PREFIX (hex_encode node_id) in
      collect_channels hex_decode channel_id from_value
        (filter (\<lambda>(k, _). starts_with k prefix) (state_values s)))"

definition new_chain_tracker ::
  "(bytes \<Rightarrow> string) \<Rightarrow> bytes \<Rightarrow> 'j \<Rightarrow> 'j signer_state \<Rightarrow> ('j signer_state, persist_error) outcome" where
  "new_chain_tracker hex_encode node_id tracker s =
     (let key = prefixed TRACKER_PREFIX (hex_encode node_id) in
      if state_get s key \<noteq> None then Panic
      else Ok (state_put key (0, tracker) s))"

definition state_clear :: "'j signer_state \<Rightarrow> ('j signer_state, persist_error) outcome" where
  "state_clear s = Ok (s\<lparr>state_values := []\<rparr>)"

subsection \<open>Synchronisation\<close>

text \<open>
  \<open>merge\<close> walks the other state in key order and returns, beside the new state, the changes
  it made: the key, the version replaced (if any), and the new version.
\<close>

type_synonym merge_change = "string \<times> u64 option \<times> u64"

fun merge_loop ::
  "(string \<times> u64 \<times> 'j) list \<Rightarrow> 'j signer_state \<Rightarrow> merge_change list \<Rightarrow> 'j signer_state \<times> merge_change list" where
  "merge_loop [] s res = (s, res)"
| "merge_loop ((key, newver, newval) # rest) s res =
     (case state_get s key of
        None \<Rightarrow> merge_loop rest (state_put key (newver, newval) s) (res @ [(key, None, newver)])
      | Some v \<Rightarrow>
          if fst v = newver then merge_loop rest s res
          else if fst v > newver then merge_loop rest s res
          else merge_loop rest (state_put key (newver, newval) s) (res @ [(key, Some (fst v), newver)]))"

definition merge :: "'j signer_state \<Rightarrow> 'j signer_state \<Rightarrow> 'j signer_state \<times> merge_change list" where
  "merge s other = merge_loop (state_values other) s []"

record 'j state_change =
  change_key :: string
  change_old :: "(u64 \<times> 'j) option"
  change_new :: "u64 \<times> 'j"

definition diff :: "'j signer_state \<Rightarrow> 'j signer_state \<Rightarrow> 'j state_change list" where
  "diff s other =
     filter (\<lambda>c. case change_old c of None \<Rightarrow> True | Some old \<Rightarrow> fst old < fst (change_new c))
       (map (\<lambda>(key, v). \<lparr>change_key = key, change_old = state_get s key, change_new = v\<rparr>)
         (state_values other))"

subsection \<open>Wire form\<close>

record signer_state_entry =
  entry_version :: u64
  entry_key :: string
  entry_value :: bytes

definition state_to_entries :: "('j \<Rightarrow> bytes) \<Rightarrow> 'j signer_state \<Rightarrow> signer_state_entry list" where
  "state_to_entries to_vec s =
     map (\<lambda>(k, v). \<lparr>entry_version = fst v, entry_key = k, entry_value = to_vec (snd v)\<rparr>) (state_values s)"

fun insert_entries ::
  "(bytes \<Rightarrow> 'j option) \<Rightarrow> signer_state_entry list \<Rightarrow> (string, u64 \<times> 'j) bmap
     \<Rightarrow> ((string, u64 \<times> 'j) bmap, persist_error) outcome" where
  "insert_entries from_slice [] m = Ok m"
| "insert_entries from_slice (e # es) m =
     obind (unwrap (from_slice (entry_value e))) (\<lambda>v.
       insert_entries from_slice es (bt_insert (entry_key e) (entry_version e, v) m))"

definition state_from_entries ::
  "(bytes \<Rightarrow> 'j option) \<Rightarrow> signer_state_entry list \<Rightarrow> ('j signer_state, persist_error) outcome" where
  "state_from_entries from_slice es =
     omap (\<lambda>m. \<lparr>state_values = m\<rparr>) (insert_entries from_slice es [])"

subsection \<open>\<open>MemoryPersister\<close>\<close>

text \<open>
  The persister locks the state for each call, so a call is one step on it. What VLS and the
  hex crate supply is gathered in a record of functions: the serialisation of a node id, the
  key of a channel, hex in both directions.
\<close>

record ('pk, 'cid) persist_codec =
  hex_encode :: "bytes \<Rightarrow> string"
  hex_decode :: "string \<Rightarrow> bytes option"
  pk_serialize :: "'pk \<Rightarrow> bytes"
  pk_from_slice :: "bytes \<Rightarrow> 'pk option"
  node_channel_id :: "'pk \<Rightarrow> 'cid \<Rightarrow> bytes"
  channel_id_of :: "bytes \<Rightarrow> 'cid"

definition node_hex :: "('pk, 'cid) persist_codec \<Rightarrow> 'pk \<Rightarrow> string" where
  "node_hex c node_id = hex_encode c (pk_serialize c node_id)"

definition channel_hex :: "('pk, 'cid) persist_codec \<Rightarrow> 'pk \<Rightarrow> 'cid \<Rightarrow> string" where
  "channel_hex c node_id channel_id = hex_encode c (node_channel_id c node_id channel_id)"

record node_entry =
  key_derivation_style :: u8
  network :: string

record ('setup, 'cid, 'es) channel_entry =
  channel_value_satoshis :: u64
  channel_setup :: "'setup option"
  ce_id :: "'cid option"
  enforcement_state :: 'es
  blockheight :: "u32 option"

record 'cid channel_stub =
  stub_id0 :: 'cid
  stub_blockheight :: u32

record ('setup, 'cid, 'es) vls_channel =
  chan_id0 :: 'cid
  chan_id :: "'cid option"
  chan_setup :: 'setup
  chan_value_sat :: u64
  chan_enforcement_state :: 'es

definition memory_persister_new :: "'j signer_state" where
  "memory_persister_new = \<lparr>state_values = []\<rparr>"

definition persister_new_node ::
  "('pk, 'cid) persist_codec \<Rightarrow> (node_entry \<Rightarrow> 'j) \<Rightarrow> ('ns \<Rightarrow> 'j) \<Rightarrow> 'pk \<Rightarrow> u8 \<times> string \<Rightarrow> 'ns
     \<Rightarrow> 'j signer_state \<Rightarrow> ('j signer_state, persist_error) outcome" where
  "persister_new_node c node_json state_json node_id config st s =
     insert_node (node_hex c node_id)
       (node_json \<lparr>key_derivation_style = fst config, network = snd config\<rparr>) (state_json st) s"

definition persister_delete_channel ::
  "('pk, 'cid) persist_codec \<Rightarrow> 'pk \<Rightarrow> 'cid \<Rightarrow> 'j signer_state \<Rightarrow> ('j signer_state, persist_error) outcome" where
  "persister_delete_channel c node_id channel s = Ok (delete_channel (channel_hex c node_id channel) s)"

definition persister_update_node ::
  "('pk, 'cid) persist_codec \<Rightarrow> ('ns \<Rightarrow> 'j) \<Rightarrow> 'pk \<Rightarrow> 'ns \<Rightarrow> 'j signer_state
     \<Rightarrow> ('j signer_state, persist_error) outcome" where
  "persister_update_node c state_json node_id st s = update_node (node_hex c node_id) (state_json st) s"

definition persister_delete_node ::
  "('pk, 'cid) persist_codec \<Rightarrow> 'pk \<Rightarrow> 'j signer_state \<Rightarrow> ('j signer_state, persist_error) outcome" where
  "persister_delete_node c node_id s = delete_node (node_hex c node_id) s"

text \<open>\<open>es0\<close> is \<open>EnforcementState::new(0)\<close>.\<close>

definition persister_new_channel ::
  "('pk, 'cid) persist_codec \<Rightarrow> (('setup, 'cid, 'es) channel_entry \<Rightarrow> 'j) \<Rightarrow> 'es \<Rightarrow> 'pk
     \<Rightarrow> 'cid channel_stub \<Rightarrow> 'j signer_state \<Rightarrow> ('j signer_state, persist_error) outcome" where
  "persister_new_channel c channel_json es0 node_id stub s =
     (let entry = \<lparr>channel_value_satoshis = 0, channel_setup = None, ce_id = None,
                   enforcement_state = es0, blockheight = Some (stub_blockheight stub)\<rparr> in
      insert_channel (channel_hex c node_id (stub_id0 stub)) (channel_json entry) s)"

definition persister_update_channel ::
  "('pk, 'cid) persist_codec \<Rightarrow> (('setup, 'cid, 'es) channel_entry \<Rightarrow> 'j) \<Rightarrow> 'pk
     \<Rightarrow> ('setup, 'cid, 'es) vls_channel \<Rightarrow> 'j signer_state \<Rightarrow> ('j signer_state, persist_error) outcome" where
  "persister_update_channel c channel_json node_id chan s =
     (let entry = \<lparr>channel_value_satoshis = chan_value_sat chan, channel_setup = Some (chan_setup chan),
                   ce_id = chan_id chan, enforcement_state = chan_enforcement_state chan,
                   blockheight = None\<rparr> in
      update_channel (channel_hex c node_id (chan_id0 chan)) (channel_json entry) s)"

definition persister_get_channel ::
  "('pk, 'cid) persist_codec \<Rightarrow> ('j \<Rightarrow> 'c option) \<Rightarrow> 'pk \<Rightarrow> 'cid \<Rightarrow> 'j signer_state
     \<Rightarrow> ('c, persist_error) outcome" where
  "persister_get_channel c from_value node_id channel s =
     get_channel from_value (channel_hex c node_id channel) s"

definition persister_new_tracker ::
  "('pk, 'cid) persist_codec \<Rightarrow> ('tr \<Rightarrow> 'j) \<Rightarrow> 'pk \<Rightarrow> 'tr \<Rightarrow> 'j signer_state
     \<Rightarrow> ('j signer_state, persist_error) outcome" where
  "persister_new_tracker c tracker_json node_id tracker s =
     new_chain_tracker (\<lambda>n. hex_encode c n) (pk_serialize c node_id) (tracker_json tracker) s"

definition persister_update_tracker ::
  "('pk, 'cid) persist_codec \<Rightarrow> ('tr \<Rightarrow> 'j) \<Rightarrow> 'pk \<Rightarrow> 'tr \<Rightarrow> 'j signer_state
     \<Rightarrow> ('j signer_state, persist_error) outcome" where
  "persister_update_tracker c tracker_json node_id tracker s =
     (let key = prefixed TRACKER_PREFIX (node_hex c node_id) in
      case state_get s key of
        None \<Rightarrow> Panic
      | Some v \<Rightarrow> Ok (state_put key (fst v + 1, tracker_json tracker) s))"

text \<open>\<open>into_tracker\<close> rebuilds the tracker and its listeners from the stored entry.\<close>

definition persister_get_tracker ::
  "('pk, 'cid) persist_codec \<Rightarrow> ('j \<Rightarrow> 'te option) \<Rightarrow> ('te \<Rightarrow> 'pk \<Rightarrow> 'tr) \<Rightarrow> 'pk \<Rightarrow> 'j signer_state
     \<Rightarrow> ('tr, persist_error) outcome" where
  "persister_get_tracker c from_value into_tracker node_id s =
     obind (unwrap (state_get s (prefixed TRACKER_PREFIX (node_hex c node_id)))) (\<lambda>v.
     omap (\<lambda>te. into_tracker te node_id) (unwrap (from_value (snd v))))"

definition persister_get_node_channels ::
  "('pk, 'cid) persist_codec \<Rightarrow> ('j \<Rightarrow> 'c option) \<Rightarrow> 'pk \<Rightarrow> 'j signer_state
     \<Rightarrow> (('cid \<times> 'c) list, persist_error) outcome" where
  "persister_get_node_channels c from_value node_id s =
     get_node_channels (hex_encode c) (hex_decode c) (channel_id_of c) from_value
       (pk_serialize c node_id) s"

definition update_node_allowlist ::
  "('pk, 'cid) persist_codec \<Rightarrow> (string list \<Rightarrow> 'j) \<Rightarrow> 'pk \<Rightarrow> string list \<Rightarrow> 'j signer_state
     \<Rightarrow> ('j signer_state, persist_error) outcome" where
  "update_node_allowlist c list_json node_id allowlist s =
     (let key = prefixed ALLOWLIST_PREFIX (node_hex c node_id) in
      case state_get s key of
        Some v \<Rightarrow> Ok (state_put key (fst v + 1, list_json allowlist) s)
      | None \<Rightarrow> Ok (state_put key (0, list_json allowlist) s))"

text \<open>The allowlist stored under a key; absent or unreadable lists are empty.\<close>

definition stored_allowlist :: "('j \<Rightarrow> string list option) \<Rightarrow> string \<Rightarrow> 'j signer_state \<Rightarrow> string list" where
  "stored_allowlist from_value key s =
     (case state_get s key of
        Some v \<Rightarrow> (case from_value (snd v) of Some l \<Rightarrow> l | None \<Rightarrow> [])
      | None \<Rightarrow> [])"

definition get_node_allowlist ::
  "('pk, 'cid) persist_codec \<Rightarrow> ('j \<Rightarrow> string list option) \<Rightarrow> 'pk \<Rightarrow> 'j signer_state
     \<Rightarrow> (string list, persist_error) outcome" where
  "get_node_allowlist c from_value node_id s =
     Ok (stored_allowlist from_value (prefixed ALLOWLIST_PREFIX (node_hex c node_id)) s)"

text \<open>
  What \<open>get_nodes\<close> needs of VLS and serde: readers of the stored JSON, the network and
  allowlist parsers, and \<open>NodeState::restore\<close> (the parsed state and the allowlist).
\<close>

record ('j, 'ns, 'net, 'al, 'core) node_reader =
  read_node :: "'j \<Rightarrow> node_entry option"
  read_state :: "'j \<Rightarrow> 'ns option"
  read_allowlist :: "'j \<Rightarrow> string list option"
  parse_network :: "string \<Rightarrow> (('net, string) outcome)"
  parse_allowable :: "string \<Rightarrow> 'net \<Rightarrow> 'al option"
  restore_state :: "'ns \<Rightarrow> 'al list \<Rightarrow> 'core"

record 'core restored_node =
  rn_key_derivation_style :: u8
  rn_network :: string
  rn_state :: 'core

definition load_node ::
  "('pk, 'cid) persist_codec \<Rightarrow> ('j, 'ns, 'net, 'al, 'core) node_reader \<Rightarrow> 'j signer_state \<Rightarrow> string
     \<Rightarrow> ('pk \<times> 'core restored_node, persist_error) outcome" where
  "load_node c r s node_id =
     obind (unwrap (state_get s (prefixed NODE_PREFIX node_id))) (\<lambda>nv.
     obind (unwrap (read_node r (snd nv))) (\<lambda>node.
     obind (unwrap (state_get s (prefixed NODE_STATE_PREFIX node_id))) (\<lambda>sv.
     obind (unwrap (read_state r (snd sv))) (\<lambda>state_e.
     let allowlist_strings = stored_allowlist (read_allowlist r) (prefixed ALLOWLIST_PREFIX node_id) s in
     obind (omap_err (\<lambda>e. Internal (''Invalid network: '' @ e)) (parse_network r (network node))) (\<lambda>net.
     let allowlist = List.map_filter (\<lambda>a. parse_allowable r a net) allowlist_strings;
         entry = \<lparr>rn_key_derivation_style = key_derivation_style node, rn_network = network node,
                  rn_state = restore_state r state_e allowlist\<rparr> in
     obind (unwrap (hex_decode c node_id)) (\<lambda>key.
     omap (\<lambda>pk. (pk, entry)) (unwrap (pk_from_slice c key))))))))"

fun load_nodes ::
  "('pk, 'cid) persist_codec \<Rightarrow> ('j, 'ns, 'net, 'al, 'core) node_reader \<Rightarrow> 'j signer_state \<Rightarrow> string list
     \<Rightarrow> (('pk \<times> 'core restored_node) list, persist_error) outcome" where
  "load_nodes c r s [] = Ok []"
| "load_nodes c r s (node_id # rest) =
     obind (load_node c r s node_id) (\<lambda>n. omap (\<lambda>res. n # res) (load_nodes c r s rest))"

definition stored_node_ids :: "'j signer_state \<Rightarrow> string list" where
  "stored_node_ids s =
     map (\<lambda>k. last (split_on (CHR ''/'') k))
       (filter (\<lambda>k. hd (split_on (CHR ''/'') k) = NODE_PREFIX) (map fst (state_values s)))"

definition get_nodes ::
  "('pk, 'cid) persist_codec \<Rightarrow> ('j, 'ns, 'net, 'al, 'core) node_reader \<Rightarrow> 'j signer_state
     \<Rightarrow> (('pk \<times> 'core restored_node) list, persist_error) outcome" where
  "get_nodes c r s = load_nodes c r s (stored_node_ids s)"

definition clear_database :: "'j signer_state \<Rightarrow> ('j signer_state, persist_error) outcome" where
  "clear_database s = state_clear s"

definition signer_id :: bytes where
  "signer_id = replicate 16 0"

subsection \<open>Lookups and the invariant\<close>

text \<open>A \<open>BTreeMap\<close> holds each key once, in order.\<close>

definition state_ok :: "'j signer_state \<Rightarrow> bool" where
  "state_ok s = bt_sorted (state_values s)"

lemma state_get_put [omap_simps]:
  "state_ok s \<Longrightarrow> state_get (state_put k v s) k' = (if k' = k then Some v else state_get s k')"
  by (simp add: state_get_def state_put_def state_ok_def omap_simps)

lemma state_ok_put [simp]: "state_ok s \<Longrightarrow> state_ok (state_put k v s)"
  by (simp add: state_ok_def state_put_def)

lemma state_ok_new [simp]: "state_ok state_new"
  by (simp add: state_ok_def state_new_def)

lemma state_get_new [omap_simps]: "state_get state_new k = None"
  by (simp add: state_get_def state_new_def omap_simps)

lemma state_eqI:
  "state_ok a \<Longrightarrow> state_ok b \<Longrightarrow> (\<And>k. state_get a k = state_get b k) \<Longrightarrow> a = b"
  by (cases a; cases b) (auto simp: state_ok_def state_get_def intro: bt_eqI)

lemma bt_get_not_in: "k \<notin> fst ` set m \<Longrightarrow> bt_get m k = None"
  by (simp add: bt_get_def map_of_eq_None_iff)

lemma bt_sorted_ConsE:
  assumes "bt_sorted ((k, v) # m)"
  obtains "bt_sorted m" "bt_get m k = None" "\<forall>x \<in> fst ` set m. k < x"
  using assms by (force simp: bt_sorted_def intro!: that bt_get_not_in)

lemma merge_loop_get:
  assumes "bt_sorted es" "state_ok s"
  shows "state_ok (fst (merge_loop es s res)) \<and>
         state_get (fst (merge_loop es s res)) k = vjoin (state_get s k) (bt_get es k)"
  using assms
proof (induction es s res rule: merge_loop.induct)
  case (1 s res)
  then show ?case by (simp add: omap_simps)
next
  case (2 key newver newval rest s res)
  from "2.prems"(1) have r: "bt_sorted rest" "bt_get rest key = None"
    by (auto elim: bt_sorted_ConsE)
  show ?case
  proof (cases "state_get s key")
    case None
    then show ?thesis
      using 2 r by (cases "k = key") (auto simp: omap_simps)
  next
    case (Some v)
    consider "fst v = newver" | "fst v > newver" | "fst v < newver"
      by (metis linorder_less_linear)
    then show ?thesis
    proof cases
      case 1
      then show ?thesis using 2 r Some by (cases "k = key") (auto simp: omap_simps)
    next
      case 2
      then have "fst v \<noteq> newver" "\<not> fst v < newver" by auto
      then show ?thesis using "2.IH"(3) "2.prems" r Some \<open>fst v > newver\<close>
        by (cases "k = key") (auto simp: omap_simps)
    next
      case 3
      then have "fst v \<noteq> newver" "\<not> fst v > newver" by auto
      then show ?thesis using "2.IH"(4) "2.prems" r Some \<open>fst v < newver\<close>
        by (cases "k = key") (auto simp: omap_simps)
    qed
  qed
qed

lemma state_ok_merge [simp]: "state_ok a \<Longrightarrow> state_ok b \<Longrightarrow> state_ok (fst (merge a b))"
  using merge_loop_get [of "state_values b" a] by (simp add: merge_def state_ok_def)

lemma state_get_merge:
  "state_ok a \<Longrightarrow> state_ok b \<Longrightarrow>
     state_get (fst (merge a b)) k = vjoin (state_get a k) (state_get b k)"
  using merge_loop_get [of "state_values b" a "[]" k]
  by (simp add: merge_def state_ok_def state_get_def)

interpretation vs: versioned_store "\<lambda>a b. fst (merge a b)" state_get state_ok
  by unfold_locales (auto simp: state_get_merge intro: state_eqI)

subsection \<open>Writes\<close>

text \<open>
  One write of the persister, other than the deletions: what VLS may do to the state between
  two synchronisations. Conversions to JSON have been applied.
\<close>

inductive state_write :: "('pk, 'cid) persist_codec \<Rightarrow> 'j signer_state \<Rightarrow> 'j signer_state \<Rightarrow> bool"
  for c :: "('pk, 'cid) persist_codec" where
  sw_new_node: "insert_node (node_hex c n) j1 j2 s = Ok s' \<Longrightarrow> state_write c s s'"
| sw_update_node: "persister_update_node c (\<lambda>x. x) n j s = Ok s' \<Longrightarrow> state_write c s s'"
| sw_new_channel: "insert_channel (channel_hex c n ch) j s = Ok s' \<Longrightarrow> state_write c s s'"
| sw_update_channel: "update_channel (channel_hex c n ch) j s = Ok s' \<Longrightarrow> state_write c s s'"
| sw_new_tracker: "persister_new_tracker c (\<lambda>x. x) n j s = Ok s' \<Longrightarrow> state_write c s s'"
| sw_update_tracker: "persister_update_tracker c (\<lambda>x. x) n j s = Ok s' \<Longrightarrow> state_write c s s'"
| sw_allowlist: "update_node_allowlist c (\<lambda>_. j) n l s = Ok s' \<Longrightarrow> state_write c s s'"

lemmas write_defs =
  insert_node_def persister_update_node_def update_node_def insert_channel_def update_channel_def
  persister_new_tracker_def new_chain_tracker_def persister_update_tracker_def
  update_node_allowlist_def Let_def

text \<open>A write puts one or two entries, each absent before or one version up, under prefixed keys.\<close>

inductive puts :: "'j signer_state \<Rightarrow> 'j signer_state \<Rightarrow> bool" where
  put_fresh: "state_get s (prefixed p k) = None \<Longrightarrow> puts s (state_put (prefixed p k) (0, j) s)"
| put_bump: "state_get s (prefixed p k) = Some v \<Longrightarrow> puts s (state_put (prefixed p k) (fst v + 1, j) s)"
| put_two: "state_get s (prefixed NODE_PREFIX k) = None \<Longrightarrow> state_get s (prefixed NODE_STATE_PREFIX k) = None
     \<Longrightarrow> puts s (state_put (prefixed NODE_STATE_PREFIX k) (0, j2)
                  (state_put (prefixed NODE_PREFIX k) (0, j1) s))"

lemma write_puts: "state_write c s s' \<Longrightarrow> puts s s'"
  by (induction rule: state_write.induct)
    (auto simp: write_defs simp del: not_None_eq split: if_splits option.splits intro: puts.intros)

lemma node_keys_differ [simp]: "prefixed NODE_STATE_PREFIX k \<noteq> prefixed NODE_PREFIX k'"
  by (simp add: prefixed_def prefix_defs)

lemma puts_ok: "puts s s' \<Longrightarrow> state_ok s \<Longrightarrow> state_ok s'"
  by (induction rule: puts.induct) simp_all

text \<open>
  All the persister does for VLS: a write, a deletion, or the clearing of the database. Along
  a sequence of such steps the entries are collected that were deleted, and those whose version
  has run over, from \<open>2 ^ 64 - 1\<close> to 0.
\<close>

inductive persist_step :: "('pk, 'cid) persist_codec \<Rightarrow> 'j signer_state \<Rightarrow> 'j signer_state \<Rightarrow> bool"
  for c :: "('pk, 'cid) persist_codec" where
  ps_write: "state_write c s s' \<Longrightarrow> persist_step c s s'"
| ps_delete_node: "persister_delete_node c n s = Ok s' \<Longrightarrow> persist_step c s s'"
| ps_delete_channel: "persister_delete_channel c n ch s = Ok s' \<Longrightarrow> persist_step c s s'"
| ps_clear: "clear_database s = Ok s' \<Longrightarrow> persist_step c s s'"

definition dropped :: "'j signer_state \<Rightarrow> 'j signer_state \<Rightarrow> string set" where
  "dropped s s' = {k. \<exists>v. state_get s k = Some v \<and>
     (state_get s' k = None \<or> (fst v = - 1 \<and> map_option fst (state_get s' k) = Some 0))}"

inductive session :: "('pk, 'cid) persist_codec \<Rightarrow> 'j signer_state \<Rightarrow> 'j signer_state \<Rightarrow> string set \<Rightarrow> bool"
  for c :: "('pk, 'cid) persist_codec" where
  session_start: "session c s s {}"
| session_step: "session c s s' lost \<Longrightarrow> persist_step c s' s'' \<Longrightarrow> session c s s'' (lost \<union> dropped s' s'')"

lemma bump_grows: "v \<noteq> (- 1 :: u64) \<Longrightarrow> v < v + 1"
  using unatSuc [of v] by (simp add: word_less_nat_alt eq_neg_iff_add_eq_0 add.commute [of 1])

lemma puts_get:
  "puts s s' \<Longrightarrow> state_ok s \<Longrightarrow> k \<notin> dropped s s' \<Longrightarrow> vle (state_get s k) (state_get s' k)"
  by (induction rule: puts.induct) (auto simp: omap_simps dropped_def bump_grows)

lemma get_of_remove:
  "state_get (s\<lparr>state_values := bt_remove k (state_values s)\<rparr>) k' = (if k' = k then None else state_get s k')"
  by (simp add: state_get_def bt_get_remove)

lemma dropped_iff:
  "k \<notin> dropped s s' \<Longrightarrow> state_get s' k \<in> {None, state_get s k} \<Longrightarrow> vle (state_get s k) (state_get s' k)"
  by (cases "state_get s k") (auto simp: dropped_def)

lemma persist_step_ok:
  assumes "persist_step c s s'" "state_ok s"
  shows "state_ok s' \<and> (k \<notin> dropped s s' \<longrightarrow> vle (state_get s k) (state_get s' k))"
  using assms
proof (induction rule: persist_step.induct)
  case (ps_write s s')
  then show ?case using write_puts puts_ok puts_get by blast
next
  case (ps_delete_node n s s')
  then show ?case
    by (intro conjI impI dropped_iff)
      (auto simp: persister_delete_node_def delete_node_def state_ok_def state_get_def omap_simps bt_get_remove)
next
  case (ps_delete_channel n ch s s')
  then show ?case
    by (intro conjI impI dropped_iff)
      (auto simp: persister_delete_channel_def delete_channel_def state_ok_def get_of_remove)
next
  case (ps_clear s s')
  then show ?case
    by (intro conjI impI dropped_iff)
      (auto simp: clear_database_def state_clear_def state_ok_def state_get_def omap_simps bt_sorted_def)
qed

text \<open>Where nothing was lost, a session makes no entry older.\<close>

lemma session_ok:
  assumes "session c s s' lost" "state_ok s"
  shows "state_ok s' \<and> (k \<notin> lost \<longrightarrow> vle (state_get s k) (state_get s' k))"
  using assms
proof (induction rule: session.induct)
  case (session_step s s' lost s'')
  then show ?case using persist_step_ok [of c s' s'' k] vle_trans by blast
qed simp

text \<open>Every key of the state is prefixed, so none equals a bare hex string.\<close>

definition keys_prefixed :: "'j signer_state \<Rightarrow> bool" where
  "keys_prefixed s = (\<forall>k. state_get s k \<noteq> None \<longrightarrow> CHR ''/'' \<in> set k)"

lemma puts_keys_prefixed: "puts s s' \<Longrightarrow> state_ok s \<Longrightarrow> keys_prefixed s \<Longrightarrow> keys_prefixed s'"
  by (induction rule: puts.induct) (auto simp: keys_prefixed_def omap_simps prefixed_def split: if_splits)

lemma writes_keys_prefixed:
  "(state_write c)\<^sup>*\<^sup>* s s' \<Longrightarrow> state_ok s \<Longrightarrow> keys_prefixed s \<Longrightarrow> state_ok s' \<and> keys_prefixed s'"
proof (induction rule: rtranclp_induct)
  case (step y z)
  then show ?case using puts_ok puts_keys_prefixed write_puts by blast
qed simp

lemma delete_channel_bare:
  assumes "keys_prefixed s" "CHR ''/'' \<notin> set k" "state_ok s"
  shows "delete_channel k s = s"
proof (rule state_eqI)
  show "state_ok (delete_channel k s)" using assms by (simp add: state_ok_def delete_channel_def)
  have "state_get s k = None" using assms(1,2) by (cases "state_get s k") (auto simp: keys_prefixed_def)
  then show "state_get (delete_channel k s) k' = state_get s k'" for k'
    by (simp add: state_get_def delete_channel_def bt_get_remove)
qed (rule assms)

subsection \<open>The change report and the wire form\<close>

definition change_versions :: "'j state_change \<Rightarrow> merge_change" where
  "change_versions d = (change_key d, map_option fst (change_old d), fst (change_new d))"

lemma merge_loop_changes:
  assumes "bt_sorted es" "state_ok s"
  shows "snd (merge_loop es s res) = res @ map change_versions (diff s \<lparr>state_values = es\<rparr>)"
  using assms
proof (induction es s res rule: merge_loop.induct)
  case (1 s res)
  then show ?case by (simp add: diff_def)
next
  case (2 key newver newval rest s res)
  from "2.prems"(1) have r: "bt_sorted rest" "\<forall>x \<in> fst ` set rest. key < x"
    by (auto elim: bt_sorted_ConsE)
  have put: "diff (state_put key v s) \<lparr>state_values = rest\<rparr> = diff s \<lparr>state_values = rest\<rparr>" for v
  proof -
    have "state_get (state_put key v s) k = state_get s k" if "k \<in> fst ` set rest" for k
      using that r(2) "2.prems"(2) by (auto simp: omap_simps)
    then show ?thesis
      unfolding diff_def by (intro arg_cong [where f = "filter _"] map_cong) force+
  qed
  consider "state_get s key = None" | v where "state_get s key = Some v" "fst v = newver"
    | v where "state_get s key = Some v" "fst v \<noteq> newver" "fst v > newver"
    | v where "state_get s key = Some v" "fst v \<noteq> newver" "\<not> fst v > newver" "fst v < newver"
    by (metis linorder_less_linear less_asym option.exhaust)
  then show ?case
    using "2.IH" r(1) "2.prems"(2) put
    by cases (simp_all add: diff_def change_versions_def)
qed

lemma bt_insert_last: "\<forall>x \<in> fst ` set m. x < k \<Longrightarrow> bt_insert k v m = m @ [(k, v)]"
  by (induction k v m rule: bt_insert.induct) auto

lemma insert_entries_sorted:
  assumes "\<And>j. from_slice (to_vec j) = Some j" "bt_sorted (m @ es)"
  shows "insert_entries from_slice (state_to_entries to_vec \<lparr>state_values = es\<rparr>) m = Ok (m @ es)"
  using assms(2)
proof (induction es arbitrary: m)
  case Nil
  then show ?case by (simp add: state_to_entries_def)
next
  case (Cons e es)
  obtain k v j where e: "e = (k, v, j)" by (cases e)
  from Cons.prems have "\<forall>x \<in> fst ` set m. x < k"
    by (auto simp: bt_sorted_def sorted_wrt_append e)
  then have "bt_insert k (v, j) m = m @ [e]" by (simp add: bt_insert_last e)
  moreover have "bt_sorted ((m @ [e]) @ es)" using Cons.prems by simp
  ultimately show ?case using Cons.IH [of "m @ [e]"] assms(1)
    by (simp add: e state_to_entries_def)
qed

text \<open>A session and the merge of its result, at one key.\<close>

lemma session_synchronises_at:
  assumes "state_ok node" "state_ok signer" "state_ok node'"
    and "session c (fst (merge signer node)) signer' lost"
  shows "let after = fst (merge node' signer'); back = fst (merge signer' after) in
    map_option fst (state_get after k) = max (map_option fst (state_get node' k)) (map_option fst (state_get signer' k)) \<and>
    map_option fst (state_get back k) = map_option fst (state_get after k) \<and>
    (state_get back k = state_get after k \<or> \<not> vcoherent (state_get node' k) (state_get signer' k)) \<and>
    (state_get node' k = state_get node k \<and> k \<notin> lost \<longrightarrow>
       state_get after k = state_get signer' k \<or>
       \<not> vcoherent (state_get node k) (state_get signer k) \<and>
       state_get signer' k = state_get signer k \<and> state_get after k = state_get node k)"
proof -
  have w: "state_ok signer'" "k \<notin> lost \<longrightarrow> vle (state_get (fst (merge signer node)) k) (state_get signer' k)"
    using session_ok [OF assms(4)] assms(1,2) by auto
  then have "state_get node' k = state_get node k \<and> k \<notin> lost \<longrightarrow>
       state_get (fst (merge node' signer')) k = state_get signer' k \<or>
       \<not> vcoherent (state_get node k) (state_get signer k) \<and>
       state_get signer' k = state_get signer k \<and> state_get (fst (merge node' signer')) k = state_get node k"
    using vs.exchange_lookup [OF assms(3) w(1), of signer k node] assms(1,2) by (simp add: state_get_merge)
  with vs.merge_version [OF assms(3) w(1)] vs.merge_both_ways [OF assms(3) w(1)] show ?thesis
    by (simp add: Let_def)
qed

section \<open>Properties\<close>

text \<open>
  Merging is total and pointwise. For every key the merged state holds the local entry
  unless the other state has a strictly higher version, the result is again a map with each
  key once, and the reported changes are exactly the version steps that \<open>diff\<close> lists,
  in key order.
\<close>

theorem merge_spec:
  assumes "state_ok s" "state_ok other"
  shows "state_ok (fst (merge s other)) \<and>
         (\<forall>k. state_get (fst (merge s other)) k = vjoin (state_get s k) (state_get other k)) \<and>
         snd (merge s other) = map change_versions (diff s other)"
  using assms merge_loop_changes [of "state_values other" s "[]"]
  by (simp add: state_get_merge) (simp add: merge_def state_ok_def diff_def)

definition demo_node :: "nat signer_state" where
  "demo_node = \<lparr>state_values = [(''channels/00'', (3, 30)), (''nodes/00'', (0, 1))]\<rparr>"

definition demo_signer :: "nat signer_state" where
  "demo_signer = \<lparr>state_values = [(''channels/00'', (2, 20)), (''trackers/00'', (5, 50))]\<rparr>"

lemma demo_ok: "state_ok demo_node" "state_ok demo_signer"
  by (simp_all add: state_ok_def bt_sorted_def demo_node_def demo_signer_def)

lemma merge_spec_witness:
  "state_ok (fst (merge demo_signer demo_node)) \<and>
   snd (merge demo_signer demo_node) = [(''channels/00'', Some 2, 3), (''nodes/00'', None, 0)]"
proof -
  have "map change_versions (diff demo_signer demo_node) =
      [(''channels/00'', Some 2, 3), (''nodes/00'', None, 0)]"
    by (simp add: diff_def change_versions_def demo_node_def demo_signer_def state_get_def bt_get_def)
  then show ?thesis using merge_spec [OF demo_ok(2,1)] by simp
qed

text \<open>
  Updates may arrive in any order. Merging a collection of pairwise coherent states (one
  value per version of a key) into a state gives the same state whatever the order.
\<close>

theorem merge_order_free:
  assumes "state_ok s" "\<forall>u \<in> set us. state_ok u" "mset us = mset us'"
    and "\<forall>u \<in> set us. \<forall>v \<in> set us. \<forall>k. vcoherent (state_get u k) (state_get v k)"
  shows "fold (\<lambda>u s. fst (merge s u)) us s = fold (\<lambda>u s. fst (merge s u)) us' s"
  using assms by (intro vs.merge_order_irrelevant) (auto simp: vs.coherent_def)

lemma merge_order_free_witness:
  "fold (\<lambda>u s. fst (merge s u)) [demo_node, demo_signer] state_new =
   fold (\<lambda>u s. fst (merge s u)) [demo_signer, demo_node] (state_new :: nat signer_state)"
proof (rule merge_order_free)
  show "\<forall>u \<in> set [demo_node, demo_signer]. state_ok u" by (simp add: demo_ok)
qed (auto simp: demo_node_def demo_signer_def state_get_def bt_get_def vcoherent.simps)

text \<open>
  C10: a session synchronises the node. The signer merges the node's state into its own, the
  persister performs any steps, and the node, whose state may have changed by other responses,
  merges the result. For every key the node then holds the higher of the two versions, and the
  signer holds the same version once it merges that back. At a key the node kept meanwhile and
  the persister did not delete or run over, the node holds the signer's entry; the only
  exception is a key for which both held different values under one version from the start, and
  which the session did not write: there both keep their own.
\<close>

theorem session_synchronises:
  assumes "state_ok node" "state_ok signer" "state_ok node'"
    and "session c (fst (merge signer node)) signer' lost"
  shows "let after = fst (merge node' signer'); back = fst (merge signer' after) in
    map_option fst (state_get after k) = max (map_option fst (state_get node' k)) (map_option fst (state_get signer' k)) \<and>
    map_option fst (state_get back k) = map_option fst (state_get after k) \<and>
    (state_get back k = state_get after k \<or> \<not> vcoherent (state_get node' k) (state_get signer' k)) \<and>
    (state_get node' k = state_get node k \<and> k \<notin> lost \<longrightarrow>
       state_get after k = state_get signer' k \<or>
       \<not> vcoherent (state_get node k) (state_get signer k) \<and>
       state_get signer' k = state_get signer k \<and> state_get after k = state_get node k)"
  using assms by (rule session_synchronises_at)

definition demo_codec :: "(bytes, bytes) persist_codec" where
  "demo_codec = \<lparr>hex_encode = (\<lambda>b. concat (map (\<lambda>x. if x = 0 then ''00'' else ''ff'') b)),
     hex_decode = (\<lambda>s. if s = ''00'' then Some [0] else if s = ''ff'' then Some [255] else None),
     pk_serialize = (\<lambda>b. b), pk_from_slice = Some, node_channel_id = (\<lambda>n c. n @ c),
     channel_id_of = (\<lambda>b. b)\<rparr>"

lemma session_synchronises_witness:
  "\<exists>signer'. session demo_codec (fst (merge demo_signer demo_node)) signer' {} \<and>
     state_get (fst (merge demo_node signer')) ''channels/00'' = Some (4, 31) \<and>
     map_option fst (state_get (fst (merge demo_node signer')) ''trackers/00'') = Some 5"
proof -
  let ?m = "fst (merge demo_signer demo_node)"
  have m: "?m = \<lparr>state_values = [(''channels/00'', (3, 30)), (''nodes/00'', (0, 1)), (''trackers/00'', (5, 50))]\<rparr>"
    by (simp add: merge_def demo_node_def demo_signer_def state_get_def state_put_def bt_get_def)
  define s' where "s' = state_put ''channels/00'' (4, 31) ?m"
  have s': "s' = \<lparr>state_values = [(''channels/00'', (4, 31)), (''nodes/00'', (0, 1)), (''trackers/00'', (5, 50))]\<rparr>"
    by (simp add: s'_def m state_put_def)
  have "update_channel (channel_hex demo_codec [0] []) 31 ?m = Ok s'"
    by (simp add: m s'_def update_channel_def channel_hex_def demo_codec_def prefixed_def
        prefix_defs state_get_def bt_get_def Let_def)
  then have "session demo_codec ?m s' ({} \<union> dropped ?m s')"
    by (intro session_step [OF session_start] ps_write) (rule sw_update_channel)
  moreover have "dropped ?m s' = {}"
    by (auto simp: dropped_def m s' state_get_def bt_get_def split: if_splits)
  ultimately have w: "session demo_codec ?m s' {}" by simp
  note all = session_synchronises [OF demo_ok demo_ok(1) w, unfolded Let_def]
  have "vcoherent (state_get demo_node ''channels/00'') (state_get demo_signer ''channels/00'')"
    "state_get s' ''channels/00'' = Some (4, 31)"
    by (simp_all add: demo_node_def demo_signer_def s' state_get_def bt_get_def)
  moreover have "state_get s' ''trackers/00'' = Some (5, 50)" "state_get demo_node ''trackers/00'' = None"
    by (simp_all add: demo_node_def s' state_get_def bt_get_def)
  ultimately show ?thesis
    using w all [of "''channels/00''"] all [of "''trackers/00''"] by auto
qed

text \<open>
  The wire form loses nothing. A state sent as \<open>SignerStateEntry\<close> messages and read back
  is the same state, when the JSON reader inverts the JSON writer.
\<close>

theorem entries_roundtrip:
  assumes "state_ok s" "\<forall>j. from_slice (to_vec j) = Some j"
  shows "state_from_entries from_slice (state_to_entries to_vec s) = Ok s"
  using insert_entries_sorted [of from_slice to_vec "[]" "state_values s"] assms
  by (simp add: state_from_entries_def state_ok_def state_to_entries_def)

lemma entries_roundtrip_witness:
  "state_from_entries (\<lambda>b. Some (length b)) (state_to_entries (\<lambda>n. replicate n 0) demo_node) = Ok demo_node"
  by (rule entries_roundtrip) (simp_all add: demo_ok)

text \<open>
  Deleting a channel deletes nothing. In a state the persister built, \<open>delete_channel\<close>
  looks for the bare hex key, while channels are stored under \<open>channels/\<close>: the state is
  unchanged, and the channel is still there to read.
\<close>

theorem persister_delete_channel_keeps_channel:
  assumes "(state_write c)\<^sup>*\<^sup>* state_new s" "\<forall>b. CHR ''/'' \<notin> set (hex_encode c b)"
  shows "persister_delete_channel c node_id channel s = Ok s"
proof -
  have "state_ok s" "keys_prefixed s"
    using writes_keys_prefixed [OF assms(1)] by (simp_all add: keys_prefixed_def omap_simps)
  then show ?thesis
    using assms(2) by (simp add: persister_delete_channel_def delete_channel_bare channel_hex_def)
qed

lemma persister_delete_channel_keeps_channel_witness:
  "\<exists>s. insert_channel (channel_hex demo_codec [0] []) (7 :: nat) state_new = Ok s \<and>
       (obind (persister_delete_channel demo_codec [0] [] s)
          (persister_get_channel demo_codec Some [0] [])) = Ok 7"
proof -
  define s where "s = state_put ''channels/00'' (0, 7 :: nat) state_new"
  have i: "insert_channel (channel_hex demo_codec [0] []) 7 state_new = Ok s"
    by (simp add: insert_channel_def s_def demo_codec_def channel_hex_def prefixed_def prefix_defs
        omap_simps Let_def)
  then have "(state_write demo_codec)\<^sup>*\<^sup>* state_new s" by (blast intro: sw_new_channel)
  moreover have "\<forall>b. CHR ''/'' \<notin> set (hex_encode demo_codec b)" by (auto simp: demo_codec_def)
  ultimately have "persister_delete_channel demo_codec [0] [] s = Ok s"
    by (rule persister_delete_channel_keeps_channel)
  with i show ?thesis
    by (auto simp: s_def persister_get_channel_def get_channel_def channel_hex_def demo_codec_def
        prefixed_def prefix_defs omap_simps)
qed

text \<open>
  A deleted node returns with the next merge. Deletion leaves no tombstone, so merging
  any replica that still has the node's entries restores both, and the whole former state
  when the replica is the state before the deletion.
\<close>

theorem delete_node_undone_by_merge:
  assumes "state_ok s" "delete_node key s = Ok s'"
  shows "state_get s' (prefixed NODE_PREFIX key) = None \<and>
         state_get s' (prefixed NODE_STATE_PREFIX key) = None \<and>
         fst (merge s' s) = s"
proof -
  have s': "state_get s' k = (if k = prefixed NODE_PREFIX key \<or> k = prefixed NODE_STATE_PREFIX key
       then None else state_get s k)" for k
    using assms(2) by (auto simp: delete_node_def state_get_def omap_simps)
  have "state_ok s'" using assms by (auto simp: delete_node_def state_ok_def)
  then have "fst (merge s' s) = s"
    using assms(1) by (intro state_eqI) (auto simp: state_get_merge s')
  then show ?thesis by (simp add: s')
qed

lemma delete_node_undone_by_merge_witness:
  "\<exists>s'. delete_node ''00'' demo_node = Ok s' \<and> s' \<noteq> demo_node \<and> fst (merge s' demo_node) = demo_node"
proof -
  obtain s' where s': "delete_node ''00'' demo_node = Ok s'" by (simp add: delete_node_def)
  have "state_get demo_node (prefixed NODE_PREFIX ''00'') \<noteq> None"
    by (simp add: demo_node_def state_get_def bt_get_def prefixed_def prefix_defs)
  with s' show ?thesis using delete_node_undone_by_merge [OF demo_ok(1) s'] by auto
qed

text \<open>
  A node that was created is found again. After \<open>new_node\<close> the node's id is among the
  stored ids and loading it gives back its key, derivation style, network and state, with
  the entries of its allowlist that parse.
\<close>

theorem new_node_is_loaded:
  assumes "state_ok s" "persister_new_node c node_json state_json n cfg st s = Ok s'"
    and "\<forall>e. read_node r (node_json e) = Some e" "\<forall>e. read_state r (state_json e) = Some e"
    and "hex_decode c (node_hex c n) = Some (pk_serialize c n)" "pk_from_slice c (pk_serialize c n) = Some n"
    and "CHR ''/'' \<notin> set (node_hex c n)" "parse_network r (snd cfg) = Ok net"
  shows "node_hex c n \<in> set (stored_node_ids s') \<and>
         load_node c r s' (node_hex c n) =
           Ok (n, \<lparr>rn_key_derivation_style = fst cfg, rn_network = snd cfg,
                    rn_state = restore_state r st (List.map_filter (\<lambda>a. parse_allowable r a net)
                      (stored_allowlist (read_allowlist r) (prefixed ALLOWLIST_PREFIX (node_hex c n)) s))\<rparr>)"
proof -
  let ?nk = "prefixed NODE_PREFIX (node_hex c n)" and ?sk = "prefixed NODE_STATE_PREFIX (node_hex c n)"
  let ?e = "\<lparr>key_derivation_style = fst cfg, network = snd cfg\<rparr>"
  have s': "s' = state_put ?sk (0, state_json st) (state_put ?nk (0, node_json ?e) s)"
    using assms(2) by (auto simp: persister_new_node_def insert_node_def Let_def split: if_splits)
  have n: "state_get s' ?nk = Some (0, node_json ?e)" "state_get s' ?sk = Some (0, state_json st)"
    using assms(1) by (simp_all add: s' omap_simps node_keys_differ [symmetric])
  have al: "state_get s' (prefixed ALLOWLIST_PREFIX k) = state_get s (prefixed ALLOWLIST_PREFIX k)" for k
    using assms(1) by (simp add: s' omap_simps prefixed_def prefix_defs)
  have "?nk \<in> fst ` set (state_values s')"
    using n(1) by (force simp: state_get_def bt_get_def dest: map_of_SomeD)
  moreover have "split_on (CHR ''/'') ?nk = [NODE_PREFIX, node_hex c n]"
    using assms(7) by (simp add: prefixed_def split_on_append split_on_no_sep prefix_defs)
  ultimately have "node_hex c n \<in> set (stored_node_ids s')"
    by (force simp: stored_node_ids_def)
  moreover have "load_node c r s' (node_hex c n) =
      Ok (n, \<lparr>rn_key_derivation_style = fst cfg, rn_network = snd cfg,
                    rn_state = restore_state r st (List.map_filter (\<lambda>a. parse_allowable r a net)
                      (stored_allowlist (read_allowlist r) (prefixed ALLOWLIST_PREFIX (node_hex c n)) s))\<rparr>)"
    using assms(3-6,8) by (simp add: load_node_def n stored_allowlist_def al Let_def)
  ultimately show ?thesis by blast
qed

definition demo_reader :: "(string \<times> nat, nat, string, string, nat \<times> string list) node_reader" where
  "demo_reader = \<lparr>read_node = (\<lambda>j. Some \<lparr>key_derivation_style = word_of_nat (snd j), network = fst j\<rparr>),
     read_state = (\<lambda>j. Some (snd j)), read_allowlist = (\<lambda>_. None), parse_network = Ok,
     parse_allowable = (\<lambda>a _. Some a), restore_state = Pair\<rparr>"

lemma new_node_is_loaded_witness:
  "\<exists>s'. persister_new_node demo_codec (\<lambda>e. (network e, unat (key_derivation_style e))) (\<lambda>n. ([], n))
          [0] (1, ''bitcoin'') (5 :: nat) state_new = Ok s' \<and>
        load_node demo_codec demo_reader s' ''00'' =
          Ok ([0], \<lparr>rn_key_derivation_style = 1, rn_network = ''bitcoin'', rn_state = (5, [])\<rparr>)"
proof -
  let ?new = "persister_new_node demo_codec (\<lambda>e. (network e, unat (key_derivation_style e))) (\<lambda>n. ([], n))
          [0] (1, ''bitcoin'') (5 :: nat) state_new"
  obtain s' where s': "?new = Ok s'"
    by (simp add: persister_new_node_def insert_node_def Let_def omap_simps)
  have h: "node_hex demo_codec [0] = ''00''" by (simp add: node_hex_def demo_codec_def)
  have "load_node demo_codec demo_reader s' (node_hex demo_codec [0]) =
          Ok ([0], \<lparr>rn_key_derivation_style = 1, rn_network = ''bitcoin'', rn_state = (5, [])\<rparr>)"
    using new_node_is_loaded [OF state_ok_new s', of demo_reader "''bitcoin''"]
    by (simp add: node_hex_def demo_reader_def demo_codec_def stored_allowlist_def omap_simps map_filter_simps)
  with s' h show ?thesis by simp
qed

end
