(* ===== verification/SignerProcess.thy ===== *)
theory SignerProcess
  imports SignerAuth Persist
begin

text \<open>
  The signer's handling of a signature request and its loops
  (\<open>libs/gl-client/src/signer/mod.rs\<close>): \<open>process_request\<close> merges the node's state,
  authenticates and resolves, updates the allowlist and the invoices, runs VLS, and returns
  its state; \<open>run_once\<close>, \<open>run_once_scheduler\<close>, \<open>init_scheduler\<close> and
  \<open>run_forever_inner\<close> are the loops around it; the startup messages and extended keys are
  what it publishes. VLS is a record of functions that act on the persisted state; time and
  network are the sequence of events a loop is given.
\<close>

subsection \<open>Messages between node and signer\<close>

record hsm_request_context =
  hrc_node_id :: bytes
  hrc_dbid :: u64
  hrc_capabilities :: u64

record hsm_request =
  hr_request_id :: u32
  hr_context :: "hsm_request_context option"
  hr_raw :: bytes
  hr_signer_state :: "signer_state_entry list"
  hr_requests :: "pending_request list"

record hsm_response =
  hres_request_id :: u32
  hres_raw :: bytes
  hres_signer_state :: "signer_state_entry list"
  hres_error :: string

record signer_rejection =
  rej_msg :: string
  rej_request :: hsm_request

text \<open>
  What surrounds the signer: the persister's codec, JSON in both directions, the protobuf
  decoders, cryptography and runes, and VLS. \<open>build_handler\<close> builds and initialises a root
  handler with an approver that has memoised the approvals, over a base approver; a handler
  acts on the persisted state it shares with the signer. \<open>env_permissive\<close> says whether the
  crate is built with its feature \<open>permissive\<close>, which is a default feature of
  \<open>gl-client/Cargo.toml\<close>: the parts under \<open>cfg(feature = "permissive")\<close> depend on it.
\<close>

datatype base_approver = PositiveApprover | NegativeApprover

record ('pk, 'cid, 'j, 'r, 'm, 'b, 'inv, 'h) signer_env =
  env_codec :: "('pk, 'cid) persist_codec"
  env_from_slice :: "bytes \<Rightarrow> 'j option"
  env_to_vec :: "'j \<Rightarrow> bytes"
  env_list_json :: "string list \<Rightarrow> 'j"
  env_proto :: "'m proto"
  env_crypto :: crypto
  env_lib :: "'r rune_lib"
  env_from_vec :: "bytes \<Rightarrow> ('b message, string) outcome"
  env_ser :: "'b message \<Rightarrow> bytes"
  env_show_error :: "'m signer_error \<Rightarrow> string"
  env_parse_invoice :: "string \<Rightarrow> ('inv, string) outcome"
  env_permissive :: bool
  env_build_handler ::
    "base_approver \<Rightarrow> 'inv approval list \<Rightarrow> 'j signer_state \<Rightarrow> 'j signer_state \<times> ('h, string) outcome"
  env_add_invoice :: "'h \<Rightarrow> 'inv \<Rightarrow> 'j signer_state \<Rightarrow> 'j signer_state"
  env_handle_root :: "'h \<Rightarrow> 'b message \<Rightarrow> 'j signer_state \<Rightarrow> 'j signer_state \<times> (bytes, string) outcome"
  env_handle_client ::
    "'h \<Rightarrow> bytes \<Rightarrow> u64 \<Rightarrow> 'b message \<Rightarrow> 'j signer_state \<Rightarrow> 'j signer_state \<times> (bytes, string) outcome"

subsection \<open>\<open>process_request\<close>\<close>

text \<open>A raw message of type 23 (\<open>sign-message\<close>); shorter messages have no type.\<close>

definition is_sign_message :: "bytes \<Rightarrow> bool" where
  "is_sign_message raw =
     (case raw of
        h # l # _ \<Rightarrow> (or (push_bit 8 (ucast h :: u16)) (ucast l)) = 23
      | _ \<Rightarrow> False)"

definition authenticate_request ::
  "('b message \<Rightarrow> bytes) \<Rightarrow> 'b message \<Rightarrow> 'm request list \<Rightarrow> (unit, 'm signer_error) outcome" where
  "authenticate_request ser msg reqs = try_resolve ser msg reqs"

text \<open>Each \<open>GlConfig\<close> among the context requests replaces the allowlist of this node.\<close>

definition allow_close_to ::
  "('pk, 'cid, 'j, 'r, 'm, 'b, 'inv, 'h) signer_env \<Rightarrow> 'r signer \<Rightarrow> 'm request
     \<Rightarrow> 'j signer_state \<Rightarrow> 'j signer_state" where
  "allow_close_to E signer request st =
     (case request of
        ReqGlConfig cfg \<Rightarrow>
          (case pk_from_slice (env_codec E) (signer_node_id signer) of
             Some p \<Rightarrow>
               (case update_node_allowlist (env_codec E) (env_list_json E) p [close_to_addr cfg] st of
                  Ok st' \<Rightarrow> st'
                | _ \<Rightarrow> st)
           | None \<Rightarrow> st)
      | _ \<Rightarrow> st)"

definition update_state_from_request ::
  "(string \<Rightarrow> ('inv, string) outcome) \<Rightarrow> ('inv \<Rightarrow> 'j signer_state \<Rightarrow> 'j signer_state) \<Rightarrow> 'm request
     \<Rightarrow> 'j signer_state \<Rightarrow> 'j signer_state" where
  "update_state_from_request parse_invoice add_inv request st =
     (case request of
        ReqSendPay req \<Rightarrow>
          (case spr_bolt11 req of
             Some bolt11 \<Rightarrow>
               (case parse_invoice bolt11 of Ok invoice \<Rightarrow> add_inv invoice st | _ \<Rightarrow> st)
           | None \<Rightarrow> st)
      | _ \<Rightarrow> st)"

definition update_state_from_context ::
  "(string \<Rightarrow> ('inv, string) outcome) \<Rightarrow> ('inv \<Rightarrow> 'j signer_state \<Rightarrow> 'j signer_state) \<Rightarrow> 'm request list
     \<Rightarrow> 'j signer_state \<Rightarrow> 'j signer_state" where
  "update_state_from_context parse_invoice add_inv requests st =
     fold (update_state_from_request parse_invoice add_inv) requests st"

text \<open>The handler call: the root handler for \<open>lightningd\<close> itself, else one for the peer.\<close>

definition handle_message ::
  "('pk, 'cid, 'j, 'r, 'm, 'b, 'inv, 'h) signer_env \<Rightarrow> 'h \<Rightarrow> hsm_request \<Rightarrow> 'b message
     \<Rightarrow> 'j signer_state \<Rightarrow> 'j signer_state \<times> (bytes, string) outcome + 'm signer_error" where
  "handle_message E h req msg st =
     (case hr_context req of
        None \<Rightarrow> Inl (env_handle_root E h msg st)
      | Some c \<Rightarrow>
          if hrc_dbid c = 0 then Inl (env_handle_root E h msg st)
          else if length (hrc_node_id c) \<noteq> 33 then
            Inr (OtherError ''Invalid node_id length in context'')
          else Inl (env_handle_client E h (hrc_node_id c) (hrc_dbid c) msg st))"

text \<open>
  After the resolution: allowlist, approvals, handler, state update, message, response. The
  result is the new state, the rejections reported, and the response or error.
\<close>

definition answer_request ::
  "('pk, 'cid, 'j, 'r, 'm, 'b, 'inv, 'h) signer_env \<Rightarrow> 'r signer \<Rightarrow> hsm_request \<Rightarrow> 'm request list
     \<Rightarrow> 'b message \<Rightarrow> 'j signer_state
     \<Rightarrow> 'j signer_state \<times> signer_rejection list \<times> (hsm_response, 'm signer_error) outcome" where
  "answer_request E signer req ctxrequests msg st =
     (let st = fold (allow_close_to E signer) ctxrequests st in
      case authorize (env_parse_invoice E) ctxrequests of
        Panic \<Rightarrow> (st, [], Panic)
      | Err (IllegalArgument e) \<Rightarrow> (st, [], Err (AuthError e))
      | Ok approvals \<Rightarrow>
          (case env_build_handler E (if env_permissive E then PositiveApprover else NegativeApprover) approvals st of
             (st, Panic) \<Rightarrow> (st, [], Panic)
           | (st, Err e) \<Rightarrow> (st, [], Err (OtherError (''Could not create handler: '' @ e)))
           | (st, Ok h) \<Rightarrow>
               let st = update_state_from_context (env_parse_invoice E) (env_add_invoice E h) ctxrequests st in
               (case handle_message E h req msg st of
                  Inr e \<Rightarrow> (st, [], Err e)
                | Inl (st, Panic) \<Rightarrow> (st, [], Panic)
                | Inl (st, Err e) \<Rightarrow>
                    (st, [\<lparr>rej_msg = e, rej_request = req\<rparr>], Err (OtherError (''processing request: '' @ e)))
                | Inl (st, Ok response) \<Rightarrow>
                    (st, [], Ok \<lparr>hres_request_id = hr_request_id req, hres_raw = response,
                       hres_signer_state = state_to_entries (env_to_vec E) st, hres_error = []\<rparr>))))"

text \<open>
  A request that does not resolve is reported. Without \<open>permissive\<close> it is refused there; with
  it, the \<open>return\<close> is compiled out and the request is processed like any other.
\<close>

definition process_request ::
  "('pk, 'cid, 'j, 'r, 'm, 'b, 'inv, 'h) signer_env \<Rightarrow> 'r signer \<Rightarrow> hsm_request \<Rightarrow> 'j signer_state
     \<Rightarrow> 'j signer_state \<times> signer_rejection list \<times> (hsm_response, 'm signer_error) outcome" where
  "process_request E signer req st =
     (case state_from_entries (env_from_slice E) (hr_signer_state req) of
        Ok incoming \<Rightarrow>
          let st = fst (merge st incoming) in
          if is_sign_message (hr_raw req) then
            (st, [], Err (OtherError ''Cannot process sign-message requests from node.''))
          else
          (case context_requests (env_crypto E) (env_lib E) signer (env_proto E) (hr_requests req) of
             Ok ctxrequests \<Rightarrow>
               (case env_from_vec E (hr_raw req) of
                  Panic \<Rightarrow> (st, [], Panic)
                | Err e \<Rightarrow> (st, [], Err (Protocol e))
                | Ok msg \<Rightarrow>
                    (case authenticate_request (env_ser E) msg ctxrequests of
                       Panic \<Rightarrow> (st, [], Panic)
                     | Err e \<Rightarrow>
                         let report = \<lparr>rej_msg = env_show_error E e, rej_request = req\<rparr> in
                         if env_permissive E then
                           (case answer_request E signer req ctxrequests msg st of
                              (st', rejs, r) \<Rightarrow> (st', report # rejs, r))
                         else (st, [report], Err (ResolverError (hr_raw req) ctxrequests))
                     | Ok _ \<Rightarrow> answer_request E signer req ctxrequests msg st))
           | _ \<Rightarrow> (st, [], Panic))
      | _ \<Rightarrow> (st, [], Panic))"

subsection \<open>\<open>run_once\<close>\<close>

text \<open>
  What the stream of the node yields: a request, its end, or an error. \<open>respond n\<close> says
  whether sending the \<open>n\<close>-th response succeeds. A loop that has consumed the events it was
  given without leaving is \<open>Streaming\<close>.
\<close>

datatype stream_event = Incoming hsm_request | StreamEnd | StreamError string

datatype ('a, 'e) loop_result = Left "('a, 'e) outcome" | Streaming

record 'j run_state =
  rs_state :: "'j signer_state"
  rs_sent :: "hsm_response list"
  rs_rejections :: "signer_rejection list"

definition error_response :: "string \<Rightarrow> u32 \<Rightarrow> hsm_response" where
  "error_response e request_id =
     \<lparr>hres_request_id = request_id, hres_raw = [], hres_signer_state = [], hres_error = e\<rparr>"

fun run_once_loop ::
  "('pk, 'cid, 'j, 'r, 'm, 'b, 'inv, 'h) signer_env \<Rightarrow> 'r signer \<Rightarrow> (nat \<Rightarrow> bool) \<Rightarrow> stream_event list
     \<Rightarrow> 'j run_state \<Rightarrow> 'j run_state \<times> (unit, 'm signer_error) loop_result" where
  "run_once_loop E signer respond [] s = (s, Streaming)"
| "run_once_loop E signer respond (StreamEnd # evs) s = (s, Left (Ok ()))"
| "run_once_loop E signer respond (StreamError e # evs) s = (s, Left (Err (NodeDisconnect e)))"
| "run_once_loop E signer respond (Incoming req # evs) s =
     (case process_request E signer req (rs_state s) of
        (st, rejs, Panic) \<Rightarrow>
          (s\<lparr>rs_state := st, rs_rejections := rs_rejections s @ rejs\<rparr>, Left Panic)
      | (st, rejs, Ok response) \<Rightarrow>
          let s' = s\<lparr>rs_state := st, rs_rejections := rs_rejections s @ rejs\<rparr> in
          if respond (length (rs_sent s)) then
            run_once_loop E signer respond evs (s'\<lparr>rs_sent := rs_sent s @ [response]\<rparr>)
          else (s', Left (Err (NodeDisconnect ''respond'')))
      | (st, rejs, Err e) \<Rightarrow>
          let report = \<lparr>rej_msg = ''Error in run_once loop: '' @ env_show_error E e, rej_request = req\<rparr>;
              s' = s\<lparr>rs_state := st, rs_rejections := rs_rejections s @ rejs @ [report]\<rparr>;
              response = error_response (env_show_error E e) (hr_request_id req) in
          if respond (length (rs_sent s)) then
            run_once_loop E signer respond evs (s'\<lparr>rs_sent := rs_sent s @ [response]\<rparr>)
          else (s', Left (Err (NodeDisconnect ''respond''))))"

definition run_once ::
  "('pk, 'cid, 'j, 'r, 'm, 'b, 'inv, 'h) signer_env \<Rightarrow> 'r signer \<Rightarrow> (nat \<Rightarrow> bool) \<Rightarrow> stream_event list
     \<Rightarrow> 'j signer_state \<Rightarrow> 'j run_state \<times> (unit, 'm signer_error) loop_result" where
  "run_once E signer respond evs st =
     run_once_loop E signer respond evs \<lparr>rs_state = st, rs_sent = [], rs_rejections = []\<rparr>"

subsection \<open>Start-up messages and extended keys\<close>

record startup_message =
  sum_request :: bytes
  sum_response :: bytes

text \<open>
  The secrets \<open>lightningd\<close> derives when it starts. \<open>derive\<close> builds the \<open>DeriveSecret\<close>
  message for a label, \<open>handle\<close> runs a message through a fresh handler (its failures are
  unwrapped), \<open>init_request\<close> and \<open>init_response\<close> are the serialised init exchange.
\<close>

definition derive_labels :: "string list" where
  "derive_labels =
     [''bolt12-invoice-base'', ''scb secret'', ''commando'', ''node-alias-base'', ''offer-blinded-path'']"

fun handle_each ::
  "('v \<Rightarrow> (bytes, string) outcome) \<Rightarrow> 'v list \<Rightarrow> (bytes list, string) outcome" where
  "handle_each handle [] = Ok []"
| "handle_each handle (r # rs) =
     obind (unwrap_result (handle r)) (\<lambda>b. omap (\<lambda>bs. b # bs) (handle_each handle rs))"

definition get_startup_messages ::
  "('v \<Rightarrow> (bytes, string) outcome) \<Rightarrow> (bytes \<Rightarrow> 'v) \<Rightarrow> ('v \<Rightarrow> bytes) \<Rightarrow> bytes
     \<Rightarrow> (bytes option, string) outcome \<Rightarrow> (startup_message list, string) outcome" where
  "get_startup_messages handle derive ser init_request init_response =
     obind (unwrap_result init_response) (\<lambda>r.
     let init = \<lparr>sum_request = init_request, sum_response = (case r of Some b \<Rightarrow> b | None \<Rightarrow> [])\<rparr>;
         requests = map (\<lambda>l. derive (as_bytes l)) derive_labels;
         serialized = map ser requests in
     omap (\<lambda>responses. init # map (\<lambda>(q, a). \<lparr>sum_request = q, sum_response = a\<rparr>) (zip serialized responses))
       (handle_each handle requests))"

text \<open>The init replies that carry the extended key, as VLS parses them.\<close>

datatype init_reply =
    HsmdInit2Reply bytes | HsmdInitReplyV4 bytes | HsmdInitReplyV2 bytes | OtherInitReply bytes

definition bip32_ext_key ::
  "(bytes \<Rightarrow> (init_reply, string) outcome) \<Rightarrow> 'r signer \<Rightarrow> (bytes, string) outcome" where
  "bip32_ext_key parse_init signer =
     omap (\<lambda>m. case m of
                  HsmdInit2Reply k \<Rightarrow> k
                | HsmdInitReplyV4 k \<Rightarrow> k
                | HsmdInitReplyV2 k \<Rightarrow> k
                | OtherInitReply _ \<Rightarrow> [])
       (unwrap_result (parse_init (signer_init signer)))"

text \<open>\<open>legacy_response\<close> is the handler's answer to an init request of version 1 to 2.\<close>

definition legacy_bip32_ext_key ::
  "(unit, string) outcome \<Rightarrow> (bytes option, string) outcome \<Rightarrow> bytes" where
  "legacy_bip32_ext_key init_handler legacy_response =
     (case init_handler of
        Ok _ \<Rightarrow>
          (case legacy_response of
             Ok r \<Rightarrow>
               let initmsg = (case r of Some b \<Rightarrow> b | None \<Rightarrow> []) in
               if length initmsg \<le> 35 then [] else drop 35 initmsg
           | _ \<Rightarrow> [])
      | _ \<Rightarrow> [])"

subsection \<open>The loops around a session\<close>

text \<open>
  \<open>init_scheduler\<close>: the results of the successive \<open>maybe_upgrade\<close> calls. An unavailable
  scheduler is tried again (after three seconds), every other error is returned.
\<close>

datatype status_code = Unavailable | OtherCode nat

fun init_scheduler ::
  "(string, status_code) outcome list \<Rightarrow> nat \<Rightarrow> nat \<times> (unit, status_code) loop_result" where
  "init_scheduler [] slept = (slept, Streaming)"
| "init_scheduler (Err Unavailable # rs) slept = init_scheduler rs (slept + 3)"
| "init_scheduler (Err (OtherCode c) # rs) slept = (slept, Left (Err (OtherCode c)))"
| "init_scheduler (Ok old_version # rs) slept = (slept, Left (Ok ()))"
| "init_scheduler (Panic # rs) slept = (slept, Left Panic)"

text \<open>
  \<open>run_forever_inner\<close>: the answers of \<open>get_node_info\<close>, each with the events of the session
  it may start. Errors and empty URIs are retried after a second, a session that ends is
  followed by the next call; only a URI that does not parse ends the loop. The result lists
  the URIs connected to and what the sessions did.
\<close>

fun run_forever_inner ::
  "('pk, 'cid, 'j, 'r, 'm, 'b, 'inv, 'h) signer_env \<Rightarrow> 'r signer \<Rightarrow> (string \<Rightarrow> bool)
     \<Rightarrow> ((string, string) outcome \<times> (nat \<Rightarrow> bool) \<times> stream_event list) list \<Rightarrow> 'j signer_state
     \<Rightarrow> (string \<times> hsm_response list) list \<Rightarrow> 'j signer_state \<times> (string \<times> hsm_response list) list \<times> (unit, string) loop_result" where
  "run_forever_inner E signer valid_uri [] st done_sessions = (st, done_sessions, Streaming)"
| "run_forever_inner E signer valid_uri ((Ok grpc_uri, respond, evs) # rest) st done_sessions =
     (if grpc_uri = [] then run_forever_inner E signer valid_uri rest st done_sessions
      else if \<not> valid_uri grpc_uri then (st, done_sessions, Left (Err ''invalid uri''))
      else
      (case run_once E signer respond evs st of
         (s, Left Panic) \<Rightarrow> (rs_state s, done_sessions @ [(grpc_uri, rs_sent s)], Left Panic)
       | (s, _) \<Rightarrow>
           run_forever_inner E signer valid_uri rest (rs_state s)
             (done_sessions @ [(grpc_uri, rs_sent s)])))"
| "run_forever_inner E signer valid_uri ((Err e, respond, evs) # rest) st done_sessions =
     run_forever_inner E signer valid_uri rest st done_sessions"
| "run_forever_inner E signer valid_uri ((Panic, respond, evs) # rest) st done_sessions =
     (st, done_sessions, Left Panic)"

text \<open>
  \<open>run_once_scheduler\<close>: pairing approvals that arrive on the scheduler's stream. A failed
  approval is dropped, an empty message is ignored, the end of the stream is an error.
\<close>

datatype scheduler_event =
    ApprovePairing u32 approve_pairing_request | EmptyRequest u32 | SchedulerClosed | SchedulerFailed string

fun run_once_scheduler ::
  "crypto \<Rightarrow> 'r rune_lib \<Rightarrow> 'r signer \<Rightarrow> scheduler_event list \<Rightarrow> approve_pairing_response list
     \<Rightarrow> approve_pairing_response list \<times> (unit, string) loop_result" where
  "run_once_scheduler cr lib signer [] sent = (sent, Streaming)"
| "run_once_scheduler cr lib signer (ApprovePairing req_id req # evs) sent =
     (case process_pairing_approval cr lib signer req_id req of
        Ok response \<Rightarrow> run_once_scheduler cr lib signer evs (sent @ [response])
      | Err _ \<Rightarrow> run_once_scheduler cr lib signer evs sent
      | Panic \<Rightarrow> (sent, Left Panic))"
| "run_once_scheduler cr lib signer (EmptyRequest req_id # evs) sent =
     run_once_scheduler cr lib signer evs sent"
| "run_once_scheduler cr lib signer (SchedulerClosed # evs) sent =
     (sent, Left (Err ''Scheduler closed the stream''))"
| "run_once_scheduler cr lib signer (SchedulerFailed e # evs) sent =
     (sent, Left (Err (''Scheduler stream error '' @ e)))"

subsection \<open>Lemmas\<close>

lemma all_less_16:
  "(\<forall>n<16. P (n :: nat)) \<longleftrightarrow>
     P 0 \<and> P 1 \<and> P 2 \<and> P 3 \<and> P 4 \<and> P 5 \<and> P 6 \<and> P 7 \<and>
     P 8 \<and> P 9 \<and> P 10 \<and> P 11 \<and> P 12 \<and> P 13 \<and> P 14 \<and> P 15"
  by (simp add: numeral_eq_Suc All_less_Suc conj_ac)

lemma u16_eq_iff: "(a :: u16) = b \<longleftrightarrow> (\<forall>n<16. bit a n \<longleftrightarrow> bit b n)"
  by (auto intro: bit_word_eqI)

lemma u8_eq_iff: "(a :: u8) = b \<longleftrightarrow> (\<forall>n<16. bit a n \<longleftrightarrow> bit b n)"
  by (auto intro: bit_word_eqI)

lemma u8_high_bits: "8 \<le> n \<Longrightarrow> \<not> bit (l :: u8) n"
  using bit_imp_le_length [of l n] by auto

lemma message_type_23:
  "or (push_bit 8 (ucast (h :: u8) :: u16)) (ucast (l :: u8)) = 23 \<longleftrightarrow> h = 0 \<and> l = 23"
  unfolding u16_eq_iff u8_eq_iff all_less_16
  by (simp add: bit_simps u8_high_bits) blast

lemma is_sign_message_iff: "is_sign_message raw \<longleftrightarrow> (\<exists>rest. raw = 0 # 23 # rest)"
  by (auto simp: is_sign_message_def message_type_23 split: list.splits)

lemmas process_splits = outcome.splits prod.splits sum.splits if_splits gl_error.splits

text \<open>The response of a request that is answered.\<close>

lemma answer_request_Ok:
  "answer_request E signer req ctx msg st = (st', rejs, Ok resp) \<Longrightarrow>
     hres_request_id resp = hr_request_id req \<and> hres_error resp = [] \<and> rejs = [] \<and>
     hres_signer_state resp = state_to_entries (env_to_vec E) st'"
  by (auto simp: answer_request_def Let_def split: process_splits)

text \<open>What must hold for \<open>process_request\<close> to answer.\<close>

lemma process_request_Ok:
  assumes "process_request E signer req st = (st', rejs, Ok resp)"
  obtains incoming msg ctx where
    "state_from_entries (env_from_slice E) (hr_signer_state req) = Ok incoming"
    "\<not> is_sign_message (hr_raw req)"
    "context_requests (env_crypto E) (env_lib E) signer (env_proto E) (hr_requests req) = Ok ctx"
    "env_from_vec E (hr_raw req) = Ok msg"
    "answer_request E signer req ctx msg (fst (merge st incoming)) = (st', [], Ok resp)"
    "try_resolve (env_ser E) msg ctx = Ok () \<and> rejs = [] \<or>
     env_permissive E \<and> (\<exists>e. try_resolve (env_ser E) msg ctx = Err e \<and>
       rejs = [\<lparr>rej_msg = env_show_error E e, rej_request = req\<rparr>])"
proof -
  from assms obtain incoming msg ctx rs where
    *: "state_from_entries (env_from_slice E) (hr_signer_state req) = Ok incoming"
    "\<not> is_sign_message (hr_raw req)"
    "context_requests (env_crypto E) (env_lib E) signer (env_proto E) (hr_requests req) = Ok ctx"
    "env_from_vec E (hr_raw req) = Ok msg"
    and a: "answer_request E signer req ctx msg (fst (merge st incoming)) = (st', rs, Ok resp)"
    and r: "try_resolve (env_ser E) msg ctx = Ok () \<and> rejs = rs \<or>
     env_permissive E \<and> (\<exists>e. try_resolve (env_ser E) msg ctx = Err e \<and>
       rejs = \<lparr>rej_msg = env_show_error E e, rej_request = req\<rparr> # rs)"
    by (auto simp: process_request_def authenticate_request_def Let_def split: process_splits)
  have "rs = []" using answer_request_Ok [OF a] by simp
  with * a r show ?thesis by (intro that) auto
qed

text \<open>The requests of the client that were authenticated and decoded, beside a message.\<close>

definition justified_by ::
  "('pk, 'cid, 'j, 'r, 'm, 'b, 'inv, 'h) signer_env \<Rightarrow> 'r signer \<Rightarrow> pending_request list \<Rightarrow> 'm request \<Rightarrow> bool" where
  "justified_by E signer pending q \<longleftrightarrow>
     (\<exists>r \<in> set pending. authenticated (env_crypto E) (env_lib E) signer r \<and>
        decode_request (env_proto E) r = Ok q)"

lemma context_justified:
  "context_requests (env_crypto E) (env_lib E) signer (env_proto E) pending = Ok ctx \<Longrightarrow>
     q \<in> set ctx \<longleftrightarrow> justified_by E signer pending q"
  unfolding justified_by_def by (rule context_requests_Ok)

subsection \<open>Sessions\<close>

text \<open>The ids of the requests before the stream ends.\<close>

fun incoming_ids :: "stream_event list \<Rightarrow> u32 list" where
  "incoming_ids (Incoming req # evs) = hr_request_id req # incoming_ids evs"
| "incoming_ids _ = []"

lemma process_request_id:
  "process_request E signer req st = (st', rejs, Ok resp) \<Longrightarrow> hres_request_id resp = hr_request_id req"
  by (erule process_request_Ok) (simp add: answer_request_Ok)

section \<open>Properties\<close>

text \<open>
  C1: the signer only answers what its client justifies, or reports it. If a request of the
  node is answered, its message is not a \<open>sign-message\<close> and parses. A message is justified
  when its kind needs no justification, or one of the attached client requests, with a valid
  signature and an acceptable rune, decodes to a request that matches it. An answered message
  is justified and nothing is reported, or it is not, the crate is built with \<open>permissive\<close>
  (its default), and exactly this request is reported with the error of the resolver. The
  answer carries the id of the request and the signer's whole state.
\<close>

theorem answered_only_if_justified:
  assumes "process_request E signer req st = (st', rejs, Ok resp)"
  shows "(\<nexists>rest. hr_raw req = 0 # 23 # rest) \<and>
    (\<exists>msg ctx. env_from_vec E (hr_raw req) = Ok msg \<and>
       (\<forall>q. q \<in> set ctx \<longleftrightarrow> justified_by E signer (hr_requests req) q) \<and>
       (if resolves_alone msg \<or> (\<exists>q. justified_by E signer (hr_requests req) q \<and> resolves_with msg q)
        then rejs = []
        else env_permissive E \<and>
          rejs = [\<lparr>rej_msg = env_show_error E (ResolverError (env_ser E msg) ctx), rej_request = req\<rparr>])) \<and>
    hres_request_id resp = hr_request_id req \<and>
    hres_signer_state resp = state_to_entries (env_to_vec E) st'"
proof -
  from assms obtain incoming msg ctx where *: "\<not> is_sign_message (hr_raw req)"
    "context_requests (env_crypto E) (env_lib E) signer (env_proto E) (hr_requests req) = Ok ctx"
    "env_from_vec E (hr_raw req) = Ok msg"
    "answer_request E signer req ctx msg (fst (merge st incoming)) = (st', [], Ok resp)"
    and r: "try_resolve (env_ser E) msg ctx = Ok () \<and> rejs = [] \<or>
     env_permissive E \<and> (\<exists>e. try_resolve (env_ser E) msg ctx = Err e \<and>
       rejs = [\<lparr>rej_msg = env_show_error E e, rej_request = req\<rparr>])"
    by (rule process_request_Ok)
  let ?j = "resolves_alone msg \<or> (\<exists>q. justified_by E signer (hr_requests req) q \<and> resolves_with msg q)"
  have "if ?j then rejs = []
        else env_permissive E \<and>
          rejs = [\<lparr>rej_msg = env_show_error E (ResolverError (env_ser E msg) ctx), rej_request = req\<rparr>]"
    using r context_justified [OF *(2)] by (auto simp: try_resolve_def find_resolution_iff split: if_splits)
  with * answer_request_Ok [OF *(4)] context_justified [OF *(2)] show ?thesis
    by (auto simp: is_sign_message_iff)
qed

text \<open>
  C2: no payment without the client, or a report of it. If the node asks for the approval of
  an invoice and is answered, then the client signed a \<open>Pay\<close>, \<open>PreApproveInvoice\<close> or
  \<open>TrampolinePay\<close> request, under an acceptable rune, for exactly this invoice string; or the
  crate is built with \<open>permissive\<close> and the request is reported. In a build without
  \<open>permissive\<close> only the first remains.
\<close>

theorem preapproval_needs_client_payment:
  assumes "process_request E signer req st = (st', rejs, Ok resp)"
    and "env_from_vec E (hr_raw req) = Ok (MsgPreapproveInvoice m)"
  shows "rejs = [] \<and> (\<exists>bolt11. invstring m = as_bytes bolt11 \<and>
     ((\<exists>p. pay_bolt11 p = bolt11 \<and> justified_by E signer (hr_requests req) (ReqPay p)) \<or>
      (\<exists>p. pai_bolt11 p = bolt11 \<and> justified_by E signer (hr_requests req) (ReqPreApproveInvoice p)) \<or>
      (\<exists>p. tp_bolt11 p = bolt11 \<and> justified_by E signer (hr_requests req) (ReqTrampolinePay p)))) \<or>
    env_permissive E \<and> map rej_request rejs = [req]"
proof -
  from assms(1) obtain incoming msg ctx where
    c: "context_requests (env_crypto E) (env_lib E) signer (env_proto E) (hr_requests req) = Ok ctx"
    and m: "env_from_vec E (hr_raw req) = Ok msg"
    and r: "try_resolve (env_ser E) msg ctx = Ok () \<and> rejs = [] \<or>
     env_permissive E \<and> (\<exists>e. try_resolve (env_ser E) msg ctx = Err e \<and>
       rejs = [\<lparr>rej_msg = env_show_error E e, rej_request = req\<rparr>])"
    by (rule process_request_Ok)
  have msg: "msg = MsgPreapproveInvoice m" using assms(2) m by simp
  from r show ?thesis
  proof
    assume ok: "try_resolve (env_ser E) msg ctx = Ok () \<and> rejs = []"
    then obtain q where "q \<in> set ctx" "resolves_with msg q"
      by (auto simp: try_resolve_Ok msg)
    with ok show ?thesis unfolding msg
      using context_justified [OF c] by (auto simp: resolves_with_preapprove)
  qed auto
qed

text \<open>
  C8: a request that is not justified is reported, and refused by a build that is not
  permissive. When the resolution fails, a rejection with the message and the context is
  reported first. Without \<open>permissive\<close> VLS is not called, the only change of the state is the
  merge with what the node sent, and the node is sent an error without content. With
  \<open>permissive\<close> the request is answered like any other, on an approver that refuses nothing.
\<close>

theorem unjustified_request_rejected:
  assumes "state_from_entries (env_from_slice E) (hr_signer_state req) = Ok incoming"
    and "\<not> is_sign_message (hr_raw req)"
    and "context_requests (env_crypto E) (env_lib E) signer (env_proto E) (hr_requests req) = Ok ctx"
    and "env_from_vec E (hr_raw req) = Ok msg"
    and "\<not> resolves_alone msg" "\<forall>q. justified_by E signer (hr_requests req) q \<longrightarrow> \<not> resolves_with msg q"
  shows "let merged = fst (merge st incoming);
             report = \<lparr>rej_msg = env_show_error E (ResolverError (env_ser E msg) ctx), rej_request = req\<rparr>;
             error = ResolverError (hr_raw req) ctx in
    if env_permissive E then
      process_request E signer req st =
        (case answer_request E signer req ctx msg merged of (st', rejs, r) \<Rightarrow> (st', report # rejs, r))
    else
      process_request E signer req st = (merged, [report], Err error) \<and>
      run_once_loop E signer (\<lambda>_. True) [Incoming req] \<lparr>rs_state = st, rs_sent = sent, rs_rejections = old\<rparr> =
        (\<lparr>rs_state = merged, rs_sent = sent @ [error_response (env_show_error E error) (hr_request_id req)],
          rs_rejections = old @ [report, \<lparr>rej_msg = ''Error in run_once loop: '' @ env_show_error E error,
            rej_request = req\<rparr>]\<rparr>, Streaming)"
proof -
  have "\<not> find_resolution msg ctx"
    using assms(6) context_justified [OF assms(3)] by (auto simp: find_resolution_iff)
  then show ?thesis
    using assms(1-5) by (simp add: process_request_def authenticate_request_def try_resolve_def Let_def)
qed

text \<open>A concrete surrounding: a VLS that echoes the message of type 0 and stores nothing.\<close>

definition demo_env ::
  "(bytes, bytes, nat, restriction list, bytes, unit, string, unit) signer_env" where
  "demo_env = \<lparr>env_codec = demo_codec, env_from_slice = (\<lambda>b. Some (length b)),
     env_to_vec = (\<lambda>n. replicate n 0), env_list_json = length, env_proto = demo_proto,
     env_crypto = demo_crypto, env_lib = demo_lib,
     env_from_vec = (\<lambda>b. if take 2 b = [0, 38] then Ok (MsgPreapproveInvoice \<lparr>invstring = drop 2 b\<rparr>)
                         else Ok (MsgPing ())),
     env_ser = (\<lambda>_. []), env_show_error = (\<lambda>_. ''error''), env_parse_invoice = Ok,
     env_permissive = False, env_build_handler = (\<lambda>_ _ st. (st, Ok ())), env_add_invoice = (\<lambda>_ _ st. st),
     env_handle_root = (\<lambda>_ _ st. (st, Ok [1])),
     env_handle_client = (\<lambda>_ _ _ _ st. (st, Ok [2]))\<rparr>"

text \<open>The node asks to approve the invoice the client pays in \<open>demo_pay\<close>.\<close>

definition demo_preapprove :: hsm_request where
  "demo_preapprove = \<lparr>hr_request_id = 9, hr_context = None, hr_raw = [0, 38] @ as_bytes ''i'',
     hr_signer_state = [], hr_requests = [demo_pay]\<rparr>"

lemma demo_context:
  "context_requests demo_crypto demo_lib demo_signer_id demo_proto [demo_pay] =
     Ok [ReqPay \<lparr>pay_bolt11 = ''i''\<rparr>]"
proof -
  have "check_request_auth demo_crypto demo_lib demo_signer_id [demo_pay] = [Ok demo_pay]"
    using demo_pay_authenticated
    by (simp add: check_request_auth_def check_one_request_def authenticated_def)
  then show ?thesis
    by (simp add: context_requests_def ok_values_def map_filter_simps demo_pay_decodes)
qed

lemma demo_preapprove_answered:
  "process_request demo_env demo_signer_id demo_preapprove state_new =
     (state_new, [], Ok \<lparr>hres_request_id = 9, hres_raw = [1], hres_signer_state = [], hres_error = []\<rparr>)"
proof -
  show ?thesis
    using demo_context
    by (simp add: process_request_def state_from_entries_def demo_preapprove_def is_sign_message_iff
        demo_env_def authenticate_request_def try_resolve_def resolves_with_def Let_def merge_def answer_request_def
        allow_close_to_def authorize_def update_state_from_context_def update_state_from_request_def
        handle_message_def state_to_entries_def state_new_def)
qed

lemma answered_only_if_justified_witness:
  "\<exists>resp. process_request demo_env demo_signer_id demo_preapprove state_new = (state_new, [], Ok resp) \<and>
     hres_request_id resp = 9 \<and>
     (\<exists>q. justified_by demo_env demo_signer_id [demo_pay] q)"
proof -
  let ?j = "\<lambda>q. justified_by demo_env demo_signer_id (hr_requests demo_preapprove) q"
  from answered_only_if_justified [OF demo_preapprove_answered]
  obtain msg where "env_from_vec demo_env (hr_raw demo_preapprove) = Ok msg"
    "resolves_alone msg \<or> (\<exists>q. ?j q \<and> resolves_with msg q)"
    by (auto simp: demo_env_def split: if_splits)
  then have "\<exists>q. justified_by demo_env demo_signer_id [demo_pay] q"
    by (auto simp: demo_env_def demo_preapprove_def)
  then show ?thesis using demo_preapprove_answered by simp
qed

lemma preapproval_needs_client_payment_witness:
  "\<exists>bolt11. as_bytes ''i'' = as_bytes bolt11 \<and>
     ((\<exists>p. pay_bolt11 p = bolt11 \<and> justified_by demo_env demo_signer_id [demo_pay] (ReqPay p)) \<or>
      (\<exists>p. pai_bolt11 p = bolt11 \<and> justified_by demo_env demo_signer_id [demo_pay] (ReqPreApproveInvoice p)) \<or>
      (\<exists>p. tp_bolt11 p = bolt11 \<and> justified_by demo_env demo_signer_id [demo_pay] (ReqTrampolinePay p)))"
proof -
  have "env_from_vec demo_env (hr_raw demo_preapprove) = Ok (MsgPreapproveInvoice \<lparr>invstring = as_bytes ''i''\<rparr>)"
    by (simp add: demo_env_def demo_preapprove_def)
  from preapproval_needs_client_payment [OF demo_preapprove_answered this]
  show ?thesis by (simp add: demo_preapprove_def)
qed

lemma unjustified_request_rejected_witness:
  "\<forall>permissive. let req = demo_preapprove\<lparr>hr_requests := []\<rparr> in
     process_request (demo_env\<lparr>env_permissive := permissive\<rparr>) demo_signer_id req state_new =
       (state_new, [\<lparr>rej_msg = ''error'', rej_request = req\<rparr>],
        if permissive then Ok \<lparr>hres_request_id = 9, hres_raw = [1], hres_signer_state = [], hres_error = []\<rparr>
        else Err (ResolverError (hr_raw demo_preapprove) []))"
proof
  fix permissive
  let ?req = "demo_preapprove\<lparr>hr_requests := []\<rparr>" and ?E = "demo_env\<lparr>env_permissive := permissive\<rparr>"
  let ?msg = "MsgPreapproveInvoice \<lparr>invstring = as_bytes ''i''\<rparr> :: unit message"
  have in_state: "state_from_entries (env_from_slice ?E) (hr_signer_state ?req) = Ok state_new"
    by (simp add: demo_preapprove_def state_from_entries_def state_new_def)
  have sign: "\<not> is_sign_message (hr_raw ?req)"
    by (simp add: is_sign_message_iff demo_preapprove_def)
  have ctx: "context_requests (env_crypto ?E) (env_lib ?E) demo_signer_id (env_proto ?E) (hr_requests ?req) = Ok []"
    by (simp add: context_requests_def check_request_auth_def ok_values_def map_filter_simps)
  have msg: "env_from_vec ?E (hr_raw ?req) = Ok ?msg"
    by (simp add: demo_env_def demo_preapprove_def)
  have unjustified: "\<not> resolves_alone ?msg"
    "\<forall>q. justified_by ?E demo_signer_id (hr_requests ?req) q \<longrightarrow> \<not> resolves_with ?msg q"
    by (simp_all add: justified_by_def)
  from unjustified_request_rejected [OF in_state sign ctx msg unjustified, of state_new "[]" "[]"]
  show "let req = ?req in process_request ?E demo_signer_id req state_new =
       (state_new, [\<lparr>rej_msg = ''error'', rej_request = req\<rparr>],
        if permissive then Ok \<lparr>hres_request_id = 9, hres_raw = [1], hres_signer_state = [], hres_error = []\<rparr>
        else Err (ResolverError (hr_raw demo_preapprove) []))"
    by (simp add: merge_def Let_def demo_env_def answer_request_def authorize_def update_state_from_context_def
        handle_message_def state_to_entries_def state_new_def demo_preapprove_def split: if_splits)
qed

text \<open>The state of a response is read back as the signer's.\<close>

lemma response_state:
  assumes "process_request E signer req st = (st', rejs, Ok resp)" "state_ok st'"
    and "\<forall>j. env_from_slice E (env_to_vec E j) = Some j"
  shows "state_from_entries (env_from_slice E) (hres_signer_state resp) = Ok st'"
proof -
  have "hres_signer_state resp = state_to_entries (env_to_vec E) st'"
    using assms(1) by (rule process_request_Ok) (simp add: answer_request_Ok)
  then show ?thesis
    using insert_entries_sorted [of "env_from_slice E" "env_to_vec E" "[]" "state_values st'"] assms(2,3)
    by (simp add: state_from_entries_def state_ok_def state_to_entries_def)
qed

text \<open>
  C19: a session answers each request once and in order. The responses \<open>run_once\<close> has sent
  carry the ids of the first requests of the stream, errors included; when the loop is still
  streaming, or the stream has ended, every request has been answered.
\<close>

theorem run_once_answers_in_order:
  "run_once E signer respond evs st = (s, res) \<Longrightarrow>
     map hres_request_id (rs_sent s) = take (length (rs_sent s)) (incoming_ids evs) \<and>
     (res = Streaming \<or> res = Left (Ok ()) \<longrightarrow> length (rs_sent s) = length (incoming_ids evs))"
proof -
  have "run_once_loop E signer respond evs s0 = (s, res) \<Longrightarrow>
     (\<exists>new. rs_sent s = rs_sent s0 @ new \<and> map hres_request_id new = take (length new) (incoming_ids evs) \<and>
       (res = Streaming \<or> res = Left (Ok ()) \<longrightarrow> length new = length (incoming_ids evs)))" for s0
  proof (induction E signer respond evs s0 rule: run_once_loop.induct)
    case (4 E signer respond req evs s0)
    obtain st rejs r where p: "process_request E signer req (rs_state s0) = (st, rejs, r)"
      by (cases "process_request E signer req (rs_state s0)") auto
    have step: ?case
      if "run_once_loop E signer respond evs (x\<lparr>rs_sent := rs_sent s0 @ [resp]\<rparr>) = (s, res)"
        and "\<exists>new. rs_sent s = rs_sent (x\<lparr>rs_sent := rs_sent s0 @ [resp]\<rparr>) @ new \<and>
          map hres_request_id new = take (length new) (incoming_ids evs) \<and>
          (res = Streaming \<or> res = Left (Ok ()) \<longrightarrow> length new = length (incoming_ids evs))"
        and "hres_request_id resp = hr_request_id req" for x resp
    proof -
      from that(2) obtain new where "rs_sent s = rs_sent s0 @ resp # new"
        "map hres_request_id new = take (length new) (incoming_ids evs)"
        "res = Streaming \<or> res = Left (Ok ()) \<longrightarrow> length new = length (incoming_ids evs)"
        by auto
      then show ?thesis using that(3) by (intro exI [of _ "resp # new"]) simp
    qed
    show ?case
    proof (cases r)
      case (Ok resp)
      then have "hres_request_id resp = hr_request_id req" using p process_request_id by blast
      then show ?thesis
        using 4 p Ok step by (auto simp: Let_def split: if_splits)
    next
      case (Err e)
      then show ?thesis
        using 4 p step by (auto simp: Let_def error_response_def split: if_splits)
    next
      case Panic
      then show ?thesis using 4 p by auto
    qed
  qed auto
  then show "run_once E signer respond evs st = (s, res) \<Longrightarrow> ?thesis"
    unfolding run_once_def by fastforce
qed

lemma run_once_answers_in_order_witness:
  "\<exists>s. run_once demo_env demo_signer_id (\<lambda>_. True) [Incoming demo_preapprove, StreamEnd] state_new =
         (s, Left (Ok ())) \<and> map hres_request_id (rs_sent s) = [9]"
proof -
  obtain s where s: "run_once demo_env demo_signer_id (\<lambda>_. True) [Incoming demo_preapprove, StreamEnd] state_new =
      (s, Left (Ok ()))"
    by (simp add: run_once_def demo_preapprove_answered Let_def)
  from run_once_answers_in_order [OF s] have "map hres_request_id (rs_sent s) = [hr_request_id demo_preapprove]"
    by simp
  with s show ?thesis by (simp add: demo_preapprove_def)
qed

end
