(* ===== verification/Stager.thy ===== *)
theory Stager
  imports Prelude "HOL-Library.Multiset"
begin

text \<open>
  The stage between lightningd and the signers (\<open>libs/gl-plugin/src/stager.rs\<close>): requests
  are staged under their id and announced to every attached signer; the first response to an
  id takes the request out and goes to its requester. Channels of tokio are part of the
  state: a requester's channel is a number with the responses delivered to it, a signer's
  stream is its backlog and the announcements broadcast since it subscribed. The bodies of
  requests and responses are type parameters; the raw message of a request matters to
  \<open>is_stuck\<close> only.
\<close>

record 'q staged =
  st_request_id :: u32
  st_raw :: bytes
  st_body :: 'q
  st_response :: nat

record 'a hsm_reply =
  rp_request_id :: u32
  rp_body :: 'a

record 'q stage_stream =
  backlog :: "'q staged list"
  bcast :: "'q staged list"
  bcast_lagged :: bool

record ('q, 'a) stage =
  requests :: "(u32, 'q staged) bmap"
  streams :: "(nat, 'q stage_stream) bmap"
  inboxes :: "(nat, 'a hsm_reply list) bmap"
  closed :: "nat set"
  hsm_connections :: nat
  next_channel :: nat
  next_stream :: nat

definition stage_new :: "('q, 'a) stage" where
  "stage_new = \<lparr>requests = [], streams = [], inboxes = [], closed = {}, hsm_connections = 0,
                next_channel = 0, next_stream = 0\<rparr>"

text \<open>
  A broadcast channel keeps a bounded number of messages per receiver. One more drops the
  oldest, and the receiver's next read is an error.
\<close>

definition broadcast_capacity :: nat where "broadcast_capacity = 1024"

definition announce :: "'q staged \<Rightarrow> 'q stage_stream \<Rightarrow> 'q stage_stream" where
  "announce r s =
     (if length (bcast s) < broadcast_capacity then s\<lparr>bcast := bcast s @ [r]\<rparr>
      else s\<lparr>bcast := tl (bcast s) @ [r], bcast_lagged := True\<rparr>)"

definition stage_send :: "u32 \<Rightarrow> bytes \<Rightarrow> 'q \<Rightarrow> ('q, 'a) stage \<Rightarrow> nat \<times> ('q, 'a) stage" where
  "stage_send request_id raw body st =
     (let receiver = next_channel st;
          r = \<lparr>st_request_id = request_id, st_raw = raw, st_body = body, st_response = receiver\<rparr> in
      (receiver,
       st\<lparr>requests := bt_insert request_id r (requests st),
          streams := map (apsnd (announce r)) (streams st),
          inboxes := bt_insert receiver [] (inboxes st),
          next_channel := Suc receiver\<rparr>))"

text \<open>The order in which the hash map is iterated is an argument.\<close>

definition mystream :: "('q staged list \<Rightarrow> 'q staged list) \<Rightarrow> ('q, 'a) stage \<Rightarrow> nat \<times> ('q, 'a) stage" where
  "mystream order st =
     (next_stream st,
      st\<lparr>hsm_connections := hsm_connections st + 1,
         streams := bt_insert (next_stream st)
           \<lparr>backlog = order (map snd (requests st)), bcast = [], bcast_lagged = False\<rparr> (streams st),
         next_stream := Suc (next_stream st)\<rparr>)"

text \<open>
  A response for an unknown id is dropped. Otherwise the request is removed, and the response
  sent on its channel; that fails when the requester is gone.
\<close>

definition stage_respond :: "'a hsm_reply \<Rightarrow> ('q, 'a) stage \<Rightarrow> (unit, string) outcome \<times> ('q, 'a) stage" where
  "stage_respond response st =
     (case bt_get (requests st) (rp_request_id response) of
        None \<Rightarrow> (Ok (), st)
      | Some req \<Rightarrow>
          let st = st\<lparr>requests := bt_remove (rp_request_id response) (requests st)\<rparr> in
          if st_response req \<in> closed st then (Err ''Error sending request to requester'', st)
          else
          (Ok (), st\<lparr>inboxes := map (\<lambda>(c, b). (c, if c = st_response req then b @ [response] else b)) (inboxes st)\<rparr>))"

text \<open>The type of a message is in its first two bytes; a shorter one is a panic.\<close>

fun raw_type :: "bytes \<Rightarrow> (nat, 'e) outcome" where
  "raw_type (h # l # _) = Ok (unat h * 256 + unat l)"
| "raw_type _ = Panic"

fun sticky_requests :: "'q staged list \<Rightarrow> ('q staged list, 'e) outcome" where
  "sticky_requests [] = Ok []"
| "sticky_requests (r # rs) =
     obind (raw_type (st_raw r)) (\<lambda>t.
       omap (\<lambda>sticky. if t \<in> {5, 28} then r # sticky else sticky) (sticky_requests rs))"

definition is_stuck :: "('q, 'a) stage \<Rightarrow> (bool, 'e) outcome" where
  "is_stuck st = omap (\<lambda>sticky. length sticky \<noteq> 0) (sticky_requests (map snd (requests st)))"

text \<open>
  \<open>StageStream::next\<close>: the backlog first, then the broadcast. Waiting for a broadcast that
  has not come is \<open>None\<close>.
\<close>

definition stream_next :: "nat \<Rightarrow> ('q, 'a) stage \<Rightarrow> ('q staged, string) outcome option \<times> ('q, 'a) stage" where
  "stream_next i st =
     (case bt_get (streams st) i of
        None \<Rightarrow> (None, st)
      | Some s \<Rightarrow>
          (case backlog s of
             req # rest \<Rightarrow>
               (Some (Ok req), st\<lparr>streams := bt_insert i (s\<lparr>backlog := rest\<rparr>) (streams st)\<rparr>)
           | [] \<Rightarrow>
               if bcast_lagged s then
                 (Some (Err ''error waiting for more requests''),
                  st\<lparr>streams := bt_insert i (s\<lparr>bcast_lagged := False\<rparr>) (streams st)\<rparr>)
               else
               (case bcast s of
                  [] \<Rightarrow> (None, st)
                | r # rest \<Rightarrow>
                    (Some (Ok r), st\<lparr>streams := bt_insert i (s\<lparr>bcast := rest\<rparr>) (streams st)\<rparr>))))"

text \<open>\<open>Drop\<close> of a stream, and of a requester's receiver.\<close>

definition stream_drop :: "nat \<Rightarrow> ('q, 'a) stage \<Rightarrow> ('q, 'a) stage" where
  "stream_drop i st =
     st\<lparr>streams := bt_remove i (streams st), hsm_connections := hsm_connections st - 1\<rparr>"

definition receiver_drop :: "nat \<Rightarrow> ('q, 'a) stage \<Rightarrow> ('q, 'a) stage" where
  "receiver_drop c st = st\<lparr>closed := insert c (closed st)\<rparr>"

subsection \<open>Runs of the stage\<close>

datatype stage_label = Send | Open | Respond | Next nat | DropStream nat | Close

inductive stage_step :: "stage_label \<Rightarrow> ('q, 'a) stage \<Rightarrow> ('q, 'a) stage \<Rightarrow> bool" where
  step_send: "stage_step Send st (snd (stage_send i raw b st))"
| step_open: "mset (order (map snd (requests st))) = mset (map snd (requests st)) \<Longrightarrow>
     stage_step Open st (snd (mystream order st))"
| step_respond: "stage_step Respond st (snd (stage_respond r st))"
| step_next: "stage_step (Next i) st (snd (stream_next i st))"
| step_drop: "bt_get (streams st) i \<noteq> None \<Longrightarrow> stage_step (DropStream i) st (stream_drop i st)"
| step_close: "stage_step Close st (receiver_drop c st)"

inductive_cases stage_stepE: "stage_step l st st'"

text \<open>
  The invariant: maps are maps; a pending request is stored under its id and has a channel
  of its own that no response has reached; every channel has had at most one response; the
  connection count is the number of streams.
\<close>

definition stage_ok :: "('q, 'a) stage \<Rightarrow> bool" where
  "stage_ok st \<longleftrightarrow>
     bt_sorted (requests st) \<and> bt_sorted (streams st) \<and> bt_sorted (inboxes st) \<and>
     (\<forall>i r. bt_get (requests st) i = Some r \<longrightarrow> st_request_id r = i \<and> bt_get (inboxes st) (st_response r) = Some []) \<and>
     (\<forall>i j r s. bt_get (requests st) i = Some r \<longrightarrow> bt_get (requests st) j = Some s \<longrightarrow>
        st_response r = st_response s \<longrightarrow> i = j) \<and>
     (\<forall>c. bt_get (inboxes st) c \<noteq> None \<longrightarrow> c < next_channel st) \<and>
     (\<forall>c b. bt_get (inboxes st) c = Some b \<longrightarrow> length b \<le> 1) \<and>
     (\<forall>i. bt_get (streams st) i \<noteq> None \<longrightarrow> i < next_stream st) \<and>
     hsm_connections st = length (streams st)"

lemma bt_get_map_apsnd: "bt_get (map (apsnd f) m) k = map_option f (bt_get m k)"
  by (induction m) (auto simp: bt_get_def)

lemma bt_get_map_pair: "bt_get (map (\<lambda>(c, b). (c, f c b)) m) k = map_option (f k) (bt_get m k)"
  by (induction m) (auto simp: bt_get_def)

lemma bt_sorted_map_apsnd [simp]: "bt_sorted (map (apsnd f) m) = bt_sorted m"
  by (simp add: bt_sorted_def comp_def)

lemma bt_sorted_map_pair [simp]: "bt_sorted (map (\<lambda>(c, b). (c, f c b)) m) = bt_sorted m"
proof -
  have "map fst (map (\<lambda>(c, b). (c, f c b)) m) = map fst m" by (induction m) auto
  then show ?thesis unfolding bt_sorted_def by argo
qed

lemma length_bt: "bt_sorted m \<Longrightarrow> length m = card (fst ` set m)"
  using distinct_card [of "map fst m"] by (simp add: bt_sorted_def strict_sorted_iff)

lemma bt_get_not_None: "bt_get m k \<noteq> None \<longleftrightarrow> k \<in> fst ` set m"
  by (simp add: bt_get_def map_of_eq_None_iff)

lemma length_bt_insert:
  "bt_sorted m \<Longrightarrow> length (bt_insert k v m) = (if bt_get m k = None then Suc (length m) else length m)"
  using bt_get_not_None [of m k]
  by (cases "bt_get m k") (simp_all add: length_bt bt_insert_keys insert_absorb)

lemma length_bt_remove:
  "bt_sorted m \<Longrightarrow> bt_get m k \<noteq> None \<Longrightarrow> length (bt_remove k m) = length m - 1"
proof -
  assume "bt_sorted m" "bt_get m k \<noteq> None"
  moreover from this have "k \<in> fst ` set m" by (simp only: bt_get_not_None)
  moreover have "fst ` set (bt_remove k m) = fst ` set m - {k}"
    by (force simp: bt_remove_def)
  ultimately show ?thesis
    by (simp add: length_bt)
qed

lemmas stage_defs =
  stage_send_def mystream_def stage_respond_def stream_next_def stream_drop_def receiver_drop_def

lemma stage_ok_new: "stage_ok stage_new"
  by (simp add: stage_ok_def stage_new_def bt_get_Nil)

lemma stage_okE:
  assumes "stage_ok st"
  obtains "bt_sorted (requests st)" "bt_sorted (streams st)" "bt_sorted (inboxes st)"
    "\<And>i r. bt_get (requests st) i = Some r \<Longrightarrow> st_request_id r = i \<and> bt_get (inboxes st) (st_response r) = Some []"
    "\<And>i j r s. bt_get (requests st) i = Some r \<Longrightarrow> bt_get (requests st) j = Some s \<Longrightarrow>
        st_response r = st_response s \<Longrightarrow> i = j"
    "\<And>c. bt_get (inboxes st) c \<noteq> None \<Longrightarrow> c < next_channel st"
    "\<And>c b. bt_get (inboxes st) c = Some b \<Longrightarrow> length b \<le> 1"
    "\<And>i. bt_get (streams st) i \<noteq> None \<Longrightarrow> i < next_stream st"
    "hsm_connections st = length (streams st)"
  using assms unfolding stage_ok_def by blast

lemma stage_ok_send:
  assumes "stage_ok st"
  shows "stage_ok (snd (stage_send i raw b st))"
  using assms
proof (rule stage_okE)
  assume s: "bt_sorted (requests st)" "bt_sorted (streams st)" "bt_sorted (inboxes st)"
    and r: "\<And>i r. bt_get (requests st) i = Some r \<Longrightarrow> st_request_id r = i \<and> bt_get (inboxes st) (st_response r) = Some []"
    and u: "\<And>i j r s. bt_get (requests st) i = Some r \<Longrightarrow> bt_get (requests st) j = Some s \<Longrightarrow>
        st_response r = st_response s \<Longrightarrow> i = j"
    and c: "\<And>c. bt_get (inboxes st) c \<noteq> None \<Longrightarrow> c < next_channel st"
    and l: "\<And>c b. bt_get (inboxes st) c = Some b \<Longrightarrow> length b \<le> 1"
    and n: "\<And>i. bt_get (streams st) i \<noteq> None \<Longrightarrow> i < next_stream st"
    and h: "hsm_connections st = length (streams st)"
  have fresh: "st_response q < next_channel st" if "bt_get (requests st) j = Some q" for j q
    using r [OF that] c by auto
  show ?thesis
    unfolding stage_ok_def
    using s r u c l n h
    by (auto simp: stage_send_def Let_def omap_simps bt_get_map_apsnd dest: fresh intro: less_SucI split: if_splits)
qed

lemma stage_ok_respond:
  assumes "stage_ok st"
  shows "stage_ok (snd (stage_respond q st))"
proof (cases "bt_get (requests st) (rp_request_id q)")
  case None
  then show ?thesis using assms by (simp add: stage_respond_def)
next
  case (Some req)
  from assms show ?thesis
  proof (rule stage_okE)
    assume s: "bt_sorted (requests st)" "bt_sorted (streams st)" "bt_sorted (inboxes st)"
      and r: "\<And>i r. bt_get (requests st) i = Some r \<Longrightarrow> st_request_id r = i \<and> bt_get (inboxes st) (st_response r) = Some []"
      and u: "\<And>i j r s. bt_get (requests st) i = Some r \<Longrightarrow> bt_get (requests st) j = Some s \<Longrightarrow>
          st_response r = st_response s \<Longrightarrow> i = j"
      and c: "\<And>c. bt_get (inboxes st) c \<noteq> None \<Longrightarrow> c < next_channel st"
      and l: "\<And>c b. bt_get (inboxes st) c = Some b \<Longrightarrow> length b \<le> 1"
      and n: "\<And>i. bt_get (streams st) i \<noteq> None \<Longrightarrow> i < next_stream st"
      and h: "hsm_connections st = length (streams st)"
    have other: "st_response p \<noteq> st_response req"
      if "bt_get (requests st) j = Some p" "j \<noteq> rp_request_id q" for j p
      using u [OF that(1) Some] that(2) by blast
    have own: "bt_get (inboxes st) (st_response req) = Some []" using r [OF Some] by simp
    show ?thesis
      unfolding stage_ok_def
      using s r u c l n h Some own
      by (auto simp: stage_respond_def Let_def omap_simps bt_get_map_pair dest: other split: if_splits)
  qed
qed

lemma stage_ok_next: "stage_ok st \<Longrightarrow> stage_ok (snd (stream_next i st))"
  unfolding stage_ok_def stream_next_def
  by (auto simp: omap_simps length_bt_insert split: option.splits list.splits if_splits)

lemma stage_ok_open: "stage_ok st \<Longrightarrow> stage_ok (snd (mystream order st))"
  unfolding stage_ok_def mystream_def
  by (auto simp: omap_simps length_bt_insert less_SucI split: if_splits)

lemma stage_ok_drop: "stage_ok st \<Longrightarrow> bt_get (streams st) i \<noteq> None \<Longrightarrow> stage_ok (stream_drop i st)"
  unfolding stage_ok_def stream_drop_def
  by (auto simp: omap_simps length_bt_remove split: if_splits)

lemma stage_ok_close: "stage_ok st \<Longrightarrow> stage_ok (receiver_drop c st)"
  by (simp add: stage_ok_def receiver_drop_def)

lemma stage_ok_step: "stage_step l st st' \<Longrightarrow> stage_ok st \<Longrightarrow> stage_ok st'"
  by (erule stage_stepE)
    (simp_all add: stage_ok_send stage_ok_respond stage_ok_next stage_ok_open stage_ok_drop stage_ok_close)

text \<open>Stages reachable from the empty one.\<close>

inductive stage_reachable :: "('q, 'a) stage \<Rightarrow> bool" where
  reach_new: "stage_reachable stage_new"
| reach_step: "stage_reachable st \<Longrightarrow> stage_step l st st' \<Longrightarrow> stage_reachable st'"

lemma stage_reachable_ok: "stage_reachable st \<Longrightarrow> stage_ok st"
  by (induction rule: stage_reachable.induct) (auto intro: stage_ok_new stage_ok_step)

text \<open>
  A signer's stream from its subscription on: what was offered to it, the requests pending
  then and those sent since, and what it has taken so far, in the order this happened. Other
  steps of the stage, and reads of other streams, may come in between.
\<close>

inductive watches :: "nat \<Rightarrow> ('q, 'a) stage \<Rightarrow> 'q staged list \<Rightarrow> 'q staged list \<Rightarrow> bool" where
  watch_open: "stage_reachable st \<Longrightarrow> mset (order (map snd (requests st))) = mset (map snd (requests st)) \<Longrightarrow>
     watches (next_stream st) (snd (mystream order st)) (order (map snd (requests st))) []"
| watch_send: "watches i st offered taken \<Longrightarrow>
     watches i (snd (stage_send j raw b st))
       (offered @ [\<lparr>st_request_id = j, st_raw = raw, st_body = b, st_response = next_channel st\<rparr>]) taken"
| watch_step: "watches i st offered taken \<Longrightarrow> stage_step l st st' \<Longrightarrow> l \<notin> {Send, Next i, DropStream i} \<Longrightarrow>
     watches i st' offered taken"
| watch_take: "watches i st offered taken \<Longrightarrow> stream_next i st = (Some (Ok r), st') \<Longrightarrow>
     watches i st' offered (taken @ [r])"

lemma watches_reachable: "watches i st offered taken \<Longrightarrow> stage_reachable st"
proof (induction rule: watches.induct)
  case (watch_open st order)
  then show ?case by (blast intro: reach_step step_open)
next
  case (watch_send i st offered taken j raw b)
  then show ?case by (blast intro: reach_step step_send)
next
  case (watch_step i st offered taken l st')
  then show ?case by (blast intro: reach_step)
next
  case (watch_take i st offered taken r st')
  then have "stage_reachable (snd (stream_next i st))" by (blast intro: reach_step step_next)
  with watch_take show ?case by simp
qed

text \<open>
  The stream is in step: what it has not taken of the offer is its backlog and then the
  announcements to it, and every pending request was offered. It can only fall behind when
  more was offered than the broadcast channel holds.
\<close>

definition all_offered :: "('q, 'a) stage \<Rightarrow> 'q staged list \<Rightarrow> bool" where
  "all_offered st offered \<longleftrightarrow> (\<forall>j r. bt_get (requests st) j = Some r \<longrightarrow> r \<in> set offered)"

definition in_step :: "('q, 'a) stage \<Rightarrow> 'q staged list \<Rightarrow> 'q staged list \<Rightarrow> 'q stage_stream \<Rightarrow> bool" where
  "in_step st offered taken s \<longleftrightarrow>
     (if bcast_lagged s then broadcast_capacity < length offered
      else offered = taken @ backlog s @ bcast s) \<and>
     all_offered st offered"



text \<open>Only the requests matter.\<close>

lemma all_offered_update [simp]:
  "all_offered (st\<lparr>streams := x\<rparr>) offered = all_offered st offered"
  "all_offered (st\<lparr>hsm_connections := n\<rparr>) offered = all_offered st offered"
  "all_offered (st\<lparr>next_stream := n\<rparr>) offered = all_offered st offered"
  "all_offered (st\<lparr>closed := cs\<rparr>) offered = all_offered st offered"
  by (simp_all add: all_offered_def)

lemma in_step_update [simp]:
  "in_step (st\<lparr>streams := x\<rparr>) offered taken s = in_step st offered taken s"
  "in_step (st\<lparr>hsm_connections := n\<rparr>) offered taken s = in_step st offered taken s"
  "in_step (st\<lparr>next_stream := n\<rparr>) offered taken s = in_step st offered taken s"
  "in_step (st\<lparr>closed := cs\<rparr>) offered taken s = in_step st offered taken s"
  by (simp_all add: in_step_def)






section \<open>Properties\<close>


text \<open>A stage with request 7 pending, subscribed to, after which request 8 is sent.\<close>

definition demo_stage :: "(string, string) stage" where
  "demo_stage = snd (stage_send 8 [0, 5] ''eight'' (snd (mystream (\<lambda>l. l) (snd (stage_send 7 [0, 1] ''seven'' stage_new)))))"

definition demo_offer :: "string staged list" where
  "demo_offer = [\<lparr>st_request_id = 7, st_raw = [0, 1], st_body = ''seven'', st_response = 0\<rparr>,
     \<lparr>st_request_id = 8, st_raw = [0, 5], st_body = ''eight'', st_response = 1\<rparr>]"

lemma demo_stage_watches: "watches 0 demo_stage demo_offer []"
proof -
  let ?st = "snd (stage_send 7 [0, 1] ''seven'' stage_new) :: (string, string) stage"
  have "stage_reachable ?st" by (blast intro: reach_new reach_step step_send)
  then have "watches (next_stream ?st) (snd (mystream (\<lambda>l. l) ?st)) (map snd (requests ?st)) []"
    using watch_open [of ?st "\<lambda>l. l"] by simp
  from watch_send [OF this, of 8 "[0, 5]" "''eight''"] show ?thesis
    by (simp add: demo_stage_def demo_offer_def) (simp add: stage_send_def stage_new_def mystream_def)
qed


text \<open>
  A response is delivered once, to its requester. On a reachable stage, responding to a
  pending request whose requester still listens puts exactly this response into the
  requester's channel and touches no other channel, takes the request and no other out of
  the stage, and a second response to the id changes nothing.
\<close>

theorem response_delivered_once:
  assumes "stage_reachable st" "bt_get (requests st) (rp_request_id q) = Some req"
    and "st_response req \<notin> closed st"
  shows "\<exists>st'. stage_respond q st = (Ok (), st') \<and>
    (\<forall>c. bt_get (inboxes st') c = (if c = st_response req then Some [q] else bt_get (inboxes st) c)) \<and>
    (\<forall>i. bt_get (requests st') i = (if i = rp_request_id q then None else bt_get (requests st) i)) \<and>
    (\<forall>q'. rp_request_id q' = rp_request_id q \<longrightarrow> stage_respond q' st' = (Ok (), st'))"
proof -
  have own: "bt_get (inboxes st) (st_response req) = Some []"
    using stage_reachable_ok [OF assms(1)] assms(2) unfolding stage_ok_def by blast
  show ?thesis
    using assms(2,3) own
    by (auto simp: stage_respond_def Let_def omap_simps bt_get_map_pair option.map_ident)
qed

lemma response_delivered_once_witness:
  "\<exists>st'. stage_respond \<lparr>rp_request_id = 7, rp_body = ''sig''\<rparr> demo_stage = (Ok (), st') \<and>
     bt_get (inboxes st') 0 = Some [\<lparr>rp_request_id = 7, rp_body = ''sig''\<rparr>]"
proof -
  have r: "stage_reachable demo_stage" using demo_stage_watches by (rule watches_reachable)
  have "bt_get (requests demo_stage) (rp_request_id \<lparr>rp_request_id = 7, rp_body = ''sig''\<rparr>) =
      Some \<lparr>st_request_id = 7, st_raw = [0, 1], st_body = ''seven'', st_response = 0\<rparr>"
    "closed demo_stage = {}"
    by (simp_all add: demo_stage_def stage_send_def mystream_def stage_new_def Let_def omap_simps)
  from response_delivered_once [OF r this(1)] this(2) show ?thesis by auto
qed

text \<open>
  The stage stays consistent. In every reachable stage each request is stored under its
  own id, each requester has had at most one response, a pending request's requester has had
  none, and the connection count is the number of attached streams.
\<close>

theorem stage_invariant:
  assumes "stage_reachable st"
  shows "(\<forall>i r. bt_get (requests st) i = Some r \<longrightarrow>
            st_request_id r = i \<and> bt_get (inboxes st) (st_response r) = Some []) \<and>
    (\<forall>c b. bt_get (inboxes st) c = Some b \<longrightarrow> length b \<le> 1) \<and>
    hsm_connections st = length (streams st)"
  using stage_reachable_ok [OF assms] unfolding stage_ok_def by blast

lemma stage_invariant_witness: "hsm_connections demo_stage = 1 \<and> length (streams demo_stage) = 1"
proof -
  have "hsm_connections demo_stage = length (streams demo_stage)"
    using stage_invariant [OF watches_reachable [OF demo_stage_watches]] by blast
  then show ?thesis by (simp add: demo_stage_def stage_send_def mystream_def stage_new_def Let_def)
qed

end
