(* ===== verification/NodeServer.thy ===== *)
theory NodeServer
  imports NodeContext SignerProcess Stager
begin

text \<open>
  The node's side of the signer protocol: the server that lightningd's hsmd proxy talks to
  (\<open>libs/gl-plugin/src/hsm.rs\<close>), and the handlers of \<open>PluginNodeServer\<close> that stream requests
  to the signers, take their responses and keep the configuration
  (\<open>libs/gl-plugin/src/node/mod.rs\<close>), on top of the stage, the request context and the signer
  state. The mutexes make each handler a step; the task of a stream is one step per request.
  The database is the value of one key (\<open>libs/gl-plugin/src/storage.rs\<close>).
\<close>

subsection \<open>The state store\<close>

datatype store_error = CorruptState | StoreOther

definition store_read :: "(bytes \<Rightarrow> 'j signer_state option) \<Rightarrow> bytes option \<Rightarrow> ('j signer_state, store_error) outcome" where
  "store_read from_slice db =
     (case db of
        None \<Rightarrow> Ok state_new
      | Some v \<Rightarrow> ok_or CorruptState (from_slice v))"

definition store_write ::
  "('j signer_state \<Rightarrow> bytes) \<Rightarrow> bool \<Rightarrow> 'j signer_state \<Rightarrow> bytes option
     \<Rightarrow> (unit, store_error) outcome \<times> bytes option" where
  "store_write to_vec inserts state db =
     (if inserts then (Ok (), Some (to_vec state)) else (Err StoreOther, db))"

subsection \<open>The server's state\<close>

text \<open>
  The conversions of serde and of VLS are functions. The counters are the statics
  \<open>SIGNER_COUNT\<close> and \<open>HSM_ID_COUNT\<close>; \<open>ns_configure\<close> is \<open>SERIALIZED_CONFIGURE_REQUEST\<close>.
  Where the tasks of the signers are is part of the state: \<open>ns_attaching\<close> calls of
  \<open>stream_hsm_requests\<close> have counted their signer and wait for the stage, and the tasks of the
  streams \<open>ns_exiting\<close> have stopped counting theirs and not yet dropped the stream. \<open>ns_lost\<close>
  is a history variable: how many calls and tasks ended without counting their signer out.
\<close>

record 'j node_env =
  ne_from_slice :: "bytes \<Rightarrow> 'j option"
  ne_to_vec :: "'j \<Rightarrow> bytes"
  ne_state_from_slice :: "bytes \<Rightarrow> 'j signer_state option"
  ne_state_to_vec :: "'j signer_state \<Rightarrow> bytes"
  ne_request_to_string :: "context_request \<Rightarrow> string"
  ne_request_from_str :: "string \<Rightarrow> context_request option"
  ne_heartbeat :: bytes
  ne_startup_messages :: "startup_message list"
  ne_initmsg :: bytes

record 'j node_server =
  ns_stage :: "(hsm_request, hsm_response) stage"
  ns_signer_state :: "'j signer_state"
  ns_store :: "bytes option"
  ns_ctx :: req_context
  ns_configure :: "string option"
  ns_signer_count :: nat
  ns_hsm_id_count :: nat
  ns_attaching :: nat
  ns_exiting :: "nat list"
  ns_lost :: nat

text \<open>\<open>PluginNodeServer::new\<close>: the state is read from the store, or the plugin does not start.\<close>

definition node_server_new :: "'j node_env \<Rightarrow> bytes option \<Rightarrow> ('j node_server, store_error) outcome" where
  "node_server_new E db =
     omap (\<lambda>st. \<lparr>ns_stage = stage_new, ns_signer_state = st, ns_store = db, ns_ctx = context_new,
        ns_configure = None, ns_signer_count = 0, ns_hsm_id_count = 0,
        ns_attaching = 0, ns_exiting = [], ns_lost = 0\<rparr>)
       (store_read (ne_state_from_slice E) db)"

text \<open>
  Its task reads the stored configure request: the answer of \<open>listdatastore\<close> is the list of
  the string fields, or an error.
\<close>

definition load_configure :: "(string option list, 'e) outcome \<Rightarrow> 'j node_server \<Rightarrow> 'j node_server" where
  "load_configure datastore ns =
     (case datastore of
        Ok (Some s # _) \<Rightarrow> ns\<lparr>ns_configure := Some s\<rparr>
      | _ \<Rightarrow> ns)"

subsection \<open>Requests of lightningd\<close>

definition find_canned_response :: "startup_message list \<Rightarrow> bytes \<Rightarrow> bytes option" where
  "find_canned_response msgs msg =
     (case filter (\<lambda>m. sum_request m = msg) msgs of
        [] \<Rightarrow> None
      | m # _ \<Rightarrow> Some (sum_response m))"

text \<open>
  \<open>Hsm::request\<close>: a canned answer, the init message, the answer to \<open>dev-memleak\<close>, or a
  request staged for the signers, whose answer comes on the receiver of this number.
\<close>

datatype hsm_answer = Answered hsm_response | Awaiting nat

definition hsm_reply_of :: "hsm_request \<Rightarrow> bytes \<Rightarrow> hsm_response" where
  "hsm_reply_of req raw =
     \<lparr>hres_request_id = hr_request_id req, hres_raw = raw, hres_signer_state = [], hres_error = []\<rparr>"

definition hsm_request_call ::
  "'j node_env \<Rightarrow> hsm_request \<Rightarrow> 'j node_server \<Rightarrow> (hsm_answer, string) outcome \<times> 'j node_server" where
  "hsm_request_call E req ns =
     (case find_canned_response (ne_startup_messages E) (hr_raw req) of
        Some response \<Rightarrow> (Ok (Answered (hsm_reply_of req response)), ns)
      | None \<Rightarrow>
          (case raw_type (hr_raw req) of
             Ok t \<Rightarrow>
               if t = 11 then (Ok (Answered (hsm_reply_of req (ne_initmsg E))), ns)
               else if t = 33 then (Ok (Answered (hsm_reply_of req [0, 133, 0])), ns)
               else
                 let (c, st) = stage_send (hr_request_id req) (hr_raw req) req (ns_stage ns) in
                 (Ok (Awaiting c), ns\<lparr>ns_stage := st\<rparr>)
           | Err e \<Rightarrow> (Err e, ns)
           | Panic \<Rightarrow> (Panic, ns)))"

text \<open>The response on a receiver, \<open>None\<close> while there is none.\<close>

definition hsm_receive :: "nat \<Rightarrow> 'j node_server \<Rightarrow> hsm_response option" where
  "hsm_receive c ns =
     (case bt_get (inboxes (ns_stage ns)) c of
        Some (r # _) \<Rightarrow> Some (rp_body r)
      | _ \<Rightarrow> None)"

subsection \<open>Requests to the signers\<close>

text \<open>
  \<open>stream_hsm_requests\<close>: a signer is counted, then the call waits for the stage to give it a
  stream, whose task first sends a heartbeat with the whole state. Other steps may come between
  the two, and a call whose client is gone is dropped while it waits. \<open>attach_signer\<close> is the
  call when nothing comes between.
\<close>

definition signer_counted :: "'j node_server \<Rightarrow> 'j node_server" where
  "signer_counted ns =
     ns\<lparr>ns_hsm_id_count := ns_hsm_id_count ns + 1, ns_signer_count := ns_signer_count ns + 1,
        ns_attaching := ns_attaching ns + 1\<rparr>"

definition signer_subscribed ::
  "(hsm_request staged list \<Rightarrow> hsm_request staged list) \<Rightarrow> 'j node_server \<Rightarrow> nat \<times> 'j node_server" where
  "signer_subscribed order ns =
     (let (i, st) = mystream order (ns_stage ns) in
      (i, ns\<lparr>ns_stage := st, ns_attaching := ns_attaching ns - 1\<rparr>))"

definition attach_signer ::
  "(hsm_request staged list \<Rightarrow> hsm_request staged list) \<Rightarrow> 'j node_server \<Rightarrow> nat \<times> 'j node_server" where
  "attach_signer order ns = signer_subscribed order (signer_counted ns)"

definition attach_dropped :: "'j node_server \<Rightarrow> 'j node_server" where
  "attach_dropped ns = ns\<lparr>ns_attaching := ns_attaching ns - 1, ns_lost := ns_lost ns + 1\<rparr>"

definition heartbeat_request :: "'j node_env \<Rightarrow> 'j node_server \<Rightarrow> hsm_request" where
  "heartbeat_request E ns =
     \<lparr>hr_request_id = 0, hr_context = None, hr_raw = ne_heartbeat E,
      hr_signer_state = state_to_entries (ne_to_vec E) (ns_signer_state ns), hr_requests = []\<rparr>"

text \<open>
  A staged request on its way to a signer: the state and the pending requests of the moment
  are attached, and the configure request, which must parse.
\<close>

definition outgoing_request :: "'j node_env \<Rightarrow> hsm_request \<Rightarrow> 'j node_server \<Rightarrow> (hsm_request, string) outcome" where
  "outgoing_request E req ns =
     (let requests = map pending_of_context (snapshot (ns_ctx ns));
          req = req\<lparr>hr_signer_state := state_to_entries (ne_to_vec E) (ns_signer_state ns)\<rparr> in
      case ns_configure ns of
        None \<Rightarrow> Ok (req\<lparr>hr_requests := requests\<rparr>)
      | Some s \<Rightarrow>
          obind (unwrap (ne_request_from_str E s)) (\<lambda>configure_request.
            Ok (req\<lparr>hr_requests := requests @ [pending_of_context configure_request]\<rparr>)))"

text \<open>
  The end of the task of a stream: the signer is no longer counted, then the stream is dropped.
  A panic only drops the stream.
\<close>

definition signer_exits :: "nat \<Rightarrow> 'j node_server \<Rightarrow> 'j node_server" where
  "signer_exits i ns = ns\<lparr>ns_signer_count := ns_signer_count ns - 1, ns_exiting := i # ns_exiting ns\<rparr>"

definition stream_released :: "nat \<Rightarrow> 'j node_server \<Rightarrow> 'j node_server" where
  "stream_released i ns = ns\<lparr>ns_stage := stream_drop i (ns_stage ns), ns_exiting := removeAll i (ns_exiting ns)\<rparr>"

definition signer_panics :: "nat \<Rightarrow> 'j node_server \<Rightarrow> 'j node_server" where
  "signer_panics i ns = ns\<lparr>ns_stage := stream_drop i (ns_stage ns), ns_lost := ns_lost ns + 1\<rparr>"

text \<open>One round of the task; \<open>sends\<close> tells whether the signer still takes requests.\<close>

definition stream_round ::
  "'j node_env \<Rightarrow> nat \<Rightarrow> bool \<Rightarrow> 'j node_server \<Rightarrow> (hsm_request, string) outcome option \<times> 'j node_server" where
  "stream_round E i sends ns =
     (let (r, st) = stream_next i (ns_stage ns); ns = ns\<lparr>ns_stage := st\<rparr> in
      case r of
        None \<Rightarrow> (None, ns)
      | Some (Ok staged) \<Rightarrow>
          (case outgoing_request E (st_body staged) ns of
             Ok req \<Rightarrow>
               if sends then (Some (Ok req), ns)
               else (Some (Err ''Error streaming request''), signer_exits i ns)
           | _ \<Rightarrow> (Some Panic, signer_panics i ns))
      | Some _ \<Rightarrow> (Some (Err ''Could not get next request from stage''), signer_exits i ns))"

subsection \<open>Responses of the signers\<close>

text \<open>
  \<open>respond_hsm_request\<close>: an error is only logged. Otherwise the state of the response is
  merged and stored, and only then is the response given to its requester. \<open>inserts\<close> tells
  whether the database takes the write.
\<close>

definition respond_hsm_request ::
  "'j node_env \<Rightarrow> bool \<Rightarrow> hsm_response \<Rightarrow> 'j node_server \<Rightarrow> (unit, string) outcome \<times> 'j node_server" where
  "respond_hsm_request E inserts req ns =
     (if hres_error req \<noteq> [] then (Ok (), ns)
      else
      case state_from_entries (ne_from_slice E) (hres_signer_state req) of
        Ok new_state \<Rightarrow>
          let state = fst (merge (ns_signer_state ns) new_state);
              (written, db) = store_write (ne_state_to_vec E) inserts state (ns_store ns);
              ns = ns\<lparr>ns_signer_state := state, ns_store := db\<rparr> in
          (case written of
             Ok _ \<Rightarrow>
               (Ok (), ns\<lparr>ns_stage :=
                  snd (stage_respond \<lparr>rp_request_id = hres_request_id req, rp_body = req\<rparr> (ns_stage ns))\<rparr>)
           | _ \<Rightarrow> (Ok (), ns))
      | _ \<Rightarrow> (Panic, ns))"

subsection \<open>Configuration\<close>

text \<open>
  \<open>configure\<close>. The environment of the call: the network of \<open>getinfo\<close>, its parse, the parse of
  an address, whether an address is one of the network, and whether \<open>datastore\<close> takes the
  string. What is stored is the first request of the snapshot.
\<close>

record ('addr, 'net) config_env =
  ce_network :: "(string, string) outcome"
  ce_parse_network :: "string \<Rightarrow> 'net option"
  ce_parse_address :: "string \<Rightarrow> ('addr, string) outcome"
  ce_require_network :: "'addr \<Rightarrow> 'net \<Rightarrow> (unit, string) outcome"
  ce_datastore :: "string \<Rightarrow> (unit, string) outcome"

definition check_close_to :: "('addr, 'net) config_env \<Rightarrow> string \<Rightarrow> (unit, string) outcome" where
  "check_close_to C close_to =
     obind (omap_err (\<lambda>e. ''Failed to retrieve a response from 'getinfo' while setting the node's configuration: '' @ e)
              (ce_network C)) (\<lambda>network.
     obind (ok_or ''Failed to parse 'network' from 'getinfo' response'' (ce_parse_network C network)) (\<lambda>network.
     obind (omap_err (\<lambda>e. ''The address '' @ close_to @ '' is not valid: '' @ e) (ce_parse_address C close_to)) (\<lambda>address.
     omap_err (\<lambda>e. ''Network validation failed: '' @ e) (ce_require_network C address network))))"

definition configure ::
  "'j node_env \<Rightarrow> ('addr, 'net) config_env \<Rightarrow> string \<Rightarrow> 'j node_server \<Rightarrow> (unit, string) outcome \<times> 'j node_server" where
  "configure E C close_to ns =
     (case check_close_to C close_to of
        Err e \<Rightarrow> (Err e, ns)
      | Panic \<Rightarrow> (Panic, ns)
      | Ok _ \<Rightarrow>
          (case snapshot (ns_ctx ns) of
             [] \<Rightarrow> (Panic, ns)
           | r # _ \<Rightarrow>
               let serialized_req = ne_request_to_string E r in
               (case ce_datastore C serialized_req of
                  Ok _ \<Rightarrow> (Ok (), ns\<lparr>ns_configure := Some serialized_req\<rparr>)
                | Err e \<Rightarrow> (Err (''Failed to store the raw configure request in the datastore: '' @ e), ns)
                | Panic \<Rightarrow> (Panic, ns))))"

subsection \<open>Waiting for the RPC socket\<close>

text \<open>
  \<open>RpcWaitService::call\<close> (\<open>libs/gl-plugin/src/node/rpcwait.rs\<close>), in milliseconds:
  \<open>exists t\<close> tells whether the socket is there at \<open>t\<close>, \<open>wakes t\<close> when a sleep started at \<open>t\<close>
  ends, which is not before the 500 ms are over. The result is when the inner service is
  called.
\<close>

function rpc_wait_loop :: "(nat \<Rightarrow> bool) \<Rightarrow> (nat \<Rightarrow> nat) \<Rightarrow> nat \<Rightarrow> nat \<Rightarrow> nat" where
  "rpc_wait_loop exists wakes deadline now =
     (if deadline < now then now
      else if exists now then now
      else rpc_wait_loop exists wakes deadline (max (now + 500) (wakes now)))"
  by pat_completeness auto
termination
  by (relation "measure (\<lambda>(_, _, deadline, now). Suc deadline - now)") auto

definition rpc_wait :: "(nat \<Rightarrow> bool) \<Rightarrow> (nat \<Rightarrow> nat) \<Rightarrow> nat \<Rightarrow> nat" where
  "rpc_wait exists wakes now = rpc_wait_loop exists wakes (now + 5000) now"

declare rpc_wait_loop.simps [simp del]

subsection \<open>Runs of the server\<close>

text \<open>The steps of the server. Addresses and networks of \<open>configure\<close> are strings here.\<close>

inductive node_step :: "'j node_env \<Rightarrow> 'j node_server \<Rightarrow> 'j node_server \<Rightarrow> bool" for E where
  ns_request: "node_step E ns (snd (hsm_request_call E req ns))"
| ns_attach: "node_step E ns (signer_counted ns)"
| ns_subscribe: "0 < ns_attaching ns \<Longrightarrow>
     mset (order (map snd (requests (ns_stage ns)))) = mset (map snd (requests (ns_stage ns))) \<Longrightarrow>
     node_step E ns (snd (signer_subscribed order ns))"
| ns_attach_drop: "0 < ns_attaching ns \<Longrightarrow> node_step E ns (attach_dropped ns)"
| ns_stream: "bt_get (streams (ns_stage ns)) i \<noteq> None \<Longrightarrow> i \<notin> set (ns_exiting ns) \<Longrightarrow>
     node_step E ns (snd (stream_round E i sends ns))"
| ns_release: "i \<in> set (ns_exiting ns) \<Longrightarrow> node_step E ns (stream_released i ns)"
| ns_respond: "node_step E ns (snd (respond_hsm_request E inserts resp ns))"
| ns_begins: "node_step E ns (ns\<lparr>ns_ctx := call_begins entry (ns_ctx ns)\<rparr>)"
| ns_ends: "node_step E ns (ns\<lparr>ns_ctx := call_ends entry (ns_ctx ns)\<rparr>)"
| ns_configures: "node_step E ns (snd (configure E (C :: (string, string) config_env) close_to ns))"
| ns_loads: "node_step E ns (load_configure (datastore :: (string option list, string) outcome) ns)"
| ns_requester_gone: "node_step E ns (ns\<lparr>ns_stage := receiver_drop c (ns_stage ns)\<rparr>)"

inductive node_reachable :: "'j node_env \<Rightarrow> 'j node_server \<Rightarrow> bool" for E where
  starts: "node_server_new E db = Ok ns \<Longrightarrow> state_ok (ns_signer_state ns) \<Longrightarrow> node_reachable E ns"
| steps: "node_reachable E ns \<Longrightarrow> node_step E ns ns' \<Longrightarrow> node_reachable E ns'"

text \<open>The codec of the store loses nothing.\<close>

definition store_codec :: "'j node_env \<Rightarrow> bool" where
  "store_codec E \<longleftrightarrow> (\<forall>s. ne_state_from_slice E (ne_state_to_vec E s) = Some s)"

text \<open>
  The invariant: the stage's own, a well formed state at least as recent as the stored one,
  and the signers that are counted, which are those of the open streams but for the ones whose
  tasks are exiting, those that attach, and those that were lost.
\<close>

definition stored_state :: "'j node_env \<Rightarrow> bytes option \<Rightarrow> 'j signer_state" where
  "stored_state E db = (case store_read (ne_state_from_slice E) db of Ok s \<Rightarrow> s | _ \<Rightarrow> state_new)"

definition stream_open :: "('q, 'a) stage \<Rightarrow> nat \<Rightarrow> bool" where
  "stream_open st i \<longleftrightarrow> bt_get (streams st) i \<noteq> None"

definition signers_ok :: "'j node_server \<Rightarrow> bool" where
  "signers_ok ns \<longleftrightarrow>
     ns_signer_count ns + length (ns_exiting ns) =
       hsm_connections (ns_stage ns) + ns_attaching ns + ns_lost ns \<and>
     distinct (ns_exiting ns) \<and> (\<forall>i \<in> set (ns_exiting ns). stream_open (ns_stage ns) i)"

definition node_ok :: "'j node_env \<Rightarrow> 'j node_server \<Rightarrow> bool" where
  "node_ok E ns \<longleftrightarrow>
     stage_ok (ns_stage ns) \<and> state_ok (ns_signer_state ns) \<and>
     is_ok (store_read (ne_state_from_slice E) (ns_store ns)) \<and>
     state_ok (stored_state E (ns_store ns)) \<and>
     vs.store_le (stored_state E (ns_store ns)) (ns_signer_state ns) \<and>
     signers_ok ns"

subsection \<open>Lemmas\<close>

lemma insert_entries_ok:
  "insert_entries from_slice es m = Ok m' \<Longrightarrow> bt_sorted m \<Longrightarrow> bt_sorted m'"
  by (induction es arbitrary: m) (auto simp: obind_eq_Ok)

lemma state_from_entries_ok: "state_from_entries from_slice es = Ok s \<Longrightarrow> state_ok s"
  using insert_entries_ok [of from_slice es "[]"]
  by (auto simp: state_from_entries_def state_ok_def omap_eq_Ok)

lemma stored_state_write [simp]:
  "store_codec E \<Longrightarrow> stored_state E (Some (ne_state_to_vec E s)) = s"
  "store_codec E \<Longrightarrow> store_read (ne_state_from_slice E) (Some (ne_state_to_vec E s)) = Ok s"
  by (simp_all add: stored_state_def store_read_def store_codec_def)

lemma node_ok_new:
  assumes "node_server_new E db = Ok ns" "state_ok (ns_signer_state ns)"
  shows "node_ok E ns"
  using assms
  by (auto simp: node_server_new_def node_ok_def signers_ok_def omap_eq_Ok stored_state_def stage_ok_new is_ok_iff)
    (simp add: stage_new_def)

text \<open>The stage operations keep the number of connections, or change it by one.\<close>

lemma connections_send [simp]: "hsm_connections (snd (stage_send i raw b st)) = hsm_connections st"
  by (simp add: stage_send_def Let_def)

lemma connections_open [simp]: "hsm_connections (snd (mystream order st)) = hsm_connections st + 1"
  by (simp add: mystream_def)

lemma connections_respond [simp]: "hsm_connections (snd (stage_respond q st)) = hsm_connections st"
  by (simp add: stage_respond_def Let_def split: option.splits)

lemma connections_next [simp]: "hsm_connections (snd (stream_next i st)) = hsm_connections st"
  by (simp add: stream_next_def split: option.splits list.splits)

lemma connections_drop [simp]:
  "hsm_connections (stream_drop i st) = hsm_connections st - 1"
  "hsm_connections (receiver_drop c st) = hsm_connections st"
  by (simp_all add: stream_drop_def receiver_drop_def)

text \<open>Open streams stay open.\<close>

lemma open_send [simp]: "stream_open (snd (stage_send i raw b st)) = stream_open st"
  by (simp add: stage_send_def Let_def stream_open_def bt_get_map_apsnd fun_eq_iff)

lemma open_open: "stage_ok st \<Longrightarrow> stream_open st i \<Longrightarrow> stream_open (snd (mystream order st)) i"
  by (auto simp: mystream_def stream_open_def stage_ok_def omap_simps)

lemma open_respond [simp]: "stream_open (snd (stage_respond q st)) = stream_open st"
  by (auto simp: stage_respond_def Let_def stream_open_def fun_eq_iff split: option.splits)

lemma open_next: "stage_ok st \<Longrightarrow> stream_open st j \<Longrightarrow> stream_open (snd (stream_next i st)) j"
  by (auto simp: stream_next_def stage_ok_def stream_open_def omap_simps split: option.splits list.splits)

lemma open_close [simp]: "stream_open (receiver_drop c st) = stream_open st"
  by (simp add: receiver_drop_def stream_open_def fun_eq_iff)

lemma open_drop: "stream_open (stream_drop i st) j \<longleftrightarrow> j \<noteq> i \<and> stream_open st j"
  by (simp add: stream_drop_def stream_open_def omap_simps)

lemma connections_at_least:
  assumes "stage_ok st" "distinct is" "\<forall>i \<in> set is. stream_open st i"
  shows "length is \<le> hsm_connections st"
proof -
  have "set is \<subseteq> fst ` set (streams st)" using assms(3) bt_get_not_None [of "streams st"] by (auto simp: stream_open_def)
  then have "card (set is) \<le> card (fst ` set (streams st))" by (intro card_mono) auto
  then show ?thesis using assms(1,2) length_bt [of "streams st"] by (simp add: stage_ok_def distinct_card)
qed

text \<open>A stream that is not exiting belongs to a signer that is counted.\<close>

lemma signers_ok_counted:
  assumes "signers_ok ns" "stage_ok (ns_stage ns)" "stream_open (ns_stage ns) i" "i \<notin> set (ns_exiting ns)"
  shows "Suc (length (ns_exiting ns)) \<le> hsm_connections (ns_stage ns)" "0 < ns_signer_count ns"
proof -
  show s: "Suc (length (ns_exiting ns)) \<le> hsm_connections (ns_stage ns)"
    using connections_at_least [of "ns_stage ns" "i # ns_exiting ns"] assms by (simp add: signers_ok_def)
  show "0 < ns_signer_count ns" using s assms(1) by (simp add: signers_ok_def)
qed

lemma signer_exits_ok:
  assumes "node_ok E ns" "stream_open (ns_stage ns) i" "i \<notin> set (ns_exiting ns)"
  shows "node_ok E (signer_exits i ns)"
  using assms signers_ok_counted [of ns i] by (auto simp: node_ok_def signer_exits_def signers_ok_def)

lemma signer_panics_ok:
  assumes "node_ok E ns" "stream_open (ns_stage ns) i" "i \<notin> set (ns_exiting ns)"
  shows "node_ok E (signer_panics i ns)"
  using assms signers_ok_counted [of ns i] stage_ok_drop [of "ns_stage ns" i]
  by (auto simp: node_ok_def signer_panics_def signers_ok_def open_drop) (auto simp: stream_open_def)

lemma stream_released_ok:
  assumes "node_ok E ns" "i \<in> set (ns_exiting ns)"
  shows "node_ok E (stream_released i ns)"
proof -
  let ?ns = "stream_released i ns"
  have s: "signers_ok ns" "stage_ok (ns_stage ns)" using assms(1) by (simp_all add: node_ok_def)
  then have opened: "stream_open (ns_stage ns) i" using assms(2) by (simp add: signers_ok_def)
  have "length (removeAll i (ns_exiting ns)) = length (ns_exiting ns) - 1"
    using s(1) assms(2) distinct_remove1_removeAll [of "ns_exiting ns" i] length_remove1 [of i "ns_exiting ns"]
    by (simp add: signers_ok_def)
  moreover obtain n where "length (ns_exiting ns) = Suc n" using assms(2) by (cases "ns_exiting ns") auto
  moreover have "length (ns_exiting ns) \<le> hsm_connections (ns_stage ns)"
    using s by (intro connections_at_least) (simp_all add: signers_ok_def)
  ultimately have "ns_signer_count ?ns + length (ns_exiting ?ns) =
      hsm_connections (ns_stage ?ns) + ns_attaching ?ns + ns_lost ?ns"
    using s(1) unfolding signers_ok_def by (simp add: stream_released_def) linarith
  moreover have "distinct (ns_exiting ?ns) \<and> (\<forall>j \<in> set (ns_exiting ?ns). stream_open (ns_stage ?ns) j)"
    using s(1) by (simp add: signers_ok_def stream_released_def open_drop distinct_removeAll)
  ultimately have "signers_ok ?ns" by (simp add: signers_ok_def)
  moreover have "stage_ok (ns_stage ?ns)"
    using stage_ok_drop [OF s(2)] opened by (simp add: stream_released_def stream_open_def)
  ultimately show ?thesis using assms(1) by (simp add: node_ok_def) (simp add: stream_released_def)
qed

lemma stream_round_ok:
  assumes "node_ok E ns" "stream_open (ns_stage ns) i" "i \<notin> set (ns_exiting ns)"
  shows "node_ok E (snd (stream_round E i sends ns))"
proof -
  obtain r st where n: "stream_next i (ns_stage ns) = (r, st)" by (cases "stream_next i (ns_stage ns)")
  let ?ns = "ns\<lparr>ns_stage := st\<rparr>"
  have st: "stage_ok (ns_stage ns)" using assms(1) by (simp add: node_ok_def)
  have kept: "stream_open st j" if "stream_open (ns_stage ns) j" for j
    using open_next [OF st that, of i] n by simp
  have ok: "node_ok E ?ns"
    using assms(1) n stage_ok_next [OF st, of i] connections_next [of i "ns_stage ns"] kept
    by (auto simp: node_ok_def signers_ok_def)
  have ex: "node_ok E (signer_exits i ?ns)" "node_ok E (signer_panics i ?ns)"
    using ok kept assms(2,3) by (simp_all add: signer_exits_ok signer_panics_ok)
  then show ?thesis by (auto simp: stream_round_def n Let_def ok split: option.splits outcome.splits)
qed

lemma respond_state:
  assumes "node_ok E ns" "store_codec E"
  shows "node_ok E (snd (respond_hsm_request E inserts resp ns)) \<and>
    vs.store_le (stored_state E (ns_store ns)) (stored_state E (ns_store (snd (respond_hsm_request E inserts resp ns))))"
proof (cases "hres_error resp \<noteq> [] \<or> \<not> is_ok (state_from_entries (ne_from_slice E) (hres_signer_state resp))")
  case True
  then show ?thesis using assms(1)
    by (auto simp: respond_hsm_request_def is_ok_iff split: outcome.splits)
next
  case False
  then obtain s where s: "state_from_entries (ne_from_slice E) (hres_signer_state resp) = Ok s"
    and e: "hres_error resp = []" by (auto simp: is_ok_iff)
  let ?m = "fst (merge (ns_signer_state ns) s)"
  have m: "state_ok ?m" "vs.store_le (ns_signer_state ns) ?m"
    using assms(1) state_from_entries_ok [OF s] by (auto simp: node_ok_def intro: vs.le_merge)
  then have "vs.store_le (stored_state E (ns_store ns)) ?m"
    using assms(1) by (auto simp: node_ok_def intro: vs.store_le_trans)
  then show ?thesis
    using assms m s e
    by (auto simp: respond_hsm_request_def store_write_def Let_def node_ok_def signers_ok_def stage_ok_respond)
qed

lemma hsm_request_call_state:
  "snd (hsm_request_call E req ns) = ns \<or>
   snd (hsm_request_call E req ns) =
     ns\<lparr>ns_stage := snd (stage_send (hr_request_id req) (hr_raw req) req (ns_stage ns))\<rparr>"
  by (simp add: hsm_request_call_def split_beta Let_def split: option.split outcome.split)

lemma node_step_ok:
  assumes "node_step E ns ns'" "node_ok E ns" "store_codec E"
  shows "node_ok E ns' \<and> vs.store_le (stored_state E (ns_store ns)) (stored_state E (ns_store ns'))"
  using assms(1)
proof (cases rule: node_step.cases)
  case (ns_stream i sends)
  then show ?thesis
    using stream_round_ok [OF assms(2)]
    by (auto simp: stream_open_def stream_round_def signer_exits_def signer_panics_def Let_def
        split: option.splits outcome.splits prod.splits)
next
  case (ns_release i)
  then show ?thesis using stream_released_ok [OF assms(2)] by (simp add: stream_released_def)
next
  case ns_respond
  then show ?thesis using respond_state [OF assms(2,3)] by simp
next
  case (ns_request req)
  then show ?thesis using assms(2) hsm_request_call_state [of E req ns]
    by (elim disjE) (simp_all add: node_ok_def signers_ok_def stage_ok_send)
next
  case (ns_subscribe order)
  then show ?thesis using assms(2)
    by (auto simp: signer_subscribed_def node_ok_def signers_ok_def stage_ok_open open_open split_beta Let_def)
qed (use assms(2) in \<open>auto simp: node_ok_def signers_ok_def signer_counted_def attach_dropped_def configure_def
        load_configure_def stage_ok_close Let_def split: outcome.splits list.splits option.splits\<close>)

lemma node_reachable_ok: "node_reachable E ns \<Longrightarrow> store_codec E \<Longrightarrow> node_ok E ns"
  by (induction rule: node_reachable.induct) (auto intro: node_ok_new dest: node_step_ok)

lemma node_steps_ok:
  assumes "(node_step E)\<^sup>*\<^sup>* ns ns'" "node_ok E ns" "store_codec E"
  shows "node_ok E ns' \<and> vs.store_le (stored_state E (ns_store ns)) (stored_state E (ns_store ns'))"
  using assms(1)
proof (induction rule: rtranclp_induct)
  case (step a b)
  then show ?case using node_step_ok [OF step.hyps(2) _ assms(3)] vs.store_le_trans by blast
qed (use assms(2) in simp)

text \<open>A response that appears on a receiver was stored first.\<close>

lemma respond_delivers:
  assumes "respond_hsm_request E inserts resp ns = (r, ns')"
    and "hsm_receive c ns = None" "hsm_receive c ns' = Some answer" "stage_ok (ns_stage ns)"
  obtains s where "answer = resp" "state_from_entries (ne_from_slice E) (hres_signer_state resp) = Ok s"
    "ns_signer_state ns' = fst (merge (ns_signer_state ns) s)"
    "ns_store ns' = Some (ne_state_to_vec E (fst (merge (ns_signer_state ns) s)))"
proof -
  let ?rp = "\<lparr>rp_request_id = hres_request_id resp, rp_body = resp\<rparr>"
  have e: "hres_error resp = []" using assms(1-3) by (cases "hres_error resp = []") (auto simp: respond_hsm_request_def)
  obtain s where s: "state_from_entries (ne_from_slice E) (hres_signer_state resp) = Ok s"
    using assms(1-3) e by (auto simp: respond_hsm_request_def split: outcome.splits)
  have i: "inserts"
    using assms(1-3) e s
    by (cases inserts) (auto simp: respond_hsm_request_def store_write_def hsm_receive_def Let_def)
  have ns': "ns' = ns\<lparr>ns_signer_state := fst (merge (ns_signer_state ns) s),
      ns_store := Some (ne_state_to_vec E (fst (merge (ns_signer_state ns) s))),
      ns_stage := snd (stage_respond ?rp (ns_stage ns))\<rparr>"
    using assms(1) e s i by (auto simp: respond_hsm_request_def store_write_def Let_def)
  have "answer = resp"
  proof -
    let ?boxes = "inboxes (snd (stage_respond ?rp (ns_stage ns)))"
    obtain q b where b: "bt_get ?boxes c = Some (q # b)" "answer = rp_body q"
      using assms(3) by (auto simp: hsm_receive_def ns' split: option.splits list.splits)
    have "bt_get ?boxes c = map_option (\<lambda>x. x @ [?rp]) (bt_get (inboxes (ns_stage ns)) c) \<or>
        bt_get ?boxes c = bt_get (inboxes (ns_stage ns)) c"
      by (auto simp: stage_respond_def Let_def bt_get_map_pair map_option_case split: option.splits)
    moreover have "bt_get (inboxes (ns_stage ns)) c = Some [] \<or> bt_get (inboxes (ns_stage ns)) c = None"
      using assms(2) by (auto simp: hsm_receive_def split: option.splits list.splits)
    ultimately show ?thesis using b by auto
  qed
  then show thesis using that [OF _ s] ns' by simp
qed

lemma node_server_new_stored:
  "is_ok (store_read (ne_state_from_slice E) db) \<Longrightarrow>
     \<exists>fresh. node_server_new E db = Ok fresh \<and> ns_signer_state fresh = stored_state E db"
  by (auto simp: node_server_new_def stored_state_def is_ok_iff)

lemma rpc_wait_loop_bounds:
  assumes "\<forall>t. wakes t \<le> t + 500 + late"
  shows "now \<le> rpc_wait_loop exists wakes deadline now \<and>
    (exists (rpc_wait_loop exists wakes deadline now) \<or> deadline < rpc_wait_loop exists wakes deadline now) \<and>
    rpc_wait_loop exists wakes deadline now \<le> max now (deadline + 500 + late)"
  using assms
proof (induction exists wakes deadline now rule: rpc_wait_loop.induct)
  case (1 exists wakes deadline now)
  show ?case
  proof (cases "deadline < now \<or> exists now")
    case True
    then show ?thesis by (auto simp: rpc_wait_loop.simps [of exists wakes deadline now])
  next
    case False
    have "max (now + 500) (wakes now) \<le> deadline + 500 + late"
      using "1.prems" [rule_format, of now] False by simp
    with "1.IH" [OF _ _ "1.prems"] False show ?thesis
      by (auto simp: rpc_wait_loop.simps [of exists wakes deadline now])
  qed
qed

text \<open>
  \<open>configure\<close> keeps the oldest running request, whichever it is. If a call of another
  client is running when the configuration is accepted, that call's request is stored, and
  from then on attached to every request for a signer, also after the call has ended.
\<close>

lemma configure_keeps_oldest_request:
  assumes "ns_ctx ns = oldest # others" "check_close_to C close_to = Ok ()"
    and "ce_datastore C (ne_request_to_string E oldest) = Ok ()"
    and "ne_request_from_str E (ne_request_to_string E oldest) = Some oldest"
    and "configure E C close_to ns = (r, ns')" "ns_configure later = ns_configure ns'"
  shows "r = Ok () \<and>
    (\<exists>out. outgoing_request E req later = Ok out \<and>
       hr_requests out = map pending_of_context (ns_ctx later) @ [pending_of_context oldest])"
  using assms by (auto simp: configure_def snapshot_def outgoing_request_def Let_def)

section \<open>Properties\<close>

text \<open>
  C7: lightningd sees an answer only when it can no longer be lost. If a response of a signer
  appears on the receiver of a request, the state it carries was merged and stored before;
  and a node restarted from the store, at any later moment, starts with a state at least as
  recent.
\<close>

theorem answer_is_durable:
  assumes "node_reachable E ns" "store_codec E"
    and "respond_hsm_request E inserts resp ns = (r, ns')"
    and "hsm_receive c ns = None" "hsm_receive c ns' = Some answer"
    and "(node_step E)\<^sup>*\<^sup>* ns' ns''"
  shows "answer = resp \<and>
    (\<exists>s fresh. state_from_entries (ne_from_slice E) (hres_signer_state resp) = Ok s \<and>
       node_server_new E (ns_store ns'') = Ok fresh \<and>
       vs.store_le (fst (merge (ns_signer_state ns) s)) (ns_signer_state fresh))"
proof -
  have ok: "node_ok E ns" using assms(1,2) by (rule node_reachable_ok)
  then have "stage_ok (ns_stage ns)" by (simp add: node_ok_def)
  with assms(3-5) obtain s where s: "answer = resp"
    "state_from_entries (ne_from_slice E) (hres_signer_state resp) = Ok s"
    "ns_store ns' = Some (ne_state_to_vec E (fst (merge (ns_signer_state ns) s)))"
    by (rule respond_delivers)
  have "node_ok E ns'" using respond_state [OF ok assms(2), of inserts resp] assms(3) by simp
  from node_steps_ok [OF assms(6) this assms(2)] show ?thesis
    using s assms(2) node_server_new_stored [of E "ns_store ns''"] by (auto simp: node_ok_def)
qed

text \<open>
  C24: the server's invariant, over every interleaving of its tasks. The signers that are counted
  are those of the open streams, without the ones whose task has stopped counting and not yet
  dropped the stream, and with the calls that are attaching and with those whose call was dropped
  or whose task panicked, which stay counted: the best guess of the code is off by exactly these.
  A stream whose task is running is counted, the stage is well formed, and the state is never
  behind the store.
\<close>

theorem node_server_invariant:
  assumes "node_reachable E ns" "store_codec E"
  shows "ns_signer_count ns + length (ns_exiting ns) =
      length (streams (ns_stage ns)) + ns_attaching ns + ns_lost ns \<and>
    (\<forall>i. bt_get (streams (ns_stage ns)) i \<noteq> None \<and> i \<notin> set (ns_exiting ns) \<longrightarrow> 0 < ns_signer_count ns) \<and>
    stage_ok (ns_stage ns) \<and> state_ok (ns_signer_state ns) \<and>
    vs.store_le (stored_state E (ns_store ns)) (ns_signer_state ns)"
proof -
  from node_reachable_ok [OF assms] have ok: "stage_ok (ns_stage ns)" "signers_ok ns"
    "state_ok (ns_signer_state ns)" "vs.store_le (stored_state E (ns_store ns)) (ns_signer_state ns)"
    by (simp_all add: node_ok_def)
  have "ns_signer_count ns + length (ns_exiting ns) =
      length (streams (ns_stage ns)) + ns_attaching ns + ns_lost ns"
    using ok(1,2) by (simp add: signers_ok_def stage_ok_def)
  moreover have "\<forall>i. bt_get (streams (ns_stage ns)) i \<noteq> None \<and> i \<notin> set (ns_exiting ns) \<longrightarrow> 0 < ns_signer_count ns"
    using signers_ok_counted(2) [OF ok(2,1)] unfolding stream_open_def by blast
  ultimately show ?thesis using ok by blast
qed

text \<open>
  C38: waiting for the RPC socket ends. The loop stops at a moment when the socket is there or
  the five seconds are over, and no later than one sleep after the deadline.
\<close>

theorem rpc_wait_returns:
  assumes "\<forall>t. wakes t \<le> t + 500 + late"
  shows "now \<le> rpc_wait exists wakes now \<and>
    (exists (rpc_wait exists wakes now) \<or> now + 5000 < rpc_wait exists wakes now) \<and>
    rpc_wait exists wakes now \<le> now + 5500 + late"
  using rpc_wait_loop_bounds [OF assms, of now exists "now + 5000"] by (auto simp: rpc_wait_def)

lemma rpc_wait_returns_witness:
  "rpc_wait (\<lambda>t. 1200 \<le> t) (\<lambda>t. t + 510) 0 \<le> 5510"
  using rpc_wait_returns [of "\<lambda>t. t + 510" 10 0 "\<lambda>t. 1200 \<le> t"] by simp

subsection \<open>Witnesses\<close>

text \<open>A store format that loses nothing: an entry is the length of its key in unary, the key, the version, the value in unary.\<close>

definition demo_encode :: "nat signer_state \<Rightarrow> bytes" where
  "demo_encode s =
     concat (map (\<lambda>(k, v, j). replicate (length k) 1 @ 0 # as_bytes k @ put_u64 v @ replicate j 1 @ [0]) (state_values s))"

fun demo_unary :: "bytes \<Rightarrow> nat \<Rightarrow> nat \<times> bytes" where
  "demo_unary (x # b) n = (if x = 1 then demo_unary b (Suc n) else (n, b))"
| "demo_unary [] n = (n, [])"

fun demo_entries :: "nat \<Rightarrow> bytes \<Rightarrow> (string \<times> u64 \<times> nat) list" where
  "demo_entries (Suc f) (x # b) =
     (let (n, b) = demo_unary (x # b) 0; (j, rest) = demo_unary (drop 8 (drop n b)) 0 in
      (map (\<lambda>c. char_of (unat c)) (take n b), word_of_nat (of_be_bytes (take 8 (drop n b))), j) #
      demo_entries f rest)"
| "demo_entries _ _ = []"

definition demo_node_env :: "nat node_env" where
  "demo_node_env = \<lparr>ne_from_slice = (\<lambda>b. Some (length b)), ne_to_vec = (\<lambda>n. replicate n 0),
     ne_state_from_slice = (\<lambda>b. Some \<lparr>state_values = demo_entries (length b) b\<rparr>),
     ne_state_to_vec = demo_encode, ne_request_to_string = cx_uri,
     ne_request_from_str = (\<lambda>s. Some (context_request_new s [] [] [] None [])), ne_heartbeat = [0, 39],
     ne_startup_messages = [], ne_initmsg = []\<rparr>"

lemma demo_unary_replicate: "demo_unary (replicate m 1 @ 0 # b) n = (n + m, b)"
  by (induction m arbitrary: n) simp_all

lemma chars_of_as_bytes: "map (\<lambda>c. char_of (unat c)) (as_bytes k) = k"
  by (induction k) (simp_all add: as_bytes_def unat_of_nat)

lemma demo_entries_encode:
  "length es \<le> f \<Longrightarrow> demo_entries f (demo_encode \<lparr>state_values = es\<rparr>) = es"
proof (induction es arbitrary: f)
  case Nil
  then show ?case by (cases f) (simp_all add: demo_encode_def)
next
  case (Cons e es)
  obtain k v j where e: "e = (k, v, j)" by (cases e)
  obtain f' where f: "f = Suc f'" "length es \<le> f'" using Cons.prems by (cases f) auto
  let ?rest = "demo_encode \<lparr>state_values = es\<rparr>"
  have enc: "demo_encode \<lparr>state_values = e # es\<rparr> = replicate (length k) 1 @ 0 # as_bytes k @ put_u64 v @ replicate j 1 @ 0 # ?rest"
    by (simp add: demo_encode_def e)
  moreover obtain x b where xb: "replicate (length k) 1 @ 0 # as_bytes k @ put_u64 v @ replicate j 1 @ 0 # ?rest = x # b"
    by (cases "replicate (length k) (1 :: u8)") auto
  moreover have "demo_unary (x # b) 0 = (length k, as_bytes k @ put_u64 v @ replicate j 1 @ 0 # ?rest)"
    unfolding xb [symmetric] using demo_unary_replicate [of "length k" _ 0] by simp
  moreover have "demo_unary (replicate j 1 @ 0 # ?rest) 0 = (j, ?rest)" by (simp add: demo_unary_replicate)
  ultimately show ?case
    using Cons.IH [OF f(2)] by (simp add: f(1) e chars_of_as_bytes)
qed

lemma demo_store_codec: "store_codec demo_node_env"
proof -
  have "length (state_values s) \<le> length (demo_encode s)" for s :: "nat signer_state"
  proof -
    have "length es \<le> length (concat (map (\<lambda>(k, v, j). replicate (length k) 1 @ 0 # as_bytes k @ put_u64 v @ replicate j 1 @ [0]) es))"
      for es :: "(string \<times> u64 \<times> nat) list"
      by (induction es) (auto simp: split_def)
    then show ?thesis by (simp add: demo_encode_def)
  qed
  then have "demo_entries (length (demo_encode s)) (demo_encode \<lparr>state_values = state_values s\<rparr>) = state_values s"
    for s :: "nat signer_state" by (intro demo_entries_encode)
  moreover have "\<lparr>state_values = state_values s\<rparr> = s" for s :: "nat signer_state" by (cases s) simp
  ultimately have "demo_entries (length (demo_encode s)) (demo_encode s) = state_values s" for s by metis
  then show ?thesis by (simp add: store_codec_def demo_node_env_def)
qed

text \<open>A node with one request staged, and the response to it.\<close>

definition demo_staged :: "nat node_server" where
  "demo_staged = \<lparr>ns_stage = snd (stage_send 7 [0, 1] \<lparr>hr_request_id = 7, hr_context = None, hr_raw = [0, 1],
       hr_signer_state = [], hr_requests = []\<rparr> stage_new),
     ns_signer_state = state_new, ns_store = None, ns_ctx = [], ns_configure = None,
     ns_signer_count = 0, ns_hsm_id_count = 0, ns_attaching = 0, ns_exiting = [], ns_lost = 0\<rparr>"

definition demo_response :: hsm_response where
  "demo_response = \<lparr>hres_request_id = 7, hres_raw = [0, 2],
     hres_signer_state = [\<lparr>entry_version = 1, entry_key = ''k'', entry_value = []\<rparr>], hres_error = []\<rparr>"

lemma demo_staged_reachable: "node_reachable demo_node_env demo_staged"
proof -
  let ?ns = "demo_staged\<lparr>ns_stage := stage_new\<rparr>"
  let ?req = "\<lparr>hr_request_id = 7, hr_context = None, hr_raw = [0, 1], hr_signer_state = [], hr_requests = []\<rparr>"
  have "node_server_new demo_node_env None = Ok ?ns"
    by (simp add: node_server_new_def store_read_def demo_staged_def context_new_def)
  then have "node_reachable demo_node_env ?ns" by (rule starts) (simp add: demo_staged_def)
  moreover have "snd (hsm_request_call demo_node_env ?req ?ns) = demo_staged"
    by (simp add: hsm_request_call_def find_canned_response_def demo_node_env_def demo_staged_def split_def Let_def)
  ultimately show ?thesis by (metis ns_request steps)
qed

theorem answer_is_durable_witness:
  "\<exists>ns'. respond_hsm_request demo_node_env True demo_response demo_staged = (Ok (), ns') \<and>
     hsm_receive 0 ns' = Some demo_response \<and>
     (\<exists>fresh. node_server_new demo_node_env (ns_store ns') = Ok fresh)"
proof -
  define ns' where "ns' = snd (respond_hsm_request demo_node_env True demo_response demo_staged)"
  have r: "respond_hsm_request demo_node_env True demo_response demo_staged = (Ok (), ns')"
    by (simp add: ns'_def respond_hsm_request_def demo_response_def state_from_entries_def demo_node_env_def
        store_write_def Let_def)
  have c: "hsm_receive 0 ns' = Some demo_response"
    by (simp add: ns'_def respond_hsm_request_def demo_response_def state_from_entries_def demo_node_env_def
        store_write_def Let_def hsm_receive_def demo_staged_def stage_send_def stage_respond_def stage_new_def
        bt_get_def bt_remove_def)
  have "hsm_receive 0 demo_staged = None"
    by (simp add: hsm_receive_def demo_staged_def stage_send_def stage_new_def bt_get_def)
  from answer_is_durable [OF demo_staged_reachable demo_store_codec r this c, of ns'] r c show ?thesis by blast
qed

text \<open>A signer that is counted and does not get its stream yet.\<close>

lemma node_server_invariant_witness:
  "ns_signer_count (signer_counted demo_staged) = 1 \<and> streams (ns_stage (signer_counted demo_staged)) = [] \<and>
     ns_signer_count (signer_counted demo_staged) + length (ns_exiting (signer_counted demo_staged)) =
       length (streams (ns_stage (signer_counted demo_staged))) + ns_attaching (signer_counted demo_staged)"
proof -
  let ?ns = "signer_counted demo_staged"
  have "node_reachable demo_node_env ?ns" using demo_staged_reachable ns_attach by (rule steps)
  from node_server_invariant [OF this demo_store_codec]
  have "ns_signer_count ?ns + length (ns_exiting ?ns) = length (streams (ns_stage ?ns)) + ns_attaching ?ns + ns_lost ?ns"
    by blast
  moreover have "ns_signer_count ?ns = 1" "streams (ns_stage ?ns) = []" "ns_lost ?ns = 0"
    by (simp_all add: signer_counted_def demo_staged_def stage_send_def stage_new_def)
  ultimately show ?thesis by simp
qed

definition demo_config :: "(string, string) config_env" where
  "demo_config = \<lparr>ce_network = Ok ''bitcoin'', ce_parse_network = Some, ce_parse_address = Ok,
     ce_require_network = (\<lambda>_ _. Ok ()), ce_datastore = (\<lambda>_. Ok ())\<rparr>"

end
