(* ===== verification/Session.thy ===== *)
theory Session
  imports NodeServer
begin

text \<open>
  A client, its node and its signer together: what the node attaches to a request of
  lightningd is what the signer justifies it with, and the exchange of request and response
  leaves node, store and signer with one state.
\<close>

lemma decode_all_total:
  "\<forall>r \<in> set rs. decode_request P r \<noteq> Panic \<Longrightarrow> \<exists>qs. decode_all P rs = Ok qs"
proof (induction rs)
  case (Cons r rs)
  then obtain qs where "decode_all P rs = Ok qs" by auto
  then show ?case using Cons.prems by (cases "decode_request P r") auto
qed simp

lemma context_requests_total:
  "\<forall>r \<in> set rs. decode_request P r \<noteq> Panic \<Longrightarrow> \<exists>qs. context_requests cr lib signer P rs = Ok qs"
  unfolding context_requests_def by (rule decode_all_total) (simp add: authenticated_requests)

text \<open>An attached request that is authentic and decodes resolves the messages that match it.\<close>

lemma pending_request_resolves:
  assumes "r \<in> set (hr_requests req)" "authenticated (env_crypto E) (env_lib E) signer r"
    and "decode_request (env_proto E) r = Ok q" "env_from_vec E (hr_raw req) = Ok msg" "resolves_with msg q"
    and "\<forall>p \<in> set (hr_requests req). decode_request (env_proto E) p \<noteq> Panic"
    and "\<not> is_sign_message (hr_raw req)"
    and "state_from_entries (env_from_slice E) (hr_signer_state req) = Ok incoming"
  shows "\<exists>ctx. q \<in> set ctx \<and>
    process_request E signer req st = answer_request E signer req ctx msg (fst (merge st incoming))"
proof -
  obtain ctx where ctx: "context_requests (env_crypto E) (env_lib E) signer (env_proto E) (hr_requests req) = Ok ctx"
    using context_requests_total assms(6) by blast
  then have q: "q \<in> set ctx" using assms(1-3) by (auto simp: context_justified justified_by_def)
  then have "try_resolve (env_ser E) msg ctx = Ok ()" using assms(5) by (auto simp: try_resolve_Ok)
  with q ctx assms(4,7,8) show ?thesis by (auto simp: process_request_def authenticate_request_def)
qed

lemma entries_read_back:
  "state_ok s \<Longrightarrow> \<forall>j. from_slice (to_vec j) = Some j \<Longrightarrow> state_from_entries from_slice (state_to_entries to_vec s) = Ok s"
  using insert_entries_sorted [of from_slice to_vec "[]" "state_values s"]
  by (simp add: state_from_entries_def state_ok_def state_to_entries_def)

text \<open>A request on its way to the signer: the fields of the staged one, state and pending requests attached.\<close>

lemma outgoing_request_Ok:
  assumes "outgoing_request E req ns = Ok out"
  shows "hr_raw out = hr_raw req \<and> hr_request_id out = hr_request_id req \<and>
    hr_signer_state out = state_to_entries (ne_to_vec E) (ns_signer_state ns) \<and>
    set (map pending_of_context (ns_ctx ns)) \<subseteq> set (hr_requests out)"
  using assms by (auto simp: outgoing_request_def obind_eq_Ok snapshot_def Let_def split: option.splits)

text \<open>A round that streams a request leaves the pending requests and the receivers alone.\<close>

lemma stream_round_Ok:
  assumes "stream_round E i sends ns = (Some (Ok out), ns')"
  shows "ns_signer_state ns' = ns_signer_state ns \<and> ns_store ns' = ns_store ns \<and>
    requests (ns_stage ns') = requests (ns_stage ns) \<and> inboxes (ns_stage ns') = inboxes (ns_stage ns) \<and>
    closed (ns_stage ns') = closed (ns_stage ns) \<and>
    hr_signer_state out = state_to_entries (ne_to_vec E) (ns_signer_state ns)"
proof -
  obtain x st where n: "stream_next i (ns_stage ns) = (x, st)" by (cases "stream_next i (ns_stage ns)")
  have st: "requests st = requests (ns_stage ns)" "inboxes st = inboxes (ns_stage ns)"
    "closed st = closed (ns_stage ns)"
    using n by (auto simp: stream_next_def split: option.splits list.splits if_splits)
  have ns': "ns' = ns\<lparr>ns_stage := st\<rparr>"
    using assms by (auto simp: stream_round_def n Let_def split: option.splits outcome.splits if_splits)
  obtain staged :: "hsm_request staged" where o: "outgoing_request E (st_body staged) ns' = Ok out"
    unfolding ns' using assms
    by (simp add: stream_round_def n Let_def split: option.splits outcome.splits if_splits)
  show ?thesis using outgoing_request_Ok [OF o] st by (simp add: ns')
qed

section \<open>Properties\<close>

text \<open>
  C3: one exchange brings node, store and signer together. A request is streamed to the signer
  with the node's state, the signer answers it, and the node takes the response, whatever the
  node has done in between, with other signers too. The store then holds the node's new state,
  the requester that waits for this id receives the response, and every version is the higher of
  the node's and the signer's. Where the node kept its entry in between and the signer did not
  delete it or run its version over, node and signer agree, unless both held different values
  under one version and the signer did not write the entry. When the signer takes the node's
  state again, all versions agree, and so do all values that had not one version.
\<close>

theorem exchange_agrees:
  assumes "node_reachable N ns" "store_codec N" "i \<notin> set (ns_exiting ns)"
    and "stream_round N i True ns = (Some (Ok req), ns1)" "(node_step N)\<^sup>*\<^sup>* ns1 ns2"
    and "process_request E signer req st = (st', rejs, Ok resp)"
    and "session (env_codec E) (fst (merge st (ns_signer_state ns))) st' lost"
    and "respond_hsm_request N True resp ns2 = (r, ns3)"
    and "ne_from_slice N = env_from_slice E" "\<forall>j. env_from_slice E (env_to_vec E j) = Some j" "state_ok st"
    and "bt_get (requests (ns_stage ns2)) (hr_request_id req) = Some waiting"
    and "st_response waiting \<notin> closed (ns_stage ns2)"
  shows "let node = state_get (ns_signer_state ns); between = state_get (ns_signer_state ns2);
             after = state_get (ns_signer_state ns3); answered = state_get st';
             again = state_get (fst (merge st' (ns_signer_state ns3))) in
    ns_store ns3 = Some (ne_state_to_vec N (ns_signer_state ns3)) \<and>
    hsm_receive (st_response waiting) ns3 = Some resp \<and>
    (\<forall>k. map_option fst (after k) = max (map_option fst (between k)) (map_option fst (answered k)) \<and>
       (between k = node k \<and> k \<notin> lost \<longrightarrow>
          after k = answered k \<or>
          \<not> vcoherent (node k) (state_get st k) \<and> answered k = state_get st k \<and> after k = node k) \<and>
       map_option fst (again k) = map_option fst (after k) \<and>
       (again k = after k \<or> \<not> vcoherent (between k) (answered k)))"
proof -
  have ok: "node_ok N ns" using assms(1,2) by (rule node_reachable_ok)
  have "bt_get (streams (ns_stage ns)) i \<noteq> None"
    using assms(4) by (auto simp: stream_round_def stream_next_def Let_def split: option.splits)
  then have "node_reachable N (snd (stream_round N i True ns))"
    using assms(1,3) by (intro steps [OF _ ns_stream])
  then have "node_ok N ns1" using node_reachable_ok assms(2,4) by simp
  then have ok2: "state_ok (ns_signer_state ns2)" "stage_ok (ns_stage ns2)"
    using node_steps_ok [OF assms(5)] assms(2) by (simp_all add: node_ok_def)
  have node: "state_ok (ns_signer_state ns)" using ok by (simp add: node_ok_def)
  have st': "state_ok st'" using session_ok [OF assms(7)] node assms(11) by simp
  have s: "state_from_entries (ne_from_slice N) (hres_signer_state resp) = Ok st'"
    using response_state [OF assms(6) st' assms(10)] assms(9) by simp
  have resp: "hres_error resp = []" "hres_request_id resp = hr_request_id req"
    using assms(6) process_request_id answer_request_Ok by (metis process_request_Ok)+
  define new where "new = fst (merge (ns_signer_state ns2) st')"
  have ns3: "ns3 = ns2\<lparr>ns_signer_state := new, ns_store := Some (ne_state_to_vec N new),
      ns_stage := snd (stage_respond \<lparr>rp_request_id = hres_request_id resp, rp_body = resp\<rparr> (ns_stage ns2))\<rparr>"
    using assms(8) s resp by (auto simp: respond_hsm_request_def store_write_def Let_def new_def)
  have "bt_get (inboxes (ns_stage ns2)) (st_response waiting) = Some []"
    using ok2(2) assms(12) by (auto elim: stage_okE)
  then have "hsm_receive (st_response waiting) ns3 = Some resp"
    using assms(12,13) resp(2)
    by (simp add: ns3 hsm_receive_def stage_respond_def Let_def bt_get_map_pair)
  moreover have "ns_signer_state ns3 = new" "ns_store ns3 = Some (ne_state_to_vec N new)" by (simp_all add: ns3)
  ultimately show ?thesis
    using session_synchronises_at [OF node assms(11) ok2(1) assms(7)] by (simp add: Let_def new_def)
qed

text \<open>
  C4: a client's payment goes through. While the client's \<open>Pay\<close> is running on the node, its
  signature and rune accepted by the signer, every request of lightningd to approve that
  invoice passes the signer's resolution, since the request is attached to it.
\<close>

theorem running_payment_is_approved:
  assumes "ns_ctx ns = context_run evs" "r \<in> set (context_run evs)"
    and "outgoing_request N req ns = Ok out"
    and "authenticated (env_crypto E) (env_lib E) signer (pending_of_context r)"
    and "decode_request (env_proto E) (pending_of_context r) = Ok (ReqPay p)"
    and "env_from_vec E (hr_raw req) = Ok (MsgPreapproveInvoice m)" "invstring m = as_bytes (pay_bolt11 p)"
    and "\<forall>q \<in> set (hr_requests out). decode_request (env_proto E) q \<noteq> Panic"
    and "\<not> is_sign_message (hr_raw req)"
    and "ne_to_vec N = env_to_vec E" "\<forall>j. env_from_slice E (env_to_vec E j) = Some j"
    and "state_ok (ns_signer_state ns)"
  shows "\<exists>ctx. ReqPay p \<in> set ctx \<and> process_request E signer out st =
    answer_request E signer out ctx (MsgPreapproveInvoice m) (fst (merge st (ns_signer_state ns)))"
proof -
  note out = outgoing_request_Ok [OF assms(3)]
  then have "state_from_entries (env_from_slice E) (hr_signer_state out) = Ok (ns_signer_state ns)"
    using entries_read_back [OF assms(12), of "env_from_slice E" "env_to_vec E"] assms(10,11) by simp
  moreover have "pending_of_context r \<in> set (hr_requests out)" using out assms(1,2) by auto
  moreover have "resolves_with (MsgPreapproveInvoice m) (ReqPay p)"
    using assms(7) by (simp add: resolves_with_preapprove)
  ultimately show ?thesis
    using pending_request_resolves [of "pending_of_context r" out E signer "ReqPay p" "MsgPreapproveInvoice m"
        "ns_signer_state ns" st] out assms(4-6,8,9) by simp
qed

text \<open>
  C27: a configuration can keep a payment authorised. If another client's \<open>Pay\<close> is the oldest
  running request when a configuration is accepted, it is stored in its place, and after it
  has ended, with nothing running at all, the signer still approves its invoice.
\<close>

theorem configured_payment_stays_approved:
  assumes "ns_ctx ns = r # others" "check_close_to C close_to = Ok ()"
    and "ce_datastore C (ne_request_to_string N r) = Ok ()"
    and "ne_request_from_str N (ne_request_to_string N r) = Some r"
    and "configure N C close_to ns = (res, ns')" "outgoing_request N req (ns'\<lparr>ns_ctx := []\<rparr>) = Ok out"
    and "authenticated (env_crypto E) (env_lib E) signer (pending_of_context r)"
    and "decode_request (env_proto E) (pending_of_context r) = Ok (ReqPay p)"
    and "env_from_vec E (hr_raw req) = Ok (MsgPreapproveInvoice m)" "invstring m = as_bytes (pay_bolt11 p)"
    and "\<not> is_sign_message (hr_raw req)"
    and "ne_to_vec N = env_to_vec E" "\<forall>j. env_from_slice E (env_to_vec E j) = Some j"
    and "state_ok (ns_signer_state ns)"
  shows "\<exists>ctx. ReqPay p \<in> set ctx \<and> process_request E signer out st =
    answer_request E signer out ctx (MsgPreapproveInvoice m) (fst (merge st (ns_signer_state ns)))"
proof -
  have pending: "hr_requests out = [pending_of_context r]"
    using configure_keeps_oldest_request [OF assms(1-5), of "ns'\<lparr>ns_ctx := []\<rparr>" req] assms(6) by auto
  have "ns_signer_state ns' = ns_signer_state ns"
    using assms(5) by (auto simp: configure_def Let_def split: outcome.splits list.splits)
  with outgoing_request_Ok [OF assms(6)]
  have "state_from_entries (env_from_slice E) (hr_signer_state out) = Ok (ns_signer_state ns)" "hr_raw out = hr_raw req"
    using entries_read_back [OF assms(14), of "env_from_slice E" "env_to_vec E"] assms(12,13) by simp_all
  moreover have "resolves_with (MsgPreapproveInvoice m) (ReqPay p)"
    using assms(10) by (simp add: resolves_with_preapprove)
  ultimately show ?thesis
    using pending_request_resolves [of "pending_of_context r" out E signer "ReqPay p" "MsgPreapproveInvoice m"
        "ns_signer_state ns" st] pending assms(7-9,11) by simp
qed

subsection \<open>Witnesses\<close>

text \<open>
  A session: the client's \<open>Pay\<close> is running, a signer is attached, and lightningd asks for
  the approval of the invoice.
\<close>

definition demo_running :: context_request where
  "demo_running = \<lparr>cx_pubkey = pr_pubkey demo_pay, cx_signature = pr_signature demo_pay, cx_rune = pr_rune demo_pay,
     cx_payload = pr_request demo_pay, cx_uri = pr_uri demo_pay, cx_timestamp = Some (pr_timestamp demo_pay)\<rparr>"

definition demo_http :: http_request where
  "demo_http = \<lparr>hq_uri = None, hq_headers = [], hq_body = []\<rparr>"

definition demo_waiting :: hsm_request where
  "demo_waiting = demo_preapprove\<lparr>hr_requests := []\<rparr>"

definition demo_session_env :: "nat node_env" where
  "demo_session_env = demo_node_env\<lparr>ne_request_from_str := \<lambda>_. Some demo_running\<rparr>"

definition demo_session :: "nat node_server" where
  "demo_session =
     snd (hsm_request_call demo_session_env demo_waiting (snd (attach_signer (\<lambda>x. x)
       \<lparr>ns_stage = stage_new, ns_signer_state = state_new, ns_store = None, ns_ctx = [demo_running],
        ns_configure = None, ns_signer_count = 0, ns_hsm_id_count = 0,
        ns_attaching = 0, ns_exiting = [], ns_lost = 0\<rparr>)))"

lemma demo_running_pending [simp]: "pending_of_context demo_running = demo_pay"
  by (simp add: pending_of_context_def demo_running_def)

lemma demo_session_codec:
  "store_codec demo_session_env" "ne_from_slice demo_session_env = env_from_slice demo_env"
  "ne_to_vec demo_session_env = env_to_vec demo_env" "\<forall>j. env_from_slice demo_env (env_to_vec demo_env j) = Some j"
  using demo_store_codec
  by (simp_all add: demo_session_env_def store_codec_def demo_node_env_def demo_env_def)

lemma demo_session_eq:
  "demo_session = \<lparr>ns_stage =
      \<lparr>requests = [(9, \<lparr>st_request_id = 9, st_raw = hr_raw demo_waiting, st_body = demo_waiting, st_response = 0\<rparr>)],
       streams = [(0, \<lparr>backlog = [], bcast = [\<lparr>st_request_id = 9, st_raw = hr_raw demo_waiting, st_body = demo_waiting,
          st_response = 0\<rparr>], bcast_lagged = False\<rparr>)],
       inboxes = [(0, [])], closed = {}, hsm_connections = 1, next_channel = 1, next_stream = 1\<rparr>,
     ns_signer_state = state_new, ns_store = None, ns_ctx = [demo_running], ns_configure = None,
     ns_signer_count = 1, ns_hsm_id_count = 1, ns_attaching = 0, ns_exiting = [], ns_lost = 0\<rparr>"
  by (simp add: demo_session_def hsm_request_call_def demo_waiting_def demo_preapprove_def find_canned_response_def
      demo_session_env_def demo_node_env_def as_bytes_def Let_def attach_signer_def
      signer_counted_def signer_subscribed_def mystream_def stage_new_def
      stage_send_def announce_def broadcast_capacity_def)

lemma demo_session_reachable: "node_reachable demo_session_env demo_session"
proof -
  let ?start = "\<lparr>ns_stage = stage_new, ns_signer_state = state_new, ns_store = None, ns_ctx = [],
        ns_configure = None, ns_signer_count = 0, ns_hsm_id_count = 0,
        ns_attaching = 0, ns_exiting = [], ns_lost = 0\<rparr> :: nat node_server"
  let ?run = "?start\<lparr>ns_ctx := call_begins (Registered demo_running demo_http) (ns_ctx ?start)\<rparr>"
  have "node_server_new demo_session_env None = Ok ?start"
    by (simp add: node_server_new_def store_read_def context_new_def)
  then have "node_reachable demo_session_env ?start" by (rule starts) simp
  then have "node_reachable demo_session_env ?run" by (rule steps) (rule ns_begins)
  then have "node_reachable demo_session_env (signer_counted ?run)" by (rule steps) (rule ns_attach)
  then have "node_reachable demo_session_env (snd (attach_signer (\<lambda>x. x) ?run))"
    unfolding attach_signer_def by (rule steps) (rule ns_subscribe, simp_all add: signer_counted_def)
  then show ?thesis
    unfolding demo_session_def using steps [OF _ ns_request] by (simp add: add_request_def)
qed

lemma demo_session_streams:
  "\<exists>ns1. stream_round demo_session_env 0 True demo_session = (Some (Ok demo_preapprove), ns1)"
  by (simp add: demo_session_eq stream_round_def stream_next_def bt_get_def outgoing_request_def snapshot_def
      demo_waiting_def demo_preapprove_def state_to_entries_def state_new_def Let_def)

theorem exchange_agrees_witness:
  "\<exists>ns1 resp r ns2. stream_round demo_session_env 0 True demo_session = (Some (Ok demo_preapprove), ns1) \<and>
     process_request demo_env demo_signer_id demo_preapprove state_new = (state_new, [], Ok resp) \<and>
     respond_hsm_request demo_session_env True resp ns1 = (r, ns2) \<and> hsm_receive 0 ns2 = Some resp"
proof -
  obtain ns1 where s: "stream_round demo_session_env 0 True demo_session = (Some (Ok demo_preapprove), ns1)"
    using demo_session_streams by blast
  note round = stream_round_Ok [OF s]
  obtain r ns2 where r: "respond_hsm_request demo_session_env True
      \<lparr>hres_request_id = 9, hres_raw = [1], hres_signer_state = [], hres_error = []\<rparr> ns1 = (r, ns2)"
    by (cases "respond_hsm_request demo_session_env True
      \<lparr>hres_request_id = 9, hres_raw = [1], hres_signer_state = [], hres_error = []\<rparr> ns1")
  have w: "bt_get (requests (ns_stage ns1)) (hr_request_id demo_preapprove) =
      Some \<lparr>st_request_id = 9, st_raw = hr_raw demo_waiting, st_body = demo_waiting, st_response = 0\<rparr>"
    using round by (simp add: demo_session_eq bt_get_def demo_preapprove_def)
  have "session (env_codec demo_env) (fst (merge state_new (ns_signer_state demo_session))) state_new {}"
    using session_start by (simp add: demo_session_eq merge_def state_new_def)
  from exchange_agrees [OF demo_session_reachable demo_session_codec(1) _ s rtranclp.rtrancl_refl
      demo_preapprove_answered this r demo_session_codec(2,4) _ w]
  have "hsm_receive 0 ns2 = Some \<lparr>hres_request_id = 9, hres_raw = [1], hres_signer_state = [], hres_error = []\<rparr>"
    using round by (simp add: demo_session_eq Let_def)
  with s demo_preapprove_answered r show ?thesis by blast
qed

theorem running_payment_is_approved_witness:
  "\<exists>out ctx. outgoing_request demo_session_env demo_waiting demo_session = Ok out \<and>
     ReqPay \<lparr>pay_bolt11 = ''i''\<rparr> \<in> set ctx \<and>
     process_request demo_env demo_signer_id out state_new =
       answer_request demo_env demo_signer_id out ctx (MsgPreapproveInvoice \<lparr>invstring = as_bytes ''i''\<rparr>)
         (fst (merge state_new (ns_signer_state demo_session)))"
proof -
  have ctx: "ns_ctx demo_session = context_run [Begins (Registered demo_running demo_http)]"
    by (simp add: demo_session_eq context_run_def context_new_def add_request_def)
  have out: "outgoing_request demo_session_env demo_waiting demo_session = Ok demo_preapprove"
    by (simp add: outgoing_request_def snapshot_def demo_session_eq demo_waiting_def demo_preapprove_def
        state_to_entries_def state_new_def)
  have msg: "env_from_vec demo_env (hr_raw demo_waiting) = Ok (MsgPreapproveInvoice \<lparr>invstring = as_bytes ''i''\<rparr>)"
    "\<not> is_sign_message (hr_raw demo_waiting)"
    by (simp_all add: demo_env_def demo_waiting_def demo_preapprove_def is_sign_message_iff)
  have auth: "authenticated (env_crypto demo_env) (env_lib demo_env) demo_signer_id (pending_of_context demo_running)"
    "decode_request (env_proto demo_env) (pending_of_context demo_running) = Ok (ReqPay \<lparr>pay_bolt11 = ''i''\<rparr>)"
    using demo_pay_authenticated demo_pay_decodes by (simp_all add: demo_env_def)
  have "\<forall>q \<in> set (hr_requests demo_preapprove). decode_request (env_proto demo_env) q \<noteq> Panic"
    using demo_pay_decodes by (simp add: demo_env_def demo_preapprove_def)
  moreover have "demo_running \<in> set (context_run [Begins (Registered demo_running demo_http)])"
    by (simp add: context_run_def context_new_def add_request_def)
  moreover have "state_ok (ns_signer_state demo_session)" by (simp add: demo_session_eq)
  ultimately have "\<exists>ctx. ReqPay \<lparr>pay_bolt11 = ''i''\<rparr> \<in> set ctx \<and>
     process_request demo_env demo_signer_id demo_preapprove state_new =
       answer_request demo_env demo_signer_id demo_preapprove ctx (MsgPreapproveInvoice \<lparr>invstring = as_bytes ''i''\<rparr>)
         (fst (merge state_new (ns_signer_state demo_session)))"
    using running_payment_is_approved [OF ctx _ out auth msg(1) _ _ msg(2) demo_session_codec(3,4)] by simp
  with out show ?thesis by blast
qed

theorem configured_payment_stays_approved_witness:
  "\<exists>res ns' out ctx. configure demo_session_env demo_config ''bc1'' demo_session = (res, ns') \<and>
     outgoing_request demo_session_env demo_waiting (ns'\<lparr>ns_ctx := []\<rparr>) = Ok out \<and>
     ReqPay \<lparr>pay_bolt11 = ''i''\<rparr> \<in> set ctx \<and>
     process_request demo_env demo_signer_id out state_new =
       answer_request demo_env demo_signer_id out ctx (MsgPreapproveInvoice \<lparr>invstring = as_bytes ''i''\<rparr>)
         (fst (merge state_new (ns_signer_state demo_session)))"
proof -
  obtain res ns' where c: "configure demo_session_env demo_config ''bc1'' demo_session = (res, ns')"
    by (cases "configure demo_session_env demo_config ''bc1'' demo_session")
  have cfg: "check_close_to demo_config ''bc1'' = Ok ()"
    "ce_datastore demo_config (ne_request_to_string demo_session_env demo_running) = Ok ()"
    "ne_request_from_str demo_session_env (ne_request_to_string demo_session_env demo_running) = Some demo_running"
    by (simp_all add: check_close_to_def demo_config_def demo_session_env_def)
  have ctx: "ns_ctx demo_session = demo_running # []" by (simp add: demo_session_eq)
  obtain out where out: "outgoing_request demo_session_env demo_waiting (ns'\<lparr>ns_ctx := []\<rparr>) = Ok out"
    using configure_keeps_oldest_request [OF ctx cfg c, of "ns'\<lparr>ns_ctx := []\<rparr>" demo_waiting] by auto
  have msg: "env_from_vec demo_env (hr_raw demo_waiting) = Ok (MsgPreapproveInvoice \<lparr>invstring = as_bytes ''i''\<rparr>)"
    "\<not> is_sign_message (hr_raw demo_waiting)"
    by (simp_all add: demo_env_def demo_waiting_def demo_preapprove_def is_sign_message_iff)
  have "authenticated (env_crypto demo_env) (env_lib demo_env) demo_signer_id (pending_of_context demo_running)"
    "decode_request (env_proto demo_env) (pending_of_context demo_running) = Ok (ReqPay \<lparr>pay_bolt11 = ''i''\<rparr>)"
    using demo_pay_authenticated demo_pay_decodes by (simp_all add: demo_env_def)
  from configured_payment_stays_approved [OF ctx cfg c out this msg(1) _ msg(2) demo_session_codec(3,4)]
  have "\<exists>ctx. ReqPay \<lparr>pay_bolt11 = ''i''\<rparr> \<in> set ctx \<and>
     process_request demo_env demo_signer_id out state_new =
       answer_request demo_env demo_signer_id out ctx (MsgPreapproveInvoice \<lparr>invstring = as_bytes ''i''\<rparr>)
         (fst (merge state_new (ns_signer_state demo_session)))"
    by (simp add: demo_session_eq)
  with c out show ?thesis by blast
qed

end
