(* ===== verification/NodeCalls.thy ===== *)
theory NodeCalls
  imports NodeServer
begin

text \<open>
  The calls of clients that the node answers with more than lightningd's own call: invoices
  with the choice between a channel that is there and one an LSP opens, route hints of
  invoices, disconnecting and reconnecting peers (\<open>libs/gl-plugin/src/node/mod.rs\<close> and
  \<open>wrapper.rs\<close>, with the conversions of \<open>requests.rs\<close>, \<open>responses.rs\<close> and \<open>pb.rs\<close>). The RPC
  of lightningd is a record of functions, so are hex, the parse of short channel ids and of
  JSON. Amounts are natural numbers below \<open>2 ^ 64\<close>; their sum wraps.
\<close>

subsection \<open>Requests and answers\<close>

datatype amount_or_any = Amount nat | AnyAmount

record dev_hop =
  dh_id :: string
  dh_short_channel_id :: string
  dh_fee_base_msat :: "nat option"
  dh_fee_proportional_millionths :: nat
  dh_cltv_expiry_delta :: nat

record invoice_call =
  inv_amount :: amount_or_any
  inv_description :: string
  inv_label :: string
  inv_expiry :: "nat option"
  inv_fallbacks :: "string list option"
  inv_preimage :: "string option"
  inv_cltv :: "nat option"
  inv_deschashonly :: "bool option"
  inv_exposeprivatechannels :: "string list option"
  inv_dev_routes :: "dev_hop list list option"

record invoice_result =
  ir_expiry_time :: nat
  ir_bolt11 :: string
  ir_payment_hash :: string
  ir_payment_secret :: "string option"

record lsp_invoice_request =
  li_lsp_id :: string
  li_token :: string
  li_amount_msat :: nat
  li_description :: string
  li_label :: string

record lsp_call =
  lc_lsp_id :: string
  lc_token :: "string option"
  lc_amount :: amount_or_any
  lc_description :: string
  lc_label :: string

record lsp_call_result =
  lr_bolt11 :: string
  lr_created_index :: nat
  lr_expires_at :: nat
  lr_payment_hash :: string
  lr_payment_secret :: string

record lsp_invoice_response =
  lv_bolt11 :: string
  lv_created_index :: nat
  lv_expires_at :: nat
  lv_payment_hash :: bytes
  lv_payment_secret :: bytes

datatype channel_state = ChanneldNormal | OtherState string

record node_channel =
  nc_peer_connected :: bool
  nc_state :: channel_state
  nc_receivable_msat :: "nat option"
  nc_short_channel_id :: "string option"
  nc_alias_remote :: "string option"

record incoming_channel =
  ic_id :: string
  ic_short_channel_id :: string
  ic_fee_base_msat :: string
  ic_fee_proportional_millionths :: nat
  ic_cltv_expiry_delta :: nat
  ic_incoming_capacity_msat :: string

record listed_peer =
  lp_id :: string
  lp_connected :: bool

record opening_fee_params =
  of_min_fee_msat :: string
  of_proportional :: u64
  of_valid_until :: string
  of_min_lifetime :: u32
  of_max_client_to_self_delay :: u32
  of_min_payment_size_msat :: string
  of_max_payment_size_msat :: string
  of_promise :: string

text \<open>The answer of one task that asks a peer for its offers: the menu, an error, a time-out, or a panic.\<close>

datatype offer_answer = Menu "opening_fee_params list" | OfferError string | OfferTimeout | OfferTaskFailed

record node_rpc =
  nr_connect :: "(unit, string) outcome"
  nr_listpeerchannels :: "(node_channel list, string) outcome"
  nr_listpeers :: "(listed_peer list, string) outcome"
  nr_listincoming :: "(incoming_channel list, string) outcome"
  nr_version :: "(string, string) outcome"
  nr_offers :: "string \<Rightarrow> offer_answer"
  nr_invoice :: "invoice_call \<Rightarrow> (invoice_result, string) outcome"
  nr_jitchannel :: "lsp_call \<Rightarrow> (lsp_call_result, string) outcome"
  nr_lsps2_invoice :: "lsp_call \<Rightarrow> (lsp_call_result, string) outcome"
  nr_peerlist :: "(string option list, string) outcome"
  nr_disconnect :: "string \<Rightarrow> (unit, string) outcome"
  nr_hex_decode :: "string \<Rightarrow> (bytes, string) outcome"
  nr_hex_encode :: "bytes \<Rightarrow> string"
  nr_parse_scid :: "string \<Rightarrow> string option"
  nr_parse_amount :: "string \<Rightarrow> nat option"
  nr_parse_peer :: "string \<Rightarrow> (string \<times> string) option"

subsection \<open>Invoices through an LSP\<close>

definition is_active :: "node_channel \<Rightarrow> bool" where
  "is_active c = (nc_peer_connected c \<and> nc_state c = ChanneldNormal)"

definition get_receivable_capacity :: "node_rpc \<Rightarrow> (nat, string) outcome" where
  "get_receivable_capacity R =
     omap (\<lambda>channels. sum_list (List.map_filter nc_receivable_msat (filter is_active channels)) mod 2 ^ 64)
       (nr_listpeerchannels R)"

definition saturating_mul :: "nat \<Rightarrow> nat \<Rightarrow> nat" where
  "saturating_mul a b = min (a * b) (2 ^ 64 - 1)"

definition has_sufficient_capacity :: "nat \<Rightarrow> nat \<Rightarrow> bool" where
  "has_sufficient_capacity receivable amount = (saturating_mul amount 105 div 100 \<le> receivable)"

definition unwrap_or :: "'a \<Rightarrow> ('a, 'e) outcome \<Rightarrow> ('a, 'f) outcome" where
  "unwrap_or d r = (case r of Ok a \<Rightarrow> Ok a | Err _ \<Rightarrow> Ok d | Panic \<Rightarrow> Panic)"

definition regular_invoice :: "lsp_invoice_request \<Rightarrow> invoice_call" where
  "regular_invoice req =
     \<lparr>inv_amount = Amount (li_amount_msat req), inv_description = li_description req, inv_label = li_label req,
      inv_expiry = None, inv_fallbacks = None, inv_preimage = None, inv_cltv = Some 144,
      inv_deschashonly = None, inv_exposeprivatechannels = None, inv_dev_routes = None\<rparr>"

definition create_regular_invoice :: "node_rpc \<Rightarrow> lsp_invoice_request \<Rightarrow> (lsp_invoice_response, string) outcome" where
  "create_regular_invoice R req =
     obind (nr_invoice R (regular_invoice req)) (\<lambda>res.
     obind (omap_err (\<lambda>e. ''Invalid payment_hash: '' @ e) (nr_hex_decode R (ir_payment_hash res))) (\<lambda>hash.
     obind (case ir_payment_secret res of None \<Rightarrow> Ok [] | Some s \<Rightarrow> unwrap_or [] (nr_hex_decode R s)) (\<lambda>secret.
     Ok \<lparr>lv_bolt11 = ir_bolt11 res, lv_created_index = 0, lv_expires_at = ir_expiry_time res,
         lv_payment_hash = hash, lv_payment_secret = secret\<rparr>)))"

record lsps2_offer =
  lo_node_id :: string
  lo_params :: "opening_fee_params list"

text \<open>The offers, in the order of the peers; peers that do not answer are left out.\<close>

definition get_lsps_offers :: "node_rpc \<Rightarrow> (lsps2_offer list, string) outcome" where
  "get_lsps_offers R =
     omap (List.map_filter (\<lambda>p. case nr_offers R (lp_id p) of
         Menu params \<Rightarrow> Some \<lparr>lo_node_id = lp_id p, lo_params = params\<rparr>
       | _ \<Rightarrow> None)) (nr_listpeers R)"

definition lsp_call_of :: "lsp_invoice_request \<Rightarrow> string \<Rightarrow> lsp_call" where
  "lsp_call_of req lsp =
     \<lparr>lc_lsp_id = lsp, lc_token = (if li_token req = [] then None else Some (li_token req)),
      lc_amount = (if li_amount_msat req = 0 then AnyAmount else Amount (li_amount_msat req)),
      lc_description = li_description req, lc_label = li_label req\<rparr>"

definition lsp_invoice_response_of :: "node_rpc \<Rightarrow> lsp_call_result \<Rightarrow> (lsp_invoice_response, string) outcome" where
  "lsp_invoice_response_of R res =
     (case (nr_hex_decode R (lr_payment_hash res), nr_hex_decode R (lr_payment_secret res)) of
        (Ok hash, Ok secret) \<Rightarrow>
          Ok \<lparr>lv_bolt11 = lr_bolt11 res, lv_created_index = lr_created_index res, lv_expires_at = lr_expires_at res,
              lv_payment_hash = hash, lv_payment_secret = secret\<rparr>
      | _ \<Rightarrow> Panic)"

definition negotiate_lsp_invoice :: "node_rpc \<Rightarrow> lsp_invoice_request \<Rightarrow> (lsp_invoice_response, string) outcome" where
  "negotiate_lsp_invoice R req =
     obind (omap_err (\<lambda>e. ''Failed to get version: '' @ e) (nr_version R)) (\<lambda>version.
     obind (omap_err (\<lambda>_. ''Could not retrieve LSPS peers for invoice negotiation.'') (get_lsps_offers R)) (\<lambda>lsps.
     case lsps of
       [] \<Rightarrow> Err ''Could not find an LSP peer to negotiate the LSPS2 channel for this invoice.''
     | lsp # _ \<Rightarrow>
         obind ((if ''v25.05gl1'' < version then nr_lsps2_invoice R else nr_jitchannel R)
                  (lsp_call_of req (lo_node_id lsp))) (lsp_invoice_response_of R)))"

definition lsp_invoice :: "node_rpc \<Rightarrow> lsp_invoice_request \<Rightarrow> (lsp_invoice_response, string) outcome" where
  "lsp_invoice R req =
     (if 0 < li_amount_msat req then
        obind (unwrap_or 0 (get_receivable_capacity R)) (\<lambda>receivable.
          if has_sufficient_capacity receivable (li_amount_msat req) then create_regular_invoice R req
          else negotiate_lsp_invoice R req)
      else negotiate_lsp_invoice R req)"

subsection \<open>Invoices with route hints\<close>

record route_hop =
  rh_id :: bytes
  rh_scid :: string
  rh_feebase :: "nat option"
  rh_feeprop :: nat
  rh_expirydelta :: nat

definition active_channels :: "node_channel list \<Rightarrow> (string \<times> string) list" where
  "active_channels channels =
     List.map_filter (\<lambda>c. map_option (\<lambda>scid. (scid, case nc_alias_remote c of Some a \<Rightarrow> a | None \<Rightarrow> scid))
         (nc_short_channel_id c)) (filter is_active channels)"

text \<open>A later channel of the same id replaces an earlier one, as in the collected hash map.\<close>

definition active_alias :: "node_channel list \<Rightarrow> string \<Rightarrow> string option" where
  "active_alias channels = map_of (rev (active_channels channels))"

definition route_hint :: "node_rpc \<Rightarrow> node_channel list \<Rightarrow> incoming_channel \<Rightarrow> (route_hop list, string) outcome" where
  "route_hint R channels i =
     (case nr_parse_scid R (ic_short_channel_id i) of
        None \<Rightarrow> Panic
      | Some scid \<Rightarrow>
          (case nr_hex_decode R (ic_id i) of
             Ok node_id \<Rightarrow>
               Ok [\<lparr>rh_id = node_id, rh_scid = (case active_alias channels scid of Some a \<Rightarrow> a | None \<Rightarrow> scid),
                    rh_feebase = nr_parse_amount R (ic_fee_base_msat i),
                    rh_feeprop = ic_fee_proportional_millionths i, rh_expirydelta = ic_cltv_expiry_delta i\<rparr>]
           | _ \<Rightarrow> Panic))"

fun collect_outcomes :: "('a, 'e) outcome list \<Rightarrow> ('a list, 'e) outcome" where
  "collect_outcomes [] = Ok []"
| "collect_outcomes (r # rs) = obind r (\<lambda>a. omap (\<lambda>as. a # as) (collect_outcomes rs))"

definition get_routehints :: "node_rpc \<Rightarrow> (route_hop list list, string) outcome" where
  "get_routehints R =
     obind (nr_listpeerchannels R) (\<lambda>channels.
     obind (nr_listincoming R) (\<lambda>incoming.
     collect_outcomes (map (route_hint R channels)
       (filter (\<lambda>i. case nr_parse_scid R (ic_short_channel_id i) of
                     Some scid \<Rightarrow> active_alias channels scid \<noteq> None
                   | None \<Rightarrow> False) incoming))))"

record invoice_request =
  iq_amount_msat :: "amount_or_any option"
  iq_description :: string
  iq_label :: string
  iq_fallbacks :: "string list"
  iq_preimage :: "bytes option"
  iq_expiry :: "nat option"
  iq_cltv :: "nat option"
  iq_deschashonly :: "bool option"

definition invoice_call_of :: "node_rpc \<Rightarrow> invoice_request \<Rightarrow> invoice_call" where
  "invoice_call_of R ir =
     \<lparr>inv_amount = (case iq_amount_msat ir of Some a \<Rightarrow> a | None \<Rightarrow> AnyAmount),
      inv_description = iq_description ir, inv_label = iq_label ir, inv_expiry = iq_expiry ir,
      inv_fallbacks = (if iq_fallbacks ir \<noteq> [] then Some (iq_fallbacks ir) else None),
      inv_preimage = map_option (nr_hex_encode R) (iq_preimage ir), inv_cltv = iq_cltv ir,
      inv_deschashonly = iq_deschashonly ir, inv_exposeprivatechannels = None, inv_dev_routes = None\<rparr>"

definition dev_hop_of :: "node_rpc \<Rightarrow> route_hop \<Rightarrow> dev_hop" where
  "dev_hop_of R r =
     \<lparr>dh_id = nr_hex_encode R (rh_id r), dh_short_channel_id = rh_scid r, dh_fee_base_msat = rh_feebase r,
      dh_fee_proportional_millionths = rh_feeprop r, dh_cltv_expiry_delta = rh_expirydelta r mod 2 ^ 16\<rparr>"

record invoice_response =
  iv_bolt11 :: string
  iv_expires_at :: nat
  iv_payment_hash :: bytes
  iv_payment_secret :: bytes

definition invoice_response_of :: "node_rpc \<Rightarrow> invoice_result \<Rightarrow> (invoice_response, string) outcome" where
  "invoice_response_of R i =
     (case (nr_hex_decode R (ir_payment_hash i),
            case ir_payment_secret i of None \<Rightarrow> Ok [] | Some s \<Rightarrow> nr_hex_decode R s) of
        (Ok hash, Ok secret) \<Rightarrow>
          Ok \<lparr>iv_bolt11 = ir_bolt11 i, iv_expires_at = ir_expiry_time i, iv_payment_hash = hash,
              iv_payment_secret = secret\<rparr>
      | _ \<Rightarrow> Panic)"

text \<open>Route hints are best effort: when they cannot be had, the call has none.\<close>

definition invoice_with_hints :: "node_rpc \<Rightarrow> invoice_request \<Rightarrow> (invoice_call, string) outcome" where
  "invoice_with_hints R req =
     omap (\<lambda>hints.
       (invoice_call_of R req)
         \<lparr>inv_dev_routes := map_option (map (map (dev_hop_of R))) hints,
          inv_cltv := Some (case iq_cltv req of Some c \<Rightarrow> c | None \<Rightarrow> 144)\<rparr>)
       (unwrap_or None (omap Some (get_routehints R)))"

definition wrapped_invoice :: "node_rpc \<Rightarrow> invoice_request \<Rightarrow> (invoice_response, string) outcome" where
  "wrapped_invoice R req =
     obind (case nr_connect R of Ok _ \<Rightarrow> invoice_with_hints R req | _ \<Rightarrow> Panic) (\<lambda>call.
     obind (omap_err (\<lambda>e. ''converting invoice response to grpc: '' @ e) (nr_invoice R call)) (invoice_response_of R))"

subsection \<open>Peers\<close>

text \<open>
  \<open>disconnect\<close> also deletes the peer from the datastore; how that ends is only logged. The first
  component is the key that is deleted.
\<close>

definition peer_key :: "string \<Rightarrow> string list" where
  "peer_key node_id = [''greenlight'', ''peerlist'', node_id]"

definition wrapped_disconnect :: "node_rpc \<Rightarrow> bytes \<Rightarrow> string list \<times> (unit, string) outcome" where
  "wrapped_disconnect R peer =
     (let node_id = nr_hex_encode R peer in (peer_key node_id, nr_disconnect R node_id))"

record connect_request =
  cn_id :: string
  cn_host :: "string option"

definition stored_peer :: "node_rpc \<Rightarrow> string option \<Rightarrow> (connect_request, string) outcome" where
  "stored_peer R s =
     obind (unwrap s) (\<lambda>s.
     obind (unwrap (nr_parse_peer R (filter (\<lambda>c. c \<noteq> CHR 0x5C) s))) (\<lambda>(node_id, addr).
     Ok \<lparr>cn_id = node_id, cn_host = Some addr\<rparr>))"

text \<open>Of consecutive elements with one key, the first is kept.\<close>

fun dedup_by :: "('a \<Rightarrow> 'k) \<Rightarrow> 'a list \<Rightarrow> 'a list" where
  "dedup_by key (x # y # xs) = (if key x = key y then dedup_by key (x # xs) else x # dedup_by key (y # xs))"
| "dedup_by key xs = xs"

definition get_reconnect_peers :: "node_rpc \<Rightarrow> (connect_request list, string) outcome" where
  "get_reconnect_peers R =
     obind (nr_listpeers R) (\<lambda>peers.
     let requests = map (\<lambda>p. \<lparr>cn_id = lp_id p, cn_host = None\<rparr>) (filter lp_connected peers) in
     obind (nr_peerlist R) (\<lambda>strings.
     obind (collect_outcomes (map (stored_peer R) strings)) (\<lambda>dspeers.
     Ok (dedup_by cn_id (sort_key cn_id (requests @ dspeers))))))"

text \<open>The connect calls that are made, in order; their results are only logged.\<close>

definition reconnect_peers :: "node_rpc \<Rightarrow> 'j node_server \<Rightarrow> connect_request list \<times> (unit, string) outcome" where
  "reconnect_peers R ns =
     (if ns_signer_count ns < 1 then ([], Err ''Cannot reconnect peers, no signer to complete the handshake'')
      else
      case get_reconnect_peers R of
        Ok peers \<Rightarrow> (peers, Ok ())
      | Err e \<Rightarrow> ([], Err e)
      | Panic \<Rightarrow> ([], Panic))"

text \<open>
  The wrapped \<open>stream_hsm_requests\<close>: the signer is attached, and a task reconnects the peers.
\<close>

definition wrapped_stream_hsm_requests ::
  "node_rpc \<Rightarrow> (hsm_request staged list \<Rightarrow> hsm_request staged list) \<Rightarrow> 'j node_server
     \<Rightarrow> nat \<times> 'j node_server \<times> (connect_request list \<times> (unit, string) outcome)" where
  "wrapped_stream_hsm_requests R order ns =
     (let (i, ns) = attach_signer order ns in (i, ns, reconnect_peers R ns))"

subsection \<open>Lemmas\<close>

lemma set_map_filter: "y \<in> set (List.map_filter f xs) \<longleftrightarrow> (\<exists>x \<in> set xs. f x = Some y)"
  by (induction xs) (auto simp: map_filter_simps split: option.split)

lemma lsps_offers_answered:
  assumes "get_lsps_offers R = Ok offers" "off \<in> set offers"
  shows "nr_offers R (lo_node_id off) = Menu (lo_params off)"
proof -
  let ?f = "\<lambda>p :: listed_peer. case nr_offers R (lp_id p) of
         Menu params \<Rightarrow> Some \<lparr>lo_node_id = lp_id p, lo_params = params\<rparr> | _ \<Rightarrow> None"
  obtain peers where "List.map_filter ?f peers = offers"
    using assms(1) unfolding get_lsps_offers_def by (cases "nr_listpeers R") auto
  with assms(2) have "off \<in> set (List.map_filter ?f peers)" by blast
  then obtain p where "?f p = Some off" unfolding set_map_filter by blast
  then show ?thesis by (cases "nr_offers R (lp_id p)") auto
qed

lemma saturating_mul_exact: "a * b < 2 ^ 64 \<Longrightarrow> saturating_mul a b = a * b"
  by (simp add: saturating_mul_def)

text \<open>Five percent, rounded down, is added to the amount that has to be receivable.\<close>

lemma has_sufficient_capacity_iff:
  "amount * 105 < 2 ^ 64 \<Longrightarrow> has_sufficient_capacity receivable amount \<longleftrightarrow> amount + amount div 20 \<le> receivable"
proof -
  have "amount * 105 div 100 = (5 * amount + amount * 100) div 100" by simp
  also have "\<dots> = amount + 5 * amount div (5 * 20)" by (subst div_mult_self1) simp_all
  finally have "amount * 105 div 100 = amount + amount div 20" by (simp only: div_mult_mult1)
  then show "amount * 105 < 2 ^ 64 \<Longrightarrow> ?thesis"
    by (simp add: has_sufficient_capacity_def saturating_mul_exact)
qed

lemma dedup_by_subset: "set (dedup_by key xs) \<subseteq> set xs"
  by (induction key xs rule: dedup_by.induct) (auto split: if_splits)

lemma dedup_by_keys: "key ` set (dedup_by key xs) = key ` set xs"
  by (induction key xs rule: dedup_by.induct) auto

lemma sorted_dedup_by: "sorted (map key xs) \<Longrightarrow> sorted (map key (dedup_by key xs))"
proof (induction key xs rule: dedup_by.induct)
  case (1 key x y xs)
  have "\<forall>z \<in> set (dedup_by key (y # xs)). key x \<le> key z"
    using 1(3) dedup_by_subset [of key "y # xs"] by auto
  then show ?case using 1 by auto
qed simp_all

lemma distinct_dedup_by: "sorted (map key xs) \<Longrightarrow> distinct (map key (dedup_by key xs))"
proof (induction key xs rule: dedup_by.induct)
  case (1 key x y xs)
  show ?case
  proof (cases "key x = key y")
    case True
    then show ?thesis using 1 by auto
  next
    case False
    have "key x < key z" if "z \<in> set (y # xs)" for z
      using 1(3) False that by (auto simp: order.order_iff_strict intro: order.strict_trans2)
    then have "key x \<notin> key ` set (y # xs)" by (metis (no_types, lifting) imageE less_irrefl)
    then have "key x \<notin> key ` set (dedup_by key (y # xs))"
      unfolding dedup_by_keys .
    then show ?thesis using 1 False by auto
  qed
qed simp_all

text \<open>The first element of a key in the list is the one that is kept.\<close>

lemma dedup_by_first:
  assumes "sorted (map key xs)" "find (\<lambda>y. key y = k) xs = Some x"
  shows "x \<in> set (dedup_by key xs)"
  using assms
proof (induction key xs rule: dedup_by.induct)
  case (1 key a b xs)
  show ?case
  proof (cases "key a = key b")
    case True
    then have "find (\<lambda>y. key y = k) (a # xs) = Some x" using 1(4) by (auto split: if_splits)
    then show ?thesis using 1 True by simp
  next
    case False
    then show ?thesis using 1 by (auto split: if_splits)
  qed
qed (auto split: if_splits)

lemma find_sort_key: "find (\<lambda>y. f y = k) (sort_key f xs) = find (\<lambda>y. f y = k) xs"
proof -
  have "find P ys = (case filter P ys of [] \<Rightarrow> None | y # _ \<Rightarrow> Some y)" for P and ys :: "'a list"
    by (induction ys) auto
  then show ?thesis by (metis sort_key_stable)
qed

lemma collect_outcomes_Ok:
  "collect_outcomes rs = Ok xs \<longleftrightarrow> rs = map Ok xs"
  by (induction rs arbitrary: xs) (auto simp: obind_eq_Ok omap_eq_Ok)

text \<open>The active channels, as their ids and aliases.\<close>

lemma active_alias_Some:
  "active_alias channels scid = Some a \<Longrightarrow>
     \<exists>c \<in> set channels. is_active c \<and> nc_short_channel_id c = Some scid \<and>
       a = (case nc_alias_remote c of Some a \<Rightarrow> a | None \<Rightarrow> scid)"
proof -
  assume "active_alias channels scid = Some a"
  then have "(scid, a) \<in> set (active_channels channels)"
    unfolding active_alias_def by (auto dest: map_of_SomeD)
  then show ?thesis by (auto simp: active_channels_def map_filter_def)
qed

subsection \<open>An instance\<close>

text \<open>A node with one open channel, one connected peer, and two stored ones.\<close>

definition demo_channel :: node_channel where
  "demo_channel = \<lparr>nc_peer_connected = True, nc_state = ChanneldNormal, nc_receivable_msat = Some 5000,
     nc_short_channel_id = Some ''1x1x1'', nc_alias_remote = Some ''9x9x9''\<rparr>"

definition demo_rpc :: node_rpc where
  "demo_rpc =
     \<lparr>nr_connect = Ok (), nr_listpeerchannels = Ok [demo_channel],
      nr_listpeers = Ok [\<lparr>lp_id = ''b'', lp_connected = True\<rparr>, \<lparr>lp_id = ''c'', lp_connected = False\<rparr>],
      nr_listincoming = Ok [\<lparr>ic_id = ''b'', ic_short_channel_id = ''1x1x1'', ic_fee_base_msat = ''1msat'',
        ic_fee_proportional_millionths = 2, ic_cltv_expiry_delta = 6, ic_incoming_capacity_msat = []\<rparr>],
      nr_version = Ok ''v25.05'', nr_offers = (\<lambda>p. OfferTimeout),
      nr_invoice = (\<lambda>c. Err ''no''), nr_jitchannel = (\<lambda>c. Err ''no''), nr_lsps2_invoice = (\<lambda>c. Err ''no''),
      nr_peerlist = Ok [Some ''b@here'', Some ''a@there''],
      nr_disconnect = (\<lambda>i. Ok ()),
      nr_hex_decode = (\<lambda>s. Ok []), nr_hex_encode = (\<lambda>b. []),
      nr_parse_scid = Some, nr_parse_amount = (\<lambda>s. Some 1),
      nr_parse_peer = (\<lambda>s. case s of [] \<Rightarrow> None | c # rest \<Rightarrow> Some ([c], rest))\<rparr>"

section \<open>Properties\<close>

text \<open>
  Every known peer is reconnected once. The requests of \<open>get_reconnect_peers\<close> have
  different ids, those of the connected peers and of the stored ones, in order; for a peer
  that is both, lightningd's own knowledge of its address is used.
\<close>

theorem reconnects_each_peer_once:
  assumes "get_reconnect_peers R = Ok reqs"
  shows "\<exists>peers strings dspeers. nr_listpeers R = Ok peers \<and> nr_peerlist R = Ok strings \<and>
    map (stored_peer R) strings = map Ok dspeers \<and>
    sorted (map cn_id reqs) \<and> distinct (map cn_id reqs) \<and>
    cn_id ` set reqs = lp_id ` {p \<in> set peers. lp_connected p} \<union> cn_id ` set dspeers \<and>
    (\<forall>p \<in> set peers. lp_connected p \<longrightarrow> \<lparr>cn_id = lp_id p, cn_host = None\<rparr> \<in> set reqs)"
proof -
  from assms obtain peers strings dspeers where p: "nr_listpeers R = Ok peers" "nr_peerlist R = Ok strings"
    "map (stored_peer R) strings = map Ok dspeers"
    and reqs: "reqs = dedup_by cn_id (sort_key cn_id
        (map (\<lambda>p. \<lparr>cn_id = lp_id p, cn_host = None\<rparr>) (filter lp_connected peers) @ dspeers))"
    by (auto simp: get_reconnect_peers_def obind_eq_Ok Let_def collect_outcomes_Ok)
  let ?all = "map (\<lambda>p. \<lparr>cn_id = lp_id p, cn_host = None\<rparr>) (filter lp_connected peers) @ dspeers"
  have keys: "cn_id ` set reqs = lp_id ` {p \<in> set peers. lp_connected p} \<union> cn_id ` set dspeers"
    unfolding reqs dedup_by_keys by (auto simp: image_Un image_image)
  have "\<lparr>cn_id = lp_id p, cn_host = None\<rparr> \<in> set reqs" if "p \<in> set peers" "lp_connected p" for p
  proof -
    have "find (\<lambda>y. cn_id y = lp_id p) ?all = Some \<lparr>cn_id = lp_id p, cn_host = None\<rparr>"
      using that by (induction peers) auto
    then have "find (\<lambda>y. cn_id y = lp_id p) (sort_key cn_id ?all) = Some \<lparr>cn_id = lp_id p, cn_host = None\<rparr>"
      by (simp only: find_sort_key)
    then show ?thesis unfolding reqs by (intro dedup_by_first) simp_all
  qed
  then have all: "\<forall>p \<in> set peers. lp_connected p \<longrightarrow> \<lparr>cn_id = lp_id p, cn_host = None\<rparr> \<in> set reqs"
    by blast
  have sorted: "sorted (map cn_id reqs)" "distinct (map cn_id reqs)"
    unfolding reqs by (intro sorted_dedup_by distinct_dedup_by sorted_sort_key)+
  show ?thesis
    by (intro exI [of _ peers] exI [of _ strings] exI [of _ dspeers] conjI p keys all sorted)
qed

theorem reconnects_each_peer_once_witness:
  "\<exists>reqs. get_reconnect_peers demo_rpc = Ok reqs \<and> map cn_id reqs = [''a'', ''b''] \<and> distinct (map cn_id reqs)"
proof -
  have "get_reconnect_peers demo_rpc =
    Ok [\<lparr>cn_id = ''a'', cn_host = Some ''@there''\<rparr>, \<lparr>cn_id = ''b'', cn_host = None\<rparr>]" (is "_ = Ok ?reqs")
    by code_simp
  moreover from reconnects_each_peer_once [OF this] have "distinct (map cn_id ?reqs)" by blast
  ultimately show ?thesis by auto
qed

text \<open>
  No channel is bought when one is there. For an amount whose five percent fit into 64
  bits, \<open>lsp_invoice\<close> creates a regular invoice exactly if the channels that are up can
  receive the amount and five percent, rounded down; otherwise, and when lightningd cannot
  list its channels, it negotiates with an LSP.
\<close>

theorem lsp_only_when_needed:
  assumes "0 < li_amount_msat req" "li_amount_msat req * 105 < 2 ^ 64"
    and "nr_listpeerchannels R \<noteq> Panic"
  shows "lsp_invoice R req =
    (if \<exists>channels. nr_listpeerchannels R = Ok channels \<and>
          li_amount_msat req + li_amount_msat req div 20 \<le>
            sum_list (List.map_filter nc_receivable_msat (filter is_active channels)) mod 2 ^ 64
     then create_regular_invoice R req else negotiate_lsp_invoice R req)"
proof (cases "nr_listpeerchannels R")
  case (Ok channels)
  then show ?thesis using assms(1) has_sufficient_capacity_iff [OF assms(2)]
    by (simp add: lsp_invoice_def get_receivable_capacity_def unwrap_or_def)
next
  case (Err e)
  then show ?thesis using assms(1) has_sufficient_capacity_iff [OF assms(2), of 0]
    by (auto simp: lsp_invoice_def get_receivable_capacity_def unwrap_or_def)
qed (use assms in simp)

theorem lsp_only_when_needed_witness:
  "lsp_invoice demo_rpc \<lparr>li_lsp_id = [], li_token = [], li_amount_msat = 4762, li_description = [], li_label = ''l''\<rparr>
     = create_regular_invoice demo_rpc
         \<lparr>li_lsp_id = [], li_token = [], li_amount_msat = 4762, li_description = [], li_label = ''l''\<rparr>"
  (is "lsp_invoice _ ?req = _")
proof -
  have "nr_listpeerchannels demo_rpc = Ok [demo_channel]" by (simp add: demo_rpc_def)
  moreover have "sum_list (List.map_filter nc_receivable_msat (filter is_active [demo_channel])) mod 2 ^ 64 = 5000"
    by (simp add: demo_channel_def is_active_def List.map_filter_simps)
  ultimately show ?thesis by (subst lsp_only_when_needed) simp_all
qed

text \<open>
  Route hints lead over channels that work. Every hint of an invoice is one hop from an
  incoming channel whose own channel is connected and in normal operation, under the alias
  the peer gave it, if any.
\<close>

theorem routehints_are_active:
  assumes "get_routehints R = Ok hints" "hint \<in> set hints"
  shows "\<exists>channels c scid hop. nr_listpeerchannels R = Ok channels \<and> c \<in> set channels \<and> is_active c \<and>
    nc_short_channel_id c = Some scid \<and> hint = [hop] \<and>
    rh_scid hop = (case nc_alias_remote c of Some a \<Rightarrow> a | None \<Rightarrow> scid)"
proof -
  from assms(1) obtain channels incoming where ch: "nr_listpeerchannels R = Ok channels"
    and hs: "map (route_hint R channels) (filter (\<lambda>i. case nr_parse_scid R (ic_short_channel_id i) of
        Some scid \<Rightarrow> active_alias channels scid \<noteq> None | None \<Rightarrow> False) incoming) = map Ok hints"
    by (auto simp: get_routehints_def obind_eq_Ok collect_outcomes_Ok)
  from assms(2) have "Ok hint \<in> set (map Ok hints :: (route_hop list, string) outcome list)" by simp
  then obtain i where "route_hint R channels i = Ok hint"
    "case nr_parse_scid R (ic_short_channel_id i) of Some scid \<Rightarrow> active_alias channels scid \<noteq> None | None \<Rightarrow> False"
    unfolding hs [symmetric] by auto
  then obtain scid a hop where "active_alias channels scid = Some a" "hint = [hop]" "rh_scid hop = a"
    by (auto simp: route_hint_def split: option.splits outcome.splits)
  with active_alias_Some [of channels scid a] ch show ?thesis by auto
qed

theorem routehints_are_active_witness:
  "\<exists>hints hop. get_routehints demo_rpc = Ok hints \<and> [hop] \<in> set hints \<and> rh_scid hop = ''9x9x9'' \<and>
     (\<exists>c. is_active c \<and> nc_alias_remote c = Some (rh_scid hop))"
proof -
  let ?hop = "\<lparr>rh_id = [], rh_scid = ''9x9x9'', rh_feebase = Some 1, rh_feeprop = 2, rh_expirydelta = 6\<rparr> :: route_hop"
  have hints: "get_routehints demo_rpc = Ok [[?hop]]" by code_simp
  have "nr_listpeerchannels demo_rpc = Ok [demo_channel]" by (simp add: demo_rpc_def)
  with routehints_are_active [OF hints, of "[?hop]"]
  obtain scid where "is_active demo_channel" "nc_alias_remote demo_channel = Some (rh_scid ?hop)"
    by (auto simp: demo_channel_def)
  then have "\<exists>c. is_active c \<and> nc_alias_remote c = Some (rh_scid ?hop)" by blast
  then show ?thesis using hints by (intro exI [of _ "[[?hop]]"] exI [of _ ?hop]) auto
qed

end
