(* ===== verification/Amounts.thy ===== *)
theory Amounts
  imports Prelude
begin

text \<open>
  Amounts as lightningd writes them: decimal numbers with a unit. The visitors that read them
  (\<open>MSat\<close> of \<open>libs/gl-plugin/src/responses.rs\<close>, \<open>amt_from_str_or_int\<close> and \<open>Amount\<close> of
  \<open>messages.rs\<close>) and the serializers that write them (\<open>Amount\<close>, \<open>Feerate\<close> and \<open>Outpoint\<close> of
  \<open>requests.rs\<close>). The integer parser and printer of the standard library are modelled; integers
  are natural numbers with their bounds written out. A product that overflows wraps, as in a
  release build.
\<close>

subsection \<open>Decimal numbers\<close>

definition is_digit :: "char \<Rightarrow> bool" where
  "is_digit c = (CHR ''0'' \<le> c \<and> c \<le> CHR ''9'')"

definition digit_value :: "char \<Rightarrow> nat" where
  "digit_value c = of_char c - 48"

fun decimal_value :: "nat \<Rightarrow> string \<Rightarrow> nat option" where
  "decimal_value acc [] = Some acc"
| "decimal_value acc (c # cs) = (if is_digit c then decimal_value (acc * 10 + digit_value c) cs else None)"

text \<open>\<open>from_str\<close> of unsigned integers: digits after an optional plus sign, below the bound.\<close>

definition parse_unsigned :: "nat \<Rightarrow> string \<Rightarrow> nat option" where
  "parse_unsigned bound s =
     (let ds = (if starts_with s ''+'' then tl s else s) in
      if ds = [] then None
      else case decimal_value 0 ds of None \<Rightarrow> None | Some n \<Rightarrow> if n < bound then Some n else None)"

text \<open>\<open>from_str\<close> of \<open>i64\<close>: a minus sign is possible too.\<close>

definition parse_i64 :: "string \<Rightarrow> int option" where
  "parse_i64 s =
     (if starts_with s ''-'' then
        (if tl s = [] then None
         else case decimal_value 0 (tl s) of None \<Rightarrow> None | Some n \<Rightarrow> if n \<le> 2 ^ 63 then Some (- int n) else None)
      else map_option int (parse_unsigned (2 ^ 63) s))"

fun decimal :: "nat \<Rightarrow> string" where
  "decimal n = (if n < 10 then [char_of (48 + n)] else decimal (n div 10) @ [char_of (48 + n mod 10)])"

declare decimal.simps [simp del]

definition decimal_int :: "int \<Rightarrow> string" where
  "decimal_int i = (if i < 0 then CHR ''-'' # decimal (nat (- i)) else decimal (nat i))"

text \<open>\<open>str::ends_with\<close>, and the string without a suffix of four characters.\<close>

definition ends_with :: "string \<Rightarrow> string \<Rightarrow> bool" where
  "ends_with s p = starts_with (rev s) (rev p)"

definition without_last4 :: "string \<Rightarrow> string" where
  "without_last4 s = take (length s - 4) s"

subsection \<open>The readers\<close>

definition msat_visit_str :: "string \<Rightarrow> (nat, string) outcome" where
  "msat_visit_str s =
     (if \<not> ends_with s ''msat'' then Err ''missing msat suffix''
      else ok_or ''not a number'' (parse_unsigned (2 ^ 64) (without_last4 s)))"

definition msat_visit_u64 :: "nat \<Rightarrow> (nat, string) outcome" where
  "msat_visit_u64 v = Ok v"

definition msat_display :: "nat \<Rightarrow> string" where
  "msat_display a = decimal a @ ''msat''"

definition unit_factor :: "string \<Rightarrow> nat option" where
  "unit_factor ext =
     (if ext = ''msat'' then Some 1 else if ext = ''sat'' then Some 1000
      else if ext = ''btc'' then Some 100000000000 else None)"

text \<open>\<open>amt_from_str_or_int\<close>: the digits, wherever they are, and what is left.\<close>

definition amt_visit_str :: "string \<Rightarrow> (nat, string) outcome" where
  "amt_visit_str v =
     (case unit_factor (filter (\<lambda>c. \<not> is_digit c) v) of
        None \<Rightarrow> Err ''unable to parse unit''
      | Some mult \<Rightarrow>
          (case parse_unsigned (2 ^ 64) (filter is_digit v) of
             None \<Rightarrow> Panic
           | Some num \<Rightarrow> Ok (num * mult mod 2 ^ 64)))"

definition amt_visit_u64 :: "nat \<Rightarrow> (nat, string) outcome" where
  "amt_visit_u64 v = Ok v"

definition amount_from_string :: "string \<Rightarrow> (int, string) outcome" where
  "amount_from_string s =
     (if \<not> ends_with s ''msat'' then Err ''Amount string does not end with msat.''
      else ok_or ''invalid digit found in string'' (parse_i64 (without_last4 s)))"

definition string_to_amount :: "string \<Rightarrow> (int, string) outcome" where
  "string_to_amount s = omap_err (\<lambda>_. ''could not parse amount'') (amount_from_string s)"

definition amount_to_string :: "int \<Rightarrow> string" where
  "amount_to_string a = decimal_int a @ ''msat''"

subsection \<open>The writers\<close>

datatype req_amount = Millisatoshi nat | Satoshi nat | Bitcoin nat | AllAmount | AnyAmountReq

fun req_amount_serialize :: "req_amount \<Rightarrow> string" where
  "req_amount_serialize (Millisatoshi a) = decimal a @ ''msat''"
| "req_amount_serialize (Satoshi a) = decimal a @ ''sat''"
| "req_amount_serialize (Bitcoin a) = decimal a @ ''btc''"
| "req_amount_serialize AllAmount = ''all''"
| "req_amount_serialize AnyAmountReq = ''any''"

datatype feerate = FeeNormal | FeeSlow | FeeUrgent | PerKw nat | PerKb nat

fun feerate_serialize :: "feerate \<Rightarrow> string" where
  "feerate_serialize FeeNormal = ''normal''"
| "feerate_serialize FeeSlow = ''slow''"
| "feerate_serialize FeeUrgent = ''urgent''"
| "feerate_serialize (PerKb n) = decimal n @ ''perkb''"
| "feerate_serialize (PerKw n) = decimal n @ ''perkw''"

definition outpoint_serialize :: "(bytes \<Rightarrow> string) \<Rightarrow> bytes \<Rightarrow> nat \<Rightarrow> string" where
  "outpoint_serialize hex txid outnum = hex txid @ '':'' @ decimal outnum"

subsection \<open>Lemmas\<close>

lemma of_char_le: "of_char c \<le> (of_char d :: nat) \<longleftrightarrow> c \<le> d"
  by (simp add: less_eq_char_def)

lemma is_digit_char_of: "n < 10 \<Longrightarrow> is_digit (char_of (48 + n :: nat))"
  by (simp add: is_digit_def less_eq_char_def of_char_of)

lemma digit_value_char_of: "n < 10 \<Longrightarrow> digit_value (char_of (48 + n :: nat)) = n"
  by (simp add: digit_value_def of_char_of)

lemma decimal_digits: "list_all is_digit (decimal n)"
proof (induction n rule: decimal.induct)
  case (1 n)
  then show ?case by (subst decimal.simps) (simp add: is_digit_char_of)
qed

lemma decimal_not_Nil [simp]: "decimal n \<noteq> []"
  by (subst decimal.simps) simp

lemma decimal_value_snoc:
  "decimal_value acc (s @ [c]) =
     (case decimal_value acc s of None \<Rightarrow> None
      | Some n \<Rightarrow> if is_digit c then Some (n * 10 + digit_value c) else None)"
  by (induction acc s rule: decimal_value.induct) auto

lemma decimal_value_decimal [simp]: "decimal_value 0 (decimal n) = Some n"
proof (induction n rule: decimal.induct)
  case (1 n)
  then show ?case
    by (subst decimal.simps) (simp add: decimal_value_snoc is_digit_char_of digit_value_char_of)
qed

lemma digits_sign: "list_all is_digit s \<Longrightarrow> \<not> starts_with s ''+'' \<and> \<not> starts_with s ''-''"
  by (cases s) (auto simp: is_digit_def less_eq_char_def)

lemma parse_unsigned_decimal: "n < bound \<Longrightarrow> parse_unsigned bound (decimal n) = Some n"
  using digits_sign [OF decimal_digits [of n]] by (simp add: parse_unsigned_def)

lemma ends_with_append [simp]: "ends_with (s @ p) p"
  by (simp add: ends_with_def)

lemma without_last4_msat [simp]: "without_last4 (s @ ''msat'') = s"
  by (simp add: without_last4_def)

lemma filter_digits: "list_all is_digit s \<Longrightarrow> filter is_digit s = s \<and> filter (\<lambda>c. \<not> is_digit c) s = []"
  by (induction s) auto

lemma unit_no_digits: "unit_factor u = Some f \<Longrightarrow> filter is_digit u = [] \<and> filter (\<lambda>c. \<not> is_digit c) u = u"
  by (auto simp: unit_factor_def is_digit_def less_eq_char_def split: if_splits)

lemma decimal_value_digits: "list_all is_digit s \<Longrightarrow> \<exists>n. decimal_value acc s = Some n"
  by (induction acc s rule: decimal_value.induct) auto

text \<open>Every number with a unit is read as that many of the unit, wherever its digits stand.\<close>

lemma amt_visit_str_units:
  assumes "unit_factor u = Some f" "n < 2 ^ 64"
  shows "amt_visit_str (decimal n @ u) = Ok (n * f mod 2 ^ 64)"
  using assms filter_digits [OF decimal_digits [of n]] unit_no_digits [OF assms(1)] parse_unsigned_decimal [OF assms(2)]
  by (simp add: amt_visit_str_def)

section \<open>Properties\<close>

text \<open>
  Amounts survive the way to lightningd and back. What \<open>MSat\<close> displays its visitor reads
  as the same amount; a 63 bit amount survives \<open>_amount_to_string\<close> and \<open>_string_to_amount\<close>,
  also a negative one; and the reader of \<open>invoice_payment\<close> takes every amount that requests
  serialize with a unit for its value in millisatoshi, as long as that fits into 64 bits.
\<close>

theorem amounts_roundtrip:
  assumes "n < 2 ^ 64" "- (2 ^ 63) \<le> i" "i < 2 ^ 63"
  shows "msat_visit_str (msat_display n) = Ok n \<and>
    string_to_amount (amount_to_string i) = Ok i \<and>
    amt_visit_str (req_amount_serialize (Millisatoshi n)) = Ok n \<and>
    (n * 1000 < 2 ^ 64 \<longrightarrow> amt_visit_str (req_amount_serialize (Satoshi n)) = Ok (n * 1000)) \<and>
    (n * 100000000000 < 2 ^ 64 \<longrightarrow>
      amt_visit_str (req_amount_serialize (Bitcoin n)) = Ok (n * 100000000000))"
proof (intro conjI impI)
  show "msat_visit_str (msat_display n) = Ok n"
    using parse_unsigned_decimal [OF assms(1)] by (simp add: msat_visit_str_def msat_display_def)
  show "string_to_amount (amount_to_string i) = Ok i"
  proof (cases "i < 0")
    case True
    then show ?thesis using assms(2)
      by (simp add: string_to_amount_def amount_from_string_def amount_to_string_def decimal_int_def parse_i64_def
          ends_with_append [of "CHR ''-'' # s" for s, simplified] without_last4_msat [of "CHR ''-'' # s" for s, simplified])
  next
    case False
    then have "nat i < 2 ^ 63" using assms(3) by (simp add: nat_less_iff)
    then show ?thesis using False parse_unsigned_decimal [of "nat i" "2 ^ 63"] digits_sign [OF decimal_digits [of "nat i"]]
      by (simp add: string_to_amount_def amount_from_string_def amount_to_string_def decimal_int_def parse_i64_def)
  qed
  show "amt_visit_str (req_amount_serialize (Millisatoshi n)) = Ok n"
    using amt_visit_str_units [of "''msat''" 1 n] assms(1) by (simp add: unit_factor_def)
  show "amt_visit_str (req_amount_serialize (Satoshi n)) = Ok (n * 1000)" if "n * 1000 < 2 ^ 64"
    using amt_visit_str_units [of "''sat''" 1000 n] assms(1) that by (simp add: unit_factor_def)
  show "amt_visit_str (req_amount_serialize (Bitcoin n)) = Ok (n * 100000000000)"
    if "n * 100000000000 < 2 ^ 64"
    using amt_visit_str_units [of "''btc''" 100000000000 n] assms(1) that by (simp add: unit_factor_def)
qed

theorem amounts_roundtrip_witness:
  "string_to_amount (amount_to_string (- 5)) = Ok (- 5) \<and>
   amt_visit_str (req_amount_serialize (Satoshi 21)) = Ok 21000"
  using amounts_roundtrip [of 21 "- 5"] by simp

text \<open>
  An amount without a number panics. The reader of \<open>invoice_payment\<close> takes digits from
  anywhere in the string, and where there is none, or the number does not fit into 64 bits,
  it panics instead of failing; the reader of \<open>MSat\<close> fails.
\<close>

theorem amount_without_number_panics:
  assumes "unit_factor (filter (\<lambda>c. \<not> is_digit c) v) = Some f"
  shows "(amt_visit_str v = Panic \<longleftrightarrow>
      filter is_digit v = [] \<or> (\<exists>n. decimal_value 0 (filter is_digit v) = Some n \<and> 2 ^ 64 \<le> n)) \<and>
    msat_visit_str v \<noteq> Panic"
proof
  have d: "list_all is_digit (filter is_digit v)" by (simp add: list_all_iff)
  from decimal_value_digits [OF d] obtain n where "decimal_value 0 (filter is_digit v) = Some n" by blast
  then show "amt_visit_str v = Panic \<longleftrightarrow>
      filter is_digit v = [] \<or> (\<exists>n. decimal_value 0 (filter is_digit v) = Some n \<and> 2 ^ 64 \<le> n)"
    using assms digits_sign [OF d] by (auto simp: amt_visit_str_def parse_unsigned_def Let_def not_less)
  show "msat_visit_str v \<noteq> Panic"
    by (cases "parse_unsigned (2 ^ 64) (without_last4 v)") (simp_all add: msat_visit_str_def)
qed

theorem amount_without_number_panics_witness: "amt_visit_str ''msat'' = Panic"
  using amount_without_number_panics [of "''msat''" 1] by (simp add: is_digit_def less_eq_char_def unit_factor_def)

end
