(* ===== verification/PluginHooks.thy ===== *)
theory PluginHooks
  imports NodeCalls Amounts "HOL-Library.AList"
begin

text \<open>
  The hooks of lightningd the plugin answers (\<open>libs/gl-plugin/src/lib.rs\<close>): custom messages,
  connected peers, which are remembered in lightningd's datastore for a later reconnect,
  channels that are opened by a peer, which may close to the configured address, and incoming
  payments. JSON and protobuf are functions on values of any type \<open>'v\<close>; the datastore is a
  record of operations on a state \<open>'d\<close>.
\<close>

subsection \<open>Messages\<close>

datatype peer_direction = InPeer | OutPeer

record peer_msg =
  pm_id :: string
  pm_direction :: peer_direction
  pm_addr :: string
  pm_features :: string

record custommsg =
  cu_peer_id :: bytes
  cu_payload :: bytes

record payment_call =
  py_label :: string
  py_preimage :: string
  py_amount :: nat
  py_extratlvs :: "(nat \<times> string) list option"

record listed_invoice =
  nv_label :: string
  nv_bolt11 :: "string option"
  nv_payment_hash :: bytes

record incoming_payment =
  ip_label :: string
  ip_preimage :: bytes
  ip_amount :: nat
  ip_extratlvs :: "(nat \<times> bytes) list"
  ip_bolt11 :: string
  ip_payment_hash :: bytes

datatype plugin_event = CustomMsgEvent custommsg | IncomingPaymentEvent incoming_payment

datatype hook_reply = Continue | ContinueCloseTo string

record 'v hooks_env =
  he_custommsg :: "'v \<Rightarrow> (string \<times> string) option"
  he_peer_connected :: "'v \<Rightarrow> peer_msg option"
  he_payment :: "'v \<Rightarrow> (payment_call, string) outcome"
  he_peer_to_string :: "peer_msg \<Rightarrow> string"
  he_hex_decode :: "string \<Rightarrow> bytes option"
  he_request_from_str :: "string \<Rightarrow> context_request option"
  he_config_decode :: "bytes \<Rightarrow> string option"
  he_rpc :: "(unit, string) outcome"
  he_listinvoices :: "string \<Rightarrow> (listed_invoice list, string) outcome"

text \<open>
  The datastore: create or replace and delete, which may fail, and the entries below a key.
\<close>

record 'd datastore_ops =
  do_put :: "string list \<Rightarrow> string \<Rightarrow> 'd \<Rightarrow> 'd \<times> (unit, string) outcome"
  do_del :: "string list \<Rightarrow> 'd \<Rightarrow> 'd \<times> (unit, string) outcome"
  do_list :: "string list \<Rightarrow> 'd \<Rightarrow> (string list \<times> string option) list"

subsection \<open>The hooks\<close>

definition on_custommsg :: "'v hooks_env \<Rightarrow> 'v \<Rightarrow> plugin_event list \<times> (hook_reply, string) outcome" where
  "on_custommsg H v =
     (case he_custommsg H v of
        None \<Rightarrow> ([], Panic)
      | Some (from_peer, msg) \<Rightarrow>
          (case (he_hex_decode H from_peer, he_hex_decode H msg) of
             (Some from_peer, Some msg) \<Rightarrow>
               ([CustomMsgEvent \<lparr>cu_peer_id = from_peer, cu_payload = msg\<rparr>], Ok Continue)
           | _ \<Rightarrow> ([], Panic)))"

text \<open>Whether the datastore took the peer is ignored.\<close>

definition on_peer_connected ::
  "'v hooks_env \<Rightarrow> 'd datastore_ops \<Rightarrow> 'v \<Rightarrow> 'd \<Rightarrow> 'd \<times> (hook_reply, string) outcome" where
  "on_peer_connected H D v ds =
     (case he_peer_connected H v of
        None \<Rightarrow> (ds, Panic)
      | Some peer \<Rightarrow>
          (case he_rpc H of
             Ok _ \<Rightarrow> (fst (do_put D (peer_key (pm_id peer)) (he_peer_to_string H peer) ds), Ok Continue)
           | Err e \<Rightarrow> (ds, Err e)
           | Panic \<Rightarrow> (ds, Panic)))"

definition parse_gl_config_from_serialized_request ::
  "'v hooks_env \<Rightarrow> string \<Rightarrow> (string option, string) outcome" where
  "parse_gl_config_from_serialized_request H request =
     obind (unwrap (he_request_from_str H request)) (\<lambda>r.
       let req = pr_request (pending_of_context r) in
       if length req < 5 then Panic else Ok (he_config_decode H (drop 5 req)))"

definition on_openchannel ::
  "'v hooks_env \<Rightarrow> (string option list, string) outcome \<Rightarrow> (hook_reply, string) outcome" where
  "on_openchannel H datastore =
     obind (he_rpc H) (\<lambda>_.
     case datastore of
       Ok (Some serialized_request # _) \<Rightarrow>
         omap (\<lambda>config. case config of Some close_to \<Rightarrow> ContinueCloseTo close_to | None \<Rightarrow> Continue)
           (parse_gl_config_from_serialized_request H serialized_request)
     | Panic \<Rightarrow> Panic
     | _ \<Rightarrow> Ok Continue)"

fun decode_tlvs :: "'v hooks_env \<Rightarrow> (nat \<times> string) list \<Rightarrow> ((nat \<times> bytes) list, string) outcome" where
  "decode_tlvs H [] = Ok []"
| "decode_tlvs H ((typ, v) # ts) =
     obind (unwrap (he_hex_decode H v)) (\<lambda>b. omap (\<lambda>ts. (typ, b) # ts) (decode_tlvs H ts))"

text \<open>The last invoice of the label is taken; the details are completed with it.\<close>

definition payment_details ::
  "'v hooks_env \<Rightarrow> payment_call \<Rightarrow> listed_invoice \<Rightarrow> (incoming_payment, string) outcome" where
  "payment_details H call i =
     obind (decode_tlvs H (case py_extratlvs call of None \<Rightarrow> [] | Some ts \<Rightarrow> ts)) (\<lambda>tlvs.
     obind (unwrap (he_hex_decode H (py_preimage call))) (\<lambda>preimage.
     obind (unwrap (nv_bolt11 i)) (\<lambda>bolt11.
     Ok \<lparr>ip_label = nv_label i, ip_preimage = preimage, ip_amount = py_amount call, ip_extratlvs = tlvs,
         ip_bolt11 = bolt11, ip_payment_hash = nv_payment_hash i\<rparr>)))"

definition on_invoice_payment :: "'v hooks_env \<Rightarrow> 'v \<Rightarrow> plugin_event list \<times> (hook_reply, string) outcome" where
  "on_invoice_payment H v =
     (case he_payment H v of
        Err e \<Rightarrow> ([], Ok Continue)
      | Panic \<Rightarrow> ([], Panic)
      | Ok call \<Rightarrow>
          (case he_rpc H of
             Err e \<Rightarrow> ([], Err e)
           | Panic \<Rightarrow> ([], Panic)
           | Ok _ \<Rightarrow>
               (case he_listinvoices H (py_label call) of
                  Ok [] \<Rightarrow> ([], Ok Continue)
                | Ok is \<Rightarrow>
                    (case payment_details H call (last is) of
                       Ok p \<Rightarrow> ([IncomingPaymentEvent p], Ok Continue)
                     | _ \<Rightarrow> ([], Panic))
                | _ \<Rightarrow> ([], Panic))))"

subsection \<open>Peers that are remembered\<close>

text \<open>
  What the datastore promises: entries below a key are those put there and not deleted since;
  an operation that fails changes nothing.
\<close>

definition datastore_lawful :: "'d datastore_ops \<Rightarrow> bool" where
  "datastore_lawful D \<longleftrightarrow>
     (\<forall>p ds. distinct (map fst (do_list D p ds))) \<and>
     (\<forall>p k v ds. map_of (do_list D p (fst (do_put D k v ds))) =
        (if snd (do_put D k v ds) = Ok () \<and> starts_with k p
         then (map_of (do_list D p ds))(k \<mapsto> Some v) else map_of (do_list D p ds))) \<and>
     (\<forall>p k ds. map_of (do_list D p (fst (do_del D k ds))) =
        (if snd (do_del D k ds) = Ok ()
         then (map_of (do_list D p ds))(k := None) else map_of (do_list D p ds)))"

datatype 'v peer_event = PeerConnects 'v | PeerDisconnected bytes

definition peer_event_step ::
  "'v hooks_env \<Rightarrow> 'd datastore_ops \<Rightarrow> node_rpc \<Rightarrow> 'v peer_event \<Rightarrow> 'd \<Rightarrow> 'd" where
  "peer_event_step H D R ev ds =
     (case ev of
        PeerConnects v \<Rightarrow> fst (on_peer_connected H D v ds)
      | PeerDisconnected peer \<Rightarrow> fst (do_del D (fst (wrapped_disconnect R peer)) ds))"

definition stored_peerlist :: "'d datastore_ops \<Rightarrow> 'd \<Rightarrow> string option list" where
  "stored_peerlist D ds = map snd (do_list D [''greenlight'', ''peerlist''] ds)"

text \<open>
  The specification: a peer is remembered from a connection whose write went through until a
  disconnect whose deletion did.
\<close>

definition remembers ::
  "'v hooks_env \<Rightarrow> 'd datastore_ops \<Rightarrow> node_rpc \<Rightarrow> 'v peer_event \<Rightarrow> 'd \<Rightarrow> (string \<rightharpoonup> peer_msg) \<Rightarrow> (string \<rightharpoonup> peer_msg)" where
  "remembers H D R ev ds m =
     (case ev of
        PeerConnects v \<Rightarrow>
          (case he_peer_connected H v of
             Some p \<Rightarrow>
               if he_rpc H = Ok () \<and> snd (do_put D (peer_key (pm_id p)) (he_peer_to_string H p) ds) = Ok ()
               then m(pm_id p \<mapsto> p) else m
           | None \<Rightarrow> m)
      | PeerDisconnected peer \<Rightarrow>
          if snd (do_del D (peer_key (nr_hex_encode R peer)) ds) = Ok () then m(nr_hex_encode R peer := None) else m)"

fun remembered ::
  "'v hooks_env \<Rightarrow> 'd datastore_ops \<Rightarrow> node_rpc \<Rightarrow> 'v peer_event list \<Rightarrow> 'd \<Rightarrow> (string \<rightharpoonup> peer_msg)
     \<Rightarrow> (string \<rightharpoonup> peer_msg)" where
  "remembered H D R [] ds m = m"
| "remembered H D R (ev # evs) ds m = remembered H D R evs (peer_event_step H D R ev ds) (remembers H D R ev ds m)"

text \<open>The datastore agrees with it.\<close>

definition peers_stored :: "'v hooks_env \<Rightarrow> 'd datastore_ops \<Rightarrow> 'd \<Rightarrow> (string \<rightharpoonup> peer_msg) \<Rightarrow> bool" where
  "peers_stored H D ds m \<longleftrightarrow>
     map_of (do_list D [''greenlight'', ''peerlist''] ds) =
       (\<lambda>k. case k of
          [a, b, i] \<Rightarrow> if a = ''greenlight'' \<and> b = ''peerlist''
                       then map_option (\<lambda>p. Some (he_peer_to_string H p)) (m i) else None
        | _ \<Rightarrow> None) \<and>
     (\<forall>i p. m i = Some p \<longrightarrow> pm_id p = i)"


subsection \<open>Lemmas\<close>

abbreviation peerlist_key :: "string list" where
  "peerlist_key \<equiv> [''greenlight'', ''peerlist'']"

lemma peers_stored_put:
  assumes "datastore_lawful D" "peers_stored H D ds m" "pm_id p = i"
  shows "peers_stored H D (fst (do_put D (peer_key i) (he_peer_to_string H p) ds))
    (if snd (do_put D (peer_key i) (he_peer_to_string H p) ds) = Ok () then m(i \<mapsto> p) else m)"
  using assms
  by (auto simp: peers_stored_def datastore_lawful_def peer_key_def fun_eq_iff split: list.split)

lemma peers_stored_del:
  assumes "datastore_lawful D" "peers_stored H D ds m"
  shows "peers_stored H D (fst (do_del D (peer_key i) ds))
    (if snd (do_del D (peer_key i) ds) = Ok () then m(i := None) else m)"
  using assms
  by (auto simp: peers_stored_def datastore_lawful_def peer_key_def fun_eq_iff split: list.split)

lemma peers_stored_step:
  assumes "datastore_lawful D" "peers_stored H D ds m"
  shows "peers_stored H D (peer_event_step H D R ev ds) (remembers H D R ev ds m)"
proof (cases ev)
  case (PeerConnects v)
  show ?thesis
  proof (cases "he_peer_connected H v")
    case (Some p)
    then show ?thesis using PeerConnects assms(2) peers_stored_put [OF assms refl, of p]
      by (cases "he_rpc H") (simp_all add: peer_event_step_def remembers_def on_peer_connected_def)
  qed (use PeerConnects assms(2) in \<open>simp add: peer_event_step_def remembers_def on_peer_connected_def\<close>)
next
  case (PeerDisconnected peer)
  then show ?thesis using peers_stored_del [OF assms, of "nr_hex_encode R peer"]
    by (simp add: peer_event_step_def remembers_def wrapped_disconnect_def Let_def)
qed

lemma peers_stored_steps:
  assumes "datastore_lawful D"
  shows "peers_stored H D ds m \<Longrightarrow>
    peers_stored H D (fold (peer_event_step H D R) evs ds) (remembered H D R evs ds m)"
  by (induction evs arbitrary: ds m) (simp_all add: peers_stored_step [OF assms])

text \<open>The strings that are stored are those of the remembered peers.\<close>

lemma stored_peerlist_set:
  assumes "datastore_lawful D" "peers_stored H D ds m"
  shows "set (stored_peerlist D ds) = {Some (he_peer_to_string H p) |i p. m i = Some p}"
proof -
  have "distinct (map fst (do_list D peerlist_key ds))" using assms(1) by (simp add: datastore_lawful_def)
  then have mem: "(k, s) \<in> set (do_list D peerlist_key ds) \<longleftrightarrow> map_of (do_list D peerlist_key ds) k = Some s" for k s
    by (simp add: map_of_eq_Some_iff)
  show ?thesis
  proof (intro set_eqI iffI)
    fix s assume "s \<in> set (stored_peerlist D ds)"
    then obtain k where "map_of (do_list D peerlist_key ds) k = Some s"
      using mem by (auto simp: stored_peerlist_def)
    then show "s \<in> {Some (he_peer_to_string H p) |i p. m i = Some p}"
      using assms(2) by (auto simp: peers_stored_def split: list.splits if_splits)
  next
    fix s assume "s \<in> {Some (he_peer_to_string H p) |i p. m i = Some p}"
    then obtain i p where "s = Some (he_peer_to_string H p)" "m i = Some p" by blast
    then have "map_of (do_list D peerlist_key ds) (peer_key i) = Some s"
      using assms(2) by (simp add: peers_stored_def peer_key_def)
    then show "s \<in> set (stored_peerlist D ds)" using mem by (force simp: stored_peerlist_def)
  qed
qed

text \<open>Stored strings that parse are requests with the address.\<close>

lemma stored_peers_parse:
  assumes "set strings \<subseteq> (\<lambda>p. Some (to_string p)) ` P"
    and "\<forall>p \<in> P. nr_parse_peer R (filter (\<lambda>c. c \<noteq> CHR 0x5C) (to_string p)) = Some (pm_id p, pm_addr p)"
  shows "\<exists>dspeers. map (stored_peer R) strings = map Ok dspeers \<and>
    set dspeers = (\<lambda>p. \<lparr>cn_id = pm_id p, cn_host = Some (pm_addr p)\<rparr>) ` {p \<in> P. Some (to_string p) \<in> set strings}"
  using assms(1)
proof (induction strings)
  case (Cons s strings)
  let ?f = "\<lambda>p. \<lparr>cn_id = pm_id p, cn_host = Some (pm_addr p)\<rparr>"
  from Cons obtain dspeers where IH: "map (stored_peer R) strings = map Ok dspeers"
    "set dspeers = ?f ` {p \<in> P. Some (to_string p) \<in> set strings}" by auto
  from Cons.prems obtain p where p: "p \<in> P" "s = Some (to_string p)" by auto
  then have head: "stored_peer R s = Ok (?f p)" using assms(2) by (simp add: stored_peer_def)
  have same: "?f q = ?f p" if "q \<in> P" "to_string q = to_string p" for q
    using assms(2) p(1) that by (metis option.inject prod.inject)
  have "?f ` {q \<in> P. Some (to_string q) \<in> set (s # strings)} =
      ?f ` {q \<in> P. to_string q = to_string p} \<union> set dspeers"
    unfolding IH(2) p(2) by (auto simp only: image_Un [symmetric] list.set insert_iff option.inject mem_Collect_eq
        intro!: arg_cong [where f = "image ?f"])
  also have "?f ` {q \<in> P. to_string q = to_string p} = {?f p}" using same p(1) by blast
  finally show ?case using IH(1) head by (intro exI [of _ "?f p # dspeers"]) simp
qed simp

lemma ids_are_keys:
  assumes "\<And>i p. m i = Some p \<Longrightarrow> pm_id p = i"
  shows "pm_id ` ran m = dom m"
proof (intro set_eqI iffI)
  fix x assume "x \<in> pm_id ` ran m"
  then obtain i p where "m i = Some p" "x = pm_id p" by (auto simp: ran_def)
  with assms [of i p] show "x \<in> dom m" by (simp add: domI)
next
  fix x assume "x \<in> dom m"
  then obtain p where p: "m x = Some p" by blast
  with assms [OF p] show "x \<in> pm_id ` ran m" by (metis image_eqI ranI)
qed

subsection \<open>An instance\<close>

text \<open>A datastore that does not take the peer \<open>z\<close>.\<close>

definition demo_datastore :: "(string list \<times> string) list datastore_ops" where
  "demo_datastore =
     \<lparr>do_put = (\<lambda>k v ds. if last k = ''z'' then (ds, Err ''refused'') else ((k, v) # ds, Ok ())),
      do_del = (\<lambda>k ds. (AList.delete k ds, Ok ())),
      do_list = (\<lambda>p ds. map (\<lambda>(k, v). (k, Some v)) (AList.clearjunk (filter (\<lambda>(k, v). starts_with k p) ds)))\<rparr>"

lemma map_of_filter_key: "map_of (filter (\<lambda>(k, v). P k) ds) k = (if P k then map_of ds k else None)"
  by (induction ds) auto

lemma demo_datastore_lawful: "datastore_lawful demo_datastore"
proof -
  have S: "map_of (map (\<lambda>(k, v). (k, Some v)) xs) = (\<lambda>k. map_option Some (map_of xs k))" for xs :: "(string list \<times> string) list"
    by (induction xs) auto
  have K: "map (fst \<circ> (\<lambda>(k, v). (k, Some v))) xs = map fst xs" for xs :: "(string list \<times> string) list"
    by (induction xs) auto
  show ?thesis
    by (auto simp: K datastore_lawful_def demo_datastore_def S map_of_clearjunk map_of_filter_key distinct_clearjunk
        delete_conv' fun_eq_iff)
qed

definition demo_hooks :: "peer_msg hooks_env" where
  "demo_hooks =
     \<lparr>he_custommsg = (\<lambda>v. None), he_peer_connected = Some, he_payment = (\<lambda>v. Err []),
      he_peer_to_string = (\<lambda>p. pm_id p @ CHR 0x5C # pm_addr p), he_hex_decode = (\<lambda>s. Some []),
      he_request_from_str = ne_request_from_str demo_node_env,
      he_config_decode = (\<lambda>b. if b = [] then None else Some ''addr''), he_rpc = Ok (),
      he_listinvoices = (\<lambda>l. Ok [])\<rparr>"

definition demo_peer :: "string \<Rightarrow> string \<Rightarrow> peer_msg" where
  "demo_peer i a = \<lparr>pm_id = i, pm_direction = OutPeer, pm_addr = a, pm_features = []\<rparr>"

definition demo_events :: "peer_msg peer_event list" where
  "demo_events = [PeerConnects (demo_peer ''x'' ''old''), PeerConnects (demo_peer ''z'' ''home''), PeerConnects (demo_peer ''y'' ''home''),
     PeerConnects (demo_peer ''x'' ''new''), PeerDisconnected [1]]"

text \<open>A node that knows the peer \<open>b\<close>; the peer with the key \<open>1\<close> is \<open>y\<close>.\<close>

definition demo_peers_rpc :: node_rpc where
  "demo_peers_rpc = demo_rpc
     \<lparr>nr_hex_encode := (\<lambda>b. if b = [1] then ''y'' else []),
      nr_peerlist := Ok (stored_peerlist demo_datastore [([''greenlight'', ''peerlist'', ''x''], ''x'' @ CHR 0x5C # ''new'')])\<rparr>"

section \<open>Properties\<close>

text \<open>
  C16: which peers are reconnected. After any sequence of connected peers and of disconnect
  calls, with a datastore that may refuse a write or a deletion, \<open>get_reconnect_peers\<close> returns
  one request for every peer lightningd has connected, and one for every peer whose connection
  was stored and whose deletion has not gone through since, and no other: not, as the
  documentation of \<open>reconnect_peers\<close> has it, for a peer with a channel that is neither. A
  remembered peer that is not connected is looked for at the address it had when it was stored.
\<close>

theorem remembered_peers_are_reconnected:
  assumes "datastore_lawful D" "do_list D [''greenlight'', ''peerlist''] ds = []"
    and "m = remembered H D R evs ds Map.empty"
    and "nr_listpeers R = Ok peers"
    and "nr_peerlist R = Ok (stored_peerlist D (fold (peer_event_step H D R) evs ds))"
    and "\<forall>p \<in> ran m. nr_parse_peer R (filter (\<lambda>c. c \<noteq> CHR 0x5C) (he_peer_to_string H p)) = Some (pm_id p, pm_addr p)"
  shows "\<exists>reqs. get_reconnect_peers R = Ok reqs \<and> distinct (map cn_id reqs) \<and>
    cn_id ` set reqs = lp_id ` {p \<in> set peers. lp_connected p} \<union> dom m \<and>
    (\<forall>i p. m i = Some p \<and> i \<notin> lp_id ` {p \<in> set peers. lp_connected p} \<longrightarrow>
       \<lparr>cn_id = i, cn_host = Some (pm_addr p)\<rparr> \<in> set reqs)"
proof -
  let ?f = "\<lambda>p. \<lparr>cn_id = pm_id p, cn_host = Some (pm_addr p)\<rparr>"
  let ?C = "{p \<in> set peers. lp_connected p}"
  let ?ds = "fold (peer_event_step H D R) evs ds"
  have stored: "peers_stored H D ?ds m"
    unfolding assms(3) by (intro peers_stored_steps assms) (simp add: peers_stored_def assms(2) fun_eq_iff split: list.split)
  have ids: "pm_id p = i" if "m i = Some p" for i p using stored that by (simp add: peers_stored_def)
  have strings: "set (stored_peerlist D ?ds) = {Some (he_peer_to_string H p) |p. p \<in> ran m}"
    using stored_peerlist_set [OF assms(1) stored] by (auto simp: ran_def)
  have all: "{p \<in> ran m. Some (he_peer_to_string H p) \<in> set (stored_peerlist D ?ds)} = ran m"
    unfolding strings by blast
  have sub: "set (stored_peerlist D ?ds) \<subseteq> (\<lambda>p. Some (he_peer_to_string H p)) ` ran m"
    unfolding strings by blast
  from stored_peers_parse [OF sub assms(6), unfolded all] obtain dspeers
    where ds: "map (stored_peer R) (stored_peerlist D ?ds) = map Ok dspeers" "set dspeers = ?f ` ran m"
    by blast
  let ?all = "map (\<lambda>p. \<lparr>cn_id = lp_id p, cn_host = None\<rparr>) (filter lp_connected peers) @ dspeers"
  let ?reqs = "dedup_by cn_id (sort_key cn_id ?all)"
  have collected: "collect_outcomes (map (stored_peer R) (stored_peerlist D ?ds)) = Ok dspeers"
    unfolding collect_outcomes_Ok by (rule ds(1))
  have reqs: "get_reconnect_peers R = Ok ?reqs"
    by (simp add: get_reconnect_peers_def assms(4,5) Let_def collected)
  have dom: "pm_id ` ran m = dom m" using ids by (rule ids_are_keys)
  have keys: "cn_id ` set ?reqs = lp_id ` ?C \<union> dom m"
    unfolding dedup_by_keys dom [symmetric] by (simp add: ds(2) image_Un image_image)
  have "?f p \<in> set ?reqs" if i: "m i = Some p" "i \<notin> lp_id ` ?C" for i p
  proof -
    have "i \<in> cn_id ` set ?reqs" unfolding keys using i(1) by (simp add: domI)
    then obtain r where r: "r \<in> set ?reqs" "cn_id r = i" by (elim imageE) simp
    then have "r \<in> set ?all" using dedup_by_subset [of cn_id "sort_key cn_id ?all"] by auto
    with r(2) i(2) have "r \<in> ?f ` ran m" by (auto simp: ds(2))
    then obtain j q where "m j = Some q" "r = ?f q" by (auto simp: ran_def)
    moreover from this have "j = i" using ids [of j q] r(2) by simp
    ultimately show ?thesis using i(1) r(1) by simp
  qed
  then have "\<forall>i p. m i = Some p \<and> i \<notin> lp_id ` ?C \<longrightarrow> \<lparr>cn_id = i, cn_host = Some (pm_addr p)\<rparr> \<in> set ?reqs"
    using ids by fastforce
  then show ?thesis
    by (intro exI [of _ ?reqs] conjI distinct_dedup_by sorted_sort_key reqs keys)
qed

lemma remembered_peers_are_reconnected_witness:
  "\<exists>reqs. get_reconnect_peers demo_peers_rpc = Ok reqs \<and> cn_id ` set reqs = {''b'', ''x''} \<and>
     \<lparr>cn_id = ''x'', cn_host = Some ''new''\<rparr> \<in> set reqs"
proof -
  let ?R = "demo_peers_rpc" and ?D = "demo_datastore"
  have ds: "fold (peer_event_step demo_hooks ?D ?R) demo_events [] =
      [([''greenlight'', ''peerlist'', ''x''], ''x'' @ CHR 0x5C # ''new''),
       ([''greenlight'', ''peerlist'', ''x''], ''x'' @ CHR 0x5C # ''old'')]"
    by (simp add: demo_events_def peer_event_step_def on_peer_connected_def demo_hooks_def demo_peer_def
        demo_datastore_def wrapped_disconnect_def demo_peers_rpc_def peer_key_def Let_def)
  have m: "remembered demo_hooks ?D ?R demo_events [] Map.empty = [''x'' \<mapsto> demo_peer ''x'' ''new'']"
    by (auto simp: demo_events_def remembers_def peer_event_step_def on_peer_connected_def demo_hooks_def demo_peer_def
        demo_datastore_def demo_peers_rpc_def peer_key_def fun_eq_iff Let_def)
  have prem: "do_list ?D [''greenlight'', ''peerlist''] [] = []"
    "nr_listpeers ?R = Ok [\<lparr>lp_id = ''b'', lp_connected = True\<rparr>, \<lparr>lp_id = ''c'', lp_connected = False\<rparr>]"
    by (simp_all add: demo_datastore_def demo_peers_rpc_def demo_rpc_def)
  have list: "nr_peerlist ?R = Ok (stored_peerlist ?D (fold (peer_event_step demo_hooks ?D ?R) demo_events []))"
    unfolding ds by (simp add: demo_peers_rpc_def stored_peerlist_def demo_datastore_def)
  have parse: "\<forall>p \<in> ran [''x'' \<mapsto> demo_peer ''x'' ''new'']. nr_parse_peer ?R
      (filter (\<lambda>c. c \<noteq> CHR 0x5C) (he_peer_to_string demo_hooks p)) = Some (pm_id p, pm_addr p)"
    by (simp add: demo_peer_def demo_hooks_def demo_peers_rpc_def demo_rpc_def)
  have C: "lp_id ` {p \<in> set [\<lparr>lp_id = ''b'', lp_connected = True\<rparr>, \<lparr>lp_id = ''c'', lp_connected = False\<rparr>].
      lp_connected p} = {''b''}"
    by (auto simp: image_iff intro!: exI [of _ "\<lparr>lp_id = ''b'', lp_connected = True\<rparr>"])
  from remembered_peers_are_reconnected [OF demo_datastore_lawful prem(1) m [symmetric] prem(2) list parse,
      unfolded C]
  obtain reqs where all: "get_reconnect_peers ?R = Ok reqs \<and> distinct (map cn_id reqs) \<and>
    cn_id ` set reqs = {''b''} \<union> dom [''x'' \<mapsto> demo_peer ''x'' ''new''] \<and>
    (\<forall>i p. [''x'' \<mapsto> demo_peer ''x'' ''new''] i = Some p \<and> i \<notin> {''b''} \<longrightarrow>
      \<lparr>cn_id = i, cn_host = Some (pm_addr p)\<rparr> \<in> set reqs)" by (rule exE)
  note r = conjunct1 [OF all] conjunct1 [OF conjunct2 [OF conjunct2 [OF all]]]
  note a = conjunct2 [OF conjunct2 [OF conjunct2 [OF all]]]
  from a [rule_format, of "''x''" "demo_peer ''x'' ''new''"]
  have "\<lparr>cn_id = ''x'', cn_host = Some ''new''\<rparr> \<in> set reqs" by (simp add: demo_peer_def)
  with r have "get_reconnect_peers ?R = Ok reqs" "cn_id ` set reqs = {''b'', ''x''}"
    "\<lparr>cn_id = ''x'', cn_host = Some ''new''\<rparr> \<in> set reqs" by (simp_all add: insert_commute)
  then show ?thesis by blast
qed

text \<open>
  The address a channel closes to. After a successful \<open>configure\<close>, a channel a peer opens
  closes to the address in the payload, without its five bytes of framing, of the oldest
  request that was running when the configuration was stored; a shorter payload panics.
\<close>

theorem openchannel_closes_to_configured:
  assumes "configure E C close_to ns = (Ok (), ns')"
    and "he_request_from_str H (ne_request_to_string E (hd (snapshot (ns_ctx ns)))) = Some (hd (snapshot (ns_ctx ns)))"
    and "he_rpc H = Ok ()"
  shows "\<exists>r rest. snapshot (ns_ctx ns) = r # rest \<and>
    on_openchannel H (Ok [ns_configure ns']) =
      (if length (cx_payload r) < 5 then Panic
       else Ok (case he_config_decode H (drop 5 (cx_payload r)) of
                  Some addr \<Rightarrow> ContinueCloseTo addr | None \<Rightarrow> Continue))"
proof -
  from assms(1) obtain r rest where r: "snapshot (ns_ctx ns) = r # rest"
    "ns_configure ns' = Some (ne_request_to_string E r)"
    by (auto simp: configure_def Let_def split: outcome.splits list.splits)
  with assms(2,3) show ?thesis
    by (auto simp: on_openchannel_def parse_gl_config_from_serialized_request_def pending_of_context_def Let_def)
qed

theorem openchannel_closes_to_configured_witness:
  "\<exists>ns'. configure demo_node_env demo_config ''addr''
       (demo_staged\<lparr>ns_ctx := [context_request_new ''u'' [] [] [] None []]\<rparr>) = (Ok (), ns') \<and>
     on_openchannel demo_hooks (Ok [ns_configure ns']) = Panic"
proof -
  let ?r = "context_request_new ''u'' [] [] [] None []"
  let ?ns = "demo_staged\<lparr>ns_ctx := [?r]\<rparr>"
  define ns' where "ns' = snd (configure demo_node_env demo_config ''addr'' ?ns)"
  have c: "configure demo_node_env demo_config ''addr'' ?ns = (Ok (), ns')"
    by (simp add: ns'_def configure_def demo_config_def check_close_to_def snapshot_def Let_def)
  have "he_request_from_str demo_hooks (ne_request_to_string demo_node_env (hd (snapshot (ns_ctx ?ns)))) =
      Some (hd (snapshot (ns_ctx ?ns)))"
    by (simp add: demo_hooks_def demo_node_env_def snapshot_def context_request_new_def)
  from openchannel_closes_to_configured [OF c this] c show ?thesis
    by (simp add: snapshot_def context_request_new_def demo_hooks_def)
qed

text \<open>A payment of an invoice that is not a BOLT 11 one panics the hook.\<close>

lemma other_invoice_panics:
  assumes "he_payment H v = Ok call" "he_rpc H = Ok ()" "he_listinvoices H (py_label call) = Ok invoices"
    and "invoices \<noteq> []" "nv_bolt11 (last invoices) = None"
  shows "on_invoice_payment H v = ([], Panic)"
proof -
  have "payment_details H call (last invoices) \<noteq> Ok p" for p
    using assms(5) by (auto simp: payment_details_def obind_eq_Ok)
  then show ?thesis using assms(1-4)
    by (cases invoices) (auto simp: on_invoice_payment_def simp del: last.simps split: outcome.split)
qed

end
