(* ===== verification/TrampAlloc.thy ===== *)
theory TrampAlloc
  imports Prelude "HOL-Library.Product_Lexorder" "HOL-Library.Sublist"
begin

text \<open>
  The split of a trampoline payment over the channels to the trampoline node
  (\<open>find_allocation\<close> and its callers in \<open>libs/gl-plugin/src/tramp.rs\<close>). Amounts are natural
  numbers: the code subtracts amounts only where the guards make the result non-negative, and
  adds none. The vector of allocations that the recursion pushes to and pops from is passed
  along and returned, so that an entry left behind by a failed branch is visible.
\<close>

record channel =
  short_channel_id :: string
  spendable_msat :: nat
  min_htlc_out_msat :: nat

record contribution =
  contrib_channel :: channel
  contrib_msat :: nat

datatype alloc_result = Success | Impossible | NeedSpace nat

function try_allocate ::
  "channel list \<Rightarrow> nat \<Rightarrow> contribution list \<Rightarrow> alloc_result \<times> contribution list" where
  "try_allocate channels target_msat allocations =
     (if target_msat = 0 then (Success, allocations)
      else
      (case channels of
         [] \<Rightarrow> (Impossible, allocations)
       | ch # rest \<Rightarrow>
           if spendable_msat ch < min_htlc_out_msat ch \<or> spendable_msat ch = 0
           then try_allocate rest target_msat allocations
           else
           let lower = min_htlc_out_msat ch; upper = min (spendable_msat ch) target_msat in
           if target_msat < lower then
             (case try_allocate rest target_msat allocations of
                (Success, allocations) \<Rightarrow> (Success, allocations)
              | (_, allocations) \<Rightarrow> (NeedSpace (lower - target_msat), allocations))
           else
           (case try_allocate rest (target_msat - upper)
                   (allocations @ [\<lparr>contrib_channel = ch, contrib_msat = upper\<rparr>]) of
              (Success, allocations) \<Rightarrow> (Success, allocations)
            | (Impossible, allocations) \<Rightarrow> (Impossible, allocations)
            | (NeedSpace shortfall, allocations) \<Rightarrow>
                let free = upper - lower in
                if shortfall \<le> free then
                  let adjusted_amount = upper - shortfall;
                      allocations = butlast allocations @
                        [\<lparr>contrib_channel = ch, contrib_msat = adjusted_amount\<rparr>] in
                  (case try_allocate rest (target_msat - adjusted_amount) allocations of
                     (Success, allocations) \<Rightarrow> (Success, allocations)
                   | (_, allocations) \<Rightarrow> try_allocate rest target_msat (butlast allocations))
                else (NeedSpace (shortfall - free), butlast allocations))))"
  by pat_completeness auto

termination by (relation "measure (length \<circ> fst)") auto

declare try_allocate.simps [simp del]

definition find_allocation :: "channel list \<Rightarrow> nat \<Rightarrow> contribution list option" where
  "find_allocation channels target_msat =
     (if target_msat = 0 then None
      else
      (case try_allocate channels target_msat [] of
         (Success, allocations) \<Rightarrow> Some allocations
       | _ \<Rightarrow> None))"

text \<open>\<open>sort_by\<close> is stable, as is \<open>sort_key\<close>.\<close>

definition find_allocation_ascending_order :: "channel list \<Rightarrow> nat \<Rightarrow> contribution list option" where
  "find_allocation_ascending_order channels target_msat =
     find_allocation (sort_key (\<lambda>c. (spendable_msat c, min_htlc_out_msat c)) channels) target_msat"

definition find_allocation_descending_order :: "channel list \<Rightarrow> nat \<Rightarrow> contribution list option" where
  "find_allocation_descending_order channels target_msat =
     find_allocation (sort_key (\<lambda>c. (- int (spendable_msat c), min_htlc_out_msat c)) channels) target_msat"

text \<open>The two strategies in sequence, as \<open>trampolinepay\<close> tries them; empty results are dropped.\<close>

definition allocate_payment :: "channel list \<Rightarrow> nat \<Rightarrow> contribution list option" where
  "allocate_payment channels target_msat =
     (case Option.bind (find_allocation_ascending_order channels target_msat)
             (\<lambda>alloc. if alloc = [] then None else Some alloc) of
        Some alloc \<Rightarrow> Some alloc
      | None \<Rightarrow>
          Option.bind (find_allocation_descending_order channels target_msat)
            (\<lambda>alloc. if alloc = [] then None else Some alloc))"

subsection \<open>The recursion, case by case\<close>

definition usable :: "channel \<Rightarrow> bool" where
  "usable ch \<longleftrightarrow> min_htlc_out_msat ch \<le> spendable_msat ch \<and> 0 < spendable_msat ch"

definition total :: "contribution list \<Rightarrow> nat" where
  "total as = sum_list (map contrib_msat as)"

lemma total_simps [simp]: "total [] = 0" "total (a # as) = contrib_msat a + total as"
  "total (as @ bs) = total as + total bs"
  by (simp_all add: total_def)

text \<open>A contribution is within the bounds of its channel.\<close>

definition within :: "contribution \<Rightarrow> bool" where
  "within a \<longleftrightarrow> min_htlc_out_msat (contrib_channel a) \<le> contrib_msat a \<and>
     contrib_msat a \<le> spendable_msat (contrib_channel a)"

lemma try_allocate_0 [simp]: "try_allocate cs 0 as = (Success, as)"
  by (simp add: try_allocate.simps)

lemma try_allocate_Nil: "0 < t \<Longrightarrow> try_allocate [] t as = (Impossible, as)"
  by (simp add: try_allocate.simps)

lemma try_allocate_unusable: "0 < t \<Longrightarrow> \<not> usable ch \<Longrightarrow> try_allocate (ch # cs) t as = try_allocate cs t as"
  by (subst try_allocate.simps) (auto simp: usable_def)

lemma try_allocate_below:
  "0 < t \<Longrightarrow> usable ch \<Longrightarrow> t < min_htlc_out_msat ch \<Longrightarrow>
     try_allocate (ch # cs) t as =
       (if fst (try_allocate cs t as) = Success then try_allocate cs t as
        else (NeedSpace (min_htlc_out_msat ch - t), snd (try_allocate cs t as)))"
  by (cases "try_allocate cs t as"; subst try_allocate.simps)
    (auto simp: usable_def Let_def split: alloc_result.splits)

text \<open>
  One step on a usable channel that can take part of the target: \<open>upper\<close> was pushed, and the
  remaining channels gave \<open>r\<close> and left the vector \<open>bs\<close>.
\<close>

definition retry_with :: "channel list \<Rightarrow> channel \<Rightarrow> nat \<Rightarrow> nat \<Rightarrow> contribution list \<Rightarrow> alloc_result \<times> contribution list" where
  "retry_with cs ch t amount bs =
     try_allocate cs (t - amount) (butlast bs @ [\<lparr>contrib_channel = ch, contrib_msat = amount\<rparr>])"

definition after_take ::
  "channel list \<Rightarrow> channel \<Rightarrow> nat \<Rightarrow> nat \<Rightarrow> alloc_result \<Rightarrow> contribution list \<Rightarrow> alloc_result \<times> contribution list" where
  "after_take cs ch t upper r bs =
    (case r of
       NeedSpace shortfall \<Rightarrow>
         if shortfall \<le> upper - min_htlc_out_msat ch then
           if fst (retry_with cs ch t (upper - shortfall) bs) = Success
           then retry_with cs ch t (upper - shortfall) bs
           else try_allocate cs t (butlast (snd (retry_with cs ch t (upper - shortfall) bs)))
         else (NeedSpace (shortfall - (upper - min_htlc_out_msat ch)), butlast bs)
     | _ \<Rightarrow> (r, bs))"

lemma try_allocate_take:
  assumes "0 < t" "usable ch" "min_htlc_out_msat ch \<le> t"
    and "upper = min (spendable_msat ch) t"
    and "try_allocate cs (t - upper) (as @ [\<lparr>contrib_channel = ch, contrib_msat = upper\<rparr>]) = (r, bs)"
  shows "try_allocate (ch # cs) t as = after_take cs ch t upper r bs"
  using assms
  by (subst try_allocate.simps)
    (auto simp: usable_def after_take_def retry_with_def Let_def split: prod.splits alloc_result.splits)

lemmas try_allocate_steps =
  try_allocate_0 try_allocate_Nil try_allocate_unusable try_allocate_below

text \<open>The result does not depend on the vector, so it is a function of channels and target.\<close>

definition alloc_outcome :: "channel list \<Rightarrow> nat \<Rightarrow> alloc_result" where
  "alloc_outcome cs t = fst (try_allocate cs t [])"

lemma try_allocate_outcome: "fst (try_allocate cs t as) = fst (try_allocate cs t bs)"
proof (induction cs arbitrary: t as bs)
  case Nil
  then show ?case by (cases "t = 0") (simp_all add: try_allocate_Nil)
next
  case (Cons ch cs)
  show ?case
  proof (cases "0 < t \<and> usable ch \<and> min_htlc_out_msat ch \<le> t")
    case True
    define upper where "upper = min (spendable_msat ch) t"
    obtain r xs ys where
      x: "try_allocate cs (t - upper) (as @ [\<lparr>contrib_channel = ch, contrib_msat = upper\<rparr>]) = (r, xs)"
      and y: "try_allocate cs (t - upper) (bs @ [\<lparr>contrib_channel = ch, contrib_msat = upper\<rparr>]) = (r, ys)"
      using Cons.IH by (metis prod.collapse)
    from True have pre: "0 < t" "usable ch" "min_htlc_out_msat ch \<le> t" by auto
    have "fst (retry_with cs ch t m xs) = fst (retry_with cs ch t m ys)" for m
      unfolding retry_with_def by (rule Cons.IH)
    then have "fst (after_take cs ch t upper r xs) = fst (after_take cs ch t upper r ys)"
      using Cons.IH by (simp add: after_take_def split: alloc_result.splits)
    then show ?thesis
      unfolding try_allocate_take [OF pre upper_def x] try_allocate_take [OF pre upper_def y] .
  next
    case False
    then consider "t = 0" | "0 < t" "\<not> usable ch" | "0 < t" "usable ch" "t < min_htlc_out_msat ch"
      by fastforce
    then show ?thesis
      using Cons.IH [of t as bs] by cases (simp_all add: try_allocate_steps)
  qed
qed

lemma alloc_outcome_eq: "fst (try_allocate cs t as) = alloc_outcome cs t"
  unfolding alloc_outcome_def by (rule try_allocate_outcome)

lemma alloc_outcome_0 [simp]: "alloc_outcome cs 0 = Success"
  by (simp add: alloc_outcome_def)

lemma alloc_outcome_Nil: "0 < t \<Longrightarrow> alloc_outcome [] t = Impossible"
  by (simp add: alloc_outcome_def try_allocate_Nil)

lemma alloc_outcome_unusable: "0 < t \<Longrightarrow> \<not> usable ch \<Longrightarrow> alloc_outcome (ch # cs) t = alloc_outcome cs t"
  by (simp add: alloc_outcome_def try_allocate_unusable)

lemma alloc_outcome_below:
  "0 < t \<Longrightarrow> usable ch \<Longrightarrow> t < min_htlc_out_msat ch \<Longrightarrow>
     alloc_outcome (ch # cs) t =
       (if alloc_outcome cs t = Success then Success else NeedSpace (min_htlc_out_msat ch - t))"
  by (simp add: alloc_outcome_def try_allocate_below)

lemma alloc_outcome_take:
  assumes "0 < t" "usable ch" "min_htlc_out_msat ch \<le> t" "upper = min (spendable_msat ch) t"
  shows "alloc_outcome (ch # cs) t =
    (case alloc_outcome cs (t - upper) of
       NeedSpace s \<Rightarrow>
         if s \<le> upper - min_htlc_out_msat ch then
           if alloc_outcome cs (t - (upper - s)) = Success then Success else alloc_outcome cs t
         else NeedSpace (s - (upper - min_htlc_out_msat ch))
     | r \<Rightarrow> r)"
proof -
  obtain r bs where r: "try_allocate cs (t - upper) ([] @ [\<lparr>contrib_channel = ch, contrib_msat = upper\<rparr>]) = (r, bs)"
    by (cases "try_allocate cs (t - upper) ([] @ [\<lparr>contrib_channel = ch, contrib_msat = upper\<rparr>])")
  then have "alloc_outcome cs (t - upper) = r" using alloc_outcome_eq by (metis fst_conv)
  moreover have "alloc_outcome (ch # cs) t = fst (after_take cs ch t upper r bs)"
    unfolding alloc_outcome_def using try_allocate_take [OF assms r] by simp
  ultimately show ?thesis
    by (cases r) (simp_all add: after_take_def retry_with_def alloc_outcome_eq)
qed

text \<open>
  The shortfall is exact: with any smaller part of it added to the target the channels still
  miss the rest of it (or manage), and with all of it they succeed. So the retry of the code
  with the adjusted amount always succeeds, and the branch that would skip the channel after
  a failed retry is never taken.
\<close>

lemma shortfall_exact:
  assumes "alloc_outcome cs t = NeedSpace s" "d \<le> s"
  shows "(d < s \<longrightarrow> alloc_outcome cs (t + d) \<in> {Success, NeedSpace (s - d)}) \<and>
         (d = s \<longrightarrow> alloc_outcome cs (t + d) = Success)"
  using assms
proof (induction cs arbitrary: t s d)
  case Nil
  then show ?case by (cases "t = 0") (simp_all add: alloc_outcome_Nil)
next
  case (Cons ch cs)
  from Cons.prems(1) have t: "0 < t" by (cases "t = 0") simp_all
  consider "\<not> usable ch" | "usable ch" "t < min_htlc_out_msat ch" | "usable ch" "min_htlc_out_msat ch \<le> t"
    by fastforce
  then show ?case
  proof cases
    case 1
    then show ?thesis using Cons t by (simp add: alloc_outcome_unusable)
  next
    case 2
    then have s: "s = min_htlc_out_msat ch - t"
      using Cons.prems(1) t by (simp add: alloc_outcome_below split: if_splits)
    show ?thesis
    proof (cases "d = s")
      case True
      then have "t + d = min_htlc_out_msat ch" using s 2 by simp
      then show ?thesis
        using alloc_outcome_take [of "t + d" ch "t + d" cs] 2 t True by (simp add: usable_def min_def)
    next
      case False
      then have "t + d < min_htlc_out_msat ch" using s 2 Cons.prems(2) by simp
      then show ?thesis
        using alloc_outcome_below [of "t + d" ch cs] 2 t False s by simp
    qed
  next
    case 3
    define lower where "lower = min_htlc_out_msat ch"
    define upper where "upper = min (spendable_msat ch) t"
    have ot: "alloc_outcome (ch # cs) t = (case alloc_outcome cs (t - upper) of
       NeedSpace s \<Rightarrow>
         if s \<le> upper - lower then
           if alloc_outcome cs (t - (upper - s)) = Success then Success else alloc_outcome cs t
         else NeedSpace (s - (upper - lower))
     | r \<Rightarrow> r)"
      unfolding lower_def using alloc_outcome_take [OF t 3 upper_def] .
    have up: "lower \<le> upper" "upper \<le> t" using 3 by (auto simp: lower_def upper_def usable_def)
    obtain s' where s': "alloc_outcome cs (t - upper) = NeedSpace s'"
      using ot Cons.prems(1) by (cases "alloc_outcome cs (t - upper)") auto
    have "upper < t" using s' up(2) by (cases "upper = t") auto
    then have sp: "upper = spendable_msat ch" by (simp add: upper_def min_def split: if_splits)
    have gt: "\<not> s' \<le> upper - lower"
    proof
      assume le: "s' \<le> upper - lower"
      have "alloc_outcome cs (t - upper + s') = Success" using Cons.IH [OF s' order_refl] by simp
      moreover have "t - upper + s' = t - (upper - s')" using le up by linarith
      ultimately show False using ot s' le Cons.prems(1) by simp
    qed
    then have s: "s = s' - (upper - lower)" using ot s' Cons.prems(1) by simp
    have td: "alloc_outcome (ch # cs) (t + d) = (case alloc_outcome cs (t - upper + d) of
       NeedSpace s \<Rightarrow>
         if s \<le> upper - lower then
           if alloc_outcome cs (t + d - (upper - s)) = Success then Success else alloc_outcome cs (t + d)
         else NeedSpace (s - (upper - lower))
     | r \<Rightarrow> r)"
      unfolding lower_def using alloc_outcome_take [of "t + d" ch upper cs] t 3 sp \<open>upper < t\<close> by simp
    have ds': "d \<le> s'" using Cons.prems(2) s by simp
    have all: "alloc_outcome cs (t - upper + s') = Success" using Cons.IH [OF s' order_refl] by simp
    show ?thesis
    proof (cases "d = s'")
      case True
      then show ?thesis using td all by auto
    next
      case False
      then have "alloc_outcome cs (t - upper + d) \<in> {Success, NeedSpace (s' - d)}"
        using Cons.IH [OF s' ds'] ds' by simp
      then show ?thesis
      proof
        assume "alloc_outcome cs (t - upper + d) = Success"
        then show ?thesis using td by auto
      next
        assume "alloc_outcome cs (t - upper + d) \<in> {NeedSpace (s' - d)}"
        then have n: "alloc_outcome cs (t - upper + d) = NeedSpace (s' - d)" by simp
        show ?thesis
        proof (cases "d = s")
          case True
          then have "s' - d = upper - lower" using s gt by simp
          moreover have "t + d - (upper - (upper - lower)) = t - upper + s'"
            using True s gt up by linarith
          ultimately show ?thesis using td n all True by simp
        next
          case False
          then have "\<not> s' - d \<le> upper - lower" using Cons.prems(2) s gt by simp
          then show ?thesis using td n False s by (simp add: add.commute)
        qed
      qed
    qed
  qed
qed

lemma retry_succeeds:
  assumes "alloc_outcome cs (t - upper) = NeedSpace s" "s \<le> upper" "upper \<le> t"
  shows "alloc_outcome cs (t - (upper - s)) = Success"
proof -
  have "t - (upper - s) = t - upper + s" using assms(2,3) by linarith
  then show ?thesis using shortfall_exact [OF assms(1) order_refl] by simp
qed

text \<open>What one step does to the vector, now that the retry is known to succeed.\<close>

lemma try_allocate_take_cases:
  assumes "0 < t" "usable ch" "min_htlc_out_msat ch \<le> t" "upper = min (spendable_msat ch) t"
    and "try_allocate cs (t - upper) (as @ [\<lparr>contrib_channel = ch, contrib_msat = upper\<rparr>]) = (r, bs)"
  shows "(\<exists>s. r = NeedSpace s \<and> s \<le> upper - min_htlc_out_msat ch \<and>
            try_allocate (ch # cs) t as =
              try_allocate cs (t - (upper - s)) (butlast bs @ [\<lparr>contrib_channel = ch, contrib_msat = upper - s\<rparr>]) \<and>
            alloc_outcome cs (t - (upper - s)) = Success) \<or>
         (\<exists>s. r = NeedSpace s \<and> try_allocate (ch # cs) t as =
            (NeedSpace (s - (upper - min_htlc_out_msat ch)), butlast bs)) \<or>
         (\<forall>s. r \<noteq> NeedSpace s) \<and> try_allocate (ch # cs) t as = (r, bs)"
proof (cases r)
  case (NeedSpace s)
  have n: "alloc_outcome cs (t - upper) = NeedSpace s"
    using assms(5) NeedSpace alloc_outcome_eq by (metis fst_conv)
  show ?thesis
  proof (cases "s \<le> upper - min_htlc_out_msat ch")
    case True
    then have "alloc_outcome cs (t - (upper - s)) = Success"
      using assms(4) by (intro retry_succeeds [OF n]) auto
    then show ?thesis
      using try_allocate_take [OF assms] NeedSpace True
      by (simp add: after_take_def retry_with_def alloc_outcome_eq)
  next
    case False
    then show ?thesis using try_allocate_take [OF assms] NeedSpace by (simp add: after_take_def)
  qed
qed (use try_allocate_take [OF assms] in \<open>simp_all add: after_take_def\<close>)

subsection \<open>Any order of the channels\<close>

text \<open>
  Whatever the order, entries that were in the vector stay, the new ones are within the
  bounds of channels of the list, and on success they cover the target.
\<close>

definition extends :: "channel list \<Rightarrow> nat \<Rightarrow> contribution list \<Rightarrow> alloc_result \<times> contribution list \<Rightarrow> bool" where
  "extends cs t as res \<longleftrightarrow>
     (\<exists>new. snd res = as @ new \<and> (\<forall>a \<in> set new. within a \<and> contrib_channel a \<in> set cs) \<and>
        (fst res = Success \<longrightarrow> t \<le> total new))"

lemma extends_mono: "extends cs t as res \<Longrightarrow> extends (ch # cs) t as res"
  by (fastforce simp: extends_def)

lemma butlast_append_last: "butlast (as @ [x] @ ys) = as @ butlast (x # ys)"
  by (simp add: butlast_append)

lemma extends_after:
  assumes "extends cs (t - c) (as @ xs) res" "\<forall>a \<in> set xs. within a \<and> contrib_channel a \<in> set (ch # cs)"
    and "c \<le> total xs"
  shows "extends (ch # cs) t as res"
proof -
  from assms(1) obtain new where "snd res = (as @ xs) @ new"
    "\<forall>a \<in> set new. within a \<and> contrib_channel a \<in> set cs" "fst res = Success \<longrightarrow> t - c \<le> total new"
    by (auto simp: extends_def)
  then show ?thesis
    using assms(2,3) unfolding extends_def by (intro exI [of _ "xs @ new"]) auto
qed

lemma try_allocate_extends: "extends cs t as (try_allocate cs t as)"
proof (induction cs arbitrary: t as)
  case Nil
  then show ?case by (cases "t = 0") (simp_all add: try_allocate_Nil extends_def)
next
  case (Cons ch cs)
  consider "t = 0" | "0 < t" "\<not> usable ch" | "0 < t" "usable ch" "t < min_htlc_out_msat ch"
    | "0 < t" "usable ch" "min_htlc_out_msat ch \<le> t" by fastforce
  then show ?case
  proof cases
    case 1
    then show ?thesis by (simp add: extends_def)
  next
    case 2
    then show ?thesis using Cons.IH extends_mono by (simp add: try_allocate_unusable)
  next
    case 3
    then show ?thesis
      using extends_mono [OF Cons.IH, of ch t as] by (auto simp: try_allocate_below extends_def)
  next
    case 4
    define upper where "upper = min (spendable_msat ch) t"
    let ?own = "\<lambda>m. \<lparr>contrib_channel = ch, contrib_msat = m\<rparr>"
    obtain r bs where r: "try_allocate cs (t - upper) (as @ [?own upper]) = (r, bs)"
      by (cases "try_allocate cs (t - upper) (as @ [?own upper])")
    have w: "within (?own m)" if "min_htlc_out_msat ch \<le> m" "m \<le> upper" for m
      using that by (simp add: within_def upper_def)
    have up: "min_htlc_out_msat ch \<le> upper" using 4 by (simp add: upper_def usable_def)
    have ext: "extends cs (t - upper) (as @ [?own upper]) (r, bs)" using Cons.IH r by metis
    then have taken: "extends (ch # cs) t as (r, bs)"
      using extends_after [of cs t upper as "[?own upper]" "(r, bs)" ch] w [of upper] up by simp
    from ext obtain new where bs: "bs = as @ [?own upper] @ new"
      and new: "\<forall>a \<in> set new. within a \<and> contrib_channel a \<in> set cs"
      by (auto simp: extends_def)
    have but: "butlast bs = as @ butlast (?own upper # new)"
      unfolding bs by (rule butlast_append_last)
    have but_ok: "\<forall>a \<in> set (butlast (?own upper # new)). within a \<and> contrib_channel a \<in> set (ch # cs)"
      using new w up by (auto dest: in_set_butlastD split: if_splits)
    from try_allocate_take_cases [OF 4 upper_def r] show ?thesis
    proof (elim disjE exE conjE)
      fix s assume s: "s \<le> upper - min_htlc_out_msat ch"
        and eq: "try_allocate (ch # cs) t as = try_allocate cs (t - (upper - s)) (butlast bs @ [?own (upper - s)])"
      have "extends cs (t - (upper - s)) (as @ butlast (?own upper # new) @ [?own (upper - s)])
          (try_allocate (ch # cs) t as)"
        unfolding eq but using Cons.IH [of "t - (upper - s)"] by simp
      then show ?thesis
      proof (rule extends_after)
        show "\<forall>a \<in> set (butlast (?own upper # new) @ [?own (upper - s)]).
            within a \<and> contrib_channel a \<in> set (ch # cs)"
          using but_ok w [of "upper - s"] s up by auto
      qed simp
    next
      fix s assume "try_allocate (ch # cs) t as = (NeedSpace (s - (upper - min_htlc_out_msat ch)), butlast bs)"
      then show ?thesis using but but_ok unfolding extends_def by auto
    next
      assume "try_allocate (ch # cs) t as = (r, bs)"
      then show ?thesis using taken by simp
    qed
  qed
qed

subsection \<open>Ascending order\<close>

text \<open>
  In ascending order a channel whose minimum is too high is followed by channels that can
  take the whole target alone or not at all, so a failed branch leaves nothing behind.
\<close>

definition ascending :: "channel list \<Rightarrow> bool" where
  "ascending cs = sorted (map spendable_msat cs)"

lemma try_allocate_large:
  assumes "\<forall>c \<in> set cs. t \<le> spendable_msat c" "0 < t"
  shows "fst (try_allocate cs t as) = Success \<and>
           (\<exists>c \<in> set cs. usable c \<and> min_htlc_out_msat c \<le> t \<and>
              snd (try_allocate cs t as) = as @ [\<lparr>contrib_channel = c, contrib_msat = t\<rparr>]) \<or>
         fst (try_allocate cs t as) \<noteq> Success \<and> snd (try_allocate cs t as) = as"
  using assms
proof (induction cs arbitrary: as)
  case Nil
  then show ?case by (simp add: try_allocate_Nil)
next
  case (Cons ch cs)
  consider "\<not> usable ch" | "usable ch" "t < min_htlc_out_msat ch" | "usable ch" "min_htlc_out_msat ch \<le> t"
    by fastforce
  then show ?case
  proof cases
    case 1
    then show ?thesis using Cons by (auto simp: try_allocate_unusable)
  next
    case 2
    then show ?thesis using Cons.IH [of as] Cons.prems by (auto simp: try_allocate_below)
  next
    case 3
    have "t = min (spendable_msat ch) t" using Cons.prems by simp
    then have "try_allocate (ch # cs) t as = after_take cs ch t t Success (as @ [\<lparr>contrib_channel = ch, contrib_msat = t\<rparr>])"
      using 3 Cons.prems by (intro try_allocate_take) simp_all
    then show ?thesis using 3 by (simp add: after_take_def)
  qed
qed

text \<open>An exact allocation over distinct positions of the list.\<close>

definition exact :: "channel list \<Rightarrow> nat \<Rightarrow> contribution list \<Rightarrow> bool" where
  "exact cs t new \<longleftrightarrow> total new = t \<and> (\<forall>a \<in> set new. within a) \<and> subseq (map contrib_channel new) cs"

lemma exact_Cons: "exact cs t new \<Longrightarrow> exact (ch # cs) t new"
  by (auto simp: exact_def)

lemma exact_take:
  "exact cs (t - m) new \<Longrightarrow> m \<le> t \<Longrightarrow> within \<lparr>contrib_channel = ch, contrib_msat = m\<rparr> \<Longrightarrow>
     exact (ch # cs) t (\<lparr>contrib_channel = ch, contrib_msat = m\<rparr> # new)"
  by (simp add: exact_def)

lemma try_allocate_ascending:
  assumes "ascending cs"
  shows "(fst (try_allocate cs t as) = Success \<longrightarrow>
            (\<exists>new. snd (try_allocate cs t as) = as @ new \<and> exact cs t new)) \<and>
         (\<forall>s. fst (try_allocate cs t as) = NeedSpace s \<longrightarrow> snd (try_allocate cs t as) = as)"
  using assms
proof (induction cs arbitrary: t as)
  case Nil
  then show ?case by (cases "t = 0") (simp_all add: try_allocate_Nil exact_def)
next
  case (Cons ch cs)
  have asc: "ascending cs" "\<forall>c \<in> set cs. spendable_msat ch \<le> spendable_msat c"
    using Cons.prems by (simp_all add: ascending_def)
  note IH = Cons.IH [OF asc(1)]
  consider "t = 0" | "0 < t" "\<not> usable ch" | "0 < t" "usable ch" "t < min_htlc_out_msat ch"
    | "0 < t" "usable ch" "min_htlc_out_msat ch \<le> t" by fastforce
  then show ?case
  proof cases
    case 1
    then show ?thesis by (auto simp: exact_def)
  next
    case 2
    then show ?thesis using IH [of t as] exact_Cons by (auto simp: try_allocate_unusable)
  next
    case 3
    then have "\<forall>c \<in> set cs. t \<le> spendable_msat c"
      using asc(2) by (auto simp: usable_def)
    then have "fst (try_allocate cs t as) \<noteq> Success \<Longrightarrow> snd (try_allocate cs t as) = as"
      using try_allocate_large [of cs t as] 3 by blast
    then show ?thesis
      using 3 IH [of t as] exact_Cons by (auto simp: try_allocate_below)
  next
    case 4
    define upper where "upper = min (spendable_msat ch) t"
    let ?own = "\<lambda>m. \<lparr>contrib_channel = ch, contrib_msat = m\<rparr>"
    obtain r bs where r: "try_allocate cs (t - upper) (as @ [?own upper]) = (r, bs)"
      by (cases "try_allocate cs (t - upper) (as @ [?own upper])")
    have w: "within (?own m)" if "min_htlc_out_msat ch \<le> m" "m \<le> upper" for m
      using that by (simp add: within_def upper_def)
    have up: "min_htlc_out_msat ch \<le> upper" "upper \<le> t" using 4 by (simp_all add: upper_def usable_def)
    have need: "bs = as @ [?own upper]" if "r = NeedSpace s" for s
      using IH [of "t - upper" "as @ [?own upper]"] r that by simp
    from try_allocate_take_cases [OF 4 upper_def r] show ?thesis
    proof (elim disjE exE conjE)
      fix s assume s: "r = NeedSpace s" "s \<le> upper - min_htlc_out_msat ch"
        and eq: "try_allocate (ch # cs) t as = try_allocate cs (t - (upper - s)) (butlast bs @ [?own (upper - s)])"
        and ok: "alloc_outcome cs (t - (upper - s)) = Success"
      have eq': "try_allocate (ch # cs) t as = try_allocate cs (t - (upper - s)) (as @ [?own (upper - s)])"
        unfolding eq need [OF s(1)] by simp
      have "fst (try_allocate (ch # cs) t as) = Success" unfolding eq' alloc_outcome_eq by (rule ok)
      moreover obtain new where "snd (try_allocate (ch # cs) t as) = (as @ [?own (upper - s)]) @ new"
        "exact cs (t - (upper - s)) new"
        using IH [of "t - (upper - s)" "as @ [?own (upper - s)]"] calculation unfolding eq' by auto
      moreover have "exact (ch # cs) t (?own (upper - s) # new)"
        using \<open>exact cs (t - (upper - s)) new\<close> s(2) up w by (intro exact_take) auto
      ultimately show ?thesis by auto
    next
      fix s assume "r = NeedSpace s"
        "try_allocate (ch # cs) t as = (NeedSpace (s - (upper - min_htlc_out_msat ch)), butlast bs)"
      then show ?thesis using need by simp
    next
      assume n: "\<forall>s. r \<noteq> NeedSpace s" and eq: "try_allocate (ch # cs) t as = (r, bs)"
      show ?thesis
      proof (cases "r = Success")
        case True
        then obtain new where "bs = (as @ [?own upper]) @ new" "exact cs (t - upper) new"
          using IH [of "t - upper" "as @ [?own upper]"] r by auto
        moreover have "exact (ch # cs) t (?own upper # new)"
          using \<open>exact cs (t - upper) new\<close> up w by (intro exact_take) auto
        ultimately show ?thesis using eq True by auto
      next
        case False
        then show ?thesis using eq n by simp
      qed
    qed
  qed
qed

lemma ascending_sort: "ascending (sort_key (\<lambda>c. (spendable_msat c, min_htlc_out_msat c)) cs)"
proof -
  let ?f = "\<lambda>c. (spendable_msat c, min_htlc_out_msat c)"
  have "sorted_wrt (\<lambda>a b. ?f a \<le> ?f b) (sort_key ?f cs)"
    using sorted_sort_key [of ?f cs] by (simp add: sorted_wrt_map)
  then have "sorted_wrt (\<lambda>a b. spendable_msat a \<le> spendable_msat b) (sort_key ?f cs)"
    by (rule sorted_wrt_mono_rel [rotated]) (auto simp: less_eq_prod_def)
  then show ?thesis by (simp add: ascending_def sorted_wrt_map)
qed

section \<open>Properties\<close>

text \<open>
  C11: in ascending order an allocation is exact. Its parts add up to the target, each part is
  between the minimum and the spendable amount of its channel, and no channel is used twice
  (the channels used are a subsequence of the sorted list).
\<close>

theorem ascending_allocation_exact:
  assumes "find_allocation_ascending_order cs t = Some as"
  shows "total as = t \<and> (\<forall>a \<in> set as. within a) \<and> as \<noteq> [] \<and>
    subseq (map contrib_channel as) (sort_key (\<lambda>c. (spendable_msat c, min_htlc_out_msat c)) cs)"
proof -
  let ?cs = "sort_key (\<lambda>c. (spendable_msat c, min_htlc_out_msat c)) cs"
  have t: "t \<noteq> 0" and s: "try_allocate ?cs t [] = (Success, as)"
    using assms
    by (auto simp: find_allocation_ascending_order_def find_allocation_def
        split: if_splits prod.splits alloc_result.splits)
  then have "exact ?cs t as"
    using try_allocate_ascending [OF ascending_sort, of cs t "[]"] by simp
  then show ?thesis using t by (auto simp: exact_def)
qed

definition chan :: "nat \<Rightarrow> nat \<Rightarrow> channel" where
  "chan s m = \<lparr>short_channel_id = [], spendable_msat = s, min_htlc_out_msat = m\<rparr>"

lemma ascending_allocation_exact_witness:
  "find_allocation_ascending_order [chan 10 1, chan 4 3, chan 6 2] 9 =
     Some [\<lparr>contrib_channel = chan 4 3, contrib_msat = 4\<rparr>, \<lparr>contrib_channel = chan 6 2, contrib_msat = 5\<rparr>] \<and>
   total [\<lparr>contrib_channel = chan 4 3, contrib_msat = 4\<rparr>, \<lparr>contrib_channel = chan 6 2, contrib_msat = 5\<rparr>] = 9"
proof -
  have f: "find_allocation_ascending_order [chan 10 1, chan 4 3, chan 6 2] 9 =
     Some [\<lparr>contrib_channel = chan 4 3, contrib_msat = 4\<rparr>, \<lparr>contrib_channel = chan 6 2, contrib_msat = 5\<rparr>]"
    by (simp add: find_allocation_ascending_order_def find_allocation_def chan_def try_allocate.simps)
  show ?thesis using f ascending_allocation_exact [OF f] by blast
qed

text \<open>
  C33: in any order an allocation covers the target with parts within the bounds of their
  channels, so the trampoline node is never paid too little.
\<close>

theorem allocation_covers_target:
  assumes "find_allocation cs t = Some as"
  shows "t \<le> total as \<and> (\<forall>a \<in> set as. within a \<and> contrib_channel a \<in> set cs)"
  using assms try_allocate_extends [of cs t "[]"]
  by (auto simp: find_allocation_def extends_def split: if_splits prod.splits alloc_result.splits)

lemma allocation_covers_target_witness:
  "\<exists>as. find_allocation [chan 10 1, chan 4 3] 12 = Some as \<and> 12 \<le> total as"
proof -
  have f: "find_allocation [chan 10 1, chan 4 3] 12 =
     Some [\<lparr>contrib_channel = chan 10 1, contrib_msat = 9\<rparr>, \<lparr>contrib_channel = chan 4 3, contrib_msat = 3\<rparr>]"
    by (simp add: find_allocation_def chan_def try_allocate.simps)
  show ?thesis using f allocation_covers_target [OF f] by blast
qed

text \<open>
  In descending order an allocation may exceed the target and use a channel twice. For
  these channels the ascending strategy fails, the descending one succeeds after a failed
  branch left an entry in the vector, and 14 msat become 23, two parts on one channel.
\<close>

theorem descending_allocation_overpays:
  "find_allocation_ascending_order [chan 9 8, chan 7 6, chan 3 2] 14 = None \<and>
   allocate_payment [chan 9 8, chan 7 6, chan 3 2] 14 =
     Some [\<lparr>contrib_channel = chan 9 8, contrib_msat = 9\<rparr>,
           \<lparr>contrib_channel = chan 9 8, contrib_msat = 8\<rparr>,
           \<lparr>contrib_channel = chan 7 6, contrib_msat = 6\<rparr>]"
proof -
  have a: "find_allocation_ascending_order [chan 9 8, chan 7 6, chan 3 2] 14 = None"
    by (simp add: find_allocation_ascending_order_def find_allocation_def chan_def try_allocate.simps)
  have d: "find_allocation_descending_order [chan 9 8, chan 7 6, chan 3 2] 14 =
     Some [\<lparr>contrib_channel = chan 9 8, contrib_msat = 9\<rparr>,
           \<lparr>contrib_channel = chan 9 8, contrib_msat = 8\<rparr>,
           \<lparr>contrib_channel = chan 7 6, contrib_msat = 6\<rparr>]"
    by (simp add: find_allocation_descending_order_def find_allocation_def chan_def try_allocate.simps)
  show ?thesis using a d by (simp add: allocate_payment_def)
qed

text \<open>
  A retry never fails. When the remaining channels report a shortfall that the current
  channel can free, they succeed with exactly that much more, in any order of the channels:
  the branch that would skip the channel after a failed retry is never taken.
\<close>

theorem retry_after_shortfall_succeeds:
  assumes "fst (try_allocate cs (t - upper) as) = NeedSpace s" "s \<le> upper" "upper \<le> t"
  shows "fst (try_allocate cs (t - (upper - s)) bs) = Success"
  using assms retry_succeeds [of cs t upper s] by (simp add: alloc_outcome_eq)

lemma retry_after_shortfall_succeeds_witness:
  "fst (try_allocate [chan 4 3] (12 - 10) []) = NeedSpace 1 \<and>
   fst (try_allocate [chan 4 3] (12 - (10 - 1)) []) = Success"
proof -
  have f: "fst (try_allocate [chan 4 3] (12 - 10) []) = NeedSpace 1"
    by (simp add: chan_def try_allocate.simps)
  show ?thesis using f retry_after_shortfall_succeeds [OF f, of "[]"] by simp
qed

end
