(* ===== verification/GlError.thy ===== *)
theory GlError
  imports Prelude
begin

text \<open>
  Errors with codes and their way over gRPC (\<open>libs/gl-util/src/error.rs\<close>), and the codes of
  trampoline payments (\<open>TrampolineErrorCode\<close> in \<open>libs/gl-plugin/src/tramp.rs\<close>). An
  \<open>ErrorCode\<close> is a pair of functions to and from \<open>i32\<close>, here integers; the JSON of the
  status details is written and read by parameters.
\<close>

record error_details =
  ed_code :: int
  ed_hint :: "string option"

record grpc_error_info =
  gi_code :: int
  gi_message :: string
  gi_hint :: "string option"
  gi_grpc_code :: nat

record 'c coded_error =
  ce_code :: 'c
  ce_message :: string
  ce_hint :: "string option"
  ce_context :: "string option"
  ce_source :: "string option"

record status =
  status_grpc_code :: nat
  status_message :: string
  status_details :: bytes

datatype parsing_error = ParsingError string

definition error_new :: "'c \<Rightarrow> string \<Rightarrow> 'c coded_error" where
  "error_new c msg = \<lparr>ce_code = c, ce_message = msg, ce_hint = None, ce_context = None, ce_source = None\<rparr>"

definition with_hint :: "string \<Rightarrow> 'c coded_error \<Rightarrow> 'c coded_error" where
  "with_hint hint e = e\<lparr>ce_hint := Some hint\<rparr>"

definition with_context :: "string \<Rightarrow> 'c coded_error \<Rightarrow> 'c coded_error" where
  "with_context ctx e = e\<lparr>ce_context := Some ctx\<rparr>"

definition with_source :: "string \<Rightarrow> 'c coded_error \<Rightarrow> 'c coded_error" where
  "with_source src e = e\<lparr>ce_source := Some src\<rparr>"

definition map_code :: "'d \<Rightarrow> 'c coded_error \<Rightarrow> 'd coded_error" where
  "map_code new_code e =
     \<lparr>ce_code = new_code, ce_message = ce_message e, ce_hint = ce_hint e, ce_context = ce_context e,
      ce_source = ce_source e\<rparr>"

text \<open>
  \<open>From<Error<C>> for Status\<close>: when the details cannot be serialised, a fixed JSON text of
  code and message takes their place (\<open>fallback\<close>).
\<close>

definition status_of_error ::
  "('c \<Rightarrow> int) \<Rightarrow> ('c \<Rightarrow> nat) \<Rightarrow> (error_details \<Rightarrow> bytes option) \<Rightarrow> (int \<Rightarrow> string \<Rightarrow> bytes)
     \<Rightarrow> 'c coded_error \<Rightarrow> status" where
  "status_of_error code status_code to_json fallback e =
     \<lparr>status_grpc_code = status_code (ce_code e), status_message = ce_message e,
      status_details =
        (case to_json \<lparr>ed_code = code (ce_code e), ed_hint = ce_hint e\<rparr> of
           Some b \<Rightarrow> b
         | None \<Rightarrow> fallback (code (ce_code e)) (ce_message e))\<rparr>"

definition grpc_error_info_of_status ::
  "(bytes \<Rightarrow> (error_details, string) outcome) \<Rightarrow> status \<Rightarrow> (grpc_error_info, string) outcome" where
  "grpc_error_info_of_status of_json s =
     omap (\<lambda>d. \<lparr>gi_code = ed_code d, gi_message = status_message s, gi_hint = ed_hint d,
                gi_grpc_code = status_grpc_code s\<rparr>)
       (of_json (status_details s))"

definition error_of_status ::
  "(int \<Rightarrow> 'c option) \<Rightarrow> (bytes \<Rightarrow> (error_details, string) outcome) \<Rightarrow> status
     \<Rightarrow> ('c coded_error, parsing_error) outcome" where
  "error_of_status from_code of_json s =
     obind (omap_err (\<lambda>e. ParsingError (''failed to convert Status into GrpcErrorInfo '' @ e))
              (grpc_error_info_of_status of_json s)) (\<lambda>info.
     obind (ok_or (ParsingError ''unknown error code'') (from_code (gi_code info))) (\<lambda>c.
     Ok \<lparr>ce_code = c, ce_message = gi_message info, ce_hint = gi_hint info, ce_context = None,
         ce_source = None\<rparr>))"

subsection \<open>CLN error codes\<close>

definition cln_code :: "int \<Rightarrow> int" where "cln_code c = c"
definition cln_from_code :: "int \<Rightarrow> int option" where "cln_from_code c = Some c"

record rpc_error =
  rpc_code :: "int option"
  rpc_message :: string

definition error_of_rpc :: "(rpc_error \<Rightarrow> 'c) \<Rightarrow> rpc_error \<Rightarrow> 'c coded_error" where
  "error_of_rpc from_rpc_error e = error_new (from_rpc_error e) (rpc_message e)"

subsection \<open>Trampoline error codes\<close>

datatype trampoline_error_code =
    FeatureNotSupported | InvalidNodeId | NetworkError | UnknownPeer | MissingAmount | AmbigousAmount
  | MissingChannel | InsufficientFunds | InvalidInvoice | PeerNodeFailure | PaymentFailure
  | TrampPeerConnectionFailure | MissingPreimage | TrampInternal | RpcError int

fun tramp_code :: "trampoline_error_code \<Rightarrow> int" where
  "tramp_code FeatureNotSupported = 42701"
| "tramp_code InvalidNodeId = 42702"
| "tramp_code NetworkError = 42703"
| "tramp_code UnknownPeer = 42704"
| "tramp_code MissingAmount = 42705"
| "tramp_code AmbigousAmount = 42706"
| "tramp_code MissingChannel = 42707"
| "tramp_code InsufficientFunds = 42708"
| "tramp_code InvalidInvoice = 42709"
| "tramp_code PeerNodeFailure = 42710"
| "tramp_code PaymentFailure = 42711"
| "tramp_code TrampPeerConnectionFailure = 42712"
| "tramp_code MissingPreimage = 42713"
| "tramp_code TrampInternal = 42714"
| "tramp_code (RpcError c) = cln_code c"

text \<open>The range \<open>200..204\<close> of the match excludes its end.\<close>

definition tramp_from_code :: "int \<Rightarrow> trampoline_error_code option" where
  "tramp_from_code code =
     (if code = 42701 then Some FeatureNotSupported
      else if code = 42702 then Some InvalidNodeId
      else if code = 42703 then Some NetworkError
      else if code = 42704 then Some UnknownPeer
      else if code = 42705 then Some MissingAmount
      else if code = 42706 then Some AmbigousAmount
      else if code = 42707 then Some MissingChannel
      else if code = 42708 then Some InsufficientFunds
      else if code = 42709 then Some InvalidInvoice
      else if code = 42710 then Some PeerNodeFailure
      else if code = 42711 then Some PeerNodeFailure
      else if code = 42712 then Some TrampPeerConnectionFailure
      else if code = 42713 then Some MissingPreimage
      else if code = 42714 then Some TrampInternal
      else if code = -1 \<or> (200 \<le> code \<and> code < 204) \<or> code = 208 \<or> code = 209 \<or> code = 212
        then Some (RpcError code)
      else None)"

text \<open>gRPC status codes by number: 2 unknown, 3 invalid argument, 9 failed precondition, 13 internal.\<close>

fun tramp_status_code :: "trampoline_error_code \<Rightarrow> nat" where
  "tramp_status_code FeatureNotSupported = 9"
| "tramp_status_code UnknownPeer = 9"
| "tramp_status_code MissingAmount = 9"
| "tramp_status_code MissingChannel = 9"
| "tramp_status_code InsufficientFunds = 9"
| "tramp_status_code TrampPeerConnectionFailure = 9"
| "tramp_status_code MissingPreimage = 9"
| "tramp_status_code InvalidNodeId = 3"
| "tramp_status_code AmbigousAmount = 3"
| "tramp_status_code InvalidInvoice = 3"
| "tramp_status_code NetworkError = 13"
| "tramp_status_code PeerNodeFailure = 13"
| "tramp_status_code TrampInternal = 13"
| "tramp_status_code PaymentFailure = 2"
| "tramp_status_code (RpcError c) = 2"

definition tramp_from_rpc_error :: "rpc_error \<Rightarrow> trampoline_error_code" where
  "tramp_from_rpc_error e = RpcError (case rpc_code e of Some c \<Rightarrow> c | None \<Rightarrow> -1)"

subsection \<open>Codes that survive the wire\<close>

text \<open>
  The contract of \<open>ErrorCode\<close> on a set of codes: reading the number of a code gives the code
  back. An error with such a code survives the way through a status, but for the parts that
  are not sent.
\<close>

locale error_code =
  fixes code :: "'c \<Rightarrow> int"
    and from_code :: "int \<Rightarrow> 'c option"
    and wire :: "'c \<Rightarrow> bool"
  assumes from_code_code: "wire c \<Longrightarrow> from_code (code c) = Some c"
begin

lemma code_inj: "wire c \<Longrightarrow> wire d \<Longrightarrow> code c = code d \<Longrightarrow> c = d"
  using from_code_code by (metis option.inject)

lemma status_roundtrip:
  assumes "wire (ce_code e)"
    and "to_json \<lparr>ed_code = code (ce_code e), ed_hint = ce_hint e\<rparr> = Some b"
    and "of_json b = Ok \<lparr>ed_code = code (ce_code e), ed_hint = ce_hint e\<rparr>"
  shows "error_of_status from_code of_json (status_of_error code status_code to_json fallback e) =
    Ok (e\<lparr>ce_context := None, ce_source := None\<rparr>)"
  using assms from_code_code
  by (simp add: error_of_status_def status_of_error_def grpc_error_info_of_status_def)

end

interpretation cln_codes: error_code cln_code cln_from_code "\<lambda>_. True"
  by unfold_locales (simp add: cln_code_def cln_from_code_def)

fun tramp_wire :: "trampoline_error_code \<Rightarrow> bool" where
  "tramp_wire PaymentFailure = False"
| "tramp_wire (RpcError c) = (c \<in> {-1, 200, 201, 202, 203, 208, 209, 212})"
| "tramp_wire _ = True"

interpretation tramp_codes: error_code tramp_code tramp_from_code tramp_wire
proof
  fix c assume "tramp_wire c"
  then show "tramp_from_code (tramp_code c) = Some c"
    by (cases c) (auto simp: tramp_from_code_def cln_code_def)
qed

section \<open>Properties\<close>

text \<open>
  Trampoline errors survive gRPC. An error whose code is one of the trampoline codes other
  than the payment failure, or one of the CLN codes the match lists, is read back from its
  status with code, message and hint; context and source stay behind.
\<close>

theorem trampoline_error_roundtrip:
  assumes "tramp_wire (ce_code e)"
    and "to_json \<lparr>ed_code = tramp_code (ce_code e), ed_hint = ce_hint e\<rparr> = Some b"
    and "of_json b = Ok \<lparr>ed_code = tramp_code (ce_code e), ed_hint = ce_hint e\<rparr>"
  shows "error_of_status tramp_from_code of_json
      (status_of_error tramp_code tramp_status_code to_json fallback e) =
    Ok (e\<lparr>ce_context := None, ce_source := None\<rparr>)"
  using assms by (rule tramp_codes.status_roundtrip)

lemma trampoline_error_roundtrip_witness:
  "error_of_status tramp_from_code (\<lambda>_. Ok \<lparr>ed_code = 42708, ed_hint = Some ''fund the channel''\<rparr>)
     (status_of_error tramp_code tramp_status_code (\<lambda>_. Some [1]) (\<lambda>_ _. [])
       (with_context ''ctx'' (with_hint ''fund the channel'' (error_new InsufficientFunds ''no funds'')))) =
   Ok (with_hint ''fund the channel'' (error_new InsufficientFunds ''no funds''))"
proof -
  let ?e = "with_context ''ctx'' (with_hint ''fund the channel'' (error_new InsufficientFunds ''no funds''))"
  have "error_of_status tramp_from_code (\<lambda>_. Ok \<lparr>ed_code = 42708, ed_hint = Some ''fund the channel''\<rparr>)
      (status_of_error tramp_code tramp_status_code (\<lambda>_. Some [1]) (\<lambda>_ _. []) ?e) =
    Ok (?e\<lparr>ce_context := None, ce_source := None\<rparr>)"
    by (rule trampoline_error_roundtrip [where b = "[1]"])
      (simp_all add: with_context_def with_hint_def error_new_def)
  then show ?thesis by (simp add: with_context_def with_hint_def error_new_def)
qed

text \<open>
  Which trampoline codes are lost. Reading the number of a code back gives the code,
  except that the payment failure becomes a failure of the peer node, and a CLN code is read
  by its number: 204 (failure along the route), and every other code the match does not list,
  is unknown.
\<close>

theorem trampoline_code_roundtrip_exceptions:
  "tramp_from_code (tramp_code c) =
     (case c of
        PaymentFailure \<Rightarrow> Some PeerNodeFailure
      | RpcError n \<Rightarrow> tramp_from_code n
      | _ \<Rightarrow> Some c) \<and>
   tramp_from_code 203 = Some (RpcError 203) \<and> tramp_from_code 204 = None"
  by (cases c) (simp_all add: tramp_from_code_def cln_code_def)

end
