(* ===== verification/Codec.thy ===== *)
theory Codec
  imports Prelude
begin

text \<open>
  The contract of a self-delimiting encoding: what was put in front of some bytes is read
  back and the bytes behind it are left. The TLV stream of the plugin (theory \<open>Tlv\<close>) and the
  frames of the signer proxy (theory \<open>SignerProxy\<close>) provide it and rest on its lemmas.
\<close>

text \<open>
  Reading \<open>n\<close> bytes off a buffer (\<open>get_u8\<close>, \<open>get_u16\<close>, ..., \<open>copy_to_bytes\<close>); a buffer
  that is too short is a panic.
\<close>

definition get_bytes :: "nat \<Rightarrow> bytes \<Rightarrow> (bytes \<times> bytes, 'e) outcome" where
  "get_bytes n b = (if n \<le> length b then Ok (take n b, drop n b) else Panic)"

definition get_be :: "nat \<Rightarrow> bytes \<Rightarrow> (nat \<times> bytes, 'e) outcome" where
  "get_be n b = omap (\<lambda>(x, rest). (of_be_bytes x, rest)) (get_bytes n b)"

lemma get_bytes_append [simp]: "length x = n \<Longrightarrow> get_bytes n (x @ rest) = Ok (x, rest)"
  by (simp add: get_bytes_def)

lemma get_be_append [simp]:
  "x < 256 ^ n \<Longrightarrow> get_be n (be_bytes n x @ rest) = Ok (x, rest)"
  by (simp add: get_be_def of_be_bytes_be_bytes)

locale self_delimiting =
  fixes put :: "'a \<Rightarrow> bytes"
    and get :: "bytes \<Rightarrow> ('a \<times> bytes, 'e) outcome"
    and ok :: "'a \<Rightarrow> bool"
  assumes get_put: "ok x \<Longrightarrow> get (put x @ rest) = Ok (x, rest)"
begin

lemma put_inj:
  assumes "ok x" "ok y" "put x @ r = put y @ s"
  shows "x = y \<and> r = s"
proof -
  have "Ok (x, r) = get (put x @ r)" using get_put [OF assms(1)] by metis
  also have "\<dots> = Ok (y, s)" unfolding assms(3) using assms(2) by (rule get_put)
  finally show ?thesis by blast
qed

lemma put_prefix_free: "ok x \<Longrightarrow> ok y \<Longrightarrow> put x = put y @ s \<Longrightarrow> x = y \<and> s = []"
  using put_inj [of x y "[]" s] by simp

text \<open>A concatenation determines its items, given their number.\<close>

lemma concat_inj:
  assumes "\<forall>x \<in> set xs. ok x" "\<forall>y \<in> set ys. ok y" "length xs = length ys"
    and "concat (map put xs) @ r = concat (map put ys) @ s"
  shows "xs = ys \<and> r = s"
  using assms
proof (induction xs arbitrary: ys)
  case Nil
  then show ?case by simp
next
  case (Cons x xs)
  then obtain y ys' where ys: "ys = y # ys'" by (cases ys) auto
  have ok: "ok x" "ok y" using Cons.prems(1,2) ys by auto
  have "put x @ (concat (map put xs) @ r) = put y @ (concat (map put ys') @ s)"
    using Cons.prems(4) unfolding ys by simp
  from put_inj [OF ok this] have xy: "x = y"
    and rest: "concat (map put xs) @ r = concat (map put ys') @ s" by auto
  have "xs = ys' \<and> r = s"
    using Cons.prems(1-3) ys rest by (intro Cons.IH) auto
  then show ?case using xy ys by simp
qed

end

end
