(* ===== verification/Tlv.thy ===== *)
theory Tlv
  imports Codec "HOL-Library.Multiset"
begin

text \<open>
  The TLV streams of onion payloads (\<open>libs/gl-plugin/src/tlv.rs\<close>): entries kept sorted by
  type, the compact size encoding, truncated integers, and the conversions from and to bytes.
  Types are \<open>u64\<close>; reading past the end of a buffer is a panic, as in the bytes crate.
\<close>

record tlv_entry =
  tlv_typ :: u64
  tlv_value :: bytes

record serialized_tlv_stream =
  entries :: "tlv_entry list"

definition tlv_new :: serialized_tlv_stream where
  "tlv_new = \<lparr>entries = []\<rparr>"

definition tlv_get :: "u64 \<Rightarrow> serialized_tlv_stream \<Rightarrow> tlv_entry option" where
  "tlv_get typ s = (case filter (\<lambda>e. tlv_typ e = typ) (entries s) of [] \<Rightarrow> None | e # _ \<Rightarrow> Some e)"

definition tlv_insert :: "tlv_entry \<Rightarrow> serialized_tlv_stream \<Rightarrow> (serialized_tlv_stream, string) outcome" where
  "tlv_insert e s =
     (case tlv_get (tlv_typ e) s of
        Some old \<Rightarrow> Err ''TlvStream contains entry of type''
      | None \<Rightarrow> Ok (s\<lparr>entries := sort_key tlv_typ (entries s @ [e])\<rparr>))"

text \<open>\<open>position\<close> of the first entry with a property.\<close>

fun position :: "('a \<Rightarrow> bool) \<Rightarrow> 'a list \<Rightarrow> nat option" where
  "position P [] = None"
| "position P (x # xs) = (if P x then Some 0 else map_option Suc (position P xs))"

definition tlv_set_bytes :: "u64 \<Rightarrow> bytes \<Rightarrow> serialized_tlv_stream \<Rightarrow> (serialized_tlv_stream, string) outcome" where
  "tlv_set_bytes typ val s =
     (case position (\<lambda>e. tlv_typ e = typ) (entries s) of
        Some i \<Rightarrow> Ok (s\<lparr>entries := (entries s)[i := (entries s ! i)\<lparr>tlv_value := val\<rparr>]\<rparr>)
      | None \<Rightarrow>
          (case tlv_insert \<lparr>tlv_typ = typ, tlv_value = val\<rparr> s of Ok s' \<Rightarrow> Ok s' | _ \<Rightarrow> Panic))"

subsection \<open>Integers\<close>

definition get_compact_size :: "bytes \<Rightarrow> (u64 \<times> bytes, 'e) outcome" where
  "get_compact_size b =
     obind (get_be 1 b) (\<lambda>(v, rest).
       if v = 253 then omap (apfst word_of_nat) (get_be 2 rest)
       else if v = 254 then omap (apfst word_of_nat) (get_be 4 rest)
       else if v = 255 then omap (apfst word_of_nat) (get_be 8 rest)
       else Ok (word_of_nat v, rest))"

definition put_compact_size :: "u64 \<Rightarrow> bytes" where
  "put_compact_size cs =
     (let v = unat cs in
      if v \<le> 0xFC then be_bytes 1 v
      else if v \<le> 0xFFFF then be_bytes 1 253 @ be_bytes 2 v
      else if v \<le> 0xFFFFFFFF then be_bytes 1 254 @ be_bytes 4 v
      else be_bytes 1 255 @ be_bytes 8 v)"

definition put_tu64 :: "u64 \<Rightarrow> bytes" where
  "put_tu64 u = dropWhile (\<lambda>x. x = 0) (put_u64 u)"

definition get_tu64 :: "bytes \<Rightarrow> (u64, 'e) outcome" where
  "get_tu64 b =
     (if length b \<in> {1, 2, 4, 8} then Ok (word_of_nat (of_be_bytes b)) else Panic)"

definition tlv_set_tu64 :: "u64 \<Rightarrow> u64 \<Rightarrow> serialized_tlv_stream \<Rightarrow> (serialized_tlv_stream, string) outcome" where
  "tlv_set_tu64 typ val s = tlv_set_bytes typ (put_tu64 val) s"

subsection \<open>Conversions\<close>

definition put_entry :: "tlv_entry \<Rightarrow> bytes" where
  "put_entry e =
     put_compact_size (tlv_typ e) @ put_compact_size (word_of_nat (length (tlv_value e))) @ tlv_value e"

definition tlv_to_bytes :: "serialized_tlv_stream \<Rightarrow> bytes" where
  "tlv_to_bytes s = concat (map put_entry (entries s))"

definition get_entry :: "bytes \<Rightarrow> (tlv_entry \<times> bytes, 'e) outcome" where
  "get_entry b =
     obind (get_compact_size b) (\<lambda>(typ, b).
     obind (get_compact_size b) (\<lambda>(len, b).
     omap (\<lambda>(v, b). (\<lparr>tlv_typ = typ, tlv_value = v\<rparr>, b)) (get_bytes (unat len) b)))"

lemma get_be_shorter: "get_be n b = Ok (x, rest) \<Longrightarrow> length rest + n = length b"
  by (auto simp: get_be_def get_bytes_def omap_eq_Ok split: if_splits)

lemma get_compact_size_shorter: "get_compact_size b = Ok (x, rest) \<Longrightarrow> length rest < length b"
  by (auto simp: get_compact_size_def obind_eq_Ok omap_eq_Ok dest!: get_be_shorter split: if_splits)

lemma get_entry_shorter: "get_entry b = Ok (e, rest) \<Longrightarrow> length rest < length b"
  by (auto simp: get_entry_def obind_eq_Ok omap_eq_Ok get_bytes_def
      dest!: get_compact_size_shorter split: if_splits)

function parse_entries :: "bytes \<Rightarrow> tlv_entry list \<Rightarrow> (tlv_entry list, string) outcome" where
  "parse_entries b acc =
     (if 2 \<le> length b then
        (case get_entry b of
           Ok (e, rest) \<Rightarrow> parse_entries rest (acc @ [e])
         | Err e \<Rightarrow> Err e
         | Panic \<Rightarrow> Panic)
      else Ok acc)"
  by pat_completeness auto
termination
  by (relation "measure (\<lambda>(b, acc). length b)") (auto dest: get_entry_shorter)

declare parse_entries.simps [simp del]

definition tlv_from_bytes :: "bytes \<Rightarrow> (serialized_tlv_stream, string) outcome" where
  "tlv_from_bytes b = omap (\<lambda>es. \<lparr>entries = es\<rparr>) (parse_entries b [])"

text \<open>
  \<open>Deserialize\<close>: the hex string holds a length and the stream. \<open>take(l)\<close> is undone by
  \<open>into_inner\<close>, which gives the buffer behind the limit, all of it.
\<close>

definition tlv_deserialize :: "(string \<Rightarrow> bytes option) \<Rightarrow> string \<Rightarrow> (serialized_tlv_stream, string) outcome" where
  "tlv_deserialize hex_decode s =
     (case hex_decode s of
        None \<Rightarrow> Err ''hex''
      | Some b \<Rightarrow> obind (get_compact_size b) (\<lambda>(l, b). tlv_from_bytes b))"

definition tlv_display :: "(bytes \<Rightarrow> string) \<Rightarrow> serialized_tlv_stream \<Rightarrow> string" where
  "tlv_display hex_encode s = hex_encode (tlv_to_bytes s)"

subsection \<open>Round trips\<close>

lemma be_bytes_1: "v < 256 \<Longrightarrow> get_be 1 (be_bytes 1 v @ rest) = Ok (v, rest)"
  by (rule get_be_append) simp

lemma get_put_compact_size: "get_compact_size (put_compact_size x @ rest) = Ok (x, rest)"
proof -
  have "unat x < 256 ^ 8" using unat_u64_less [of x] by simp
  then show ?thesis
    by (simp add: get_compact_size_def put_compact_size_def Let_def be_bytes_1 del: One_nat_def)
qed

interpretation cs: self_delimiting put_compact_size get_compact_size "\<lambda>_. True"
  by unfold_locales (rule get_put_compact_size)

lemma get_put_entry:
  "length (tlv_value e) < 2 ^ 64 \<Longrightarrow> get_entry (put_entry e @ rest) = Ok (e, rest)"
  by (simp add: get_entry_def put_entry_def get_put_compact_size unat_of_nat take_bit_eq_mod)

interpretation en: self_delimiting put_entry get_entry "\<lambda>e. length (tlv_value e) < 2 ^ 64"
  by unfold_locales (rule get_put_entry)

lemma length_put_compact_size: "1 \<le> length (put_compact_size x)"
  by (simp add: put_compact_size_def Let_def)

lemma parse_entries_concat:
  assumes "\<forall>e \<in> set es. length (tlv_value e) < 2 ^ 64" "length rest < 2"
  shows "parse_entries (concat (map put_entry es) @ rest) acc = Ok (acc @ es)"
  using assms(1)
proof (induction es arbitrary: acc)
  case Nil
  then show ?case using assms(2) by (simp add: parse_entries.simps)
next
  case (Cons e es)
  have "2 \<le> length (put_entry e)"
    using length_put_compact_size [of "tlv_typ e"] length_put_compact_size [of "word_of_nat (length (tlv_value e))"]
    by (simp add: put_entry_def)
  then show ?case
    using Cons by (subst parse_entries.simps) (simp add: get_put_entry)
qed

subsection \<open>Entries\<close>

text \<open>Each type at most once, in order: what \<open>insert\<close> maintains.\<close>

definition tlv_ok :: "serialized_tlv_stream \<Rightarrow> bool" where
  "tlv_ok s = (sorted (map tlv_typ (entries s)) \<and> distinct (map tlv_typ (entries s)))"

lemma tlv_get_None: "tlv_get typ s = None \<longleftrightarrow> typ \<notin> tlv_typ ` set (entries s)"
proof -
  have "tlv_get typ s = None \<longleftrightarrow> filter (\<lambda>e. tlv_typ e = typ) (entries s) = []"
    by (simp add: tlv_get_def split: list.split)
  then show ?thesis by (auto simp: filter_empty_conv)
qed

lemma tlv_get_Some_in:
  "distinct (map tlv_typ es) \<Longrightarrow> e \<in> set es \<Longrightarrow> filter (\<lambda>x. tlv_typ x = tlv_typ e) es = [e]"
  by (induction es) (auto simp: filter_empty_conv rev_image_eqI)

lemma tlv_get_Some:
  assumes "distinct (map tlv_typ (entries s))"
  shows "tlv_get typ s = Some e \<longleftrightarrow> e \<in> set (entries s) \<and> tlv_typ e = typ"
proof
  assume "tlv_get typ s = Some e"
  then obtain es where "filter (\<lambda>x. tlv_typ x = typ) (entries s) = e # es"
    by (auto simp: tlv_get_def split: list.splits)
  then have "e \<in> set (filter (\<lambda>x. tlv_typ x = typ) (entries s))" by simp
  then show "e \<in> set (entries s) \<and> tlv_typ e = typ" by simp
next
  assume "e \<in> set (entries s) \<and> tlv_typ e = typ"
  then show "tlv_get typ s = Some e"
    using tlv_get_Some_in [OF assms, of e] by (auto simp: tlv_get_def)
qed

lemma position_None: "position P xs = None \<longleftrightarrow> (\<forall>x \<in> set xs. \<not> P x)"
  by (induction xs) auto

lemma position_Some: "position P xs = Some i \<Longrightarrow> i < length xs \<and> P (xs ! i)"
  by (induction xs arbitrary: i) (auto split: if_splits)

lemma tlv_insert_ok:
  assumes "tlv_ok s" "tlv_get (tlv_typ e) s = None"
  shows "\<exists>s'. tlv_insert e s = Ok s' \<and> tlv_ok s' \<and> set (entries s') = insert e (set (entries s))"
proof -
  let ?es = "sort_key tlv_typ (entries s @ [e])"
  have "mset (map tlv_typ ?es) = mset (map tlv_typ (entries s @ [e]))" by simp
  then have "distinct (map tlv_typ ?es) \<longleftrightarrow> distinct (map tlv_typ (entries s @ [e]))"
    by (rule mset_eq_imp_distinct_iff)
  moreover have "distinct (map tlv_typ (entries s @ [e]))"
    using assms by (auto simp: tlv_ok_def tlv_get_None)
  ultimately show ?thesis
    using assms(2) by (auto simp: tlv_insert_def tlv_ok_def)
qed

lemma set_update_value:
  assumes "distinct (map tlv_typ es)" "i < length es" "tlv_typ (es ! i) = typ"
  shows "set (es[i := (es ! i)\<lparr>tlv_value := val\<rparr>]) =
    insert \<lparr>tlv_typ = typ, tlv_value = val\<rparr> {e \<in> set es. tlv_typ e \<noteq> typ}"
proof -
  have d: "distinct es" using assms(1) by (simp add: distinct_map)
  have u: "(es ! i)\<lparr>tlv_value := val\<rparr> = \<lparr>tlv_typ = typ, tlv_value = val\<rparr>"
    using assms(3) by simp
  have "e = es ! i" if "e \<in> set es" "tlv_typ e = typ" for e
    using that assms by (metis (mono_tags, lifting) distinct_map inj_onD nth_mem)
  then have "set es - {es ! i} = {e \<in> set es. tlv_typ e \<noteq> typ}"
    using assms(3) by auto
  then show ?thesis unfolding u using set_update_distinct [OF d assms(2)] by simp
qed

lemma tlv_set_bytes_spec:
  assumes "tlv_ok s"
  shows "\<exists>s'. tlv_set_bytes typ val s = Ok s' \<and> tlv_ok s' \<and>
    set (entries s') = insert \<lparr>tlv_typ = typ, tlv_value = val\<rparr> {e \<in> set (entries s). tlv_typ e \<noteq> typ}"
proof (cases "position (\<lambda>e. tlv_typ e = typ) (entries s)")
  case None
  then have n: "\<forall>e \<in> set (entries s). tlv_typ e \<noteq> typ" by (simp add: position_None)
  then have "tlv_get (tlv_typ \<lparr>tlv_typ = typ, tlv_value = val\<rparr>) s = None" by (auto simp: tlv_get_None)
  from tlv_insert_ok [OF assms this] n None show ?thesis
    by (auto simp: tlv_set_bytes_def)
next
  case (Some i)
  then have i: "i < length (entries s)" "tlv_typ (entries s ! i) = typ" by (auto dest: position_Some)
  let ?s' = "s\<lparr>entries := (entries s)[i := (entries s ! i)\<lparr>tlv_value := val\<rparr>]\<rparr>"
  have "map tlv_typ (entries ?s') = map tlv_typ (entries s)"
    using i by (simp add: map_update list_update_same_conv)
  then have "tlv_ok ?s'" using assms by (simp add: tlv_ok_def)
  moreover have "distinct (map tlv_typ (entries s))" using assms by (simp add: tlv_ok_def)
  ultimately show ?thesis using Some set_update_value [OF _ i] by (simp add: tlv_set_bytes_def)
qed

section \<open>Properties\<close>

text \<open>
  A TLV stream survives the way over the wire. Reading the bytes of a stream gives back
  its entries, for all types and all values whose length fits an \<open>u64\<close>.
\<close>

theorem tlv_roundtrip:
  assumes "\<forall>e \<in> set (entries s). length (tlv_value e) < 2 ^ 64"
  shows "tlv_from_bytes (tlv_to_bytes s) = Ok s"
  using parse_entries_concat [OF assms, of "[]" "[]"]
  by (simp add: tlv_from_bytes_def tlv_to_bytes_def)

definition demo_stream :: serialized_tlv_stream where
  "demo_stream = \<lparr>entries = [\<lparr>tlv_typ = 8, tlv_value = [1, 2, 3]\<rparr>, \<lparr>tlv_typ = 33001, tlv_value = []\<rparr>]\<rparr>"

lemma tlv_roundtrip_witness: "tlv_from_bytes (tlv_to_bytes demo_stream) = Ok demo_stream"
  by (rule tlv_roundtrip) (simp add: demo_stream_def)

text \<open>
  Setting a value is a map update. On a stream with each type once and in order,
  \<open>set_bytes\<close> succeeds, keeps that invariant, and afterwards the type has the value while
  every other type is as before.
\<close>

theorem tlv_set_get:
  assumes "tlv_ok s"
  shows "\<exists>s'. tlv_set_bytes typ val s = Ok s' \<and> tlv_ok s' \<and>
    tlv_get typ s' = Some \<lparr>tlv_typ = typ, tlv_value = val\<rparr> \<and>
    (\<forall>other. other \<noteq> typ \<longrightarrow> tlv_get other s' = tlv_get other s)"
proof -
  obtain s' where s': "tlv_set_bytes typ val s = Ok s'" "tlv_ok s'"
    "set (entries s') = insert \<lparr>tlv_typ = typ, tlv_value = val\<rparr> {e \<in> set (entries s). tlv_typ e \<noteq> typ}"
    using tlv_set_bytes_spec [OF assms] by blast
  have d: "distinct (map tlv_typ (entries s))" "distinct (map tlv_typ (entries s'))"
    using assms s'(2) by (simp_all add: tlv_ok_def)
  have "tlv_get other s' = tlv_get other s" if "other \<noteq> typ" for other
  proof (rule option.expand)
    show "(tlv_get other s' = None) = (tlv_get other s = None)"
      using that by (auto simp: tlv_get_None s'(3))
  next
    assume "tlv_get other s' \<noteq> None" "tlv_get other s \<noteq> None"
    then obtain e e' where e: "tlv_get other s = Some e" "tlv_get other s' = Some e'" by auto
    then have "e' \<in> set (entries s)" "tlv_typ e' = other"
      using that by (auto simp: tlv_get_Some [OF d(2)] s'(3))
    then have "tlv_get other s = Some e'" by (simp add: tlv_get_Some [OF d(1)])
    then show "the (tlv_get other s') = the (tlv_get other s)" using e by simp
  qed
  then show ?thesis using s' by (auto simp: tlv_get_Some [OF d(2)])
qed

lemma tlv_set_get_witness:
  "\<exists>s'. tlv_set_bytes 5 [9] demo_stream = Ok s' \<and> tlv_get 5 s' = Some \<lparr>tlv_typ = 5, tlv_value = [9]\<rparr>"
proof -
  have "tlv_ok demo_stream" by (simp add: tlv_ok_def demo_stream_def)
  from tlv_set_get [OF this, of 5 "[9]"] show ?thesis by blast
qed

text \<open>
  A truncated integer is read back only if it has 1, 2, 4 or 8 bytes. Writing drops the
  leading zero bytes; reading accepts those four lengths only and panics on any other, zero
  included.
\<close>

theorem tu64_roundtrip_partial:
  "get_tu64 (put_tu64 u) = (if length (put_tu64 u) \<in> {1, 2, 4, 8} then Ok u else Panic)"
proof -
  have drop: "of_be_bytes (dropWhile (\<lambda>x. x = 0) b) = of_be_bytes b" for b
    by (induction b) (simp_all add: of_be_bytes_def)
  have "of_be_bytes (put_tu64 u) = unat u"
    using unat_u64_less [of u] by (simp add: put_tu64_def drop put_u64_def of_be_bytes_be_bytes)
  then show ?thesis by (simp add: get_tu64_def)
qed

text \<open>
  The length prefix of a payload is not enforced. Deserialising reads the prefix and then
  the whole rest of the buffer, whatever the prefix says, so bytes behind the announced end
  are parsed as entries.
\<close>

theorem deserialize_ignores_length:
  assumes "hex_decode s = Some (put_compact_size l @ body)"
  shows "tlv_deserialize hex_decode s = tlv_from_bytes body"
  using assms by (simp add: tlv_deserialize_def get_put_compact_size)

lemma deserialize_ignores_length_witness:
  "tlv_deserialize (\<lambda>_. Some (put_compact_size 0 @ tlv_to_bytes demo_stream)) ''00'' = Ok demo_stream"
proof -
  have "tlv_from_bytes (tlv_to_bytes demo_stream) = Ok demo_stream"
    using parse_entries_concat [of "entries demo_stream" "[]" "[]"]
    by (simp add: tlv_from_bytes_def tlv_to_bytes_def demo_stream_def)
  then show ?thesis
    by (subst deserialize_ignores_length [of _ _ 0 "tlv_to_bytes demo_stream"]) simp_all
qed

end
