(* ===== verification/TrampPay.thy ===== *)
theory TrampPay
  imports TrampAlloc GlError Tlv
begin

text \<open>
  Trampoline payments (\<open>trampolinepay\<close>, \<open>do_pay\<close> and \<open>reestablished_channels\<close> in
  \<open>libs/gl-plugin/src/tramp.rs\<close>). Calls to lightningd are a record of functions. The parts of
  a payment are sent by concurrent tasks that are all started before any is awaited: the model
  lists the parts in the order they are started, and the result takes their answers in that
  order, as \<open>join_all\<close> gives them. Amounts are natural numbers below \<open>2 ^ 64\<close>; the sum of
  amount and overpayment wraps as the release build does. The overpayment itself, a floating
  point product, is a function of the model.
\<close>

type_synonym 'a tramp_result = "('a, trampoline_error_code coded_error) outcome"

definition TRAMPOLINE_FEATURE_BIT :: nat where "TRAMPOLINE_FEATURE_BIT = 427"
definition MAX_DELAY_DEFAULT :: nat where "MAX_DELAY_DEFAULT = 2016"
definition TLV_BOLT11 :: u64 where "TLV_BOLT11 = 33001"
definition TLV_AMT_MSAT :: u64 where "TLV_AMT_MSAT = 33003"
definition PAY_UNPARSEABLE_ONION_MSG :: string where "PAY_UNPARSEABLE_ONION_MSG = ''Malformed error reply''"
definition PAY_UNPARSEABLE_ONION_CODE :: int where "PAY_UNPARSEABLE_ONION_CODE = 202"

text \<open>The bytes of a feature vector are big endian: reversed, bit \<open>n\<close> is in byte \<open>n div 8\<close>.\<close>

definition feature_guard :: "bytes \<Rightarrow> nat \<Rightarrow> unit tramp_result" where
  "feature_guard features feature_bit =
     (let features = rev features; byte_pos = feature_bit div 8; bit_pos = feature_bit mod 8 in
      if length features \<le> byte_pos \<or> and (features ! byte_pos) (push_bit bit_pos 1) = 0
      then Err (with_context ''features''
             (with_hint ''Use a peer node that supports trampoline pay (feat 427)''
               (error_new FeatureNotSupported ''Peer doesn't support trampoline payments'')))
      else Ok ())"

definition as_option :: "'a \<Rightarrow> 'a \<Rightarrow> 'a option" where
  "as_option dflt v = (if v = dflt then None else Some v)"

subsection \<open>Requests, answers and lightningd\<close>

record tramp_request =
  tr_bolt11 :: string
  tr_trampoline_node_id :: bytes
  tr_amount_msat :: nat
  tr_label :: string
  tr_maxdelay :: nat

record decoded_invoice =
  di_payment_hash :: bytes
  di_amount_msat :: "nat option"
  di_description :: "string option"
  di_payment_secret :: "bytes option"
  di_payee :: bytes

datatype send_pay_status = SpPending | SpFailed | SpComplete

record send_pay =
  sp_status :: send_pay_status
  sp_groupid :: u64

record wait_send_pay =
  wsp_amount_msat :: "nat option"
  wsp_amount_sent_msat :: nat
  wsp_destination :: "bytes option"
  wsp_partid :: "nat option"
  wsp_payment_hash :: bytes
  wsp_payment_preimage :: "bytes option"

record pay_response =
  pay_destination :: "bytes option"
  pay_amount_msat :: nat
  pay_amount_sent_msat :: nat
  pay_parts :: nat
  pay_payment_hash :: bytes
  pay_preimage :: bytes

record peer_channel =
  pc_short_channel_id :: "string option"
  pc_alias_local :: "string option"
  pc_spendable_msat :: "nat option"
  pc_minimum_htlc_out_msat :: "nat option"

record sendpay_request =
  sr_node_id :: bytes
  sr_part_amt :: nat
  sr_delay :: nat
  sr_channel :: string
  sr_payment_hash :: bytes
  sr_label :: "string option"
  sr_total_amount :: nat
  sr_bolt11 :: string
  sr_payment_secret :: bytes
  sr_partid :: nat
  sr_groupid :: u64
  sr_description :: "string option"
  sr_payment_metadata :: string

datatype await_peer_error =
    PeerUnknown string | PeerConnectionFailure string | AwaitRpc rpc_error | OtherAwait string

record lightningd =
  ln_parse_key :: "bytes \<Rightarrow> (bytes, string) outcome"
  ln_connect :: "nat \<Rightarrow> (unit, string) outcome"
  ln_decodepay :: "string \<Rightarrow> (decoded_invoice, rpc_error) outcome"
  ln_listsendpays :: "bytes \<Rightarrow> (send_pay list, rpc_error) outcome"
  ln_waitsendpay :: "bytes \<Rightarrow> (nat \<times> u64) option \<Rightarrow> (wait_send_pay, rpc_error) outcome"
  ln_await_peer :: "bytes \<Rightarrow> (unit, await_peer_error) outcome"
  ln_listpeers_features :: "bytes \<Rightarrow> (string option list, rpc_error) outcome"
  ln_hex_decode :: "string \<Rightarrow> bytes option"
  ln_hex_encode :: "bytes \<Rightarrow> string"
  ln_listpeerchannels :: "bytes \<Rightarrow> (peer_channel list, rpc_error) outcome"
  ln_preapproveinvoice :: "string \<Rightarrow> (unit, rpc_error) outcome"
  ln_sendpay :: "sendpay_request \<Rightarrow> (unit, rpc_error) outcome"
  ln_overpay :: "nat \<Rightarrow> nat"

definition rpc_result :: "('a, rpc_error) outcome \<Rightarrow> 'a tramp_result" where
  "rpc_result r = omap_err (error_of_rpc tramp_from_rpc_error) r"

subsection \<open>The steps of \<open>trampolinepay\<close>\<close>

text \<open>An earlier payment that has not failed is awaited instead of paying again.\<close>

definition resume_payment :: "lightningd \<Rightarrow> decoded_invoice \<Rightarrow> pay_response tramp_result" where
  "resume_payment ln decoded =
     obind (rpc_result (ln_waitsendpay ln (di_payment_hash decoded) None)) (\<lambda>resp.
     obind (ok_or (error_new MissingPreimage ''Got completed payment part without preimage'')
              (wsp_payment_preimage resp)) (\<lambda>preimage.
     Ok \<lparr>pay_destination = wsp_destination resp,
         pay_amount_msat = (case wsp_amount_msat resp of Some a \<Rightarrow> a | None \<Rightarrow> 0),
         pay_amount_sent_msat = wsp_amount_sent_msat resp,
         pay_parts = (case wsp_partid resp of Some p \<Rightarrow> (if p = 0 then 1 else p mod 2 ^ 32) | None \<Rightarrow> 1),
         pay_payment_hash = wsp_payment_hash resp, pay_preimage = preimage\<rparr>))"

fun await_error :: "await_peer_error \<Rightarrow> trampoline_error_code coded_error" where
  "await_error (PeerUnknown s) =
     with_hint ''You need to be connected and share a channel with the trampoline node''
       (error_new UnknownPeer (''Unknown peer '' @ s))"
| "await_error (PeerConnectionFailure s) = error_new TrampPeerConnectionFailure (''Can't connect to peer '' @ s)"
| "await_error (AwaitRpc e) = error_of_rpc tramp_from_rpc_error e"
| "await_error (OtherAwait s) =
     with_source s (error_new TrampInternal (''Got an unexpected error while awaiting peer connection: '' @ s))"

definition peer_features :: "lightningd \<Rightarrow> bytes \<Rightarrow> bytes tramp_result" where
  "peer_features ln node_id =
     obind (rpc_result (ln_listpeers_features ln node_id)) (\<lambda>peers.
       case peers of
         [] \<Rightarrow> Err (with_hint ''You need to have an active channel with the trampoline node before you can execute a trampoline payment''
                 (error_new UnknownPeer ''Unknown peer node''))
       | None # _ \<Rightarrow> Err (error_new TrampInternal ''missing feature bits on listpeers response'')
       | Some feat # _ \<Rightarrow>
           ok_or (with_source ''hex'' (error_new TrampInternal ''could not parse feature bits from hex''))
             (ln_hex_decode ln feat))"

definition tramp_amount :: "nat \<Rightarrow> nat option \<Rightarrow> nat tramp_result" where
  "tramp_amount requested invoice =
     (case (as_option 0 requested, invoice) of
        (None, None) \<Rightarrow>
          Err (with_hint ''If the invoice does not have a fixed amount you need to set the amount parameter''
            (error_new MissingAmount ''Missing amount''))
      | (None, Some amt) \<Rightarrow> Ok amt
      | (Some amt, None) \<Rightarrow> Ok amt
      | (Some set_amt, Some bolt11_amt) \<Rightarrow>
          if set_amt \<noteq> bolt11_amt then
            Err (with_hint ''If the invoice has the amount set you don't need to set it as a parameter''
              (error_new AmbigousAmount ''Invoice amount and the given amount don't match''))
          else Ok bolt11_amt)"

definition usable_channel :: "peer_channel \<Rightarrow> channel option" where
  "usable_channel ch =
     (case (case pc_short_channel_id ch of Some s \<Rightarrow> Some s | None \<Rightarrow> pc_alias_local ch) of
        None \<Rightarrow> None
      | Some scid \<Rightarrow>
          (case pc_spendable_msat ch of
             None \<Rightarrow> None
           | Some s \<Rightarrow>
               (case pc_minimum_htlc_out_msat ch of
                  None \<Rightarrow> None
                | Some m \<Rightarrow> Some \<lparr>short_channel_id = scid, spendable_msat = s, min_htlc_out_msat = m\<rparr>)))"

definition usable_channels :: "peer_channel list \<Rightarrow> channel list" where
  "usable_channels chs =
     filter (\<lambda>ch. min_htlc_out_msat ch < spendable_msat ch)
       (filter (\<lambda>ch. 0 < spendable_msat ch) (List.map_filter usable_channel chs))"

text \<open>
  The future awaited under the deadline is \<open>AwaitableChannel::new\<close>, an async function whose
  result is the awaitable channel, not the awaitable itself: it completes when it is first
  polled, before the deadline is looked at. \<open>scid_parses\<close> is the parse of \<open>1x1x1\<close>.
\<close>

definition awaitable_channel_new :: "string \<Rightarrow> (string, unit) outcome" where
  "awaitable_channel_new scid = Ok scid"

definition reestablished_channels :: "bool \<Rightarrow> channel list \<Rightarrow> channel list tramp_result" where
  "reestablished_channels scid_parses channels =
     (if \<not> scid_parses then Err (error_new TrampInternal ''1x1x1'')
      else
      let results = map (\<lambda>c. awaitable_channel_new (short_channel_id c)) channels in
      Ok (List.map_filter (\<lambda>(r, c). case r of Ok _ \<Rightarrow> Some c | _ \<Rightarrow> None) (zip results channels)))"

definition do_pay :: "lightningd \<Rightarrow> sendpay_request \<Rightarrow> wait_send_pay tramp_result" where
  "do_pay ln req =
     obind (rpc_result (ln_sendpay ln req)) (\<lambda>_.
       case ln_waitsendpay ln (sr_payment_hash req) (Some (sr_partid req, sr_groupid req)) of
         Ok v \<Rightarrow> Ok v
       | Panic \<Rightarrow> Panic
       | Err e \<Rightarrow>
           (case rpc_code e of
              Some c \<Rightarrow>
                if c = PAY_UNPARSEABLE_ONION_CODE
                then Err (error_new PeerNodeFailure ''Got unparsable onion code from peer'')
                else Err (error_of_rpc tramp_from_rpc_error e)
            | None \<Rightarrow>
                if rpc_message e = PAY_UNPARSEABLE_ONION_MSG
                then Err (error_new PeerNodeFailure ''Got unparsable onion code from peer'')
                else Err (error_of_rpc tramp_from_rpc_error e)))"

text \<open>The payload of the onion: the invoice and the amount it is to be paid with.\<close>

definition tramp_payload :: "lightningd \<Rightarrow> string \<Rightarrow> nat \<Rightarrow> string tramp_result" where
  "tramp_payload ln bolt11 amount =
     (case tlv_set_bytes TLV_BOLT11 (as_bytes bolt11) tlv_new of
        Ok s \<Rightarrow>
          (case tlv_set_tu64 TLV_AMT_MSAT (word_of_nat amount) s of
             Ok s \<Rightarrow> Ok (ln_hex_encode ln (tlv_to_bytes s))
           | _ \<Rightarrow> Panic)
      | _ \<Rightarrow> Panic)"

text \<open>
  The parts, one per contribution: ids count from 1, or from 0 when there is one part only.
  Each task needs its own connection; a connection that fails ends the payment while the
  tasks before it are running.
\<close>

definition make_part ::
  "tramp_request \<Rightarrow> decoded_invoice \<Rightarrow> bytes \<Rightarrow> nat \<Rightarrow> u64 \<Rightarrow> string \<Rightarrow> contribution \<Rightarrow> nat
     \<Rightarrow> sendpay_request option" where
  "make_part req decoded node_id total_amt group_id payload_hex ch part_id =
     map_option (\<lambda>secret.
       \<lparr>sr_node_id = node_id, sr_part_amt = contrib_msat ch,
        sr_delay = (case as_option 0 (tr_maxdelay req) of Some d \<Rightarrow> d | None \<Rightarrow> MAX_DELAY_DEFAULT),
        sr_channel = short_channel_id (contrib_channel ch),
        sr_payment_hash = di_payment_hash decoded, sr_label = as_option [] (tr_label req),
        sr_total_amount = total_amt, sr_bolt11 = tr_bolt11 req, sr_payment_secret = secret,
        sr_partid = part_id, sr_groupid = group_id, sr_description = di_description decoded,
        sr_payment_metadata = payload_hex\<rparr>) (di_payment_secret decoded)"

fun start_parts ::
  "lightningd \<Rightarrow> tramp_request \<Rightarrow> decoded_invoice \<Rightarrow> bytes \<Rightarrow> nat \<Rightarrow> u64 \<Rightarrow> string \<Rightarrow> contribution list \<Rightarrow> nat
     \<Rightarrow> nat \<Rightarrow> sendpay_request option list \<times> unit tramp_result" where
  "start_parts ln req decoded node_id total_amt group_id payload_hex [] part_id conn = ([], Ok ())"
| "start_parts ln req decoded node_id total_amt group_id payload_hex (ch # alloc) part_id conn =
     (case ln_connect ln conn of
        Ok _ \<Rightarrow>
          apfst (\<lambda>parts. make_part req decoded node_id total_amt group_id payload_hex ch part_id # parts)
            (start_parts ln req decoded node_id total_amt group_id payload_hex alloc (part_id + 1) (conn + 1))
      | Err e \<Rightarrow> ([], Err (error_new NetworkError (''Couldn't connect to core-lightning node: '' @ e)))
      | Panic \<Rightarrow> ([], Panic))"

text \<open>A part without payment secret fails before it is sent.\<close>

definition run_part :: "lightningd \<Rightarrow> sendpay_request option \<Rightarrow> wait_send_pay tramp_result" where
  "run_part ln part =
     (case part of
        None \<Rightarrow> Err (error_new InvalidInvoice ''The invoice is invalid, missing payment secret'')
      | Some r \<Rightarrow> do_pay ln r)"

fun collect_parts :: "wait_send_pay tramp_result list \<Rightarrow> bytes option \<Rightarrow> bytes option tramp_result" where
  "collect_parts [] preimage = Ok preimage"
| "collect_parts (r # rs) preimage =
     obind r (\<lambda>response.
       collect_parts rs (case wsp_payment_preimage response of Some p \<Rightarrow> Some p | None \<Rightarrow> preimage))"

definition pay_parts_of ::
  "lightningd \<Rightarrow> tramp_request \<Rightarrow> decoded_invoice \<Rightarrow> bytes \<Rightarrow> nat \<Rightarrow> nat \<Rightarrow> u64 \<Rightarrow> contribution list
     \<Rightarrow> sendpay_request list \<times> pay_response tramp_result" where
  "pay_parts_of ln req decoded node_id tlv_amount total_amt group_id alloc =
     (case tramp_payload ln (tr_bolt11 req) tlv_amount of
        Panic \<Rightarrow> ([], Panic)
      | Err e \<Rightarrow> ([], Err e)
      | Ok payload_hex \<Rightarrow>
          let (parts, started) = start_parts ln req decoded node_id total_amt group_id payload_hex alloc
                (if length alloc = 1 then 0 else 1) 1 in
          (List.map_filter (\<lambda>p. p) parts,
           obind started (\<lambda>_.
           obind (collect_parts (map (run_part ln) parts) None) (\<lambda>preimage.
             case preimage of
               Some preimage \<Rightarrow>
                 Ok \<lparr>pay_destination = Some (di_payee decoded), pay_amount_msat = total_amt,
                     pay_amount_sent_msat = total_amt, pay_parts = length alloc,
                     pay_payment_hash = di_payment_hash decoded, pay_preimage = preimage\<rparr>
             | None \<Rightarrow> Err (error_new PaymentFailure ''Payment failed, missing payment preimage'')))))"

text \<open>
  Group ids are \<open>u64\<close>, and a client chooses them in its own calls of \<open>sendpay\<close>. The next one is
  the highest plus 1: in a release build, for which no overflow checks are set, it wraps.
\<close>

definition max_group_id :: "send_pay list \<Rightarrow> u64" where
  "max_group_id sps = fold max (map sp_groupid sps) 0"

text \<open>
  The whole call: the parts handed to \<open>sendpay\<close>, and the result.
\<close>

definition tramp_channels ::
  "lightningd \<Rightarrow> bool \<Rightarrow> bytes \<Rightarrow> channel list tramp_result" where
  "tramp_channels ln scid_parses node_id =
     obind (rpc_result (ln_listpeerchannels ln node_id)) (\<lambda>chs.
     let channels = usable_channels chs in
     if channels = [] then
       Err (with_hint ''In order to execute a trampoline payment, you heed to share a channel with the trampoline node that has a usable outgoing balance''
         (error_new MissingChannel ''No active and usable channelt to trampoline node found''))
     else reestablished_channels scid_parses channels)"

definition tramp_plan ::
  "lightningd \<Rightarrow> bool \<Rightarrow> tramp_request \<Rightarrow> decoded_invoice \<Rightarrow> bytes \<Rightarrow> (nat \<times> nat \<times> contribution list) tramp_result" where
  "tramp_plan ln scid_parses req decoded node_id =
     obind (omap_err await_error (ln_await_peer ln node_id)) (\<lambda>_.
     obind (peer_features ln node_id) (\<lambda>features.
     obind (feature_guard features TRAMPOLINE_FEATURE_BIT) (\<lambda>_.
     obind (tramp_amount (tr_amount_msat req) (di_amount_msat decoded)) (\<lambda>tlv_amount.
     let total_amt = (tlv_amount + ln_overpay ln tlv_amount) mod 2 ^ 64 in
     obind (tramp_channels ln scid_parses node_id) (\<lambda>channels.
     obind (ok_or (error_new InsufficientFunds ''Insufficient funds'') (allocate_payment channels total_amt)) (\<lambda>alloc.
     obind (rpc_result (ln_preapproveinvoice ln (tr_bolt11 req))) (\<lambda>_.
     Ok (tlv_amount, total_amt, alloc))))))))"

definition trampolinepay ::
  "lightningd \<Rightarrow> bool \<Rightarrow> tramp_request \<Rightarrow> sendpay_request list \<times> pay_response tramp_result" where
  "trampolinepay ln scid_parses req =
     (case obind (omap_err (\<lambda>e. with_source e
                     (with_hint ''A node id must be exactly 33 bytes (66 hex characters)''
                       (error_new InvalidNodeId (''Got an invalid node id: '' @ e))))
                   (ln_parse_key ln (tr_trampoline_node_id req))) (\<lambda>node_id.
            obind (omap_err (\<lambda>e. error_new NetworkError (''Couldn't connect to core-lightning node: '' @ e))
                    (ln_connect ln 0)) (\<lambda>_.
            obind (rpc_result (ln_decodepay ln (tr_bolt11 req))) (\<lambda>decoded.
            omap (\<lambda>sps. (node_id, decoded, sps))
              (rpc_result (ln_listsendpays ln (di_payment_hash decoded)))))) of
        Err e \<Rightarrow> ([], Err e)
      | Panic \<Rightarrow> ([], Panic)
      | Ok (node_id, decoded, sps) \<Rightarrow>
          if \<exists>p \<in> set sps. sp_status p \<noteq> SpFailed then ([], resume_payment ln decoded)
          else
          (case tramp_plan ln scid_parses req decoded node_id of
             Err e \<Rightarrow> ([], Err e)
           | Panic \<Rightarrow> ([], Panic)
           | Ok (tlv_amount, total_amt, alloc) \<Rightarrow>
               pay_parts_of ln req decoded node_id tlv_amount total_amt (max_group_id sps + 1) alloc))"

subsection \<open>Lemmas\<close>

lemma start_parts_map:
  "start_parts ln req dec n amt g hex alloc pid conn = (parts, r) \<Longrightarrow>
     parts = map (\<lambda>(i, ch). make_part req dec n amt g hex ch i) (enumerate pid (take (length parts) alloc)) \<and>
     length parts \<le> length alloc \<and> (r = Ok () \<longrightarrow> length parts = length alloc)"
proof (induction alloc arbitrary: pid conn parts)
  case Nil
  then show ?case by simp
next
  case (Cons ch alloc)
  show ?case
  proof (cases "ln_connect ln conn")
    case (Ok u)
    obtain ps where ps: "start_parts ln req dec n amt g hex alloc (pid + 1) (conn + 1) = (ps, r)"
      and parts: "parts = make_part req dec n amt g hex ch pid # ps"
      using Cons.prems Ok by (cases "start_parts ln req dec n amt g hex alloc (pid + 1) (conn + 1)") auto
    from Cons.IH [OF ps] parts show ?thesis by simp
  qed (use Cons.prems in auto)
qed

lemma make_part_fields:
  "make_part req dec n amt g hex ch i = Some p \<Longrightarrow>
     sr_node_id p = n \<and> sr_part_amt p = contrib_msat ch \<and> sr_payment_hash p = di_payment_hash dec \<and>
     sr_total_amount p = amt \<and> sr_bolt11 p = tr_bolt11 req \<and> sr_partid p = i \<and> sr_groupid p = g"
  by (auto simp: make_part_def)

lemma map_filter_id_Some: "List.map_filter (\<lambda>p. p) (map Some xs) = xs"
  by (induction xs) (simp_all add: map_filter_simps)

text \<open>The parts sent, as one list over the allocation that was started.\<close>

lemma sent_parts:
  assumes "start_parts ln req dec n amt g hex alloc pid conn = (parts, r)"
  shows "\<exists>m \<le> length alloc. \<exists>mk. (\<forall>i ch p. mk i ch = p \<longrightarrow> make_part req dec n amt g hex ch i = Some p) \<and>
      List.map_filter (\<lambda>p. p) parts = map (\<lambda>(i, ch). mk i ch) (enumerate pid (take m alloc)) \<and>
      (r = Ok () \<longrightarrow> m = length alloc) \<or>
    List.map_filter (\<lambda>p. p) parts = [] \<and> (\<forall>p \<in> set parts. p = None)"
proof (cases "di_payment_secret dec")
  case None
  then have "make_part req dec n amt g hex ch i = None" for ch i by (simp add: make_part_def)
  then have "\<forall>p \<in> set parts. p = None" using start_parts_map [OF assms] by (metis (no_types, lifting) imageE list.set_map split_def)
  moreover from this have "List.map_filter (\<lambda>p. p) parts = []"
    by (induction parts) (auto simp: map_filter_simps)
  ultimately show ?thesis by blast
next
  case (Some secret)
  define mk where "mk i ch = the (make_part req dec n amt g hex ch i)" for i ch
  have mk: "make_part req dec n amt g hex ch i = Some (mk i ch)" for i ch
    using Some by (simp add: mk_def make_part_def)
  have "parts = map Some (map (\<lambda>(i, ch). mk i ch) (enumerate pid (take (length parts) alloc)))"
    using start_parts_map [OF assms] by (simp add: mk comp_def split_def)
  then have "List.map_filter (\<lambda>p. p) parts = map (\<lambda>(i, ch). mk i ch) (enumerate pid (take (length parts) alloc))"
    using map_filter_id_Some by metis
  then show ?thesis using start_parts_map [OF assms] mk by blast
qed

lemma max_group_id_Max: "max_group_id sps = Max (insert 0 (sp_groupid ` set sps))"
  using Max.set_eq_fold [of 0 "map sp_groupid sps"] by (simp add: max_group_id_def)

lemma max_group_id_ge: "p \<in> set sps \<Longrightarrow> sp_groupid p \<le> max_group_id sps"
  unfolding max_group_id_Max by (rule Max_ge) auto

lemma max_group_id_attained: "max_group_id sps = 0 \<or> (\<exists>p \<in> set sps. sp_groupid p = max_group_id sps)"
  using Max_in [of "insert 0 (sp_groupid ` set sps)"] unfolding max_group_id_Max [symmetric] by auto

text \<open>The next group id is above all others, or it has run over.\<close>

lemma next_group_id:
  "if \<exists>p \<in> set sps. sp_groupid p = - 1 then max_group_id sps + 1 = 0
   else \<forall>p \<in> set sps. sp_groupid p < max_group_id sps + 1"
proof (cases "max_group_id sps = - 1")
  case True
  then show ?thesis using max_group_id_attained [of sps] by auto
next
  case False
  then have "max_group_id sps < max_group_id sps + 1"
    using unatSuc [of "max_group_id sps"]
    by (simp add: word_less_nat_alt eq_neg_iff_add_eq_0 add.commute [of 1])
  moreover have "\<not> (\<exists>p \<in> set sps. sp_groupid p = - 1)"
    using False max_group_id_ge word_order.extremum_uniqueI by metis
  moreover have "sp_groupid p < max_group_id sps + 1" if "p \<in> set sps" "max_group_id sps < max_group_id sps + 1" for p
    using le_less_trans [OF max_group_id_ge [OF that(1)] that(2)] .
  ultimately show ?thesis by auto
qed

lemma collect_parts_Ok:
  "collect_parts rs pre = Ok p \<Longrightarrow> \<forall>r \<in> set rs. \<exists>v. r = Ok v"
  by (induction rs arbitrary: pre) (auto simp: obind_eq_Ok)

lemma rpc_result_of_Ok [simp]: "rpc_result (Ok a) = Ok a"
  by (simp add: rpc_result_def)

lemma rpc_result_Ok [simp]: "rpc_result r = Ok a \<longleftrightarrow> r = Ok a"
  by (simp add: rpc_result_def)

lemma trampolinepay_sent:
  assumes "trampolinepay ln scid_parses req = (sent, res)" "sent \<noteq> []"
  obtains node_id decoded sps tlv_amount total_amt alloc where
    "ln_parse_key ln (tr_trampoline_node_id req) = Ok node_id"
    "ln_decodepay ln (tr_bolt11 req) = Ok decoded"
    "ln_listsendpays ln (di_payment_hash decoded) = Ok sps"
    "\<forall>p \<in> set sps. sp_status p = SpFailed"
    "tramp_plan ln scid_parses req decoded node_id = Ok (tlv_amount, total_amt, alloc)"
    "pay_parts_of ln req decoded node_id tlv_amount total_amt (max_group_id sps + 1) alloc = (sent, res)"
  using assms
  by (auto simp: trampolinepay_def obind_eq_Ok omap_eq_Ok split: outcome.splits prod.splits if_splits)

lemma tramp_plan_Ok:
  assumes "tramp_plan ln scid_parses req decoded node_id = Ok (tlv_amount, total_amt, alloc)"
  obtains features channels where
    "peer_features ln node_id = Ok features" "feature_guard features TRAMPOLINE_FEATURE_BIT = Ok ()"
    "tramp_amount (tr_amount_msat req) (di_amount_msat decoded) = Ok tlv_amount"
    "total_amt = (tlv_amount + ln_overpay ln tlv_amount) mod 2 ^ 64"
    "tramp_channels ln scid_parses node_id = Ok channels" "allocate_payment channels total_amt = Some alloc"
    "ln_preapproveinvoice ln (tr_bolt11 req) = Ok ()"
  using assms by (auto simp: tramp_plan_def obind_eq_Ok Let_def)

lemma reestablished_all:
  "reestablished_channels scid_parses channels =
     (if scid_parses then Ok channels else Err (error_new TrampInternal ''1x1x1''))"
proof -
  have "List.map_filter (\<lambda>(r, c). case r of Ok _ \<Rightarrow> Some c | _ \<Rightarrow> None)
      (zip (map (\<lambda>c. awaitable_channel_new (short_channel_id c)) channels) channels) = channels"
    by (induction channels) (simp_all add: map_filter_simps awaitable_channel_new_def)
  then show ?thesis by (simp add: reestablished_channels_def)
qed

lemma allocate_payment_find:
  assumes "allocate_payment cs t = Some alloc"
  shows "\<exists>cs'. set cs' = set cs \<and> find_allocation cs' t = Some alloc"
proof -
  have "find_allocation_ascending_order cs t = Some alloc \<or> find_allocation_descending_order cs t = Some alloc"
    using assms by (auto simp: allocate_payment_def split: option.splits bind_splits if_splits)
  then show ?thesis
    unfolding find_allocation_ascending_order_def find_allocation_descending_order_def
    by (metis set_sort)
qed

lemma find_allocation_covers: "find_allocation cs t = Some as \<Longrightarrow> t \<le> TrampAlloc.total as"
  using try_allocate_extends [of cs t "[]"]
  by (auto simp: find_allocation_def extends_def split: if_splits prod.splits alloc_result.splits)

lemma pay_parts_of_sent:
  assumes "pay_parts_of ln req dec n tlv amt g alloc = (sent, res)" "sent \<noteq> []"
  obtains m mk pid hex where "m \<le> length alloc"
    "\<And>i ch. make_part req dec n amt g hex ch i = Some (mk i ch)"
    "sent = map (\<lambda>(i, ch). mk i ch) (enumerate pid (take m alloc))"
    "pid = (if length alloc = 1 then 0 else 1)"
    "\<And>resp. res = Ok resp \<Longrightarrow> m = length alloc \<and> pay_amount_msat resp = amt"
proof -
  define pid :: nat where "pid = (if length alloc = 1 then 0 else 1)"
  obtain hex where hex: "tramp_payload ln (tr_bolt11 req) tlv = Ok hex"
    using assms by (cases "tramp_payload ln (tr_bolt11 req) tlv") (auto simp: pay_parts_of_def)
  obtain parts r where st: "start_parts ln req dec n amt g hex alloc pid 1 = (parts, r)"
    by (cases "start_parts ln req dec n amt g hex alloc pid 1")
  have sent: "sent = List.map_filter (\<lambda>p. p) parts"
    and r: "res = obind r (\<lambda>_. obind (collect_parts (map (run_part ln) parts) None) (\<lambda>preimage.
             case preimage of
               Some preimage \<Rightarrow>
                 Ok \<lparr>pay_destination = Some (di_payee dec), pay_amount_msat = amt,
                     pay_amount_sent_msat = amt, pay_parts = length alloc,
                     pay_payment_hash = di_payment_hash dec, pay_preimage = preimage\<rparr>
             | None \<Rightarrow> Err (error_new PaymentFailure ''Payment failed, missing payment preimage'')))"
    using assms(1) hex st by (simp_all add: pay_parts_of_def pid_def)
  have res: "r = Ok () \<and> pay_amount_msat resp = amt" if "res = Ok resp" for resp
    using that unfolding r by (auto simp: obind_eq_Ok split: option.splits)
  from sent_parts [OF st] assms(2) sent obtain m mk where m: "m \<le> length alloc"
    and mk: "\<forall>i ch p. mk i ch = p \<longrightarrow> make_part req dec n amt g hex ch i = Some p"
    and s: "List.map_filter (\<lambda>p. p) parts = map (\<lambda>(i, ch). mk i ch) (enumerate pid (take m alloc))"
    and ok: "r = Ok () \<longrightarrow> m = length alloc"
    by blast
  show thesis
  proof (rule that [of m hex mk pid])
    show "make_part req dec n amt g hex ch i = Some (mk i ch)" for i ch using mk by blast
    show "m = length alloc \<and> pay_amount_msat resp = amt" if "res = Ok resp" for resp
      using res [OF that] ok by blast
  qed (use m s sent pid_def in auto)
qed

text \<open>When the ascending strategy finds an allocation, the payment uses it, and it is exact.\<close>

lemma ascending_payment_exact:
  assumes "find_allocation_ascending_order channels total_amt = Some al" "allocate_payment channels total_amt = Some alloc"
  shows "TrampAlloc.total alloc = total_amt"
proof -
  have "exact (sort_key (\<lambda>c. (spendable_msat c, min_htlc_out_msat c)) channels) total_amt al \<and> total_amt \<noteq> 0"
    using assms(1) try_allocate_ascending [OF ascending_sort, of channels total_amt "[]"]
    by (auto simp: find_allocation_ascending_order_def find_allocation_def
        split: if_splits prod.splits alloc_result.splits)
  then have "al \<noteq> []" "TrampAlloc.total al = total_amt" by (auto simp: exact_def)
  then show ?thesis using assms by (simp add: allocate_payment_def)
qed

section \<open>Properties\<close>

text \<open>
  C5: a trampoline payment is only attempted when nothing is under way, and only as asked.
  Parts are sent only if every payment of the hash that lightningd lists has failed, the peer
  announces trampoline support, and lightningd has preapproved the invoice. All parts carry the
  invoice, its hash, the trampoline node, distinct part ids and one group id, which is above all
  earlier ones, unless one of those is the highest \<open>u64\<close>: then it is 0, as a release build wraps.
\<close>

theorem parts_sent_only_when_safe:
  assumes "trampolinepay ln scid_parses req = (sent, res)" "sent \<noteq> []"
  shows "\<exists>node_id decoded sps features.
    ln_parse_key ln (tr_trampoline_node_id req) = Ok node_id \<and>
    ln_decodepay ln (tr_bolt11 req) = Ok decoded \<and>
    ln_listsendpays ln (di_payment_hash decoded) = Ok sps \<and>
    (\<forall>p \<in> set sps. sp_status p = SpFailed) \<and>
    peer_features ln node_id = Ok features \<and> feature_guard features TRAMPOLINE_FEATURE_BIT = Ok () \<and>
    ln_preapproveinvoice ln (tr_bolt11 req) = Ok () \<and>
    (\<forall>r \<in> set sent. sr_bolt11 r = tr_bolt11 req \<and> sr_payment_hash r = di_payment_hash decoded \<and>
       sr_node_id r = node_id \<and>
       (if \<exists>p \<in> set sps. sp_groupid p = - 1 then sr_groupid r = 0
        else \<forall>p \<in> set sps. sp_groupid p < sr_groupid r)) \<and>
    (\<forall>r \<in> set sent. \<forall>r' \<in> set sent. sr_groupid r = sr_groupid r') \<and>
    distinct (map sr_partid sent)"
proof -
  from assms obtain node_id decoded sps tlv_amount total_amt alloc where
    p: "ln_parse_key ln (tr_trampoline_node_id req) = Ok node_id"
    "ln_decodepay ln (tr_bolt11 req) = Ok decoded" "ln_listsendpays ln (di_payment_hash decoded) = Ok sps"
    "\<forall>p \<in> set sps. sp_status p = SpFailed"
    and plan: "tramp_plan ln scid_parses req decoded node_id = Ok (tlv_amount, total_amt, alloc)"
    and parts: "pay_parts_of ln req decoded node_id tlv_amount total_amt (max_group_id sps + 1) alloc = (sent, res)"
    by (rule trampolinepay_sent)
  from plan obtain features channels where f: "peer_features ln node_id = Ok features"
    "feature_guard features TRAMPOLINE_FEATURE_BIT = Ok ()" "ln_preapproveinvoice ln (tr_bolt11 req) = Ok ()"
    by (rule tramp_plan_Ok)
  from parts assms(2) obtain m mk pid hex where
    mk: "\<And>i ch. make_part req decoded node_id total_amt (max_group_id sps + 1) hex ch i = Some (mk i ch)"
    and sent: "sent = map (\<lambda>(i, ch). mk i ch) (enumerate pid (take m alloc))"
    by (rule pay_parts_of_sent) blast
  note g = next_group_id [of sps]
  have "sr_partid (mk i ch) = i" for i ch using make_part_fields [OF mk] by blast
  then have "map sr_partid sent = map fst (enumerate pid (take m alloc))"
    unfolding sent by (simp add: comp_def split_def del: map_fst_enumerate)
  then have "distinct (map sr_partid sent)" by simp
  moreover have "sr_bolt11 r = tr_bolt11 req \<and> sr_payment_hash r = di_payment_hash decoded \<and>
       sr_node_id r = node_id \<and> sr_groupid r = max_group_id sps + 1" if "r \<in> set sent" for r
    using that make_part_fields [OF mk] unfolding sent by auto
  ultimately show ?thesis using p f g by (intro exI conjI) (auto split: if_splits)
qed

text \<open>
  C12: a completed payment was covered. When the payment succeeds after parts were sent, the
  parts sent add up to the amount plus the overpayment at least, and to exactly that when
  the ascending strategy found the allocation.
\<close>

theorem completed_payment_is_covered:
  assumes "trampolinepay ln scid_parses req = (sent, Ok resp)" "sent \<noteq> []"
  shows "pay_amount_msat resp \<le> sum_list (map sr_part_amt sent) \<and>
    (\<exists>node_id decoded tlv_amount channels.
       ln_parse_key ln (tr_trampoline_node_id req) = Ok node_id \<and>
       ln_decodepay ln (tr_bolt11 req) = Ok decoded \<and>
       tramp_amount (tr_amount_msat req) (di_amount_msat decoded) = Ok tlv_amount \<and>
       pay_amount_msat resp = (tlv_amount + ln_overpay ln tlv_amount) mod 2 ^ 64 \<and>
       tramp_channels ln scid_parses node_id = Ok channels \<and>
       (find_allocation_ascending_order channels (pay_amount_msat resp) \<noteq> None \<longrightarrow>
          sum_list (map sr_part_amt sent) = pay_amount_msat resp))"
proof -
  from assms obtain node_id decoded sps tlv_amount total_amt alloc where
    p: "ln_parse_key ln (tr_trampoline_node_id req) = Ok node_id" "ln_decodepay ln (tr_bolt11 req) = Ok decoded"
    and plan: "tramp_plan ln scid_parses req decoded node_id = Ok (tlv_amount, total_amt, alloc)"
    and parts: "pay_parts_of ln req decoded node_id tlv_amount total_amt (max_group_id sps + 1) alloc = (sent, Ok resp)"
    by (rule trampolinepay_sent)
  from plan obtain channels where a: "tramp_amount (tr_amount_msat req) (di_amount_msat decoded) = Ok tlv_amount"
    "total_amt = (tlv_amount + ln_overpay ln tlv_amount) mod 2 ^ 64"
    "tramp_channels ln scid_parses node_id = Ok channels" "allocate_payment channels total_amt = Some alloc"
    by (rule tramp_plan_Ok)
  from parts assms(2) obtain m mk pid hex where
    mk: "\<And>i ch. make_part req decoded node_id total_amt (max_group_id sps + 1) hex ch i = Some (mk i ch)"
    and sent: "sent = map (\<lambda>(i, ch). mk i ch) (enumerate pid (take m alloc))"
    and ok: "m = length alloc \<and> pay_amount_msat resp = total_amt"
    by (rule pay_parts_of_sent) blast
  have "sr_part_amt (mk i ch) = contrib_msat ch" for i ch using make_part_fields [OF mk] by blast
  then have "map sr_part_amt sent = map contrib_msat (map snd (enumerate pid (take m alloc)))"
    unfolding sent by (simp add: comp_def split_def del: map_snd_enumerate)
  then have sum: "sum_list (map sr_part_amt sent) = TrampAlloc.total alloc"
    using ok by (simp add: total_def)
  obtain cs' where "find_allocation cs' total_amt = Some alloc"
    using allocate_payment_find [OF a(4)] by blast
  then have le: "total_amt \<le> TrampAlloc.total alloc" by (rule find_allocation_covers)
  have "find_allocation_ascending_order channels total_amt \<noteq> None \<longrightarrow> TrampAlloc.total alloc = total_amt"
    using ascending_payment_exact a(4) by blast
  with sum ok le have "sum_list (map sr_part_amt sent) \<ge> pay_amount_msat resp"
    "find_allocation_ascending_order channels (pay_amount_msat resp) \<noteq> None \<longrightarrow>
       sum_list (map sr_part_amt sent) = pay_amount_msat resp"
    by simp_all
  moreover have "pay_amount_msat resp = (tlv_amount + ln_overpay ln tlv_amount) mod 2 ^ 64"
    using ok a(2) by simp
  ultimately show ?thesis using p a(1,3)
    by (intro conjI exI [of _ node_id] exI [of _ decoded] exI [of _ tlv_amount] exI [of _ channels])
qed

text \<open>
  Channels are not waited for. Whatever the state of the channels, all of them are taken
  as re-established, since the awaited future only creates the awaitable.
\<close>

theorem channels_never_awaited: "reestablished_channels True channels = Ok channels"
  by (simp add: reestablished_all)

text \<open>
  An invoice that is being paid or was paid is not paid again. If one earlier payment of
  the hash has not failed, nothing is sent and the answer is that of the earlier payment.
\<close>

theorem pending_payment_is_resumed:
  assumes "ln_parse_key ln (tr_trampoline_node_id req) = Ok node_id" "ln_connect ln 0 = Ok ()"
    and "ln_decodepay ln (tr_bolt11 req) = Ok decoded"
    and "ln_listsendpays ln (di_payment_hash decoded) = Ok sps"
    and "\<exists>p \<in> set sps. sp_status p \<noteq> SpFailed"
  shows "trampolinepay ln scid_parses req = ([], resume_payment ln decoded)"
  using assms by (simp add: trampolinepay_def rpc_result_def)

text \<open>A lightningd with two channels to the trampoline node, for which the invoice is 9 msat.\<close>

definition demo_ln :: "send_pay list \<Rightarrow> lightningd" where
  "demo_ln sps = \<lparr>ln_parse_key = Ok, ln_connect = (\<lambda>_. Ok ()),
     ln_decodepay = (\<lambda>_. Ok \<lparr>di_payment_hash = [1], di_amount_msat = Some 9, di_description = None,
                              di_payment_secret = Some [2], di_payee = [3]\<rparr>),
     ln_listsendpays = (\<lambda>_. Ok sps),
     ln_waitsendpay = (\<lambda>h p. Ok \<lparr>wsp_amount_msat = Some 9, wsp_amount_sent_msat = 9, wsp_destination = None,
                              wsp_partid = None, wsp_payment_hash = h, wsp_payment_preimage = Some [4]\<rparr>),
     ln_await_peer = (\<lambda>_. Ok ()), ln_listpeers_features = (\<lambda>_. Ok [Some ''08'']),
     ln_hex_decode = (\<lambda>_. Some (8 # replicate 53 0)), ln_hex_encode = (\<lambda>_. []),
     ln_listpeerchannels = (\<lambda>_. Ok
       [\<lparr>pc_short_channel_id = Some ''a'', pc_alias_local = None, pc_spendable_msat = Some 4, pc_minimum_htlc_out_msat = Some 3\<rparr>,
        \<lparr>pc_short_channel_id = Some ''b'', pc_alias_local = None, pc_spendable_msat = Some 6, pc_minimum_htlc_out_msat = Some 2\<rparr>]),
     ln_preapproveinvoice = (\<lambda>_. Ok ()), ln_sendpay = (\<lambda>_. Ok ()), ln_overpay = (\<lambda>_. 0)\<rparr>"

definition demo_tramp :: tramp_request where
  "demo_tramp = \<lparr>tr_bolt11 = ''i'', tr_trampoline_node_id = [9], tr_amount_msat = 0, tr_label = [], tr_maxdelay = 0\<rparr>"

lemma demo_allocation:
  "allocate_payment [\<lparr>short_channel_id = ''a'', spendable_msat = 4, min_htlc_out_msat = 3\<rparr>,
     \<lparr>short_channel_id = ''b'', spendable_msat = 6, min_htlc_out_msat = 2\<rparr>] 9 =
   Some [\<lparr>contrib_channel = \<lparr>short_channel_id = ''a'', spendable_msat = 4, min_htlc_out_msat = 3\<rparr>, contrib_msat = 4\<rparr>,
         \<lparr>contrib_channel = \<lparr>short_channel_id = ''b'', spendable_msat = 6, min_htlc_out_msat = 2\<rparr>, contrib_msat = 5\<rparr>]"
  by code_simp

lemma demo_features: "feature_guard (8 # replicate 53 0) TRAMPOLINE_FEATURE_BIT = Ok ()"
  by code_simp

lemma demo_ln_simps:
  "ln_parse_key (demo_ln sps) = Ok" "ln_connect (demo_ln sps) = (\<lambda>_. Ok ())"
  "ln_decodepay (demo_ln sps) b = Ok \<lparr>di_payment_hash = [1], di_amount_msat = Some 9, di_description = None,
     di_payment_secret = Some [2], di_payee = [3]\<rparr>"
  "ln_listsendpays (demo_ln sps) h = Ok sps"
  "ln_waitsendpay (demo_ln sps) h p = Ok \<lparr>wsp_amount_msat = Some 9, wsp_amount_sent_msat = 9, wsp_destination = None,
     wsp_partid = None, wsp_payment_hash = h, wsp_payment_preimage = Some [4]\<rparr>"
  "ln_await_peer (demo_ln sps) n = Ok ()" "ln_listpeers_features (demo_ln sps) n = Ok [Some ''08'']"
  "ln_hex_decode (demo_ln sps) f = Some (8 # replicate 53 0)" "ln_hex_encode (demo_ln sps) x = []"
  "ln_preapproveinvoice (demo_ln sps) b = Ok ()" "ln_sendpay (demo_ln sps) r = Ok ()" "ln_overpay (demo_ln sps) a = 0"
  "usable_channels (case ln_listpeerchannels (demo_ln sps) n of Ok c \<Rightarrow> c | _ \<Rightarrow> []) =
     [\<lparr>short_channel_id = ''a'', spendable_msat = 4, min_htlc_out_msat = 3\<rparr>,
      \<lparr>short_channel_id = ''b'', spendable_msat = 6, min_htlc_out_msat = 2\<rparr>]"
  "rpc_result (ln_listpeerchannels (demo_ln sps) n) =
     Ok (case ln_listpeerchannels (demo_ln sps) n of Ok c \<Rightarrow> c | _ \<Rightarrow> [])"
  by (simp_all add: demo_ln_def usable_channels_def usable_channel_def map_filter_simps rpc_result_def)

lemma demo_plan:
  "\<exists>a b. tramp_plan (demo_ln sps) True demo_tramp
      \<lparr>di_payment_hash = [1], di_amount_msat = Some 9, di_description = None,
       di_payment_secret = Some [2], di_payee = [3]\<rparr> [9] = Ok (9, 9, [a, b])"
  using demo_allocation
  by (simp add: tramp_plan_def demo_ln_simps demo_tramp_def peer_features_def tramp_amount_def as_option_def
      tramp_channels_def reestablished_all demo_features)

lemma tramp_payload_total: "\<exists>hex. tramp_payload ln bolt11 amount = Ok hex"
proof -
  have "tlv_ok tlv_new" by (simp add: tlv_ok_def tlv_new_def)
  from tlv_set_bytes_spec [OF this, of TLV_BOLT11 "as_bytes bolt11"] obtain s where
    s: "tlv_set_bytes TLV_BOLT11 (as_bytes bolt11) tlv_new = Ok s" "tlv_ok s" by blast
  from tlv_set_bytes_spec [OF s(2), of TLV_AMT_MSAT "put_tu64 (word_of_nat amount)"] s(1) show ?thesis
    by (auto simp: tramp_payload_def tlv_set_tu64_def)
qed

lemma demo_pays:
  "\<exists>r rs resp. trampolinepay (demo_ln []) True demo_tramp = (r # rs, Ok resp)"
proof -
  obtain a b where "tramp_plan (demo_ln []) True demo_tramp
      \<lparr>di_payment_hash = [1], di_amount_msat = Some 9, di_description = None,
       di_payment_secret = Some [2], di_payee = [3]\<rparr> [9] = Ok (9, 9, [a, b])"
    using demo_plan by blast
  moreover obtain hex where "tramp_payload (demo_ln []) ''i'' 9 = Ok hex" using tramp_payload_total by blast
  ultimately show ?thesis
    by (simp add: trampolinepay_def demo_ln_simps demo_tramp_def pay_parts_of_def Let_def
        make_part_def run_part_def do_pay_def map_filter_simps)
qed

theorem parts_sent_only_when_safe_witness:
  "\<exists>sent res. trampolinepay (demo_ln []) True demo_tramp = (sent, res) \<and> sent \<noteq> [] \<and>
     distinct (map sr_partid sent)"
proof -
  obtain r rs resp where run: "trampolinepay (demo_ln []) True demo_tramp = (r # rs, Ok resp)"
    using demo_pays by blast
  then have "distinct (map sr_partid (r # rs))" using parts_sent_only_when_safe [OF run] by blast
  then show ?thesis using run by blast
qed

theorem completed_payment_is_covered_witness:
  "\<exists>sent resp. trampolinepay (demo_ln []) True demo_tramp = (sent, Ok resp) \<and>
     pay_amount_msat resp \<le> sum_list (map sr_part_amt sent)"
proof -
  obtain r rs resp where run: "trampolinepay (demo_ln []) True demo_tramp = (r # rs, Ok resp)"
    using demo_pays by blast
  then show ?thesis using completed_payment_is_covered [OF run] by blast
qed

theorem pending_payment_is_resumed_witness:
  "\<exists>resp. trampolinepay (demo_ln [\<lparr>sp_status = SpPending, sp_groupid = 1\<rparr>]) True demo_tramp = ([], Ok resp)"
proof -
  have "trampolinepay (demo_ln [\<lparr>sp_status = SpPending, sp_groupid = 1\<rparr>]) True demo_tramp =
     ([], resume_payment (demo_ln [\<lparr>sp_status = SpPending, sp_groupid = 1\<rparr>])
        \<lparr>di_payment_hash = [1], di_amount_msat = Some 9, di_description = None,
         di_payment_secret = Some [2], di_payee = [3]\<rparr>)"
    by (rule pending_payment_is_resumed [where node_id = "[9]"
          and sps = "[\<lparr>sp_status = SpPending, sp_groupid = 1\<rparr>]"])
      (simp_all add: demo_ln_def demo_tramp_def)
  then show ?thesis by (simp add: resume_payment_def demo_ln_simps)
qed

end
