(* ===== verification/Lnurl.thy ===== *)
theory Lnurl
  imports Amounts
begin

text \<open>
  The LNURL client (\<open>libs/gl-client/src/lnurl\<close>): paying a LNURL or a lightning address, and
  withdrawing from one. What the service answers is data: the HTTP client is a record of
  functions, as are bech32, URLs, invoices, SHA-256 and the JSON of the metadata. White space
  and letters are those of ASCII. Amounts are millisatoshi.
\<close>

subsection \<open>Messages\<close>

record pay_request_response =
  pr_callback :: string
  pr_max_sendable :: nat
  pr_min_sendable :: nat
  pr_tag :: string
  pr_metadata :: string

record withdraw_request_response =
  wr_tag :: string
  wr_callback :: string
  wr_k1 :: string
  wr_default_description :: string
  wr_min_withdrawable :: nat
  wr_max_withdrawable :: nat

datatype invoice_description = DirectDescription string | DescriptionHash string

record bolt11_invoice =
  bi_string :: string
  bi_amount_msat :: "nat option"
  bi_description :: invoice_description

record url_lib =
  ul_parse :: "string \<Rightarrow> (string option, string) outcome"
  ul_append_pair :: "string \<Rightarrow> string \<Rightarrow> string \<Rightarrow> string"
  ul_query_pairs :: "string \<Rightarrow> (string \<times> string) list"

record lnurl_env =
  le_http_pay :: "string \<Rightarrow> (pay_request_response, string) outcome"
  le_http_callback :: "string \<Rightarrow> (string, string) outcome"
  le_http_withdraw :: "string \<Rightarrow> (withdraw_request_response, string) outcome"
  le_bech32 :: "string \<Rightarrow> (string, string) outcome"
  le_url :: url_lib
  le_invoice :: "string \<Rightarrow> (bolt11_invoice, string) outcome"
  le_sha256 :: "string \<Rightarrow> string"
  le_metadata :: "string \<Rightarrow> (string list list, string) outcome"
  le_debug :: bool

subsection \<open>Identifiers\<close>

definition is_space :: "char \<Rightarrow> bool" where
  "is_space c = (c = CHR '' '' \<or> (CHR 0x09 \<le> c \<and> c \<le> CHR 0x0D))"

definition trim :: "string \<Rightarrow> string" where
  "trim s = rev (dropWhile is_space (rev (dropWhile is_space s)))"

definition is_lnurl :: "string \<Rightarrow> bool" where
  "is_lnurl identifier = starts_with (to_uppercase (trim identifier)) ''LNURL''"

definition parse_lnurl :: "lnurl_env \<Rightarrow> string \<Rightarrow> (string, string) outcome" where
  "parse_lnurl L lnurl = omap_err (\<lambda>e. ''Failed to decode lnurl: '' @ e) (le_bech32 L lnurl)"

definition parse_lightning_address :: "string \<Rightarrow> (string, string) outcome" where
  "parse_lightning_address address =
     (case split_on (CHR 0x40) address of
        [username, domain] \<Rightarrow>
          if username = [] then Err ''Username can not be empty''
          else if domain = [] then Err ''Domain can not be empty''
          else Ok (''https://'' @ domain @ ''/.well-known/lnurlp/'' @ username)
      | _ \<Rightarrow> Err ''The provided lightning address is improperly formatted'')"

subsection \<open>Paying\<close>

definition wrong_tag :: string where
  "wrong_tag = ''Expected tag to say '' @ CHR 0x27 # ''payRequest'' @ [CHR 0x27]"

definition ensure_amount_is_within_range :: "pay_request_response \<Rightarrow> nat \<Rightarrow> (unit, string) outcome" where
  "ensure_amount_is_within_range resp amount =
     (if amount < pr_min_sendable resp then Err (''Amount must be '' @ decimal (pr_min_sendable resp) @ '' or greater'')
      else if pr_max_sendable resp < amount then Err (''Amount must be '' @ decimal (pr_max_sendable resp) @ '' or less'')
      else Ok ())"

text \<open>Entries are indexed without a check: one that is too short panics.\<close>

fun last_plain_text :: "string list list \<Rightarrow> string \<Rightarrow> (string, string) outcome" where
  "last_plain_text [] description = Ok description"
| "last_plain_text ([] # ms) description = Panic"
| "last_plain_text ((k # vs) # ms) description =
     (if k = ''text/plain'' then (case vs of [] \<Rightarrow> Panic | v # _ \<Rightarrow> last_plain_text ms v)
      else last_plain_text ms description)"

definition extract_description :: "lnurl_env \<Rightarrow> pay_request_response \<Rightarrow> (string, string) outcome" where
  "extract_description L resp =
     obind (omap_err (\<lambda>e. ''Failed to deserialize metadata: '' @ e) (le_metadata L (pr_metadata resp)))
       (\<lambda>ms. last_plain_text ms [])"

fun first_identifier :: "string list list \<Rightarrow> (string, string) outcome" where
  "first_identifier [] = Ok []"
| "first_identifier ([] # ms) = Panic"
| "first_identifier ((k # vs) # ms) =
     (if k = ''text/email'' \<or> k = ''text/identifier'' then (case vs of [] \<Rightarrow> Panic | v # _ \<Rightarrow> Ok v)
      else first_identifier ms)"

definition validate_pay_request_response ::
  "lnurl_env \<Rightarrow> string \<Rightarrow> pay_request_response \<Rightarrow> nat \<Rightarrow> (unit, string) outcome" where
  "validate_pay_request_response L identifier resp amount =
     (if pr_tag resp \<noteq> ''payRequest'' then Err wrong_tag
      else
      obind (ensure_amount_is_within_range resp amount) (\<lambda>_.
      obind (extract_description L resp) (\<lambda>_.
      if \<not> is_lnurl identifier then
        obind (omap_err (\<lambda>e. ''Failed to deserialize metadata: '' @ e) (le_metadata L (pr_metadata resp))) (\<lambda>ms.
        obind (first_identifier ms) (\<lambda>found.
        if found = [] then Err ''Could not find an entry of type ''
        else if found \<noteq> identifier then
          Err ''The lightning address specified in the original request does not match what was found in the metadata array''
        else Ok ()))
      else Ok ())))"

definition build_callback_url :: "lnurl_env \<Rightarrow> string \<Rightarrow> nat \<Rightarrow> (string, string) outcome" where
  "build_callback_url L callback amount =
     omap (\<lambda>_. ul_append_pair (le_url L) callback ''amount'' (decimal amount)) (ul_parse (le_url L) callback)"

text \<open>The message of the first check unwraps the amount that is not there.\<close>

definition validate_invoice_from_callback_response ::
  "lnurl_env \<Rightarrow> bolt11_invoice \<Rightarrow> nat \<Rightarrow> string \<Rightarrow> (unit, string) outcome" where
  "validate_invoice_from_callback_response L invoice amount metadata =
     (if (case bi_amount_msat invoice of Some a \<Rightarrow> a | None \<Rightarrow> 0) \<noteq> amount then
        (case bi_amount_msat invoice of
           Some _ \<Rightarrow> Err ''Amount found in invoice was not equal to the amount found in the original request''
         | None \<Rightarrow> Panic)
      else
        let description_hash = (case bi_description invoice of
              DirectDescription d \<Rightarrow> le_sha256 L d | DescriptionHash h \<Rightarrow> h) in
        if description_hash \<noteq> le_sha256 L metadata then Err ''description_hash does not match the hash of the metadata''
        else Ok ())"

definition parse_invoice :: "lnurl_env \<Rightarrow> string \<Rightarrow> (bolt11_invoice, string) outcome" where
  "parse_invoice L s = omap_err (\<lambda>e. ''Failed to parse invoice: '' @ e) (le_invoice L s)"

text \<open>With debug logging, the host of the URL is logged, and an URL without one panics.\<close>

definition resolve_lnurl_to_invoice :: "lnurl_env \<Rightarrow> string \<Rightarrow> nat \<Rightarrow> (string, string) outcome" where
  "resolve_lnurl_to_invoice L identifier amount =
     obind (if is_lnurl identifier then parse_lnurl L identifier else parse_lightning_address identifier) (\<lambda>url.
     if le_debug L \<and> (case ul_parse (le_url L) url of Ok (Some host) \<Rightarrow> False | _ \<Rightarrow> True) then Panic
     else
     obind (le_http_pay L url) (\<lambda>resp.
     obind (validate_pay_request_response L identifier resp amount) (\<lambda>_.
     obind (build_callback_url L (pr_callback resp) amount) (\<lambda>callback_url.
     obind (le_http_callback L callback_url) (\<lambda>pr.
     obind (parse_invoice L pr) (\<lambda>invoice.
     obind (validate_invoice_from_callback_response L invoice amount (pr_metadata resp)) (\<lambda>_.
     Ok (bi_string invoice))))))))"

text \<open>\<open>pay\<close>: the bolt11 string the node is asked to pay, and its answer.\<close>

definition lnurl_pay ::
  "lnurl_env \<Rightarrow> (string \<Rightarrow> ('r, string) outcome) \<Rightarrow> string \<Rightarrow> nat \<Rightarrow> string list \<times> ('r, string) outcome" where
  "lnurl_pay L node_pay lnurl amount =
     (case resolve_lnurl_to_invoice L lnurl amount of
        Ok bolt11 \<Rightarrow> ([bolt11], node_pay bolt11)
      | Err e \<Rightarrow> ([], Err e)
      | Panic \<Rightarrow> ([], Panic))"

definition get_pay_request_response :: "lnurl_env \<Rightarrow> string \<Rightarrow> (pay_request_response, string) outcome" where
  "get_pay_request_response L lnurl =
     obind (parse_lnurl L lnurl) (\<lambda>url.
     obind (le_http_pay L url) (\<lambda>resp.
     if pr_tag resp \<noteq> ''payRequest'' then Err wrong_tag else Ok resp))"

definition get_pay_request_callback_response ::
  "lnurl_env \<Rightarrow> string \<Rightarrow> nat \<Rightarrow> string \<Rightarrow> (string, string) outcome" where
  "get_pay_request_callback_response L base_callback_url amount metadata =
     obind (build_callback_url L base_callback_url amount) (\<lambda>url.
     obind (le_http_callback L url) (\<lambda>pr.
     obind (parse_invoice L pr) (\<lambda>invoice.
     obind (validate_invoice_from_callback_response L invoice amount metadata) (\<lambda>_. Ok pr))))"

subsection \<open>Withdrawing\<close>

datatype json_value = JsonStr string | JsonNum nat

definition convert_value_field_from_str_to_u64 ::
  "(string, json_value) bmap \<Rightarrow> string \<Rightarrow> ((string, json_value) bmap, string) outcome" where
  "convert_value_field_from_str_to_u64 m field =
     (case bt_get m field of
        Some (JsonStr s) \<Rightarrow>
          omap (\<lambda>n. bt_insert field (JsonNum n) m) (ok_or ''invalid digit found in string'' (parse_unsigned (2 ^ 64) s))
      | Some _ \<Rightarrow> Err (''Failed to convert '' @ field @ '' into a str'')
      | None \<Rightarrow> Err (''Failed to find '' @ field @ '' in map''))"

text \<open>The derived deserializer: all fields, with their types.\<close>

definition withdraw_from_value :: "(string, json_value) bmap \<Rightarrow> withdraw_request_response option" where
  "withdraw_from_value m =
     (case (bt_get m ''tag'', bt_get m ''callback'', bt_get m ''k1'', bt_get m ''defaultDescription'',
            bt_get m ''minWithdrawable'', bt_get m ''maxWithdrawable'') of
        (Some (JsonStr tag), Some (JsonStr callback), Some (JsonStr k1), Some (JsonStr d), Some (JsonNum mn),
         Some (JsonNum mx)) \<Rightarrow>
          Some \<lparr>wr_tag = tag, wr_callback = callback, wr_k1 = k1, wr_default_description = d,
                wr_min_withdrawable = mn, wr_max_withdrawable = mx\<rparr>
      | _ \<Rightarrow> None)"

definition parse_withdraw_request_response_from_url ::
  "url_lib \<Rightarrow> string \<Rightarrow> (withdraw_request_response option, string) outcome" where
  "parse_withdraw_request_response_from_url U url =
     (case ul_parse U url of
        Ok _ \<Rightarrow>
          let query = fold (\<lambda>(k, v). bt_insert k (JsonStr v)) (ul_query_pairs U url) [] in
          (case obind (convert_value_field_from_str_to_u64 query ''minWithdrawable'')
                  (\<lambda>query. convert_value_field_from_str_to_u64 query ''maxWithdrawable'') of
             Ok query \<Rightarrow> Ok (withdraw_from_value query)
           | _ \<Rightarrow> Ok None)
      | _ \<Rightarrow> Panic)"

definition get_withdraw_request_response ::
  "lnurl_env \<Rightarrow> string \<Rightarrow> (withdraw_request_response, string) outcome" where
  "get_withdraw_request_response L lnurl =
     obind (parse_lnurl L lnurl) (\<lambda>url.
     obind (parse_withdraw_request_response_from_url (le_url L) url) (\<lambda>w.
     case w of Some w \<Rightarrow> Ok w | None \<Rightarrow> le_http_withdraw L url))"

definition build_withdraw_request_callback_url ::
  "url_lib \<Rightarrow> withdraw_request_response \<Rightarrow> string \<Rightarrow> (string, string) outcome" where
  "build_withdraw_request_callback_url U w invoice =
     omap (\<lambda>_. ul_append_pair U (ul_append_pair U (wr_callback w) ''k1'' (wr_k1 w)) ''pr'' invoice)
       (ul_parse U (wr_callback w))"

text \<open>
  \<open>withdraw\<close>: the invoice is made, but the future that would send it to the callback URL is
  dropped without being awaited. The first component are the callback URLs it is sent to.
\<close>

definition lnurl_withdraw ::
  "lnurl_env \<Rightarrow> (nat \<Rightarrow> string \<Rightarrow> (string, string) outcome) \<Rightarrow> string \<Rightarrow> nat \<Rightarrow> string list \<times> (unit, string) outcome" where
  "lnurl_withdraw L node_invoice lnurl amount =
     ([], obind (get_withdraw_request_response L lnurl) (\<lambda>w.
          obind (node_invoice amount (wr_default_description w)) (\<lambda>bolt11.
          obind (build_withdraw_request_callback_url (le_url L) w bolt11) (\<lambda>_. Ok ()))))"

subsection \<open>Lemmas\<close>

lemma ensure_amount_Ok:
  "ensure_amount_is_within_range resp amount = Ok u \<longleftrightarrow> pr_min_sendable resp \<le> amount \<and> amount \<le> pr_max_sendable resp"
  by (simp add: ensure_amount_is_within_range_def)

lemma validate_invoice_Ok:
  "validate_invoice_from_callback_response L invoice amount metadata = Ok u \<longleftrightarrow>
     (case bi_amount_msat invoice of Some a \<Rightarrow> a | None \<Rightarrow> 0) = amount \<and>
     (case bi_description invoice of DirectDescription d \<Rightarrow> le_sha256 L d | DescriptionHash h \<Rightarrow> h) =
       le_sha256 L metadata"
  by (auto simp: validate_invoice_from_callback_response_def Let_def split: option.splits)

lemma first_identifier_Ok:
  "first_identifier ms = Ok found \<Longrightarrow> found \<noteq> [] \<Longrightarrow>
     \<exists>k vs. (k # found # vs) \<in> set ms \<and> k \<in> {''text/email'', ''text/identifier''}"
  by (induction ms rule: first_identifier.induct) (auto split: if_splits list.splits)

lemma split_on_pair:
  "split_on c s = [u, d] \<longleftrightarrow> s = u @ c # d \<and> c \<notin> set u \<and> c \<notin> set d"
proof
  assume *: "split_on c s = [u, d]"
  have "s = u @ c # d" using join_split_on [of c s] * by simp
  moreover have "c \<notin> set u" "c \<notin> set d" using split_on_no_sep_in [of _ c s] * by simp_all
  ultimately show "s = u @ c # d \<and> c \<notin> set u \<and> c \<notin> set d" by simp
qed (simp add: str_simps)

lemma parse_lightning_address_Ok:
  "parse_lightning_address s = Ok url \<longleftrightarrow>
     (\<exists>u d. s = u @ CHR 0x40 # d \<and> CHR 0x40 \<notin> set u \<and> CHR 0x40 \<notin> set d \<and> u \<noteq> [] \<and> d \<noteq> [] \<and>
        url = ''https://'' @ d @ ''/.well-known/lnurlp/'' @ u)"
proof -
  have "parse_lightning_address s = Ok url \<longleftrightarrow>
     (\<exists>u d. split_on (CHR 0x40) s = [u, d] \<and> u \<noteq> [] \<and> d \<noteq> [] \<and>
        url = ''https://'' @ d @ ''/.well-known/lnurlp/'' @ u)"
    by (auto simp: parse_lightning_address_def split: list.splits)
  then show ?thesis unfolding split_on_pair by blast
qed

lemma bt_pairs_sorted: "bt_sorted m \<Longrightarrow> bt_sorted (fold (\<lambda>(k, v). bt_insert k (f v)) ps m)"
  by (induction ps arbitrary: m) auto

lemma bt_get_pairs:
  "bt_sorted m \<Longrightarrow> bt_get (fold (\<lambda>(k, v). bt_insert k (f v)) ps m) k =
     (case map_of (rev ps) k of Some v \<Rightarrow> Some (f v) | None \<Rightarrow> bt_get m k)"
  by (induction ps arbitrary: m) (auto simp: omap_simps map_add_def split: option.splits)

subsection \<open>An instance\<close>

definition demo_url :: url_lib where
  "demo_url = \<lparr>ul_parse = (\<lambda>u. Ok (Some u)), ul_append_pair = (\<lambda>u k v. u @ k @ v),
     ul_query_pairs = (\<lambda>u. [(''tag'', ''w''), (''callback'', ''c''), (''k1'', ''k''), (''defaultDescription'', ''d''),
       (''minWithdrawable'', ''1''), (''maxWithdrawable'', ''29'')])\<rparr>"

definition demo_lnurl :: lnurl_env where
  "demo_lnurl =
     \<lparr>le_http_pay = (\<lambda>u. Ok \<lparr>pr_callback = ''c'', pr_max_sendable = 9, pr_min_sendable = 1, pr_tag = ''payRequest'',
        pr_metadata = ''m''\<rparr>),
      le_http_callback = (\<lambda>u. Ok ''pr''), le_http_withdraw = (\<lambda>u. Err ''no''), le_bech32 = (\<lambda>s. Err ''no''),
      le_url = demo_url,
      le_invoice = (\<lambda>s. Ok \<lparr>bi_string = s, bi_amount_msat = Some 5, bi_description = DirectDescription ''m''\<rparr>),
      le_sha256 = (\<lambda>s. s), le_metadata = (\<lambda>s. Ok [[''text/email'', ''a@b'']]), le_debug = True\<rparr>"

section \<open>Properties\<close>

text \<open>
  C9: only what was asked for is paid. An invoice \<open>pay\<close> gives to the node is one the service
  sent for a pay request whose range allows the amount, is of exactly the amount, an invoice
  without one counting as zero, and commits to the metadata; for a lightning address the
  metadata names it.
\<close>

theorem lnurl_pays_what_was_asked:
  assumes "bolt11 \<in> set (fst (lnurl_pay L node_pay identifier amount))"
  shows "\<exists>url resp pr invoice ms.
    le_http_pay L url = Ok resp \<and> pr_tag resp = ''payRequest'' \<and>
    pr_min_sendable resp \<le> amount \<and> amount \<le> pr_max_sendable resp \<and>
    le_http_callback L (ul_append_pair (le_url L) (pr_callback resp) ''amount'' (decimal amount)) = Ok pr \<and>
    le_invoice L pr = Ok invoice \<and> bolt11 = bi_string invoice \<and>
    (case bi_amount_msat invoice of Some a \<Rightarrow> a | None \<Rightarrow> 0) = amount \<and>
    (case bi_description invoice of DirectDescription d \<Rightarrow> le_sha256 L d | DescriptionHash h \<Rightarrow> h) =
      le_sha256 L (pr_metadata resp) \<and>
    (if is_lnurl identifier then le_bech32 L identifier = Ok url
     else parse_lightning_address identifier = Ok url \<and> le_metadata L (pr_metadata resp) = Ok ms \<and>
       (\<exists>k vs. (k # identifier # vs) \<in> set ms \<and> k \<in> {''text/email'', ''text/identifier''}))"
proof -
  from assms have "resolve_lnurl_to_invoice L identifier amount = Ok bolt11"
    by (auto simp: lnurl_pay_def split: outcome.splits)
  then obtain url resp pr invoice where
    r: "(if is_lnurl identifier then parse_lnurl L identifier else parse_lightning_address identifier) = Ok url"
    "le_http_pay L url = Ok resp" "validate_pay_request_response L identifier resp amount = Ok ()"
    "build_callback_url L (pr_callback resp) amount =
       Ok (ul_append_pair (le_url L) (pr_callback resp) ''amount'' (decimal amount))"
    "le_http_callback L (ul_append_pair (le_url L) (pr_callback resp) ''amount'' (decimal amount)) = Ok pr"
    "le_invoice L pr = Ok invoice" "bolt11 = bi_string invoice"
    "validate_invoice_from_callback_response L invoice amount (pr_metadata resp) = Ok ()"
    by (auto simp: resolve_lnurl_to_invoice_def obind_eq_Ok parse_invoice_def build_callback_url_def omap_eq_Ok
        split: if_splits)
  from r(3) have v: "pr_tag resp = ''payRequest''" "pr_min_sendable resp \<le> amount" "amount \<le> pr_max_sendable resp"
    by (auto simp: validate_pay_request_response_def obind_eq_Ok ensure_amount_Ok split: if_splits)
  have "\<exists>ms. le_metadata L (pr_metadata resp) = Ok ms \<and>
      (\<exists>k vs. (k # identifier # vs) \<in> set ms \<and> k \<in> {''text/email'', ''text/identifier''})"
    if "\<not> is_lnurl identifier"
  proof -
    from r(3) that obtain ms where "le_metadata L (pr_metadata resp) = Ok ms"
      "first_identifier ms = Ok identifier" "identifier \<noteq> []"
      by (auto simp: validate_pay_request_response_def obind_eq_Ok split: if_splits)
    then show ?thesis using first_identifier_Ok by blast
  qed
  note named = this and invoice_ok = validate_invoice_Ok [THEN iffD1, OF r(8)]
  show ?thesis
  proof (cases "is_lnurl identifier")
    case True
    then show ?thesis using r(1,2,5-7) v invoice_ok
      by (intro exI [of _ url] exI [of _ resp] exI [of _ pr] exI [of _ invoice] exI [of _ "[]"] conjI)
        (simp_all add: parse_lnurl_def)
  next
    case False
    with named obtain ms where "le_metadata L (pr_metadata resp) = Ok ms \<and>
      (\<exists>k vs. (k # identifier # vs) \<in> set ms \<and> k \<in> {''text/email'', ''text/identifier''})" by blast
    with False show ?thesis using r(1,2,5-7) v invoice_ok
      by (intro exI [of _ url] exI [of _ resp] exI [of _ pr] exI [of _ invoice] exI [of _ ms] conjI) simp_all
  qed
qed

theorem lnurl_pays_what_was_asked_witness:
  "fst (lnurl_pay demo_lnurl (\<lambda>b. Ok ()) ''a@b'' 5) = [''pr''] \<and>
     (\<exists>url. parse_lightning_address ''a@b'' = Ok url)"
proof -
  have l: "\<not> is_lnurl ''a@b''" by code_simp
  have p: "fst (lnurl_pay demo_lnurl (\<lambda>b. Ok ()) ''a@b'' 5) = [''pr'']" by code_simp
  then have "''pr'' \<in> set (fst (lnurl_pay demo_lnurl (\<lambda>b. Ok ()) ''a@b'' 5))" by simp
  from lnurl_pays_what_was_asked [OF this] l p show ?thesis by auto
qed

text \<open>
  An invoice without an amount crashes the client. The check of the invoice of the service
  panics exactly if it has no amount and one was asked for; another amount or another hash is
  an error.
\<close>

theorem amountless_invoice_panics:
  "validate_invoice_from_callback_response L invoice amount metadata = Panic \<longleftrightarrow>
     bi_amount_msat invoice = None \<and> amount \<noteq> 0"
  by (auto simp: validate_invoice_from_callback_response_def Let_def split: option.splits)

text \<open>
  A quick withdrawal needs no request. An URL whose query has the fields of a withdraw
  response, the limits in decimal, is read as that response, whatever else it has.
\<close>

theorem quick_withdraw_roundtrip:
  assumes "ul_parse U url = Ok host" "wr_min_withdrawable w < 2 ^ 64" "wr_max_withdrawable w < 2 ^ 64"
    and "q = map_of (rev (ul_query_pairs U url))"
    and "q ''tag'' = Some (wr_tag w)" "q ''callback'' = Some (wr_callback w)" "q ''k1'' = Some (wr_k1 w)"
    and "q ''defaultDescription'' = Some (wr_default_description w)"
    and "q ''minWithdrawable'' = Some (decimal (wr_min_withdrawable w))"
    and "q ''maxWithdrawable'' = Some (decimal (wr_max_withdrawable w))"
  shows "parse_withdraw_request_response_from_url U url = Ok (Some w)"
proof -
  let ?m = "fold (\<lambda>(k, v). bt_insert k (JsonStr v)) (ul_query_pairs U url) []"
  have sorted: "bt_sorted ?m" by (intro bt_pairs_sorted) simp
  have get: "bt_get ?m k = map_option JsonStr (q k)" for k
    by (simp add: bt_get_pairs assms(4) omap_simps split: option.split)
  show ?thesis
    using assms(1-3,5-10) get sorted
    by (simp add: parse_withdraw_request_response_from_url_def Let_def convert_value_field_from_str_to_u64_def
        withdraw_from_value_def parse_unsigned_decimal omap_simps)
qed

theorem quick_withdraw_roundtrip_witness:
  "parse_withdraw_request_response_from_url demo_url ''u'' =
     Ok (Some \<lparr>wr_tag = ''w'', wr_callback = ''c'', wr_k1 = ''k'', wr_default_description = ''d'',
              wr_min_withdrawable = 1, wr_max_withdrawable = 29\<rparr>)"
proof -
  have "decimal 1 = ''1''" "decimal 29 = ''29''" by code_simp+
  then show ?thesis
    by (intro quick_withdraw_roundtrip [where q = "map_of (rev (ul_query_pairs demo_url ''u''))" and host = "Some ''u''"])
      (simp_all add: demo_url_def)
qed

end
