(* ===== verification/NodeStreams.thy ===== *)
theory NodeStreams
  imports PluginHooks TrampPay Lnurl
begin

text \<open>
  What the node streams to its clients (\<open>libs/gl-plugin/src/node/mod.rs\<close>): incoming payments and
  custom messages, which the hooks broadcast, and the lines of the log; further the connection
  to lightningd that is made once, and the answer of a trampoline payment. A broadcast channel
  keeps a bounded number of messages per receiver, one more drops the oldest and makes the next
  read an error; the channel to a client has room for one message. A panic in a task ends the
  plugin, as the profile of the workspace says.
\<close>

subsection \<open>Events\<close>

datatype node_event = StopEvent | RpcCallEvent string | HookEvent plugin_event

text \<open>The room of the events' channel (\<open>bin/plugin.rs\<close>), to which the calls are forwarded too.\<close>

definition EVENT_CAPACITY :: nat where "EVENT_CAPACITY = 16"

record 'e receiver =
  rc_queue :: "'e list"
  rc_lagged :: bool

definition broadcast :: "nat \<Rightarrow> 'e \<Rightarrow> 'e receiver \<Rightarrow> 'e receiver" where
  "broadcast cap e r =
     (if length (rc_queue r) < cap then r\<lparr>rc_queue := rc_queue r @ [e]\<rparr>
      else r\<lparr>rc_queue := tl (rc_queue r) @ [e], rc_lagged := True\<rparr>)"

datatype task_state = Running | Finished | Panicked

text \<open>
  A client that listens: the receiver of its task, the message the task is sending, the channel
  to the client, what the client has taken, and whether it is gone.
\<close>

record 'm listener =
  ls_receiver :: "node_event receiver"
  ls_sending :: "'m option"
  ls_channel :: "'m list"
  ls_taken :: "'m list"
  ls_gone :: bool
  ls_task :: task_state

definition listener_new :: "'m listener" where
  "listener_new =
     \<lparr>ls_receiver = \<lparr>rc_queue = [], rc_lagged = False\<rparr>, ls_sending = None, ls_channel = [], ls_taken = [],
      ls_gone = False, ls_task = Running\<rparr>"

text \<open>
  One turn of the task: a message is sent when there is room, and otherwise the next event is
  read. \<open>select\<close> is the kind that is forwarded, \<open>on_gone\<close> what follows a failed send, \<open>on_end\<close>
  what follows the loop.
\<close>

definition stream_task ::
  "(node_event \<Rightarrow> 'm option) \<Rightarrow> task_state \<Rightarrow> task_state \<Rightarrow> 'm listener \<Rightarrow> 'm listener" where
  "stream_task select on_gone on_end l =
     (if ls_task l \<noteq> Running then l
      else case ls_sending l of
        Some m \<Rightarrow>
          if ls_gone l then l\<lparr>ls_sending := None, ls_task := on_gone\<rparr>
          else if ls_channel l = [] then l\<lparr>ls_sending := None, ls_channel := [m]\<rparr>
          else l
      | None \<Rightarrow>
          if rc_lagged (ls_receiver l) then l\<lparr>ls_task := on_end\<rparr>
          else case rc_queue (ls_receiver l) of
            [] \<Rightarrow> l
          | e # es \<Rightarrow> l\<lparr>ls_receiver := (ls_receiver l)\<lparr>rc_queue := es\<rparr>, ls_sending := select e\<rparr>)"

fun select_payment :: "node_event \<Rightarrow> incoming_payment option" where
  "select_payment (HookEvent (IncomingPaymentEvent p)) = Some p"
| "select_payment _ = None"

fun select_custommsg :: "node_event \<Rightarrow> custommsg option" where
  "select_custommsg (HookEvent (CustomMsgEvent m)) = Some m"
| "select_custommsg _ = None"

text \<open>A failed send of a payment is ignored; that of a custom message breaks the loop, after which there is a panic.\<close>

definition stream_incoming_task :: "incoming_payment listener \<Rightarrow> incoming_payment listener" where
  "stream_incoming_task = stream_task select_payment Running Finished"

definition stream_custommsg_task :: "custommsg listener \<Rightarrow> custommsg listener" where
  "stream_custommsg_task = stream_task select_custommsg Panicked Panicked"

definition client_takes :: "'m listener \<Rightarrow> 'm listener" where
  "client_takes l = l\<lparr>ls_taken := ls_taken l @ ls_channel l, ls_channel := []\<rparr>"

datatype listener_event = Publish node_event | Turn | Take | Leave

fun stream_step :: "('m listener \<Rightarrow> 'm listener) \<Rightarrow> listener_event \<Rightarrow> 'm listener \<Rightarrow> 'm listener" where
  "stream_step task (Publish e) l = l\<lparr>ls_receiver := broadcast EVENT_CAPACITY e (ls_receiver l)\<rparr>"
| "stream_step task Turn l = task l"
| "stream_step task Take l = (if ls_gone l then l else client_takes l)"
| "stream_step task Leave l = l\<lparr>ls_gone := True\<rparr>"

definition stream_run :: "('m listener \<Rightarrow> 'm listener) \<Rightarrow> listener_event list \<Rightarrow> 'm listener \<Rightarrow> 'm listener" where
  "stream_run task steps l = foldl (\<lambda>l s. stream_step task s l) l steps"

fun published :: "listener_event list \<Rightarrow> node_event list" where
  "published [] = []"
| "published (Publish e # ss) = e # published ss"
| "published (_ # ss) = published ss"

subsection \<open>The log\<close>

text \<open>Lines are sent until the log or the client fails; \<open>accepts\<close> tells of each send by its number.\<close>

fun send_lines :: "(nat \<Rightarrow> bool) \<Rightarrow> nat \<Rightarrow> (string, string) outcome list \<Rightarrow> string list \<times> bool" where
  "send_lines accepts n [] = ([], True)"
| "send_lines accepts n (Ok line # ls) =
     (if accepts n then apfst ((#) (trim line)) (send_lines accepts (n + 1) ls) else ([], False))"
| "send_lines accepts n (_ # ls) = ([], False)"

text \<open>What is there and what is added later, read from two files: an end of the second ends the stream.\<close>

definition stream_log ::
  "(unit, string) outcome \<Rightarrow> (unit, string) outcome \<Rightarrow> ((string, string) outcome list, string) outcome
     \<Rightarrow> (string, string) outcome list \<Rightarrow> (nat \<Rightarrow> bool) \<Rightarrow> (string list, nat \<times> string) outcome" where
  "stream_log muxed add_file open_log later accepts =
     omap_err (\<lambda>e. (13, e))
       (obind muxed (\<lambda>_.
        obind add_file (\<lambda>_.
        obind open_log (\<lambda>backlog.
        let (sent, ok) = send_lines accepts 0 backlog in
        Ok (if ok then sent @ fst (send_lines accepts (length sent) later) else sent)))))"

subsection \<open>The connection to lightningd\<close>

text \<open>Attempts follow each other after half a second; the result is with the milliseconds slept.\<close>

definition RPC_POLL_INTERVAL :: nat where "RPC_POLL_INTERVAL = 500"

fun get_rpc_loop :: "('c, string) outcome list \<Rightarrow> nat \<Rightarrow> ('c \<times> nat) option" where
  "get_rpc_loop [] slept = None"
| "get_rpc_loop (Ok client # rs) slept = Some (client, slept)"
| "get_rpc_loop (_ # rs) slept = get_rpc_loop rs (slept + RPC_POLL_INTERVAL)"

definition get_rpc :: "'c option \<Rightarrow> ('c, string) outcome list \<Rightarrow> ('c \<times> nat) option" where
  "get_rpc cell attempts = (case cell of Some c \<Rightarrow> Some (c, 0) | None \<Rightarrow> get_rpc_loop attempts 0)"

subsection \<open>Trampoline payments\<close>

record tramp_response =
  tq_payment_preimage :: bytes
  tq_payment_hash :: bytes
  tq_parts :: nat
  tq_amount_msat :: nat
  tq_amount_sent_msat :: nat
  tq_destination :: bytes

definition node_trampoline_pay ::
  "lightningd \<Rightarrow> bool \<Rightarrow> tramp_request
     \<Rightarrow> sendpay_request list \<times> (tramp_response, trampoline_error_code coded_error) outcome" where
  "node_trampoline_pay ln scid_parses req =
     apsnd (omap (\<lambda>res.
       \<lparr>tq_payment_preimage = pay_preimage res, tq_payment_hash = pay_payment_hash res, tq_parts = pay_parts res,
        tq_amount_msat = pay_amount_msat res, tq_amount_sent_msat = pay_amount_sent_msat res,
        tq_destination = (case pay_destination res of Some d \<Rightarrow> d | None \<Rightarrow> [])\<rparr>))
       (trampolinepay ln scid_parses req)"

subsection \<open>Lemmas\<close>

abbreviation chosen :: "(node_event \<Rightarrow> 'm option) \<Rightarrow> node_event list \<Rightarrow> 'm list" where
  "chosen select es \<equiv> List.map_filter select es"

lemma chosen_simps [simp]:
  "chosen select [] = []"
  "chosen select (e # es) = (case select e of Some m \<Rightarrow> m # chosen select es | None \<Rightarrow> chosen select es)"
  "chosen select (es @ es') = chosen select es @ chosen select es'"
  by (simp_all add: List.map_filter_def split: option.split)

text \<open>What has left the task, and what it is sending.\<close>

definition handed_on :: "'m listener \<Rightarrow> 'm list" where
  "handed_on l = ls_taken l @ ls_channel l @ (case ls_sending l of Some m \<Rightarrow> [m] | None \<Rightarrow> [])"

definition attentive :: "'m listener \<Rightarrow> bool" where
  "attentive l \<longleftrightarrow> ls_task l = Running \<and> \<not> rc_lagged (ls_receiver l) \<and> \<not> ls_gone l"

definition listener_ok :: "(node_event \<Rightarrow> 'm option) \<Rightarrow> node_event list \<Rightarrow> 'm listener \<Rightarrow> bool" where
  "listener_ok select pub l \<longleftrightarrow>
     length (rc_queue (ls_receiver l)) \<le> EVENT_CAPACITY \<and> length (ls_channel l) \<le> 1 \<and>
     prefix (ls_taken l @ ls_channel l) (chosen select pub) \<and>
     (\<not> ls_gone l \<longrightarrow> prefix (handed_on l) (chosen select pub)) \<and>
     (attentive l \<longrightarrow> handed_on l @ chosen select (rc_queue (ls_receiver l)) = chosen select pub)"

lemma listener_ok_new: "listener_ok select [] listener_new"
  by (simp add: listener_ok_def listener_new_def handed_on_def EVENT_CAPACITY_def)

lemma publish_ok:
  assumes "listener_ok select pub l"
  shows "listener_ok select (pub @ [e]) (stream_step task (Publish e) l)"
proof -
  have cap: "0 < EVENT_CAPACITY" by (simp add: EVENT_CAPACITY_def)
  show ?thesis
    using assms cap
    by (auto simp: listener_ok_def broadcast_def handed_on_def attentive_def simp flip: append_assoc
        split: option.split)
qed

lemma prefix_step: "a @ b @ c # d = e \<Longrightarrow> prefix (a @ b @ [c]) e"
  by (auto simp: prefix_def)

lemma turn_ok:
  assumes "listener_ok select pub l"
  shows "listener_ok select pub (stream_task select g f l)"
proof (cases "ls_task l = Running")
  case True
  show ?thesis
  proof (cases "ls_sending l")
    case (Some m)
    then show ?thesis
      using assms True by (auto simp: stream_task_def listener_ok_def handed_on_def attentive_def)
  next
    case None
    then show ?thesis
      using assms True
      by (cases "rc_queue (ls_receiver l)"; cases "select (hd (rc_queue (ls_receiver l)))")
        (auto simp: stream_task_def listener_ok_def handed_on_def attentive_def intro: prefix_step)
  qed
qed (simp add: assms stream_task_def)

lemma client_ok:
  "listener_ok select pub l \<Longrightarrow> listener_ok select pub (stream_step task Take l)"
  "listener_ok select pub l \<Longrightarrow> listener_ok select pub (stream_step task Leave l)"
  by (auto simp: client_takes_def listener_ok_def handed_on_def attentive_def)

lemma run_ok:
  assumes "listener_ok select pub l"
  shows "listener_ok select (pub @ published steps) (stream_run (stream_task select g f) steps l)"
  using assms
proof (induction steps arbitrary: pub l)
  case (Cons s steps)
  have "listener_ok select (pub @ published [s]) (stream_step (stream_task select g f) s l)"
    using publish_ok [OF Cons.prems] turn_ok [OF Cons.prems] client_ok [OF Cons.prems]
    by (cases s) (simp_all del: stream_step.simps, simp)
  from Cons.IH [OF this] show ?case by (cases s) (simp_all add: stream_run_def)
qed (simp add: stream_run_def)

text \<open>A round: the client takes what is there, and the task has two turns.\<close>

definition round_steps :: "listener_event list" where
  "round_steps = [Take, Turn, Turn]"

definition backlog_size :: "'m listener \<Rightarrow> nat" where
  "backlog_size l = 3 * length (rc_queue (ls_receiver l)) + (if ls_sending l = None then 0 else 2) + length (ls_channel l)"

lemma round_attentive:
  assumes "attentive l"
  shows "attentive (stream_run (stream_task select g f) round_steps l) \<and>
    backlog_size (stream_run (stream_task select g f) round_steps l) \<le> backlog_size l - 1"
proof -
  obtain rc sending channel taken gone task where l: "l = \<lparr>ls_receiver = rc, ls_sending = sending, ls_channel = channel,
      ls_taken = taken, ls_gone = gone, ls_task = task\<rparr>" by (cases l)
  obtain queue lag where rc: "rc = \<lparr>rc_queue = queue, rc_lagged = lag\<rparr>" by (cases rc)
  have a: "task = Running" "\<not> lag" "\<not> gone" using assms by (simp_all add: attentive_def l rc)
  show ?thesis
  proof (cases sending)
    case (Some m)
    then show ?thesis using a
      by (cases queue; cases "select (hd queue)")
        (simp_all add: l rc stream_run_def round_steps_def client_takes_def stream_task_def attentive_def backlog_size_def)
  next
    case None
    show ?thesis
    proof (cases queue)
      case Nil
      then show ?thesis using a None
        by (simp add: l rc stream_run_def round_steps_def client_takes_def stream_task_def attentive_def backlog_size_def)
    next
      case (Cons e es)
      then show ?thesis using a None
        by (cases "select e"; cases es; cases "select (hd es)")
          (simp_all add: l rc stream_run_def round_steps_def client_takes_def stream_task_def attentive_def backlog_size_def)
    qed
  qed
qed

lemma stream_run_append: "stream_run task (xs @ ys) l = stream_run task ys (stream_run task xs l)"
  by (simp add: stream_run_def)

lemma rounds_attentive:
  "attentive l \<Longrightarrow> attentive (stream_run (stream_task select g f) (concat (replicate n round_steps)) l) \<and>
    backlog_size (stream_run (stream_task select g f) (concat (replicate n round_steps)) l) \<le> backlog_size l - n"
proof (induction n arbitrary: l)
  case (Suc n)
  let ?l = "stream_run (stream_task select g f) round_steps l"
  have l: "attentive ?l" "backlog_size ?l \<le> backlog_size l - 1" using round_attentive [OF Suc.prems] by simp_all
  from l(2) have "backlog_size ?l - n \<le> backlog_size l - Suc n" by linarith
  with Suc.IH [OF l(1)] show ?case by (auto simp: stream_run_append intro: order_trans)
qed (simp add: stream_run_def)

lemma rounds_publish_nothing: "published (xs @ concat (replicate n round_steps)) = published xs"
proof -
  have "published (xs @ ys) = published xs @ published ys" for xs ys
    by (induction xs rule: published.induct) simp_all
  moreover have "published (concat (replicate n round_steps)) = []"
    by (induction n) (simp_all add: round_steps_def)
  ultimately show ?thesis by simp
qed

text \<open>A client of custom messages that is gone ends the plugin with the next message.\<close>

lemma departed_listener_stops_plugin:
  assumes "ls_task l = Running" "ls_gone l" "ls_sending l = None" "rc_queue (ls_receiver l) = []"
    and "\<not> rc_lagged (ls_receiver l)"
  shows "ls_task (stream_run stream_custommsg_task [Publish (HookEvent (CustomMsgEvent m)), Turn, Turn] l) = Panicked"
  using assms
  by (simp add: stream_run_def broadcast_def EVENT_CAPACITY_def stream_custommsg_task_def stream_task_def)

text \<open>
  So does a stream that is overrun: that of payments ends, that of custom messages ends the
  plugin. It takes more than sixteen events, of any kind, that the task has not read.
\<close>

lemma overrun_ends:
  "ls_task l = Running \<Longrightarrow> ls_sending l = None \<Longrightarrow> rc_lagged (ls_receiver l) \<Longrightarrow> ls_task (stream_incoming_task l) = Finished"
  "ls_task l' = Running \<Longrightarrow> ls_sending l' = None \<Longrightarrow> rc_lagged (ls_receiver l') \<Longrightarrow> ls_task (stream_custommsg_task l') = Panicked"
  by (simp_all add: stream_incoming_task_def stream_custommsg_task_def stream_task_def)

lemma overrun_needs_backlog:
  "rc_lagged (ls_receiver (foldl (\<lambda>l e. stream_step task (Publish e) l) l es)) \<Longrightarrow>
   rc_lagged (ls_receiver l) \<or> EVENT_CAPACITY < length (rc_queue (ls_receiver l)) + length es"
proof (induction es arbitrary: l)
  case (Cons e es)
  let ?l = "stream_step task (Publish e) l"
  from Cons.IH [of ?l] Cons.prems show ?case by (auto simp: broadcast_def split: if_splits)
qed simp

section \<open>Properties\<close>

text \<open>
  C17: payments are streamed in order and once. Whatever the hooks broadcast and whenever the
  client listens or leaves, it has taken the first payments there were; and as long as the
  stream is not overrun, nothing is lost: what it has taken, what is on the way and what is
  still queued are all of them.
\<close>

theorem incoming_payments_in_order:
  fixes steps
  defines "l \<equiv> stream_run stream_incoming_task steps listener_new"
  shows "prefix (ls_taken l) (chosen select_payment (published steps)) \<and>
    (attentive l \<longrightarrow>
      handed_on l @ chosen select_payment (rc_queue (ls_receiver l)) = chosen select_payment (published steps))"
proof -
  have "listener_ok select_payment (published steps) l"
    using run_ok [OF listener_ok_new, of select_payment steps] by (simp add: l_def stream_incoming_task_def)
  then show ?thesis by (auto simp: listener_ok_def dest: append_prefixD)
qed

text \<open>
  C18: a client that keeps reading gets every payment. From every state of a stream that is not
  overrun, with the client still there, at most 51 rounds in which the client reads and the
  task runs bring it all payments that were broadcast.
\<close>

theorem listening_client_gets_payments:
  assumes "l = stream_run stream_incoming_task steps listener_new" "attentive l"
  shows "ls_taken (stream_run stream_incoming_task (concat (replicate 51 round_steps)) l) =
    chosen select_payment (published steps)"
proof -
  let ?rounds = "concat (replicate 51 round_steps)"
  let ?l = "stream_run stream_incoming_task ?rounds l"
  have ok: "listener_ok select_payment (published steps) l"
    using run_ok [OF listener_ok_new, of select_payment steps] by (simp add: assms(1) stream_incoming_task_def)
  then have "backlog_size l \<le> 51"
    by (auto simp: listener_ok_def backlog_size_def EVENT_CAPACITY_def)
  with rounds_attentive [OF assms(2), of select_payment Running Finished 51]
  have quiet: "attentive ?l" "backlog_size ?l = 0" by (simp_all add: stream_incoming_task_def)
  have "?l = stream_run stream_incoming_task (steps @ ?rounds) listener_new"
    by (simp add: assms(1) stream_run_append)
  then have "listener_ok select_payment (published (steps @ ?rounds)) ?l"
    using run_ok [OF listener_ok_new, of select_payment "steps @ ?rounds"] by (simp add: stream_incoming_task_def)
  then show ?thesis
    using quiet unfolding rounds_publish_nothing
    by (auto simp: listener_ok_def handed_on_def backlog_size_def split: if_split_asm)
qed

text \<open>Two payments with a call between them, of which the client has taken none.\<close>

definition demo_payment :: "string \<Rightarrow> incoming_payment" where
  "demo_payment label =
     \<lparr>ip_label = label, ip_preimage = [], ip_amount = 1, ip_extratlvs = [], ip_bolt11 = [], ip_payment_hash = []\<rparr>"

definition demo_steps :: "listener_event list" where
  "demo_steps =
     [Publish (HookEvent (IncomingPaymentEvent (demo_payment ''a''))), Publish (RpcCallEvent ''/cln.Node/Pay''),
      Turn, Turn, Publish (HookEvent (IncomingPaymentEvent (demo_payment ''b'')))]"

lemma demo_attentive: "attentive (stream_run stream_incoming_task demo_steps listener_new)"
  by (simp add: demo_steps_def stream_run_def listener_new_def broadcast_def EVENT_CAPACITY_def
      stream_incoming_task_def stream_task_def attentive_def)

lemma demo_chosen:
  "chosen select_payment (published demo_steps) = [demo_payment ''a'', demo_payment ''b'']"
  by (simp add: demo_steps_def)

theorem incoming_payments_in_order_witness:
  "attentive (stream_run stream_incoming_task demo_steps listener_new) \<and>
   (let l = stream_run stream_incoming_task demo_steps listener_new in
    handed_on l @ chosen select_payment (rc_queue (ls_receiver l)) = [demo_payment ''a'', demo_payment ''b''])"
  using incoming_payments_in_order [of demo_steps] demo_attentive unfolding demo_chosen by (simp add: Let_def)

theorem listening_client_gets_payments_witness:
  "ls_taken (stream_run stream_incoming_task (concat (replicate 51 round_steps))
     (stream_run stream_incoming_task demo_steps listener_new)) = [demo_payment ''a'', demo_payment ''b'']"
  using listening_client_gets_payments [OF refl demo_attentive] unfolding demo_chosen .

end
