(* ===== verification/NodeWrapper.thy ===== *)
theory NodeWrapper
  imports NodeCalls
begin

text \<open>
  The server that stands before lightningd (\<open>libs/gl-plugin/src/node/wrapper.rs\<close>): which calls it
  passes on as they are, which it answers itself, and which it does not have. Calls are named
  like the methods; the tables are in the order of the file. \<open>inner\<close> is the server of
  lightningd's own interface, \<open>own_invoice\<close> the call with route hints, which is in \<open>NodeCalls\<close>.
\<close>

definition node_calls :: "string list" where
  "node_calls =
    [''getinfo'', ''list_offers'', ''offer'', ''bkpr_list_income'', ''list_peers'', ''list_peer_channels'',
     ''list_closed_channels'', ''list_funds'', ''decode_pay'', ''decode'', ''sign_invoice'',
     ''pre_approve_keysend'', ''pre_approve_invoice'', ''send_custom_msg'', ''send_pay'', ''list_channels'',
     ''add_gossip'', ''check_message'', ''close'', ''connect_peer'', ''create_invoice'']"

definition coin_calls :: "string list" where
  "coin_calls =
    [''datastore'', ''create_onion'', ''del_datastore'', ''del_invoice'', ''list_datastore'',
     ''list_invoices'', ''send_onion'', ''list_send_pays'', ''list_transactions'', ''pay'', ''list_nodes'',
     ''wait_any_invoice'', ''wait_invoice'', ''wait_send_pay'', ''wait_block_height'', ''new_addr'',
     ''withdraw'', ''key_send'', ''fund_psbt'', ''send_psbt'', ''sign_psbt'', ''utxo_psbt'']"

definition payment_calls :: "string list" where
  "payment_calls =
    [''tx_discard'', ''tx_prepare'', ''tx_send'', ''disconnect'', ''feerates'', ''fund_channel'',
     ''get_route'', ''list_forwards'', ''list_pays'', ''ping'', ''set_channel'', ''sign_message'', ''stop'',
     ''static_backup'', ''list_htlcs'', ''datastore_usage'', ''fetch_invoice'', ''wait'']"

definition channel_calls :: "string list" where
  "channel_calls =
    [''add_psbt_output'', ''auto_clean_once'', ''auto_clean_status'', ''dev_forget_channel'',
     ''emergency_recover'', ''get_emergency_recover_data'', ''expose_secret'', ''recover'',
     ''recover_channel'', ''create_invoice_request'', ''disable_invoice_request'', ''list_invoice_requests'',
     ''make_secret'', ''del_pay'', ''del_forward'', ''disable_offer'', ''enable_offer'',
     ''fund_channel_cancel'', ''fund_channel_complete'', ''fund_channel_start'', ''get_log'']"

definition plugin_calls :: "string list" where
  "plugin_calls =
    [''funder_update'', ''list_addresses'', ''multi_fund_channel'', ''multi_withdraw'', ''open_channel_abort'',
     ''open_channel_bump'', ''open_channel_init'', ''open_channel_signed'', ''open_channel_update'',
     ''plugin'', ''rene_pay_status'', ''rene_pay'', ''reserve_inputs'', ''send_invoice'', ''set_config'',
     ''set_psbt_version'', ''splice_init'', ''splice_signed'', ''splice_update'', ''dev_splice'',
     ''unreserve_inputs'']"

definition wallet_calls :: "string list" where
  "wallet_calls =
    [''upgrade_wallet'', ''list_configs'', ''help'', ''bkpr_channels_apy'', ''bkpr_dump_income_csv'',
     ''bkpr_inspect'', ''bkpr_list_account_events'', ''bkpr_list_balances'',
     ''bkpr_edit_description_by_outpoint'', ''bkpr_edit_description_by_payment_id'', ''blacklist_rune'',
     ''check_rune'', ''create_rune'', ''show_runes'', ''ask_rene_unreserve'', ''ask_rene_list_layers'',
     ''ask_rene_create_layer'', ''ask_rene_remove_layer'', ''ask_rene_reserve'', ''ask_rene_age'',
     ''get_routes'']"

definition layer_calls :: "string list" where
  "layer_calls =
    [''ask_rene_disable_node'', ''ask_rene_inform_channel'', ''ask_rene_create_channel'',
     ''ask_rene_update_channel'', ''ask_rene_bias_channel'', ''ask_rene_list_reservations'',
     ''inject_payment_onion'', ''inject_onion_message'', ''xpay'']"

definition subscription_calls :: "string list" where
  "subscription_calls =
    [''subscribe_block_added'', ''subscribe_channel_open_failed'', ''subscribe_channel_opened'',
     ''subscribe_connect'', ''subscribe_custom_msg'', ''subscribe_channel_state_changed'']"

definition passed_calls :: "string list" where
  "passed_calls = node_calls @ coin_calls @ payment_calls @ channel_calls @ plugin_calls @ wallet_calls @ layer_calls"

text \<open>The subscriptions are \<open>unimplemented!()\<close>. What is no method is answered by the router.\<close>

definition wrapped_call ::
  "(string \<Rightarrow> 'q \<Rightarrow> ('a, string) outcome) \<Rightarrow> ('q \<Rightarrow> ('a, string) outcome) \<Rightarrow> string \<Rightarrow> 'q \<Rightarrow> ('a, string) outcome" where
  "wrapped_call inner own_invoice m req =
     (if m \<in> set subscription_calls then Panic
      else if m = ''invoice'' then own_invoice req
      else if m \<in> set passed_calls then inner m req
      else Err ''unimplemented'')"

text \<open>
  Greenlight's own methods go to \<open>PluginNodeServer\<close>; only a signer that attaches has an effect
  beside it: once it is recorded, the node reconnects its peers.
\<close>

definition gl_calls :: "string list" where
  "gl_calls =
    [''lsp_invoice'', ''stream_incoming'', ''respond_hsm_request'', ''stream_log'', ''stream_custommsg'', ''configure'',
     ''trampoline_pay'']"

definition wrapped_gl_call ::
  "(string \<Rightarrow> 'q \<Rightarrow> 's \<Rightarrow> ('a, string) outcome \<times> 's) \<Rightarrow> ('s \<Rightarrow> 's) \<Rightarrow> string \<Rightarrow> 'q \<Rightarrow> 's \<Rightarrow> ('a, string) outcome \<times> 's" where
  "wrapped_gl_call server reconnect m req s =
     (if m = ''stream_hsm_requests'' then
        (case server m req s of
           (Panic, s) \<Rightarrow> (Panic, s)
         | (res, s) \<Rightarrow> (res, reconnect s))
      else if m \<in> set gl_calls then server m req s
      else (Err ''unimplemented'', s))"

subsection \<open>Lemmas\<close>

lemma passed_calls_length: "length passed_calls = 133"
  by (simp add: passed_calls_def node_calls_def coin_calls_def payment_calls_def channel_calls_def plugin_calls_def wallet_calls_def layer_calls_def)

text \<open>
  Calls that need a signature are passed on like all others, whether a signer is attached or
  not: the guard the documentation of the wrapper speaks of does not exist.
\<close>

lemma signing_calls_unguarded:
  "m \<in> {''pay'', ''fund_channel'', ''withdraw'', ''close''} \<Longrightarrow> wrapped_call inner own m req = inner m req"
proof -
  have "list_all (\<lambda>m. m \<in> set passed_calls \<and> m \<notin> set subscription_calls \<and> m \<noteq> ''invoice'')
      [''pay'', ''fund_channel'', ''withdraw'', ''close'']"
    by code_simp
  then show "m \<in> {''pay'', ''fund_channel'', ''withdraw'', ''close''} \<Longrightarrow> wrapped_call inner own m req = inner m req"
    unfolding list_all_iff by (auto simp: wrapped_call_def)
qed

lemma subscriptions_panic: "m \<in> set subscription_calls \<Longrightarrow> wrapped_call inner own m req = Panic"
  by (simp add: wrapped_call_def)

end
