(* ===== verification/Pairing.thy ===== *)
theory Pairing
  imports NodeContext
begin

text \<open>
  Pairing of a new device (\<open>libs/gl-client/src/pairing\<close>): the new device asks with a key of
  its own (\<open>new_device.rs\<close>), an attestation device fetches and verifies the data and signs the
  approval (\<open>attestation_device.rs\<close>), and the signer, whose side is in \<open>SignerAuth\<close>, issues the
  rune. X.509, PEM, ECDSA and hex are functions. Characters are bytes here, so the offsets of
  the check of the restrictions are those of ASCII strings. Times are milliseconds.
\<close>

subsection \<open>The new device\<close>

record pair_device_request =
  pd_device_id :: string
  pd_csr :: bytes
  pd_device_name :: string
  pd_description :: string
  pd_restrictions :: string

record pair_device_response =
  pq_device_key :: string
  pq_device_cert :: string
  pq_rune :: string
  pq_creds :: bytes

datatype pairing_session_data =
    PairingQr string | PairingResponse pair_device_response | PairingError string

text \<open>A fresh key: its public part, its PEM and the signing request made with it.\<close>

record device_key =
  dk_public :: bytes
  dk_pem :: string
  dk_csr :: "string \<Rightarrow> (bytes, string) outcome"

definition bound_restrictions :: "string \<Rightarrow> string \<Rightarrow> string" where
  "bound_restrictions device_id restrictions =
     (let restriction = ''pubkey='' @ device_id in
      if restrictions \<noteq> [] then restriction @ ''&'' @ restrictions else restriction)"

definition pair_device_request_of ::
  "(bytes \<Rightarrow> string) \<Rightarrow> device_key \<Rightarrow> string \<Rightarrow> string \<Rightarrow> string \<Rightarrow> (pair_device_request, string) outcome" where
  "pair_device_request_of hex K name description restrictions =
     (let device_id = hex (dk_public K) in
      omap (\<lambda>csr. \<lparr>pd_device_id = device_id, pd_csr = csr, pd_device_name = name,
                   pd_description = description, pd_restrictions = bound_restrictions device_id restrictions\<rparr>)
        (dk_csr K name))"

text \<open>
  What the caller of \<open>pair_device\<close> receives, in order. \<open>creds_with\<close> makes the credentials of
  certificate, key and rune (\<open>Device::with\<close>); the task that panics there sends nothing more.
\<close>

definition pair_device ::
  "(bytes \<Rightarrow> string) \<Rightarrow> (bytes \<Rightarrow> bytes \<Rightarrow> string \<Rightarrow> (bytes, string) outcome) \<Rightarrow> device_key
     \<Rightarrow> (pair_device_request \<Rightarrow> (pair_device_response, string) outcome)
     \<Rightarrow> string \<Rightarrow> string \<Rightarrow> string \<Rightarrow> (pairing_session_data list, string) outcome" where
  "pair_device hex creds_with K server name description restrictions =
     obind (pair_device_request_of hex K name description restrictions) (\<lambda>req.
       Ok (PairingQr (''gl-pairing:'' @ pd_device_id req) #
           (case server req of
              Ok res \<Rightarrow>
                let res = res\<lparr>pq_device_key := dk_pem K\<rparr> in
                (case creds_with (as_bytes (pq_device_cert res)) (as_bytes (pq_device_key res)) (pq_rune res) of
                   Ok creds \<Rightarrow> [PairingResponse (res\<lparr>pq_creds := creds\<rparr>)]
                 | _ \<Rightarrow> [])
            | Err e \<Rightarrow> [PairingError e]
            | Panic \<Rightarrow> [])))"

subsection \<open>The attestation device\<close>

text \<open>
  Fetching the data is tried again until ten seconds are over: \<open>call t\<close> is the answer to a
  call at \<open>t\<close> and the time it took, \<open>wakes t\<close> when a sleep from \<open>t\<close> ends. The result is with
  the time it is there.
\<close>

function pairing_data_loop ::
  "(nat \<Rightarrow> ('a, 'e) outcome \<times> nat) \<Rightarrow> (nat \<Rightarrow> nat) \<Rightarrow> nat \<Rightarrow> nat \<Rightarrow> ('a, 'e) outcome \<times> nat" where
  "pairing_data_loop call wakes deadline now =
     (let (r, d) = call now; t = now + d in
      case r of
        Err e \<Rightarrow> if t < deadline then pairing_data_loop call wakes deadline (max (t + 100) (wakes t)) else (Err e, t)
      | r \<Rightarrow> (r, t))"
  by pat_completeness auto
termination
  by (relation "measure (\<lambda>(_, _, deadline, now). deadline - now)") auto

declare pairing_data_loop.simps [simp del]

definition get_pairing_data ::
  "(nat \<Rightarrow> ('a, 'e) outcome \<times> nat) \<Rightarrow> (nat \<Rightarrow> nat) \<Rightarrow> nat \<Rightarrow> ('a, 'e) outcome \<times> nat" where
  "get_pairing_data call wakes now = pairing_data_loop call wakes (now + 10000) now"

text \<open>\<open>str::matches\<close>, counted: occurrences that do not overlap, from the left.\<close>

function count_matches :: "string \<Rightarrow> string \<Rightarrow> nat" where
  "count_matches pat s =
     (if pat = [] \<or> s = [] then 0
      else if starts_with s pat then Suc (count_matches pat (drop (length pat) s))
      else count_matches pat (tl s))"
  by pat_completeness auto
termination
  by (relation "measure (\<lambda>(_, s). length s)") auto

declare count_matches.simps [simp del]

definition restriction_contains_pubkey_exactly_once :: "string \<Rightarrow> string \<Rightarrow> bool" where
  "restriction_contains_pubkey_exactly_once s pubkey =
     (let search_field = ''pubkey='' @ pubkey in
      case find_str s search_field of
        None \<Rightarrow> False
      | Some index \<Rightarrow>
          if 0 < index \<and> s ! (index - 1) = CHR ''|'' then False
          else
            let end_index = index + length search_field in
            if end_index < length s \<and> s ! end_index = CHR ''|'' then False
            else count_matches search_field s = 1)"

record pairing_data =
  pg_device_id :: string
  pg_csr :: bytes
  pg_restrictions :: string

text \<open>\<open>csr_key\<close> is the key of a signing request, \<open>None\<close> for one that is not of an elliptic curve.\<close>

definition verify_pairing_data ::
  "(bytes \<Rightarrow> (bytes option, string) outcome) \<Rightarrow> (bytes \<Rightarrow> string) \<Rightarrow> pairing_data \<Rightarrow> (unit, string) outcome" where
  "verify_pairing_data csr_key hex data =
     obind (csr_key (pg_csr data)) (\<lambda>key.
     case key of
       Some key \<Rightarrow>
         (let pk = hex key in
          if pk = pg_device_id data \<and>
             restriction_contains_pubkey_exactly_once (pg_restrictions data) (pg_device_id data)
          then Ok ()
          else Err (''device id '' @ pg_device_id data @ '' does not match public key '' @ pk))
     | None \<Rightarrow> Err ''public key is not ecdsa'')"

text \<open>The credentials of the attestation device, and its clock in seconds.\<close>

record attestation_creds =
  at_now :: "(u64, string) outcome"
  at_node_id :: "(bytes, string) outcome"
  at_private_key :: "bytes option"
  at_rune :: string

definition approve_pairing_payload :: "string \<Rightarrow> u64 \<Rightarrow> bytes \<Rightarrow> string \<Rightarrow> string \<Rightarrow> bytes" where
  "approve_pairing_payload device_id timestamp node_id device_name restrs =
     as_bytes device_id @ put_u64 timestamp @ node_id @ as_bytes device_name @ as_bytes restrs"

definition approve_pairing ::
  "auth_lib \<Rightarrow> attestation_creds \<Rightarrow> string \<Rightarrow> string \<Rightarrow> string \<Rightarrow> (approve_pairing_request, string) outcome" where
  "approve_pairing A creds device_id device_name restrs =
     obind (at_now creds) (\<lambda>timestamp.
     obind (at_node_id creds) (\<lambda>node_id.
     let buf = approve_pairing_payload device_id timestamp node_id device_name restrs in
     obind (ok_or ''empty tls private key'' (at_private_key creds)) (\<lambda>tls_key.
     obind (al_pkcs8_keys A tls_key) (\<lambda>keys.
     case keys of
       [] \<Rightarrow> Panic
     | key # _ \<Rightarrow>
         obind (al_from_pkcs8 A key) (\<lambda>(public_key, sign).
         obind (ok_or ''signing failed'' (sign buf)) (\<lambda>sig.
         Ok \<lparr>ap_device_id = device_id, ap_timestamp = timestamp, ap_device_name = device_name,
             ap_restrictions = restrs, ap_sig = sig, ap_pubkey = public_key, ap_rune = at_rune creds\<rparr>))))))"

text \<open>What the signer cuts the restrictions into.\<close>

definition restriction_alternatives :: "string \<Rightarrow> string list list" where
  "restriction_alternatives s = map (split_on (CHR ''|'')) (split_on (CHR ''&'') s)"

subsection \<open>Lemmas\<close>

lemma starts_with_common [simp]: "starts_with (p @ s) (p @ q) \<longleftrightarrow> starts_with s q"
  by (rule starts_with_append)

lemma count_matches_skip: "c \<noteq> hd pat \<Longrightarrow> count_matches pat (c # s) = count_matches pat s"
  by (subst count_matches.simps) (cases pat; simp add: count_matches.simps [of "[]"])

lemma count_matches_prefix: "hd pat \<notin> set u \<Longrightarrow> count_matches pat (u @ s) = count_matches pat s"
  by (induction u) (simp_all add: count_matches_skip [OF not_sym])

lemma count_matches_none: "hd pat \<notin> set s \<Longrightarrow> count_matches pat s = 0"
  using count_matches_prefix [of pat s "[]"] by (simp add: count_matches.simps [of pat "[]"])

lemma count_matches_here: "pat \<noteq> [] \<Longrightarrow> count_matches pat (pat @ s) = Suc (count_matches pat s)"
  by (subst count_matches.simps) simp

lemma find_str_prefix:
  "pat \<noteq> [] \<Longrightarrow> hd pat \<notin> set u \<Longrightarrow> find_str (u @ s) pat = map_option ((+) (length u)) (find_str s pat)"
proof (induction u)
  case Nil
  then show ?case by (simp add: option.map_ident)
next
  case (Cons c u)
  then have "\<not> starts_with (c # u @ s) pat" by (cases pat) auto
  then show ?case using Cons by (simp add: option.map_comp comp_def)
qed

lemma find_str_here: "pat \<noteq> [] \<Longrightarrow> find_str (pat @ s) pat = Some 0"
  by (cases pat) simp_all

lemma omap_as_obind: "omap f r = obind r (\<lambda>a. Ok (f a))"
  by (cases r) simp_all

lemma found_exactly_once:
  assumes "CHR ''p'' \<notin> set w" "w = [] \<or> last w \<noteq> CHR ''|''" "rest = [] \<or> hd rest \<noteq> CHR ''|''"
    and "count_matches (''pubkey='' @ pk) rest = 0"
  shows "restriction_contains_pubkey_exactly_once (w @ (''pubkey='' @ pk) @ rest) pk"
proof -
  define pat where "pat = ''pubkey='' @ pk"
  have pat: "pat \<noteq> []" "hd pat \<notin> set w" using assms(1) by (simp_all add: pat_def)
  have "find_str (w @ pat @ rest) pat = Some (length w)"
    using find_str_prefix [OF pat, of "pat @ rest"] find_str_here [OF pat(1), of rest] by simp
  moreover have "count_matches pat (w @ pat @ rest) = 1"
    using count_matches_prefix [OF pat(2), of "pat @ rest"] count_matches_here [OF pat(1), of rest] assms(4)
    by (simp add: pat_def)
  moreover have "(w @ pat @ rest) ! (length w - 1) = last w" if "w \<noteq> []"
    using that by (simp add: nth_append last_conv_nth)
  moreover have "(w @ pat @ rest) ! (length w + length pat) = hd rest" if "rest \<noteq> []"
    using that by (simp add: nth_append hd_conv_nth)
  ultimately show ?thesis
    using assms(2,3) unfolding restriction_contains_pubkey_exactly_once_def pat_def [symmetric] Let_def
    by auto
qed

subsection \<open>An instance\<close>

definition demo_hex :: "bytes \<Rightarrow> string" where
  "demo_hex b = concat (map (\<lambda>x. if x = 0 then ''00'' else ''ff'') b)"

definition demo_device_key :: device_key where
  "demo_device_key = \<lparr>dk_public = [0], dk_pem = ''pem'', dk_csr = (\<lambda>name. Ok [0])\<rparr>"

definition demo_attestation :: auth_lib where
  "demo_attestation = demo_auth\<lparr>al_from_pkcs8 := (\<lambda>key. Ok (key, \<lambda>d. Some (key @ d)))\<rparr>"

definition demo_attestation_creds :: attestation_creds where
  "demo_attestation_creds = \<lparr>at_now = Ok 1, at_node_id = Ok [2, 3], at_private_key = Some [0], at_rune = ''K''\<rparr>"

section \<open>Properties\<close>

text \<open>
  C20: a paired device gets a rune that is bound to its key. The data of an honest new device
  passes the verification of the attestation device, and the first restriction of the rune the
  signer makes of it has the key of the device as its only alternative.
\<close>

theorem pairing_binds_device_key:
  assumes "pair_device_request_of hex K name description restrictions = Ok req"
    and "csr_key (pd_csr req) = Ok (Some (dk_public K))"
    and "CHR ''&'' \<notin> set (hex (dk_public K))" "CHR ''|'' \<notin> set (hex (dk_public K))"
    and "count_matches (''pubkey='' @ hex (dk_public K)) restrictions = 0"
  shows "verify_pairing_data csr_key hex \<lparr>pg_device_id = pd_device_id req, pg_csr = pd_csr req,
           pg_restrictions = pd_restrictions req\<rparr> = Ok () \<and>
    restriction_alternatives (pd_restrictions req) =
      [''pubkey='' @ hex (dk_public K)] #
      (if restrictions = [] then [] else restriction_alternatives restrictions)"
proof -
  let ?id = "hex (dk_public K)" and ?s = "''pubkey='' @ hex (dk_public K)"
  from assms(1) have req: "pd_device_id req = ?id" "pd_restrictions req = bound_restrictions ?id restrictions"
    by (auto simp: pair_device_request_of_def omap_eq_Ok Let_def)
  have sep: "CHR ''&'' \<notin> set ?s" "CHR ''|'' \<notin> set ?s" using assms(3,4) by simp_all
  let ?rest = "if restrictions = [] then [] else CHR ''&'' # restrictions"
  have "bound_restrictions ?id restrictions = [] @ ?s @ ?rest"
    by (simp add: bound_restrictions_def)
  moreover have "count_matches ?s ?rest = 0"
    using assms(5) count_matches_skip [of "CHR ''&''" ?s restrictions]
    by (simp add: count_matches.simps [of _ "[]"])
  then have "restriction_contains_pubkey_exactly_once ([] @ ?s @ ?rest) ?id"
    by (intro found_exactly_once) simp_all
  ultimately have "restriction_contains_pubkey_exactly_once (bound_restrictions ?id restrictions) ?id"
    by simp
  moreover have "restriction_alternatives (bound_restrictions ?id restrictions) =
      [?s] # (if restrictions = [] then [] else restriction_alternatives restrictions)"
    using sep split_on_append [of "CHR ''&''" ?s restrictions]
    by (simp add: bound_restrictions_def restriction_alternatives_def Let_def split_on_no_sep)
  ultimately show ?thesis using assms(2) req by (simp add: verify_pairing_data_def)
qed

theorem pairing_binds_device_key_witness:
  "\<exists>req. pair_device_request_of demo_hex demo_device_key ''n'' ''d'' ''method=pay'' = Ok req \<and>
     verify_pairing_data (\<lambda>b. Ok (Some b)) demo_hex \<lparr>pg_device_id = pd_device_id req, pg_csr = pd_csr req,
       pg_restrictions = pd_restrictions req\<rparr> = Ok () \<and>
     restriction_alternatives (pd_restrictions req) = [[''pubkey=00''], [''method=pay'']]"
proof -
  let ?req = "\<lparr>pd_device_id = ''00'', pd_csr = [0], pd_device_name = ''n'', pd_description = ''d'',
    pd_restrictions = ''pubkey=00&method=pay''\<rparr> :: pair_device_request"
  have req: "pair_device_request_of demo_hex demo_device_key ''n'' ''d'' ''method=pay'' = Ok ?req"
    by (simp add: pair_device_request_of_def demo_hex_def demo_device_key_def bound_restrictions_def)
  have c: "count_matches (''pubkey='' @ demo_hex (dk_public demo_device_key)) ''method=pay'' = 0"
    by code_simp
  have k: "dk_public demo_device_key = [0]" "demo_hex [0] = ''00''"
    by (simp_all add: demo_device_key_def demo_hex_def)
  from pairing_binds_device_key [OF req _ _ _ c, of "\<lambda>b. Ok (Some b)"] req show ?thesis
    by (simp add: k restriction_alternatives_def)
qed

text \<open>
  C21: the approval reaches the signer. What \<open>approve_pairing\<close> signs is what the signer checks:
  with the node's id on both sides the signature of the approval is accepted, and only the
  rune of the attestation device and the creation of the new one decide.
\<close>

theorem approval_reaches_signer:
  assumes "approve_pairing A creds device_id device_name restrs = Ok req"
    and "at_node_id creds = Ok (signer_node_id signer)"
    and "\<forall>k pk sign m s. al_from_pkcs8 A k = Ok (pk, sign) \<and> sign m = Some s \<longrightarrow> ecdsa_verify cr pk m s"
  shows "process_pairing_approval cr lib signer req_id req =
    obind (omap_err Msg (b64_decode cr (at_rune creds))) (\<lambda>rune.
    obind (verify_rune cr lib signer
             \<lparr>pr_request = [], pr_uri = ''/cln.Node/ApprovePairing'', pr_signature = ap_sig req,
              pr_pubkey = ap_pubkey req, pr_timestamp = ap_timestamp req, pr_rune = rune\<rparr>) (\<lambda>_.
    omap (\<lambda>new_rune. \<lparr>ar_request_id = req_id, ar_device_id = device_id,
                        ar_node_id = signer_node_id signer, ar_rune = new_rune\<rparr>)
      (create_rune lib signer None (restriction_alternatives restrs))))"
proof -
  from assms(1,2) obtain key sign ts pk sig where
    f: "al_from_pkcs8 A key = Ok (pk, sign)"
    "sign (approve_pairing_payload device_id ts (signer_node_id signer) device_name restrs) = Some sig"
    and req: "req = \<lparr>ap_device_id = device_id, ap_timestamp = ts, ap_device_name = device_name,
      ap_restrictions = restrs, ap_sig = sig, ap_pubkey = pk, ap_rune = at_rune creds\<rparr>"
    unfolding approve_pairing_def Let_def obind_eq_Ok by (elim exE conjE) (auto simp: obind_eq_Ok split: list.split_asm)
  then have k: "al_from_pkcs8 A key = Ok (ap_pubkey req, sign)"
    "sign (approve_pairing_payload device_id (ap_timestamp req) (signer_node_id signer) device_name restrs) = Some (ap_sig req)"
    and r: "ap_device_id req = device_id" "ap_device_name req = device_name" "ap_restrictions req = restrs"
    "ap_rune req = at_rune creds"
    by simp_all
  have "pairing_payload signer req =
      approve_pairing_payload device_id (ap_timestamp req) (signer_node_id signer) device_name restrs"
    by (simp add: pairing_payload_def approve_pairing_payload_def r)
  then have "ecdsa_verify cr (ap_pubkey req) (pairing_payload signer req) (ap_sig req)"
    using assms(3) k by metis
  then show ?thesis
    by (simp add: process_pairing_approval_def r restriction_alternatives_def Let_def omap_as_obind)
qed

theorem approval_reaches_signer_witness:
  "\<exists>req. approve_pairing demo_attestation demo_attestation_creds ''d'' ''n'' ''pubkey=00'' = Ok req \<and>
     process_pairing_approval demo_crypto demo_lib demo_signer_id 5 req =
       Ok \<lparr>ar_request_id = 5, ar_device_id = ''d'', ar_node_id = [2, 3], ar_rune = ''K''\<rparr>"
proof -
  obtain req where req: "approve_pairing demo_attestation demo_attestation_creds ''d'' ''n'' ''pubkey=00'' = Ok req"
    "ap_pubkey req = [0]"
    by (simp add: approve_pairing_def demo_attestation_def demo_attestation_creds_def demo_auth_def Let_def)
  have c: "contains_str ''pubkey=00'' ''pubkey=''" by (simp add: contains_str_def)
  have v: "verify_rune demo_crypto demo_lib demo_signer_id
      \<lparr>pr_request = [], pr_uri = ''/cln.Node/ApprovePairing'', pr_signature = s,
       pr_pubkey = [0], pr_timestamp = ts, pr_rune = [75]\<rparr> = Ok ()" for s ts
    by (simp add: verify_rune_def demo_crypto_def demo_lib_def demo_rune_def demo_signer_id_def c
        check_alternative_def key_restriction_def alt_of_def demo_condition_def Let_def)
  have r: "create_rune demo_lib demo_signer_id None [[''pubkey=00'']] = Ok ''K''"
    using demo_restrictions_distinct
    by (simp add: create_rune_def demo_lib_def has_pubkey_field_def key_restriction_def pay_restriction_def alt_of_def)
  have "at_node_id demo_attestation_creds = Ok (signer_node_id demo_signer_id)"
    by (simp add: demo_attestation_creds_def demo_signer_id_def)
  moreover have "\<forall>k pk sign m s. al_from_pkcs8 demo_attestation k = Ok (pk, sign) \<and> sign m = Some s \<longrightarrow>
      ecdsa_verify demo_crypto pk m s"
    by (auto simp: demo_attestation_def demo_crypto_def)
  ultimately have "process_pairing_approval demo_crypto demo_lib demo_signer_id 5 req =
      obind (omap_err Msg (b64_decode demo_crypto (at_rune demo_attestation_creds))) (\<lambda>rune.
      obind (verify_rune demo_crypto demo_lib demo_signer_id
             \<lparr>pr_request = [], pr_uri = ''/cln.Node/ApprovePairing'', pr_signature = ap_sig req,
              pr_pubkey = ap_pubkey req, pr_timestamp = ap_timestamp req, pr_rune = rune\<rparr>) (\<lambda>_.
      omap (\<lambda>new_rune. \<lparr>ar_request_id = 5, ar_device_id = ''d'',
                          ar_node_id = signer_node_id demo_signer_id, ar_rune = new_rune\<rparr>)
        (create_rune demo_lib demo_signer_id None (restriction_alternatives ''pubkey=00''))))"
    by (rule approval_reaches_signer [OF req(1)])
  moreover have "b64_decode demo_crypto (at_rune demo_attestation_creds) = Ok [75]"
    by (simp add: demo_crypto_def)
  ultimately show ?thesis using req v r
    by (simp add: restriction_alternatives_def) (simp add: demo_signer_id_def)
qed

text \<open>
  The verification can pass for a rune that is bound to another key. The check of the
  attestation device looks for the field anywhere: restrictions in which the verified key
  stands in a field of another name, beside an alternative, pass, and the key the rune is
  bound to is one the data does not have to prove.
\<close>

theorem verified_rune_can_bind_other_key:
  assumes "csr_key (pg_csr data) = Ok (Some k)" "pk = hex k" "pg_device_id data = pk"
    and "pg_restrictions data = v @ ''|notpubkey='' @ pk @ ''&pubkey='' @ other"
    and "CHR ''p'' \<notin> set v" "CHR ''&'' \<notin> set v"
    and "\<forall>c \<in> {CHR ''p'', CHR ''&'', CHR ''|''}. c \<notin> set pk \<and> c \<notin> set other" "\<not> starts_with other pk"
  shows "verify_pairing_data csr_key hex data = Ok () \<and>
    restriction_alternatives (pg_restrictions data) =
      [split_on (CHR ''|'') v @ [''notpubkey='' @ pk], [''pubkey='' @ other]]"
proof -
  let ?w = "v @ ''|not''" and ?rest = "''&pubkey='' @ other"
  have "\<not> starts_with (''pubkey='' @ other) (''pubkey='' @ pk)"
    using assms(8) by (simp only: starts_with_common) simp
  then have "count_matches (''pubkey='' @ pk) ?rest = 0"
    using assms(7) count_matches_skip [of "CHR ''&''" "''pubkey='' @ pk" "''pubkey='' @ other"]
      count_matches_none [of "''pubkey='' @ pk" "''ubkey='' @ other"]
    by (simp add: count_matches.simps [of _ "CHR ''p'' # _"])
  then have "restriction_contains_pubkey_exactly_once (?w @ (''pubkey='' @ pk) @ ?rest) pk"
    using assms(5) by (intro found_exactly_once) simp_all
  moreover have r: "pg_restrictions data = ?w @ (''pubkey='' @ pk) @ ?rest" by (simp add: assms(4))
  moreover have "split_on (CHR ''&'') (pg_restrictions data) =
      [v @ ''|notpubkey='' @ pk, ''pubkey='' @ other]"
    using split_on_append [of "CHR ''&''" "v @ ''|notpubkey='' @ pk" "''pubkey='' @ other"] assms(6,7)
    by (simp add: assms(4) split_on_no_sep)
  moreover have "split_on (CHR ''|'') (v @ ''|notpubkey='' @ pk) = split_on (CHR ''|'') v @ [''notpubkey='' @ pk]"
    using assms(7) by (induction v) (auto simp: split_on_no_sep split: list.split)
  moreover have "split_on (CHR ''|'') (''pubkey='' @ other) = [''pubkey='' @ other]"
    using assms(7) by (intro split_on_no_sep) simp
  ultimately show ?thesis using assms(1-3)
    by (simp add: verify_pairing_data_def restriction_alternatives_def)
qed

theorem verified_rune_can_bind_other_key_witness:
  "verify_pairing_data (\<lambda>b. Ok (Some b)) demo_hex \<lparr>pg_device_id = ''00'', pg_csr = [0],
     pg_restrictions = ''time>0|notpubkey=00&pubkey=ff''\<rparr> = Ok () \<and>
   restriction_alternatives ''time>0|notpubkey=00&pubkey=ff'' = [[''time>0'', ''notpubkey=00''], [''pubkey=ff'']]"
proof -
  let ?data = "\<lparr>pg_device_id = ''00'', pg_csr = [0], pg_restrictions = ''time>0|notpubkey=00&pubkey=ff''\<rparr>"
  have "verify_pairing_data (\<lambda>b. Ok (Some b)) demo_hex ?data = Ok () \<and>
    restriction_alternatives (pg_restrictions ?data) =
      [split_on (CHR ''|'') ''time>0'' @ [''notpubkey='' @ ''00''], [''pubkey='' @ ''ff'']]"
    by (rule verified_rune_can_bind_other_key [where k = "[0]"]) (simp_all add: demo_hex_def)
  then show ?thesis by simp
qed

end
