(* ===== verification/Credentials.thy ===== *)
theory Credentials
  imports Pairing
begin

text \<open>
  The credentials of a device (\<open>libs/gl-client/src/credentials.rs\<close> and \<open>utils.rs\<close>) and the
  calls of the scheduler that issue them (\<open>scheduler.rs\<close>): registration and recovery of a
  node, where the signer signs a challenge and makes a rune for the key of the device.
  Protobuf, X.509, hex and the scheduler are functions; so is the encoding of an alternative
  of a rune.
\<close>

subsection \<open>Credentials\<close>

record device =
  dv_version :: nat
  dv_cert :: bytes
  dv_key :: bytes
  dv_ca :: bytes
  dv_rune :: string

record creds_data =
  cd_version :: nat
  cd_cert :: "bytes option"
  cd_key :: "bytes option"
  cd_ca :: "bytes option"
  cd_rune :: "string option"

text \<open>The subject common name of a certificate is missing or the certificate does not parse.\<close>

datatype subject = BadCertificate | NoCommonName | CommonName string

record creds_lib =
  cl_decode :: "bytes \<Rightarrow> creds_data option"
  cl_encode :: "creds_data \<Rightarrow> bytes"
  cl_ca :: "(bytes, string) outcome"
  cl_identity :: "(bytes \<times> bytes, string) outcome"
  cl_subject :: "bytes \<Rightarrow> subject"
  cl_hex_decode :: "string \<Rightarrow> (bytes, string) outcome"
  cl_hex :: "bytes \<Rightarrow> string"
  cl_encode_alternative :: "alternative \<Rightarrow> string"

definition CRED_VERSION :: nat where
  "CRED_VERSION = 1"

definition device_default :: "creds_lib \<Rightarrow> (device, 'e) outcome" where
  "device_default C =
     obind (unwrap_result (cl_ca C)) (\<lambda>ca.
     omap (\<lambda>(cert, key). \<lparr>dv_version = 0, dv_cert = cert, dv_key = key, dv_ca = ca, dv_rune = []\<rparr>)
       (unwrap_result (cl_identity C)))"

definition or_else :: "'a option \<Rightarrow> 'a \<Rightarrow> 'a" where
  "or_else x d = (case x of Some a \<Rightarrow> a | None \<Rightarrow> d)"

definition device_from_bytes :: "creds_lib \<Rightarrow> bytes \<Rightarrow> (device, 'e) outcome" where
  "device_from_bytes C data =
     omap (\<lambda>creds.
       case cl_decode C data of
         None \<Rightarrow> creds
       | Some data \<Rightarrow>
           \<lparr>dv_version = cd_version data, dv_cert = or_else (cd_cert data) (dv_cert creds),
            dv_key = or_else (cd_key data) (dv_key creds), dv_ca = or_else (cd_ca data) (dv_ca creds),
            dv_rune = or_else (cd_rune data) (dv_rune creds)\<rparr>) (device_default C)"

definition device_with :: "creds_lib \<Rightarrow> bytes \<Rightarrow> bytes \<Rightarrow> string \<Rightarrow> (device, 'e) outcome" where
  "device_with C cert key rune =
     omap (\<lambda>ca. \<lparr>dv_version = CRED_VERSION, dv_cert = cert, dv_key = key, dv_ca = ca, dv_rune = rune\<rparr>)
       (unwrap_result (cl_ca C))"

definition device_with_ca :: "bytes \<Rightarrow> device \<Rightarrow> device" where
  "device_with_ca ca d = d\<lparr>dv_ca := ca\<rparr>"

definition device_data :: "device \<Rightarrow> creds_data" where
  "device_data d =
     \<lparr>cd_version = CRED_VERSION, cd_cert = Some (dv_cert d), cd_key = Some (dv_key d), cd_ca = Some (dv_ca d),
      cd_rune = Some (dv_rune d)\<rparr>"

definition device_to_bytes :: "creds_lib \<Rightarrow> device \<Rightarrow> bytes" where
  "device_to_bytes C d = cl_encode C (device_data d)"

definition get_node_id_from_tls_config :: "creds_lib \<Rightarrow> bytes \<Rightarrow> (bytes, string) outcome" where
  "get_node_id_from_tls_config C cert =
     (case cl_subject C cert of
        BadCertificate \<Rightarrow> Err ''The certificate could not be parsed in the x509 format''
      | NoCommonName \<Rightarrow> Err ''Failed to parse the subject common name in the provided x509 certificate''
      | CommonName name \<Rightarrow>
          let parts = split_on (CHR ''/'') name in
          if length parts < 3 then Err (''Could not parse subject common name: '' @ name)
          else if parts ! 1 \<noteq> ''users'' then Err (''Not a users certificate: '' @ name)
          else omap_err (\<lambda>e. ''Unable to decode node_id ('' @ parts ! 2 @ ''): '' @ e) (cl_hex_decode C (parts ! 2)))"

definition device_node_id :: "creds_lib \<Rightarrow> device \<Rightarrow> (bytes, string) outcome" where
  "device_node_id C d =
     omap_err (\<lambda>_. ''node_id could not be retrieved from the certificate'') (get_node_id_from_tls_config C (dv_cert d))"

text \<open>The signer makes a rune with one restriction: the field \<open>pubkey\<close> is the given key.\<close>

definition pubkey_rune ::
  "creds_lib \<Rightarrow> 'r rune_lib \<Rightarrow> 'r signer \<Rightarrow> bytes \<Rightarrow> (string, anyhow_error) outcome" where
  "pubkey_rune C lib signer key =
     obind (omap_err RuneErr (alternative_new lib ''pubkey'' Equal (cl_hex C key) False)) (\<lambda>alt.
       create_rune lib signer None [[cl_encode_alternative C alt]])"

definition device_upgrade ::
  "creds_lib \<Rightarrow> 'r rune_lib \<Rightarrow> 'r signer \<Rightarrow> device \<Rightarrow> (device, anyhow_error) outcome" where
  "device_upgrade C lib signer d =
     (let d = d\<lparr>dv_version := CRED_VERSION\<rparr> in
      if dv_rune d = [] then
        obind (omap_err Msg (device_node_id C d)) (\<lambda>node_id.
        omap (\<lambda>rune. d\<lparr>dv_rune := rune\<rparr>) (pubkey_rune C lib signer node_id))
      else Ok d)"

subsection \<open>Registration and recovery\<close>

datatype challenge_scope = RegisterScope | RecoverScope

record registration_request =
  rq_node_id :: bytes
  rq_bip32_key :: bytes
  rq_network :: string
  rq_challenge :: bytes
  rq_signer_proto :: string
  rq_init_msg :: bytes
  rq_signature :: bytes
  rq_csr :: bytes
  rq_invite_code :: string
  rq_startupmsgs :: "(bytes \<times> bytes) list"

record recovery_request =
  rv_node_id :: bytes
  rv_challenge :: bytes
  rv_signature :: bytes
  rv_csr :: bytes

record registration_response =
  rr_device_cert :: string
  rr_device_key :: string
  rr_rune :: string
  rr_creds :: bytes

text \<open>The scheduler, and what else of the signer is sent to it. \<open>sd_sign\<close> is \<open>sign_challenge\<close>.\<close>

record scheduler =
  sd_challenge :: "challenge_scope \<Rightarrow> bytes \<Rightarrow> (bytes, string) outcome"
  sd_register :: "registration_request \<Rightarrow> (registration_response, string) outcome"
  sd_recover :: "recovery_request \<Rightarrow> (registration_response, string) outcome"
  sd_network :: string
  sd_sign :: "bytes \<Rightarrow> (bytes, string) outcome"
  sd_bip32_key :: bytes
  sd_version :: string
  sd_startupmsgs :: "(bytes \<times> bytes) list"

text \<open>
  What follows the answer of the scheduler: the private key that never left the device is put
  in if the signing request was signed, the signer makes the rune, and the credentials are
  put together.
\<close>

definition issue_credentials ::
  "creds_lib \<Rightarrow> 'r rune_lib \<Rightarrow> 'r signer \<Rightarrow> device_key \<Rightarrow> registration_response
     \<Rightarrow> (registration_response, anyhow_error) outcome" where
  "issue_credentials C lib signer K res =
     (let res = (if rr_device_key res = [] then res\<lparr>rr_device_key := dk_pem K\<rparr> else res) in
      obind (pubkey_rune C lib signer (dk_public K)) (\<lambda>rune.
      obind (device_with C (as_bytes (rr_device_cert res)) (as_bytes (rr_device_key res)) rune) (\<lambda>creds.
      Ok (res\<lparr>rr_rune := rune, rr_creds := device_to_bytes C creds\<rparr>))))"

definition inner_register ::
  "creds_lib \<Rightarrow> 'r rune_lib \<Rightarrow> 'r signer \<Rightarrow> scheduler \<Rightarrow> device_key \<Rightarrow> string
     \<Rightarrow> (registration_response, anyhow_error) outcome" where
  "inner_register C lib signer S K invite_code =
     obind (omap_err Msg (sd_challenge S RegisterScope (signer_node_id signer))) (\<lambda>challenge.
     obind (omap_err Msg (sd_sign S challenge)) (\<lambda>signature.
     obind (omap_err Msg (dk_csr K ''default'')) (\<lambda>csr.
     obind (omap_err Msg (sd_register S
       \<lparr>rq_node_id = signer_node_id signer, rq_bip32_key = sd_bip32_key S, rq_network = sd_network S,
        rq_challenge = challenge, rq_signer_proto = sd_version S, rq_init_msg = signer_init signer,
        rq_signature = signature, rq_csr = csr, rq_invite_code = invite_code,
        rq_startupmsgs = sd_startupmsgs S\<rparr>)) (\<lambda>res.
     issue_credentials C lib signer K res))))"

definition register ::
  "creds_lib \<Rightarrow> 'r rune_lib \<Rightarrow> 'r signer \<Rightarrow> scheduler \<Rightarrow> device_key \<Rightarrow> string option
     \<Rightarrow> (registration_response, anyhow_error) outcome" where
  "register C lib signer S K invite_code = inner_register C lib signer S K (or_else invite_code [])"

text \<open>The name of a recovered device has the first eight bytes of the challenge, which must be there.\<close>

definition recover ::
  "creds_lib \<Rightarrow> 'r rune_lib \<Rightarrow> 'r signer \<Rightarrow> scheduler \<Rightarrow> device_key
     \<Rightarrow> (registration_response, anyhow_error) outcome" where
  "recover C lib signer S K =
     obind (omap_err Msg (sd_challenge S RecoverScope (signer_node_id signer))) (\<lambda>challenge.
     obind (omap_err Msg (sd_sign S challenge)) (\<lambda>signature.
     obind (slice 0 8 challenge) (\<lambda>part.
     obind (omap_err Msg (dk_csr K (''recovered-'' @ cl_hex C part))) (\<lambda>csr.
     obind (omap_err Msg (sd_recover S
       \<lparr>rv_node_id = signer_node_id signer, rv_challenge = challenge, rv_signature = signature, rv_csr = csr\<rparr>)) (\<lambda>res.
     issue_credentials C lib signer K res)))))"

subsection \<open>What is relied on\<close>

text \<open>
  An alternative is what it is made of and is read back from its encoding, a new rune has the
  restrictions it is made with, and the protobuf encoding loses nothing.
\<close>

definition pubkey_alternatives_faithful :: "creds_lib \<Rightarrow> 'r rune_lib \<Rightarrow> bool" where
  "pubkey_alternatives_faithful C lib \<longleftrightarrow>
     (\<forall>v alt. alternative_new lib ''pubkey'' Equal v False = Ok alt \<longrightarrow>
        alt = alt_of ''pubkey'' Equal v \<and>
        restriction_of_str lib (cl_encode_alternative C alt) = Ok \<lparr>alternatives = [alt]\<rparr>)"

definition new_runes_keep :: "'r rune_lib \<Rightarrow> ('r \<Rightarrow> restriction list) \<Rightarrow> bool" where
  "new_runes_keep lib restrictions_of \<longleftrightarrow>
     (\<forall>code rs i v rune. rune_new lib code rs i v = Ok rune \<longrightarrow> set rs \<subseteq> set (restrictions_of rune))"

definition creds_codec :: "creds_lib \<Rightarrow> bool" where
  "creds_codec C \<longleftrightarrow> (\<forall>d. cl_decode C (cl_encode C d) = Some d)"

subsection \<open>Lemmas\<close>

lemma pubkey_rune_restriction:
  assumes "pubkey_rune C lib signer key = Ok s" "pubkey_alternatives_faithful C lib"
    and "new_runes_keep lib restrictions_of" "base64_faithful lib s"
  shows "\<exists>rune. rune_from_base64 lib s = Ok rune \<and>
    \<lparr>alternatives = [alt_of ''pubkey'' Equal (cl_hex C key)]\<rparr> \<in> set (restrictions_of rune)"
proof -
  from assms(1) obtain alt where alt: "alternative_new lib ''pubkey'' Equal (cl_hex C key) False = Ok alt"
    "create_rune lib signer None [[cl_encode_alternative C alt]] = Ok s"
    by (auto simp: pubkey_rune_def obind_eq_Ok)
  with assms(2) have a: "alt = alt_of ''pubkey'' Equal (cl_hex C key)"
    "restriction_of_str lib (cl_encode_alternative C alt) = Ok \<lparr>alternatives = [alt]\<rparr>"
    by (auto simp: pubkey_alternatives_faithful_def)
  from alt(2) a(2) obtain rune where r: "s = rune_to_base64 lib rune"
    "rune_new lib (rune_authcode lib (master_rune signer)) [\<lparr>alternatives = [alt]\<rparr>] (Some (show_nat 0)) (Some RUNE_VERSION) = Ok rune"
    by (auto simp: create_rune_def obind_eq_Ok omap_eq_Ok split: if_splits)
  then have "rune_from_base64 lib s = Ok rune" using assms(4) by (simp add: base64_faithful_def)
  moreover have "\<lparr>alternatives = [alt]\<rparr> \<in> set (restrictions_of rune)"
    using r(2) assms(3) by (force simp: new_runes_keep_def)
  ultimately show ?thesis using a(1) by blast
qed

text \<open>A request that passes with such a rune is signed with the key.\<close>

lemma pubkey_rune_binds:
  assumes "pubkey_rune C lib signer key = Ok s" "pubkey_alternatives_faithful C lib"
    and "new_runes_keep lib restrictions_of" "base64_faithful lib s"
    and "checks_restrictions lib restrictions_of" "faithful_conditions lib"
    and "b64_encode cr (pr_rune r) = s" "authenticated cr lib signer' r"
  shows "hex_of cr (pr_pubkey r) = cl_hex C key"
proof -
  from pubkey_rune_restriction [OF assms(1-4)] obtain rune where
    rune: "rune_from_base64 lib (b64_encode cr (pr_rune r)) = Ok rune"
    "\<lparr>alternatives = [alt_of ''pubkey'' Equal (cl_hex C key)]\<rparr> \<in> set (restrictions_of rune)"
    using assms(7) by auto
  have "verify_rune cr lib signer' r = Ok ()" using assms(8) by (simp add: authenticated_def)
  from verify_rune_restrictions [OF this assms(5) rune] obtain m where
    "check_alternative lib (request_context cr lib r rune m) (alt_of ''pubkey'' Equal (cl_hex C key)) = Ok ()"
    by (metis empty_iff list.set(1) restriction.select_convs(1) set_ConsD)
  then have "condition_check lib (hex_of cr (pr_pubkey r)) (alt_of ''pubkey'' Equal (cl_hex C key)) = Ok ()"
    by (simp add: check_alternative_def request_context_def alt_of_def)
  moreover have "alt_condition (alt_of ''pubkey'' Equal (cl_hex C key)) = Equal" by (simp add: alt_of_def)
  ultimately have "hex_of cr (pr_pubkey r) = alt_value (alt_of ''pubkey'' Equal (cl_hex C key))"
    using assms(6) unfolding faithful_conditions_def by blast
  then show ?thesis by (simp add: alt_of_def)
qed

lemma device_bytes_roundtrip:
  assumes "creds_codec C" "cl_ca C = Ok ca" "cl_identity C = Ok i"
  shows "device_from_bytes C (device_to_bytes C d) = Ok (d\<lparr>dv_version := CRED_VERSION\<rparr>)"
  using assms
  by (cases i) (simp add: device_from_bytes_def device_to_bytes_def device_default_def creds_codec_def device_data_def or_else_def)

subsection \<open>An instance\<close>

text \<open>Restrictions are written as the key they ask for; credentials are the number of a rune.\<close>

definition demo_key_lib :: "restriction list rune_lib" where
  "demo_key_lib = demo_lib\<lparr>restriction_of_str := (\<lambda>s. Ok \<lparr>alternatives = [alt_of ''pubkey'' Equal s]\<rparr>)\<rparr>"

fun demo_opt :: "'a list option \<Rightarrow> ('a \<Rightarrow> u8) \<Rightarrow> bytes" where
  "demo_opt None f = [0]"
| "demo_opt (Some xs) f = concat (map (\<lambda>x. [1, f x]) xs) @ [2]"

fun demo_unopt :: "bytes \<Rightarrow> bytes option \<times> bytes" where
  "demo_unopt [] = (None, [])"
| "demo_unopt (x # b) =
     (if x = 0 then (None, b) else if x = 2 then (Some [], b)
      else case b of [] \<Rightarrow> (None, []) | y # b \<Rightarrow> (case demo_unopt b of (r, rest) \<Rightarrow> (map_option (\<lambda>ys. y # ys) r, rest)))"

lemma demo_unopt_bytes: "demo_unopt (concat (map (\<lambda>x. [1, f x]) xs) @ 2 # rest) = (Some (map f xs), rest)"
  by (induction xs) simp_all

definition demo_creds_lib :: creds_lib where
  "demo_creds_lib =
     \<lparr>cl_decode = (\<lambda>b.
        let (cert, b) = demo_unopt b; (key, b) = demo_unopt b; (ca, b) = demo_unopt b; (rune, b) = demo_unopt b in
        Some \<lparr>cd_version = length b, cd_cert = cert, cd_key = key, cd_ca = ca,
              cd_rune = map_option (map (\<lambda>x. char_of (unat x))) rune\<rparr>),
      cl_encode = (\<lambda>d. demo_opt (cd_cert d) (\<lambda>x. x) @ demo_opt (cd_key d) (\<lambda>x. x) @ demo_opt (cd_ca d) (\<lambda>x. x) @
        demo_opt (cd_rune d) (\<lambda>c. word_of_nat (of_char c)) @ replicate (cd_version d) 0),
      cl_ca = Ok [], cl_identity = Ok ([], []), cl_subject = (\<lambda>c. CommonName ''/users/00''),
      cl_hex_decode = (\<lambda>s. Ok [0]), cl_hex = demo_hex, cl_encode_alternative = alt_value\<rparr>"

lemma demo_unopt_opt: "demo_unopt (demo_opt x f @ rest) = (map_option (map f) x, rest)"
  by (cases x) (simp_all add: demo_unopt_bytes)

lemma demo_creds_codec: "creds_codec demo_creds_lib"
proof -
  have "map (\<lambda>x. char_of (unat x)) (map (\<lambda>c. word_of_nat (of_char c) :: u8) s) = s" for s
    by (induction s) (simp_all add: unat_of_nat)
  then have "map_option (map (\<lambda>x. char_of (unat x))) (map_option (map (\<lambda>c. word_of_nat (of_char c) :: u8)) r) = r" for r
    by (cases r) simp_all
  then show ?thesis
    by (simp add: creds_codec_def demo_creds_lib_def demo_unopt_opt option.map_ident list.map_ident)
qed

lemma demo_key_lib_ok:
  "faithful_conditions demo_key_lib" "checks_restrictions demo_key_lib (\<lambda>r. r)"
  "new_runes_keep demo_key_lib (\<lambda>r. r)" "base64_faithful demo_key_lib ''K''"
  "pubkey_alternatives_faithful demo_creds_lib demo_key_lib"
  using demo_lib_ok demo_restrictions_distinct
  by (simp_all add: demo_key_lib_def faithful_conditions_def checks_restrictions_def new_runes_keep_def
      base64_faithful_def pubkey_alternatives_faithful_def demo_creds_lib_def)
    (auto simp: demo_lib_def demo_rune_def alt_of_def split: if_splits)

definition demo_scheduler :: scheduler where
  "demo_scheduler =
     \<lparr>sd_challenge = (\<lambda>s n. Ok (replicate 32 1)),
      sd_register = (\<lambda>r. Ok \<lparr>rr_device_cert = ''c'', rr_device_key = [], rr_rune = [], rr_creds = []\<rparr>),
      sd_recover = (\<lambda>r. Err ''no''), sd_network = ''bitcoin'', sd_sign = Ok, sd_bip32_key = [], sd_version = ''v'',
      sd_startupmsgs = []\<rparr>"

lemma demo_pubkey_rune: "pubkey_rune demo_creds_lib demo_key_lib demo_signer_id [0] = Ok ''K''"
  by (simp add: pubkey_rune_def demo_creds_lib_def demo_key_lib_def create_rune_def demo_lib_def has_pubkey_field_def
      alt_of_def demo_hex_def key_restriction_def)

section \<open>Properties\<close>

text \<open>
  C14: registration and recovery give a device credentials of its own. The credentials that are
  returned are read back with the certificate and key of the response and the rune, and no
  request passes the signer's authentication with that rune unless it is signed with the key
  that was made on the device.
\<close>

theorem issued_rune_binds_device:
  assumes "register C lib signer S K code = Ok res \<or> recover C lib signer S K = Ok res"
    and "pubkey_alternatives_faithful C lib" "new_runes_keep lib restrictions_of"
    and "checks_restrictions lib restrictions_of" "faithful_conditions lib" "base64_faithful lib (rr_rune res)"
    and "creds_codec C" "cl_identity C = Ok i"
  shows "(\<exists>ca. device_from_bytes C (rr_creds res) =
      (Ok \<lparr>dv_version = CRED_VERSION, dv_cert = as_bytes (rr_device_cert res),
          dv_key = as_bytes (rr_device_key res), dv_ca = ca, dv_rune = rr_rune res\<rparr> :: (device, string) outcome)) \<and>
    (\<forall>cr signer' r. b64_encode cr (pr_rune r) = rr_rune res \<and> authenticated cr lib signer' r \<longrightarrow>
       hex_of cr (pr_pubkey r) = cl_hex C (dk_public K))"
proof -
  from assms(1) obtain answer where "issue_credentials C lib signer K answer = Ok res"
    by (auto simp: register_def inner_register_def recover_def obind_eq_Ok)
  then obtain ca where rune: "pubkey_rune C lib signer (dk_public K) = Ok (rr_rune res)"
    and ca: "cl_ca C = Ok ca"
    and creds: "rr_creds res = device_to_bytes C \<lparr>dv_version = CRED_VERSION, dv_cert = as_bytes (rr_device_cert res),
          dv_key = as_bytes (rr_device_key res), dv_ca = ca, dv_rune = rr_rune res\<rparr>"
    by (cases "cl_ca C") (auto simp: issue_credentials_def device_with_def obind_eq_Ok Let_def)
  have "\<forall>cr signer' r. b64_encode cr (pr_rune r) = rr_rune res \<and> authenticated cr lib signer' r \<longrightarrow>
       hex_of cr (pr_pubkey r) = cl_hex C (dk_public K)"
    using pubkey_rune_binds [OF rune assms(2,3,6,4,5)] by blast
  moreover have "device_from_bytes C (rr_creds res) =
      (Ok \<lparr>dv_version = CRED_VERSION, dv_cert = as_bytes (rr_device_cert res),
          dv_key = as_bytes (rr_device_key res), dv_ca = ca, dv_rune = rr_rune res\<rparr> :: (device, string) outcome)"
    unfolding creds by (simp add: device_bytes_roundtrip [OF assms(7) ca assms(8)])
  ultimately show ?thesis by blast
qed

theorem issued_rune_binds_device_witness:
  "\<exists>res. register demo_creds_lib demo_key_lib demo_signer_id demo_scheduler demo_device_key None = Ok res \<and>
     rr_rune res = ''K'' \<and> rr_device_key res = ''pem'' \<and>
     (\<forall>r. b64_encode demo_crypto (pr_rune r) = ''K'' \<and> authenticated demo_crypto demo_key_lib demo_signer_id r \<longrightarrow>
        hex_of demo_crypto (pr_pubkey r) = ''00'')"
proof -
  have k: "dk_public demo_device_key = [0]" "demo_hex [0] = ''00''" "cl_hex demo_creds_lib = demo_hex"
    by (simp_all add: demo_device_key_def demo_hex_def demo_creds_lib_def)
  obtain res where res: "register demo_creds_lib demo_key_lib demo_signer_id demo_scheduler demo_device_key None = Ok res"
    "rr_rune res = ''K''" "rr_device_key res = ''pem''"
    using demo_pubkey_rune
    by (simp add: register_def inner_register_def issue_credentials_def demo_scheduler_def device_with_def k Let_def)
      (simp add: demo_device_key_def demo_creds_lib_def)
  have i: "cl_identity demo_creds_lib = Ok ([], [])" by (simp add: demo_creds_lib_def)
  have "base64_faithful demo_key_lib (rr_rune res)" using demo_key_lib_ok(4) res(2) by simp
  from issued_rune_binds_device [OF disjI1 [OF res(1)] demo_key_lib_ok(5,3,2,1) this demo_creds_codec i]
  have "\<forall>cr signer' r. b64_encode cr (pr_rune r) = rr_rune res \<and> authenticated cr demo_key_lib signer' r \<longrightarrow>
       hex_of cr (pr_pubkey r) = cl_hex demo_creds_lib (dk_public demo_device_key)" by (rule conjunct2)
  then have "\<forall>r. b64_encode demo_crypto (pr_rune r) = ''K'' \<and> authenticated demo_crypto demo_key_lib demo_signer_id r \<longrightarrow>
        hex_of demo_crypto (pr_pubkey r) = ''00''" unfolding res(2) k by blast
  with res show ?thesis by blast
qed

text \<open>
  Upgraded credentials cannot authenticate. \<open>upgrade\<close> makes the rune for the node id in
  place of the device's key: no request of a device that signs with another key than the
  node's passes the signer's authentication with it.
\<close>

theorem upgraded_rune_authenticates_nothing:
  assumes "device_upgrade C lib signer d = Ok d'" "dv_rune d = []" "device_node_id C d = Ok node_id"
    and "pubkey_alternatives_faithful C lib" "new_runes_keep lib restrictions_of"
    and "checks_restrictions lib restrictions_of" "faithful_conditions lib" "base64_faithful lib (dv_rune d')"
    and "b64_encode cr (pr_rune r) = dv_rune d'" "hex_of cr (pr_pubkey r) \<noteq> cl_hex C node_id"
  shows "\<not> authenticated cr lib signer' r"
proof -
  have "device_node_id C (d\<lparr>dv_version := v\<rparr>) = device_node_id C d" for v by (simp add: device_node_id_def)
  then have "pubkey_rune C lib signer node_id = Ok (dv_rune d')"
    using assms(1-3) by (auto simp: device_upgrade_def omap_eq_Ok Let_def)
  from pubkey_rune_binds [OF this assms(4,5,8,6,7,9)] assms(10) show ?thesis by blast
qed

theorem upgraded_rune_authenticates_nothing_witness:
  "\<exists>d'. device_upgrade demo_creds_lib demo_key_lib demo_signer_id
       \<lparr>dv_version = 0, dv_cert = [], dv_key = [], dv_ca = [], dv_rune = []\<rparr> = Ok d' \<and> dv_rune d' = ''K'' \<and>
     \<not> authenticated demo_crypto demo_key_lib demo_signer_id (demo_pay\<lparr>pr_pubkey := [1], pr_rune := [75]\<rparr>)"
proof -
  let ?d = "\<lparr>dv_version = 0, dv_cert = [], dv_key = [], dv_ca = [], dv_rune = []\<rparr> :: device"
  have n: "device_node_id demo_creds_lib d = Ok [0]" for d
    by (simp add: device_node_id_def get_node_id_from_tls_config_def demo_creds_lib_def Let_def)
  then obtain d' where d': "device_upgrade demo_creds_lib demo_key_lib demo_signer_id ?d = Ok d'" "dv_rune d' = ''K''"
    using demo_pubkey_rune by (simp add: device_upgrade_def Let_def)
  have b: "base64_faithful demo_key_lib (dv_rune d')" using demo_key_lib_ok(4) d'(2) by simp
  have "\<not> authenticated demo_crypto demo_key_lib demo_signer_id (demo_pay\<lparr>pr_pubkey := [1], pr_rune := [75]\<rparr>)"
    by (rule upgraded_rune_authenticates_nothing [OF d'(1) _ n demo_key_lib_ok(5,3,2,1) b])
      (simp_all add: d'(2) demo_crypto_def demo_creds_lib_def demo_hex_def)
  with d' show ?thesis by blast
qed

end
