(* ===== verification/Client.thy ===== *)
theory Client
  imports Credentials
begin

text \<open>
  How a device connects: the TLS settings (\<open>libs/gl-client/src/tls.rs\<close>) and the credentials
  they are made of (\<open>credentials.rs\<close>), the client of the scheduler (\<open>scheduler.rs\<close>), and the
  client of a node with its layer of signatures (\<open>node/mod.rs\<close>, \<open>node/generic.rs\<close>). Environment
  and files are what \<open>host\<close> reads; an endpoint is the settings it is made with. X.509, rcgen, URIs
  and the transport are functions.
\<close>

subsection \<open>TLS settings\<close>

record host =
  ho_env :: "string \<Rightarrow> string option"
  ho_read :: "string \<Rightarrow> (bytes, string) outcome"

text \<open>The certificates that are compiled in.\<close>

record builtin_certs =
  bc_ca :: bytes
  bc_nobody_crt :: bytes
  bc_nobody_key :: bytes

record tls_inner =
  ti_ca :: "bytes option"
  ti_identity :: "(bytes \<times> bytes) option"
  ti_domain :: "string option"

record tls_config =
  tc_inner :: tls_inner
  tc_private_key :: "bytes option"
  tc_ca :: bytes
  tc_cert :: subject

definition tls_load_file_or_default :: "host \<Rightarrow> string \<Rightarrow> bytes \<Rightarrow> bytes" where
  "tls_load_file_or_default H varname dflt =
     (case ho_env H varname of
        Some fname \<Rightarrow> (case ho_read H fname of Ok f \<Rightarrow> f | _ \<Rightarrow> dflt)
      | None \<Rightarrow> dflt)"

definition tls_with :: "creds_lib \<Rightarrow> bytes \<Rightarrow> bytes \<Rightarrow> bytes \<Rightarrow> tls_config" where
  "tls_with C crt key ca_crt =
     \<lparr>tc_inner = \<lparr>ti_ca = Some ca_crt, ti_identity = Some (crt, key), ti_domain = None\<rparr>,
      tc_private_key = Some key, tc_ca = ca_crt, tc_cert = cl_subject C crt\<rparr>"

definition tls_new :: "creds_lib \<Rightarrow> host \<Rightarrow> builtin_certs \<Rightarrow> tls_config" where
  "tls_new C H B =
     (let nobody_crt = tls_load_file_or_default H ''GL_NOBODY_CRT'' (bc_nobody_crt B);
          nobody_key = tls_load_file_or_default H ''GL_NOBODY_KEY'' (bc_nobody_key B);
          ca_crt = tls_load_file_or_default H ''GL_CA_CRT'' (bc_ca B) in
      tls_with C nobody_crt nobody_key ca_crt)"

definition tls_identity :: "creds_lib \<Rightarrow> bytes \<Rightarrow> bytes \<Rightarrow> tls_config \<Rightarrow> tls_config" where
  "tls_identity C cert_pem key_pem t =
     t\<lparr>tc_inner := (tc_inner t)\<lparr>ti_identity := Some (cert_pem, key_pem)\<rparr>,
       tc_private_key := Some key_pem, tc_cert := cl_subject C cert_pem\<rparr>"

definition tls_identity_from_path ::
  "creds_lib \<Rightarrow> host \<Rightarrow> string \<Rightarrow> tls_config \<Rightarrow> (tls_config, string) outcome" where
  "tls_identity_from_path C H path t =
     (let cert_path = path @ ''/client.crt''; key_path = path @ ''/client-key.pem'' in
      obind (omap_err (\<lambda>_. ''Failed to read '' @ CHR 0x27 # cert_path @ [CHR 0x27]) (ho_read H cert_path)) (\<lambda>cert_pem.
      obind (omap_err (\<lambda>_. ''Failed to read '' @ CHR 0x27 # key_path) (ho_read H key_path)) (\<lambda>key_pem.
      Ok (tls_identity C cert_pem key_pem t))))"

definition tls_ca_certificate :: "bytes \<Rightarrow> tls_config \<Rightarrow> tls_config" where
  "tls_ca_certificate ca t = t\<lparr>tc_inner := (tc_inner t)\<lparr>ti_ca := Some ca\<rparr>, tc_ca := ca\<rparr>"

text \<open>
  What \<open>AuthLayer\<close> and \<open>get_node_id_from_tls_config\<close> rely on: the private key and the parsed
  certificate that are kept beside the identity are those of the identity.
\<close>

definition tls_coherent :: "creds_lib \<Rightarrow> tls_config \<Rightarrow> bool" where
  "tls_coherent C t \<longleftrightarrow>
     (\<exists>cert key. ti_identity (tc_inner t) = Some (cert, key) \<and> tc_private_key t = Some key \<and>
        tc_cert t = cl_subject C cert) \<and>
     ti_ca (tc_inner t) = Some (tc_ca t)"

subsection \<open>Credentials\<close>

text \<open>Here a file that is named but cannot be read is an error, which every caller unwraps.\<close>

definition creds_load_file_or_default :: "host \<Rightarrow> string \<Rightarrow> bytes \<Rightarrow> (bytes, string) outcome" where
  "creds_load_file_or_default H varname dflt =
     (case ho_env H varname of
        Some fname \<Rightarrow> ho_read H fname
      | None \<Rightarrow> Ok dflt)"

definition identity_default :: "host \<Rightarrow> builtin_certs \<Rightarrow> (bytes \<times> bytes, string) outcome" where
  "identity_default H B =
     obind (unwrap_result (creds_load_file_or_default H ''GL_NOBODY_KEY'' (bc_nobody_key B))) (\<lambda>key.
     obind (unwrap_result (creds_load_file_or_default H ''GL_NOBODY_CRT'' (bc_nobody_crt B))) (\<lambda>cert.
     Ok (cert, key)))"

record nobody =
  nb_cert :: bytes
  nb_key :: bytes
  nb_ca :: bytes

definition nobody_default :: "host \<Rightarrow> builtin_certs \<Rightarrow> (nobody, string) outcome" where
  "nobody_default H B =
     obind (unwrap_result (creds_load_file_or_default H ''GL_CA_CRT'' (bc_ca B))) (\<lambda>ca.
     obind (identity_default H B) (\<lambda>(cert, key).
     Ok \<lparr>nb_cert = cert, nb_key = key, nb_ca = ca\<rparr>))"

definition nobody_new :: "host \<Rightarrow> builtin_certs \<Rightarrow> (nobody, string) outcome" where
  "nobody_new H B = nobody_default H B"

definition nobody_with :: "host \<Rightarrow> builtin_certs \<Rightarrow> bytes \<Rightarrow> bytes \<Rightarrow> (nobody, string) outcome" where
  "nobody_with H B cert key =
     omap (\<lambda>ca. \<lparr>nb_cert = cert, nb_key = key, nb_ca = ca\<rparr>)
       (unwrap_result (creds_load_file_or_default H ''GL_CA_CRT'' (bc_ca B)))"

definition nobody_with_ca :: "bytes \<Rightarrow> nobody \<Rightarrow> nobody" where
  "nobody_with_ca ca n = n\<lparr>nb_ca := ca\<rparr>"

definition nobody_tls_config :: "creds_lib \<Rightarrow> nobody \<Rightarrow> tls_config" where
  "nobody_tls_config C n = tls_with C (nb_cert n) (nb_key n) (nb_ca n)"

definition device_tls_config :: "creds_lib \<Rightarrow> device \<Rightarrow> tls_config" where
  "device_tls_config C d = tls_with C (dv_cert d) (dv_key d) (dv_ca d)"

definition device_from_path :: "creds_lib \<Rightarrow> host \<Rightarrow> string \<Rightarrow> (device, string) outcome" where
  "device_from_path C H path =
     device_from_bytes C (case ho_read H path of Ok data \<Rightarrow> data | _ \<Rightarrow> [])"

subsection \<open>The certificate of a device\<close>

datatype dn_type =
    CountryName | LocalityName | OrganizationName | StateOrProvinceName | OrganizationalUnitName | CommonNameDn

text \<open>Parameters of a certificate are values of any type \<open>'p\<close>, certificates of any type \<open>'c\<close>.\<close>

record ('p, 'c, 'k) rcgen =
  rg_new :: "string list \<Rightarrow> 'p"
  rg_push :: "dn_type \<Rightarrow> string \<Rightarrow> 'p \<Rightarrow> 'p"
  rg_explicit_no_ca :: "'p \<Rightarrow> 'p"
  rg_key_pair :: "'k option \<Rightarrow> 'p \<Rightarrow> 'p"
  rg_ecdsa_p256 :: "'p \<Rightarrow> 'p"
  rg_from_params :: "'p \<Rightarrow> 'c option"

definition cert_params_from_template :: "('p, 'c, 'k) rcgen \<Rightarrow> string list \<Rightarrow> 'p" where
  "cert_params_from_template R subject_alt_names =
     (let p = rg_new R subject_alt_names;
          p = rg_push R CountryName ''US'' p;
          p = rg_push R LocalityName ''SAN FRANCISCO'' p;
          p = rg_push R OrganizationName ''Blockstream'' p;
          p = rg_push R StateOrProvinceName ''CALIFORNIA'' p in
      rg_push R OrganizationalUnitName ''CertificateAuthority'' p)"

definition generate_self_signed_device_cert ::
  "('p, 'c, 'k) rcgen \<Rightarrow> string \<Rightarrow> string \<Rightarrow> string list \<Rightarrow> 'k option \<Rightarrow> ('c, string) outcome" where
  "generate_self_signed_device_cert R node_id device subject_alt_names key_pair =
     (let p = cert_params_from_template R subject_alt_names;
          p = rg_explicit_no_ca R p;
          p = rg_push R CommonNameDn (''/users/'' @ node_id @ ''/'' @ device) p;
          p = rg_key_pair R key_pair p;
          p = rg_ecdsa_p256 R p in
      unwrap (rg_from_params R p))"

subsection \<open>Endpoints\<close>

text \<open>Seconds of the keep-alive and of its timeout.\<close>

definition TCP_KEEPALIVE :: nat where "TCP_KEEPALIVE = 1"
definition TCP_KEEPALIVE_TIMEOUT :: nat where "TCP_KEEPALIVE_TIMEOUT = 5"

record keepalive =
  ka_tcp :: nat
  ka_http2_interval :: nat
  ka_timeout :: nat
  ka_while_idle :: bool

record endpoint =
  ep_uri :: string
  ep_tls :: tls_inner
  ep_keepalive :: "keepalive option"

record transport =
  tr_uri_host :: "string \<Rightarrow> (string option, string) outcome"
  tr_uri_string :: "string \<Rightarrow> string"
  tr_endpoint :: "string \<Rightarrow> (unit, string) outcome"
  tr_tls :: "tls_inner \<Rightarrow> (unit, string) outcome"
  tr_connect :: "endpoint \<Rightarrow> (unit, string) outcome"

definition endpoint_with :: "transport \<Rightarrow> string \<Rightarrow> tls_inner \<Rightarrow> keepalive option \<Rightarrow> (endpoint, string) outcome" where
  "endpoint_with T uri tls alive =
     obind (tr_endpoint T uri) (\<lambda>_.
     obind (tr_tls T tls) (\<lambda>_.
     Ok \<lparr>ep_uri = uri, ep_tls = tls, ep_keepalive = alive\<rparr>))"

definition client_keepalive :: keepalive where
  "client_keepalive =
     \<lparr>ka_tcp = TCP_KEEPALIVE, ka_http2_interval = TCP_KEEPALIVE, ka_timeout = TCP_KEEPALIVE_TIMEOUT,
      ka_while_idle = True\<rparr>"

definition scheduler_uri :: "host \<Rightarrow> string" where
  "scheduler_uri H =
     (case ho_env H ''GL_SCHEDULER_GRPC_URI'' of Some u \<Rightarrow> u | None \<Rightarrow> ''https://scheduler.gl.blckstrm.com'')"

subsection \<open>The scheduler's client\<close>

text \<open>
  What a device asks of the scheduler, one constructor per method of the service. Credentials
  are of any type \<open>'c\<close>, of which \<open>tls_of\<close> gives the settings; \<open>send\<close> calls a service.
\<close>

datatype scheduler_call =
    ScheduleCall bytes
  | GetNodeInfoCall bytes bool
  | ExportNodeCall
  | ListInviteCodesCall
  | AddOutgoingWebhookCall bytes string
  | ListOutgoingWebhooksCall bytes
  | DeleteOutgoingWebhooksCall bytes "int list"
  | RotateOutgoingWebhookSecretCall bytes int

record 'c sched_client =
  sk_endpoint :: endpoint
  sk_network :: string
  sk_creds :: 'c
  sk_uri :: string
  sk_ca :: bytes

definition scheduler_with ::
  "transport \<Rightarrow> ('c \<Rightarrow> tls_config) \<Rightarrow> string \<Rightarrow> 'c \<Rightarrow> string \<Rightarrow> ('c sched_client, string) outcome" where
  "scheduler_with T tls_of network creds uri =
     omap (\<lambda>ep. \<lparr>sk_endpoint = ep, sk_network = network, sk_creds = creds, sk_uri = uri, sk_ca = tc_ca (tls_of creds)\<rparr>)
       (endpoint_with T uri (tc_inner (tls_of creds)) (Some client_keepalive))"

definition scheduler_new ::
  "transport \<Rightarrow> host \<Rightarrow> ('c \<Rightarrow> tls_config) \<Rightarrow> string \<Rightarrow> 'c \<Rightarrow> ('c sched_client, string) outcome" where
  "scheduler_new T H tls_of network creds = scheduler_with T tls_of network creds (scheduler_uri H)"

definition scheduler_authenticate ::
  "transport \<Rightarrow> ('d \<Rightarrow> tls_config) \<Rightarrow> 'd \<Rightarrow> 'c sched_client \<Rightarrow> ('d sched_client, string) outcome" where
  "scheduler_authenticate T tls_of creds sc =
     omap (\<lambda>ep. \<lparr>sk_endpoint = ep, sk_network = sk_network sc, sk_creds = creds, sk_uri = sk_uri sc, sk_ca = sk_ca sc\<rparr>)
       (endpoint_with T (sk_uri sc) (tc_inner (tls_of creds)) (Some client_keepalive))"

type_synonym 'a scheduler_send = "endpoint \<Rightarrow> scheduler_call \<Rightarrow> ('a, string) outcome"

definition sched_schedule :: "creds_lib \<Rightarrow> 'a scheduler_send \<Rightarrow> device sched_client \<Rightarrow> ('a, string) outcome" where
  "sched_schedule C send sc =
     obind (device_node_id C (sk_creds sc)) (\<lambda>node_id. send (sk_endpoint sc) (ScheduleCall node_id))"

definition sched_get_node_info ::
  "creds_lib \<Rightarrow> 'a scheduler_send \<Rightarrow> bool \<Rightarrow> device sched_client \<Rightarrow> ('a, string) outcome" where
  "sched_get_node_info C send wait sc =
     obind (device_node_id C (sk_creds sc)) (\<lambda>node_id. send (sk_endpoint sc) (GetNodeInfoCall node_id wait))"

definition sched_export_node :: "'a scheduler_send \<Rightarrow> device sched_client \<Rightarrow> ('a, string) outcome" where
  "sched_export_node send sc = send (sk_endpoint sc) ExportNodeCall"

definition sched_get_invite_codes :: "'a scheduler_send \<Rightarrow> device sched_client \<Rightarrow> ('a, string) outcome" where
  "sched_get_invite_codes send sc = send (sk_endpoint sc) ListInviteCodesCall"

definition sched_add_outgoing_webhook ::
  "creds_lib \<Rightarrow> 'a scheduler_send \<Rightarrow> string \<Rightarrow> device sched_client \<Rightarrow> ('a, string) outcome" where
  "sched_add_outgoing_webhook C send uri sc =
     obind (device_node_id C (sk_creds sc)) (\<lambda>node_id. send (sk_endpoint sc) (AddOutgoingWebhookCall node_id uri))"

definition sched_list_outgoing_webhooks ::
  "creds_lib \<Rightarrow> 'a scheduler_send \<Rightarrow> device sched_client \<Rightarrow> ('a, string) outcome" where
  "sched_list_outgoing_webhooks C send sc =
     obind (device_node_id C (sk_creds sc)) (\<lambda>node_id. send (sk_endpoint sc) (ListOutgoingWebhooksCall node_id))"

definition sched_delete_webhooks ::
  "creds_lib \<Rightarrow> 'a scheduler_send \<Rightarrow> int list \<Rightarrow> device sched_client \<Rightarrow> ('a, string) outcome" where
  "sched_delete_webhooks C send webhook_ids sc =
     obind (device_node_id C (sk_creds sc)) (\<lambda>node_id.
       send (sk_endpoint sc) (DeleteOutgoingWebhooksCall node_id webhook_ids))"

definition sched_rotate_outgoing_webhook_secret ::
  "creds_lib \<Rightarrow> 'a scheduler_send \<Rightarrow> int \<Rightarrow> device sched_client \<Rightarrow> ('a, string) outcome" where
  "sched_rotate_outgoing_webhook_secret C send webhook_id sc =
     obind (device_node_id C (sk_creds sc)) (\<lambda>node_id.
       send (sk_endpoint sc) (RotateOutgoingWebhookSecretCall node_id webhook_id))"

subsection \<open>The node's client\<close>

definition DEFAULT_MAX_DECODING_MESSAGE_SIZE :: nat where
  "DEFAULT_MAX_DECODING_MESSAGE_SIZE = 32 * 1024 * 1024"

record node_builder =
  nb_node_id :: bytes
  nb_tls :: tls_config
  nb_rune :: string
  nb_max_size :: "nat option"

record node_client =
  nc_endpoint :: endpoint
  nc_service :: auth_service
  nc_max_size :: nat

definition node_new :: "creds_lib \<Rightarrow> bytes \<Rightarrow> device \<Rightarrow> (node_builder, string) outcome" where
  "node_new C node_id creds =
     Ok \<lparr>nb_node_id = node_id, nb_tls = device_tls_config C creds, nb_rune = dv_rune creds, nb_max_size = None\<rparr>"

definition with_max_decoding_message_size :: "nat \<Rightarrow> node_builder \<Rightarrow> node_builder" where
  "with_max_decoding_message_size sz n = n\<lparr>nb_max_size := Some sz\<rparr>"

text \<open>A host that is not of the gl domain must have the name \<open>localhost\<close> in its certificate.\<close>

definition node_connect ::
  "auth_lib \<Rightarrow> transport \<Rightarrow> string \<Rightarrow> node_builder \<Rightarrow> (node_client, string) outcome" where
  "node_connect A T node_uri n =
     obind (tr_uri_host T node_uri) (\<lambda>host.
     obind (unwrap host) (\<lambda>host.
     let tls = (if starts_with host ''gl'' then nb_tls n
                else (nb_tls n)\<lparr>tc_inner := (tc_inner (nb_tls n))\<lparr>ti_domain := Some ''localhost''\<rparr>\<rparr>) in
     case tc_private_key tls of
       None \<Rightarrow> Err ''Cannot connect a node::Client without first configuring its identity''
     | Some k \<Rightarrow>
         obind (auth_layer_new A k (nb_rune n)) (\<lambda>layer.
         obind (endpoint_with T (tr_uri_string T node_uri) (tc_inner tls) (Some client_keepalive)) (\<lambda>chan.
         Ok \<lparr>nc_endpoint = chan, nc_service = layer,
             nc_max_size = or_else (nb_max_size n) DEFAULT_MAX_DECODING_MESSAGE_SIZE\<rparr>))))"

definition node_schedule_with_uri ::
  "auth_lib \<Rightarrow> transport \<Rightarrow> string scheduler_send \<Rightarrow> string \<Rightarrow> node_builder \<Rightarrow> (node_client, string) outcome" where
  "node_schedule_with_uri A T send uri n =
     obind (endpoint_with T uri (tc_inner (nb_tls n)) None) (\<lambda>channel.
     obind (tr_connect T channel) (\<lambda>_.
     obind (send channel (ScheduleCall (nb_node_id n))) (\<lambda>grpc_uri.
     node_connect A T grpc_uri n)))"

definition node_schedule ::
  "auth_lib \<Rightarrow> transport \<Rightarrow> host \<Rightarrow> string scheduler_send \<Rightarrow> node_builder \<Rightarrow> (node_client, string) outcome" where
  "node_schedule A T H send n = node_schedule_with_uri A T send (scheduler_uri H) n"

text \<open>\<open>Scheduler::node\<close>: scheduled over the scheduler's channel, connected with its credentials.\<close>

definition sched_node ::
  "creds_lib \<Rightarrow> auth_lib \<Rightarrow> transport \<Rightarrow> string scheduler_send \<Rightarrow> device sched_client
     \<Rightarrow> (node_client, string) outcome" where
  "sched_node C A T send sc =
     obind (sched_schedule C send sc) (\<lambda>grpc_uri.
     obind (device_node_id C (sk_creds sc)) (\<lambda>node_id.
     obind (node_new C node_id (sk_creds sc)) (\<lambda>n.
     node_connect A T grpc_uri n)))"

subsection \<open>Calls with encoded messages\<close>

definition vec_encode :: "bytes \<Rightarrow> bytes \<Rightarrow> (bytes, string) outcome" where
  "vec_encode item buf = Ok (buf @ item)"

definition vec_decode :: "bytes \<Rightarrow> (bytes option \<times> bytes, string) outcome" where
  "vec_decode buf = Ok (Some buf, [])"

datatype generic_error = UnknownStatus string | CallStatus string

record grpc_inner =
  gi_ready :: "(unit, string) outcome"
  gi_path :: "string \<Rightarrow> string option"
  gi_unary :: "string \<Rightarrow> bytes \<Rightarrow> (bytes, string) outcome"

text \<open>
  \<open>gi_unary\<close> exchanges what the codec wrote for what it is to read; the codec of this client
  writes the payload and reads everything.
\<close>

definition generic_call :: "grpc_inner \<Rightarrow> string \<Rightarrow> bytes \<Rightarrow> (bytes, generic_error) outcome" where
  "generic_call G path payload =
     obind (omap_err (\<lambda>e. UnknownStatus (''Service was not ready: '' @ e)) (gi_ready G)) (\<lambda>_.
     obind (unwrap (gi_path G path)) (\<lambda>path.
     obind (omap_err CallStatus (vec_encode payload [])) (\<lambda>out.
     obind (omap_err CallStatus (gi_unary G path out)) (\<lambda>answer.
     obind (omap_err CallStatus (vec_decode answer)) (\<lambda>(msg, _).
     unwrap msg)))))"

subsection \<open>Lemmas\<close>

lemma tls_coherent_ops [simp]:
  "tls_coherent C (tls_with C crt key ca)"
  "tls_coherent C (tls_new C H B)"
  "tls_coherent C t \<Longrightarrow> tls_coherent C (tls_identity C cert_pem key_pem t)"
  "tls_coherent C t \<Longrightarrow> tls_coherent C (tls_ca_certificate ca t)"
  "tls_coherent C (nobody_tls_config C n)"
  "tls_coherent C (device_tls_config C d)"
  by (auto simp: tls_coherent_def tls_with_def tls_new_def tls_identity_def tls_ca_certificate_def
      nobody_tls_config_def device_tls_config_def Let_def)

lemma tls_identity_from_path_coherent:
  "tls_identity_from_path C H path t = Ok t' \<Longrightarrow> tls_coherent C t \<Longrightarrow> tls_coherent C t'"
  by (auto simp: tls_identity_from_path_def obind_eq_Ok Let_def)

lemma endpoint_with_Ok:
  "endpoint_with T uri tls alive = Ok ep \<Longrightarrow> ep = \<lparr>ep_uri = uri, ep_tls = tls, ep_keepalive = alive\<rparr>"
  by (auto simp: endpoint_with_def obind_eq_Ok)

definition domain_for :: "string \<Rightarrow> string option \<Rightarrow> string option" where
  "domain_for host domain = (if starts_with host ''gl'' then domain else Some ''localhost'')"

lemma node_connect_Ok:
  assumes "node_connect A T uri n = Ok c"
  obtains k host where "tc_private_key (nb_tls n) = Some k" "auth_layer_new A k (nb_rune n) = Ok (nc_service c)"
    "tr_uri_host T uri = Ok (Some host)"
    "ep_tls (nc_endpoint c) =
      (tc_inner (nb_tls n))\<lparr>ti_domain := domain_for host (ti_domain (tc_inner (nb_tls n)))\<rparr>"
proof -
  from assms obtain host where host: "tr_uri_host T uri = Ok (Some host)"
    by (auto simp: node_connect_def obind_eq_Ok)
  with assms obtain k where k: "tc_private_key (nb_tls n) = Some k"
    by (auto simp: node_connect_def Let_def split: option.split_asm if_split_asm)
  show thesis
    by (rule that [OF k _ host])
      (use assms host k in \<open>auto simp: node_connect_def obind_eq_Ok Let_def domain_for_def
        split: if_split_asm option.split_asm dest!: endpoint_with_Ok\<close>)
qed

text \<open>The two readers of the same variables differ in a file that cannot be read.\<close>

lemma load_file_difference:
  assumes "ho_env H v = Some f" "ho_read H f = Err e"
  shows "creds_load_file_or_default H v d = Err e \<and> tls_load_file_or_default H v d = d"
  using assms by (simp add: creds_load_file_or_default_def tls_load_file_or_default_def)

lemma generic_call_transparent:
  assumes "gi_ready G = Ok ()" "gi_path G path = Some p" "gi_unary G p payload = Ok answer"
  shows "generic_call G path payload = Ok answer"
  using assms by (simp add: generic_call_def vec_encode_def vec_decode_def)

text \<open>What the certificate library is relied on: the common name is the one pushed last.\<close>

definition common_names :: "('p, 'c, 'k) rcgen \<Rightarrow> ('p \<Rightarrow> string option) \<Rightarrow> ('c \<Rightarrow> string option) \<Rightarrow> bool" where
  "common_names R cn_of subject_of \<longleftrightarrow>
     (\<forall>v p. cn_of (rg_push R CommonNameDn v p) = Some v) \<and>
     (\<forall>k p. cn_of (rg_key_pair R k p) = cn_of p) \<and>
     (\<forall>p. cn_of (rg_ecdsa_p256 R p) = cn_of p) \<and>
     (\<forall>p c. rg_from_params R p = Some c \<longrightarrow> subject_of c = cn_of p)"

subsection \<open>An instance\<close>

text \<open>Parameters and certificates are the names in them; a certificate is its common name.\<close>

definition demo_rcgen :: "((dn_type \<times> string) list, (dn_type \<times> string) list, unit) rcgen" where
  "demo_rcgen =
     \<lparr>rg_new = (\<lambda>names. []), rg_push = (\<lambda>t v p. (t, v) # p), rg_explicit_no_ca = (\<lambda>p. p),
      rg_key_pair = (\<lambda>k p. p), rg_ecdsa_p256 = (\<lambda>p. p), rg_from_params = Some\<rparr>"

lemma demo_common_names: "common_names demo_rcgen (\<lambda>p. map_of p CommonNameDn) (\<lambda>p. map_of p CommonNameDn)"
  by (simp add: common_names_def demo_rcgen_def)

definition demo_transport :: transport where
  "demo_transport =
     \<lparr>tr_uri_host = (\<lambda>u. Ok (Some u)), tr_uri_string = (\<lambda>u. u), tr_endpoint = (\<lambda>u. Ok ()),
      tr_tls = (\<lambda>t. Ok ()), tr_connect = (\<lambda>e. Ok ())\<rparr>"

definition demo_device :: device where
  "demo_device = \<lparr>dv_version = 1, dv_cert = [1], dv_key = [2], dv_ca = [3], dv_rune = ''r''\<rparr>"

section \<open>Properties\<close>

text \<open>
  A device is one identity on every layer. Whatever node \<open>Scheduler::node\<close> connects to, the
  TLS identity of the connection is the certificate and key of the device, the authority is
  the device's, the key that signs the payloads is the key of that identity, and the rune is
  the device's; the name in the server's certificate is overridden exactly for hosts outside
  of the gl domain.
\<close>

theorem node_client_is_the_device:
  assumes "sched_node C A T send sc = Ok c"
  shows "\<exists>uri host. tr_uri_host T uri = Ok (Some host) \<and>
    ep_tls (nc_endpoint c) =
      \<lparr>ti_ca = Some (dv_ca (sk_creds sc)), ti_identity = Some (dv_cert (sk_creds sc), dv_key (sk_creds sc)),
       ti_domain = (if starts_with host ''gl'' then None else Some ''localhost'')\<rparr> \<and>
    auth_layer_new A (dv_key (sk_creds sc)) (dv_rune (sk_creds sc)) = Ok (nc_service c)"
proof -
  from assms obtain uri n where n: "node_connect A T uri n = Ok c"
    "nb_tls n = device_tls_config C (sk_creds sc)" "nb_rune n = dv_rune (sk_creds sc)"
    by (auto simp: sched_node_def node_new_def obind_eq_Ok)
  from node_connect_Ok [OF n(1)] obtain host where "tr_uri_host T uri = Ok (Some host)"
    "auth_layer_new A (dv_key (sk_creds sc)) (dv_rune (sk_creds sc)) = Ok (nc_service c)"
    "ep_tls (nc_endpoint c) = \<lparr>ti_ca = Some (dv_ca (sk_creds sc)),
       ti_identity = Some (dv_cert (sk_creds sc), dv_key (sk_creds sc)), ti_domain = domain_for host None\<rparr>"
    unfolding n(2,3) by (auto simp: device_tls_config_def tls_with_def)
  then show ?thesis by (intro exI [of _ uri] exI [of _ host]) (simp add: domain_for_def)
qed

theorem node_client_is_the_device_witness:
  "\<exists>c uri host. sched_node demo_creds_lib demo_auth demo_transport (\<lambda>ep r. Ok ''gl1'')
       \<lparr>sk_endpoint = \<lparr>ep_uri = [], ep_tls = \<lparr>ti_ca = None, ti_identity = None, ti_domain = None\<rparr>, ep_keepalive = None\<rparr>,
        sk_network = [], sk_creds = demo_device, sk_uri = [], sk_ca = []\<rparr> = Ok c \<and>
     ti_identity (ep_tls (nc_endpoint c)) = Some ([1], [2]) \<and> tr_uri_host demo_transport uri = Ok (Some host)"
proof -
  let ?sc = "\<lparr>sk_endpoint = \<lparr>ep_uri = [], ep_tls = \<lparr>ti_ca = None, ti_identity = None, ti_domain = None\<rparr>, ep_keepalive = None\<rparr>,
        sk_network = [], sk_creds = demo_device, sk_uri = [], sk_ca = []\<rparr>"
  let ?r = "sched_node demo_creds_lib demo_auth demo_transport (\<lambda>ep r. Ok ''gl1'') ?sc"
  have "get_node_id_from_tls_config demo_creds_lib [1] = Ok [0]"
    by (simp add: get_node_id_from_tls_config_def demo_creds_lib_def)
  then obtain c where c: "?r = Ok c"
    by (simp add: sched_node_def sched_schedule_def device_node_id_def demo_device_def node_new_def node_connect_def
        device_tls_config_def tls_with_def demo_transport_def auth_layer_new_def demo_auth_def endpoint_with_def)
  from node_client_is_the_device [OF this] obtain uri host where
    "tr_uri_host demo_transport uri = Ok (Some host)"
    "ti_identity (ep_tls (nc_endpoint c)) = Some ([1], [2])"
    by (auto simp: demo_device_def)
  with c show ?thesis by blast
qed

text \<open>
  The certificate of a device names its node. The node id that
  \<open>get_node_id_from_tls_config\<close> reads off a certificate made by
  \<open>generate_self_signed_device_cert\<close> is the one it was made for, whatever the device is called.
\<close>

theorem device_certificate_names_node:
  assumes "generate_self_signed_device_cert R (cl_hex C node_id) device names key_pair = Ok cert"
    and "common_names R cn_of subject_of" "\<forall>n. subject_of cert = Some n \<longrightarrow> cl_subject C pem = CommonName n"
    and "cl_hex_decode C (cl_hex C node_id) = Ok node_id" "CHR ''/'' \<notin> set (cl_hex C node_id)"
  shows "get_node_id_from_tls_config C pem = Ok node_id"
proof -
  from assms(1,2) have "subject_of cert = Some (''/users/'' @ cl_hex C node_id @ ''/'' @ device)"
    unfolding generate_self_signed_device_cert_def Let_def unwrap_eq_Ok common_names_def by metis
  then have "cl_subject C pem = CommonName (''/users/'' @ cl_hex C node_id @ ''/'' @ device)"
    using assms(3) by blast
  moreover have "split_on (CHR ''/'') (''/users/'' @ cl_hex C node_id @ ''/'' @ device) =
      [] # ''users'' # cl_hex C node_id # split_on (CHR ''/'') device"
    using split_on_append [OF assms(5), of device] by simp
  ultimately show ?thesis
    using assms(4) by (simp add: get_node_id_from_tls_config_def Let_def numeral_2_eq_2)
qed

theorem device_certificate_names_node_witness:
  "get_node_id_from_tls_config
     (demo_creds_lib\<lparr>cl_subject := (\<lambda>b. CommonName (map (\<lambda>x. char_of (unat x)) b)),
        cl_hex := (\<lambda>b. ''00'')\<rparr>) (as_bytes ''/users/00/a/b'') = Ok [0]"
proof -
  let ?C = "demo_creds_lib\<lparr>cl_subject := (\<lambda>b. CommonName (map (\<lambda>x. char_of (unat x)) b)), cl_hex := (\<lambda>b. ''00'')\<rparr>"
  let ?cert = "[(CommonNameDn, ''/users/00/a/b''), (OrganizationalUnitName, ''CertificateAuthority''),
    (StateOrProvinceName, ''CALIFORNIA''), (OrganizationName, ''Blockstream''),
    (LocalityName, ''SAN FRANCISCO''), (CountryName, ''US'')]"
  have g: "generate_self_signed_device_cert demo_rcgen (cl_hex ?C [0]) ''a/b'' [] None = Ok ?cert"
    by (simp add: generate_self_signed_device_cert_def cert_params_from_template_def demo_rcgen_def Let_def)
  have b: "map (\<lambda>x. char_of (unat x)) (as_bytes s) = s" for s
    by (induction s) (simp_all add: as_bytes_def unat_of_nat)
  show ?thesis
    by (rule device_certificate_names_node [OF g demo_common_names])
      (simp_all add: b demo_creds_lib_def)
qed

text \<open>
  A device asks the scheduler for its own node only. Every call an authenticated client
  makes goes over the channel with the device's identity, and the node id in it is the one in
  the device's certificate: two schedulers that answer such calls alike cannot be told apart.
\<close>

theorem scheduler_calls_name_own_node:
  assumes "scheduler_with T (device_tls_config C) network d uri = Ok sc \<or>
      scheduler_authenticate T (device_tls_config C) d sc0 = Ok sc"
    and "\<forall>ep call. ti_identity (ep_tls ep) = Some (dv_cert d, dv_key d) \<and>
      (\<forall>n. call \<in> {ScheduleCall n, GetNodeInfoCall n wait, AddOutgoingWebhookCall n hook,
           ListOutgoingWebhooksCall n, DeleteOutgoingWebhooksCall n ids, RotateOutgoingWebhookSecretCall n i}
         \<longrightarrow> get_node_id_from_tls_config C (dv_cert d) = Ok n) \<longrightarrow> send ep call = send' ep call"
  shows "sched_schedule C send sc = sched_schedule C send' sc \<and>
    sched_get_node_info C send wait sc = sched_get_node_info C send' wait sc \<and>
    sched_export_node send sc = sched_export_node send' sc \<and>
    sched_get_invite_codes send sc = sched_get_invite_codes send' sc \<and>
    sched_add_outgoing_webhook C send hook sc = sched_add_outgoing_webhook C send' hook sc \<and>
    sched_list_outgoing_webhooks C send sc = sched_list_outgoing_webhooks C send' sc \<and>
    sched_delete_webhooks C send ids sc = sched_delete_webhooks C send' ids sc \<and>
    sched_rotate_outgoing_webhook_secret C send i sc = sched_rotate_outgoing_webhook_secret C send' i sc"
proof -
  from assms(1) have d: "sk_creds sc = d" "ti_identity (ep_tls (sk_endpoint sc)) = Some (dv_cert d, dv_key d)"
    by (auto simp: scheduler_with_def scheduler_authenticate_def omap_eq_Ok device_tls_config_def tls_with_def
        dest!: endpoint_with_Ok)
  show ?thesis
    using d assms(2)
    by (cases "get_node_id_from_tls_config C (dv_cert d)")
      (simp_all add: sched_schedule_def sched_get_node_info_def sched_export_node_def sched_get_invite_codes_def
        sched_add_outgoing_webhook_def sched_list_outgoing_webhooks_def sched_delete_webhooks_def
        sched_rotate_outgoing_webhook_secret_def device_node_id_def)
qed

theorem scheduler_calls_name_own_node_witness:
  "\<exists>sc. scheduler_with demo_transport (device_tls_config demo_creds_lib) ''bitcoin'' demo_device ''u'' = Ok sc \<and>
     sched_schedule demo_creds_lib (\<lambda>ep c. Ok c) sc =
     sched_schedule demo_creds_lib (\<lambda>ep c. if c = ScheduleCall [1] then Err ''other'' else Ok c) sc"
proof -
  let ?send' = "\<lambda>ep c. if c = ScheduleCall [1] then Err ''other'' else Ok c"
  have n: "get_node_id_from_tls_config demo_creds_lib (dv_cert demo_device) = Ok [0]"
    by (simp add: get_node_id_from_tls_config_def demo_creds_lib_def)
  obtain sc where sc: "scheduler_with demo_transport (device_tls_config demo_creds_lib) ''bitcoin'' demo_device ''u'' = Ok sc"
    by (simp add: scheduler_with_def endpoint_with_def demo_transport_def)
  have "sched_schedule demo_creds_lib (\<lambda>ep c. Ok c) sc = sched_schedule demo_creds_lib ?send' sc"
    by (rule scheduler_calls_name_own_node [where wait = False and hook = "[]" and ids = "[]" and i = 0, OF disjI1 [OF sc], THEN conjunct1]) (auto simp: n)
  with sc show ?thesis by blast
qed

end
