(* ===== verification/PluginStart.thy ===== *)
theory PluginStart
  imports Client Amounts
begin

text \<open>
  The start of the plugin: its configuration from the environment and from files
  (\<open>libs/gl-plugin/src/config.rs\<close>) and the order in which the servers come up
  (\<open>src/bin/plugin.rs\<close>), with the socket at which the plugin waits for the hsmd process (\<open>hsm.rs\<close>)
  and at which that looks for it (\<open>libs/gl-signerproxy/src/hsmproxy.rs\<close>). Parsing of addresses, hex and protobuf, the database and the servers
  are functions; an error is the text of its outermost context.
\<close>

subsection \<open>Networks\<close>

datatype plugin_network = NetBitcoin | NetTestnet | NetRegtest

definition network_of_i16 :: "int \<Rightarrow> (plugin_network, string) outcome" where
  "network_of_i16 i =
     (if i = 0 then Ok NetBitcoin else if i = 1 then Ok NetTestnet else if i = 2 then Ok NetRegtest
      else Err (''Unknown numeric network '' @ (if i < 0 then ''-'' else []) @ decimal (nat \<bar>i\<bar>)))"

definition network_of_string :: "string \<Rightarrow> (plugin_network, string) outcome" where
  "network_of_string s =
     (let l = to_lowercase s in
      if l = ''bitcoin'' then Ok NetBitcoin
      else if l = ''testnet'' then Ok NetTestnet
      else if l = ''regtest'' then Ok NetRegtest
      else Err (''Unknown network '' @ l))"

fun network_display :: "plugin_network \<Rightarrow> string" where
  "network_display NetBitcoin = ''bitcoin''"
| "network_display NetTestnet = ''testnet''"
| "network_display NetRegtest = ''regtest''"

subsection \<open>Configuration\<close>

record 'n plugin_host = host +
  ph_cwd :: "(string, string) outcome"
  ph_canonicalize :: "string \<Rightarrow> (string, string) outcome"
  ph_parse_addr :: "string \<Rightarrow> (string, string) outcome"
  ph_hex_decode :: "string \<Rightarrow> (bytes, string) outcome"
  ph_decode_config :: "bytes \<Rightarrow> ('n, string) outcome"

text \<open>\<open>PathBuf::push\<close>: an absolute path replaces.\<close>

definition push_path :: "string \<Rightarrow> string \<Rightarrow> string" where
  "push_path dir p =
     (if starts_with p ''/'' then p
      else if dir = [] \<or> last dir = CHR ''/'' then dir @ p
      else dir @ ''/'' @ p)"

definition debug_string :: "string \<Rightarrow> string" where
  "debug_string s = CHR 0x22 # s @ [CHR 0x22]"

record plugin_identity =
  pi_cert :: bytes
  pi_key :: bytes
  pi_ca :: bytes

definition identity_from_path :: "'n plugin_host \<Rightarrow> string \<Rightarrow> (plugin_identity, string) outcome" where
  "identity_from_path H path =
     obind (ph_cwd H) (\<lambda>dir.
     let dir = push_path dir (or_else (ho_env H ''GL_CERT_PATH'') ''./certs/'') in
     obind (omap_err (\<lambda>_. ''could not canonicalize GL_CERT_PATH='' @ dir) (ph_canonicalize H dir)) (\<lambda>dir.
     let cacert = push_path dir ''ca.pem'' in
     obind (omap_err (\<lambda>_. ''Could not load CA certificate from '' @ cacert) (ho_read H cacert)) (\<lambda>ca.
     let dir = foldl push_path dir (tl (split_on (CHR ''/'') path));
         client_key_path = dir @ ''-key.pem'';
         client_cert_path = dir @ ''.crt'' in
     obind (omap_err (\<lambda>_. ''could not read client certificate from '' @ debug_string client_cert_path)
             (ho_read H client_cert_path)) (\<lambda>client_cert.
     obind (omap_err (\<lambda>_. ''could not read client key from '' @ debug_string client_key_path)
             (ho_read H client_key_path)) (\<lambda>client_key.
     Ok \<lparr>pi_cert = client_cert, pi_key = client_key, pi_ca = ca\<rparr>)))))"

record node_info =
  ni_node_id :: bytes
  ni_initmsg :: bytes

definition node_info_new :: "'n plugin_host \<Rightarrow> (node_info, string) outcome" where
  "node_info_new H =
     obind (case ho_env H ''GL_NODE_ID'' of
              Some v \<Rightarrow> ph_hex_decode H v
            | None \<Rightarrow> Err ''Environment variable GL_NODE_ID is not set'') (\<lambda>node_id.
     obind (ok_or ''Missing GL_NODE_INIT'' (ho_env H ''GL_NODE_INIT'')) (\<lambda>init.
     obind (omap_err (\<lambda>_. ''Malformed GL_NODE_INIT'') (ph_hex_decode H init)) (\<lambda>initmsg.
     if length node_id \<noteq> 33 then Err ''GL_NODE_ID is not a 33 byte hex-encoded public-key''
     else Ok \<lparr>ni_node_id = node_id, ni_initmsg = initmsg\<rparr>)))"

definition node_config_from_file :: "'n plugin_host \<Rightarrow> string \<Rightarrow> ('n, string) outcome" where
  "node_config_from_file H f =
     obind (ho_read H f) (\<lambda>contents. omap_err (\<lambda>_. ''decoding protobuf payload'') (ph_decode_config H contents))"

record 'n plugin_config =
  pf_identity :: plugin_identity
  pf_hsmd_sock_path :: string
  pf_node_grpc_binding :: string
  pf_node_info :: node_info
  pf_towerd_public_grpc_uri :: "string option"
  pf_clientca :: bytes
  pf_network :: plugin_network
  pf_node_config :: 'n

definition config_new :: "'n plugin_host \<Rightarrow> ('n plugin_config, string) outcome" where
  "config_new H =
     obind (ok_or ''Missing GL_NODE_BIND environment variable'' (ho_env H ''GL_NODE_BIND'')) (\<lambda>addr.
     obind (omap_err (\<lambda>_. ''Could not parse address from GL_BIND_NODE'') (ph_parse_addr H addr)) (\<lambda>binding.
     let towerd = ho_env H ''GL_TOWER_PUBLIC_GRPC_URI'' in
     obind (ok_or ''Missing GL_PLUGIN_CLIENTCA_PATH environment variable'' (ho_env H ''GL_PLUGIN_CLIENTCA_PATH'')) (\<lambda>clientca_path.
     obind (identity_from_path H ''/users/1/server'') (\<lambda>identity.
     obind (ho_read H clientca_path) (\<lambda>clientca.
     obind (ok_or ''Missing GL_NODE_NETWORK'' (ho_env H ''GL_NODE_NETWORK'')) (\<lambda>net.
     obind (omap_err (\<lambda>_. ''Unknown network in GL_NODE_NETWORK'') (network_of_string net)) (\<lambda>net.
     obind (ph_cwd H) (\<lambda>cfg.
     obind (node_config_from_file H (push_path cfg ''node_config.pb'')) (\<lambda>node_config.
     obind (node_info_new H) (\<lambda>info.
     Ok \<lparr>pf_identity = identity, pf_hsmd_sock_path = ''hsmd.sock'', pf_node_grpc_binding = binding, pf_node_info = info,
         pf_towerd_public_grpc_uri = towerd, pf_clientca = clientca, pf_network = net, pf_node_config = node_config\<rparr>))))))))))"

subsection \<open>The start\<close>

text \<open>
  What the start asks of other code: opening the database, spawning the server for the signer,
  making the node server on an address and a socket, registering the hooks, and running, which
  is \<open>None\<close> for a mere \<open>--help\<close>.
\<close>

record ('n, 'd, 's) plugin_start =
  ps_open :: "string \<Rightarrow> ('d, string) outcome"
  ps_spawn_hsm :: "string \<Rightarrow> node_info \<Rightarrow> 'n \<Rightarrow> (unit, string) outcome"
  ps_node_server :: "plugin_identity \<Rightarrow> string \<Rightarrow> 'd \<Rightarrow> ('s, string) outcome"
  ps_wrapped :: "'s \<Rightarrow> (unit, string) outcome"
  ps_tls :: "plugin_identity \<Rightarrow> (unit, string) outcome"
  ps_init :: "(unit, string) outcome"
  ps_start :: "(unit option, string) outcome"
  ps_join :: "(unit, string) outcome"

definition get_signer_store :: "'n plugin_host \<Rightarrow> ('n, 'd, 's) plugin_start \<Rightarrow> ('d, string) outcome" where
  "get_signer_store H P = obind (ph_cwd H) (\<lambda>dir. ps_open P (push_path dir ''signer_state''))"

definition start_hsm_server :: "('n, 'd, 's) plugin_start \<Rightarrow> 'n plugin_config \<Rightarrow> (unit, string) outcome" where
  "start_hsm_server P config = ps_spawn_hsm P (pf_hsmd_sock_path config) (pf_node_info config) (pf_node_config config)"

definition start_node_server ::
  "'n plugin_host \<Rightarrow> ('n, 'd, 's) plugin_start \<Rightarrow> 'n plugin_config \<Rightarrow> 'd \<Rightarrow> (unit, string) outcome" where
  "start_node_server H P config store =
     obind (omap_err (\<lambda>_. ''parsing the node_grpc_binding'') (ph_parse_addr H (pf_node_grpc_binding config))) (\<lambda>addr.
     obind (unwrap_result (ph_cwd H)) (\<lambda>rpc_path.
     obind (ps_node_server P (pf_identity config) (push_path rpc_path ''lightning-rpc'') store) (\<lambda>server.
     obind (omap_err (\<lambda>_. ''creating cln_grpc::pb::node_server::NodeServer instance'') (ps_wrapped P server)) (\<lambda>_.
     obind (ps_tls P (pf_identity config)) (\<lambda>_.
     ps_wrapped P server)))))"

definition plugin_main :: "'n plugin_host \<Rightarrow> ('n, 'd, 's) plugin_start \<Rightarrow> (unit, string) outcome" where
  "plugin_main H P =
     obind (ph_cwd H) (\<lambda>_.
     obind (omap_err (\<lambda>_. ''loading config'') (config_new H)) (\<lambda>config.
     obind (get_signer_store H P) (\<lambda>store.
     obind (start_hsm_server P config) (\<lambda>_.
     obind (start_node_server H P config store) (\<lambda>_.
     obind (ps_init P) (\<lambda>_.
     obind (ps_start P) (\<lambda>plugin.
     case plugin of Some _ \<Rightarrow> ps_join P | None \<Rightarrow> Ok ())))))))"

subsection \<open>The socket of the signer proxy\<close>

record socket_files =
  sf_parent :: "string \<Rightarrow> string option"
  sf_create_dir_all :: "string \<Rightarrow> (unit, string) outcome"
  sf_exists :: "string \<Rightarrow> bool"
  sf_remove :: "string \<Rightarrow> (unit, string) outcome"
  sf_bind :: "string \<Rightarrow> (unit, string) outcome"
  sf_serve :: "string \<Rightarrow> (unit, string) outcome"
  sf_connect :: "string \<Rightarrow> (unit, string) outcome"

definition hsm_socket_path :: "'n plugin_host \<Rightarrow> string \<Rightarrow> (string, string) outcome" where
  "hsm_socket_path H sock =
     omap (\<lambda>cwd. push_path (push_path [] cwd) sock) (unwrap_result (ph_cwd H))"

text \<open>A socket that is left over is removed before the new one is bound.\<close>

definition hsm_server_run :: "'n plugin_host \<Rightarrow> socket_files \<Rightarrow> string \<Rightarrow> (unit, string) outcome" where
  "hsm_server_run H F sock =
     obind (hsm_socket_path H sock) (\<lambda>path.
     obind (unwrap (sf_parent F path)) (\<lambda>parent.
     obind (sf_create_dir_all F parent) (\<lambda>_.
     obind (if sf_exists F path then omap_err (\<lambda>_. ''removing stale hsmd socket'') (sf_remove F path) else Ok ()) (\<lambda>_.
     obind (sf_bind F path) (\<lambda>_.
     omap_err (\<lambda>_. ''serving HsmServer interface'') (sf_serve F path))))))"

definition get_sock_path :: "'n plugin_host \<Rightarrow> string" where
  "get_sock_path H = or_else (ho_env H ''HSMD_SOCK_PATH'') ''hsmd.sock''"

definition proxy_socket_path :: "'n plugin_host \<Rightarrow> (string, string) outcome" where
  "proxy_socket_path H =
     (let sock_path = get_sock_path H in
      if starts_with sock_path ''/'' then Ok (push_path [] sock_path)
      else omap (\<lambda>cwd. push_path (push_path [] cwd) sock_path) (unwrap_result (ph_cwd H)))"

definition grpc_connect :: "'n plugin_host \<Rightarrow> socket_files \<Rightarrow> (unit, string) outcome" where
  "grpc_connect H F =
     obind (proxy_socket_path H) (\<lambda>path.
     omap_err (\<lambda>_. ''could not connect to the socket file'') (sf_connect F path))"

text \<open>\<open>serve\<close> is the handling of requests from the socket of lightningd.\<close>

definition proxy_run ::
  "'n plugin_host \<Rightarrow> socket_files \<Rightarrow> string list \<Rightarrow> (string, string) outcome \<Rightarrow> (unit, string) outcome
     \<Rightarrow> string list \<times> (unit, string) outcome" where
  "proxy_run H F args version serve =
     (if length args = 2 \<and> args ! 1 = ''--version'' then
        (case version of Ok v \<Rightarrow> ([v], Ok ()) | _ \<Rightarrow> ([], Panic))
      else ([], obind (grpc_connect H F) (\<lambda>_. serve)))"

subsection \<open>Lemmas\<close>

lemma network_roundtrip: "network_of_string (network_display n) = Ok n"
proof -
  have "to_lowercase ''bitcoin'' = ''bitcoin''" "to_lowercase ''testnet'' = ''testnet''" "to_lowercase ''regtest'' = ''regtest''"
    by code_simp+
  then show ?thesis by (cases n) (simp_all add: network_of_string_def)
qed

lemma identity_paths:
  "dir \<noteq> [] \<Longrightarrow> last dir \<noteq> CHR ''/'' \<Longrightarrow>
   foldl push_path dir (tl (split_on (CHR ''/'') ''/users/1/server'')) = dir @ ''/users/1/server''"
  by (simp add: push_path_def)

lemma config_node_id: "config_new H = Ok c \<Longrightarrow> length (ni_node_id (pf_node_info c)) = 33"
  by (auto simp: config_new_def node_info_new_def obind_eq_Ok Let_def split: if_split_asm)

text \<open>
  The server for the signer is there before the gRPC interface, and neither is without a
  configuration that is complete: without one, nothing is opened or started.
\<close>

lemma start_needs_config:
  assumes "config_new H = Err e"
  shows "plugin_main H P = plugin_main H P'"
  using assms by (cases "ph_cwd H") (simp_all add: plugin_main_def)

text \<open>In one directory, and without a variable for it, plugin and proxy mean the same socket.\<close>

lemma one_socket:
  assumes "config_new H = Ok c" "ph_cwd H = Ok cwd" "ph_cwd H' = Ok cwd" "ho_env H' ''HSMD_SOCK_PATH'' = None"
  shows "proxy_socket_path H' = hsm_socket_path H (pf_hsmd_sock_path c)"
proof -
  have "pf_hsmd_sock_path c = ''hsmd.sock''"
    using assms(1) by (auto simp: config_new_def obind_eq_Ok Let_def)
  then show ?thesis using assms(2-4)
    by (simp add: proxy_socket_path_def hsm_socket_path_def get_sock_path_def or_else_def)
qed

end
