(* ===== verification/Json.thy ===== *)
theory Json
  imports Prelude
begin

text \<open>
  JSON values (\<open>serde_json::Value\<close>) and what a derived \<open>Serialize\<close> or \<open>Deserialize\<close> of a struct
  stands for. The build does not enable the feature \<open>preserve_order\<close> of serde_json, so that the
  map of an object is a \<open>BTreeMap\<close>: its fields have different names and stand in the order of
  their names, whatever the order of insertion. Values are written through \<open>to_value\<close>. A number is an unsigned or a negative integer or a float, and floats are of any type \<open>'f\<close>. A
  struct is read the way the derived code does: entry by entry in the order of the object, each
  into the field of its name, and after the last entry the first required field that was not
  there is the error. A struct is also read from an array, field by field. The tag of a tagged
  enum is read from a string; that serde takes an object with one entry too is left out.
\<close>

datatype 'f json =
    JNull | JBool bool | JPos u64 | JNeg int | JFloat 'f | JStr string
  | JArr "'f json list" | JObj "(string \<times> 'f json) list"

datatype serde_error =
    InvalidType | InvalidValue | InvalidLength nat
  | MissingField string | UnknownField string | UnknownVariant string | Custom string

subsection \<open>Readers\<close>

fun string_of_json :: "'f json \<Rightarrow> (string, serde_error) outcome" where
  "string_of_json (JStr s) = Ok s"
| "string_of_json _ = Err InvalidType"

fun bool_of_json :: "'f json \<Rightarrow> (bool, serde_error) outcome" where
  "bool_of_json (JBool b) = Ok b"
| "bool_of_json _ = Err InvalidType"

fun u64_of_json :: "'f json \<Rightarrow> (u64, serde_error) outcome" where
  "u64_of_json (JPos n) = Ok n"
| "u64_of_json (JNeg i) = Err InvalidValue"
| "u64_of_json _ = Err InvalidType"

definition u32_of_json :: "'f json \<Rightarrow> (u32, serde_error) outcome" where
  "u32_of_json j =
     obind (u64_of_json j) (\<lambda>n. if unat n < 2 ^ 32 then Ok (ucast n) else Err InvalidValue)"

text \<open>A float is read from integers too; the conversions are those of the machine.\<close>

record 'f floats =
  fl_of_u64 :: "u64 \<Rightarrow> 'f"
  fl_of_i64 :: "int \<Rightarrow> 'f"
  fl_finite :: "'f \<Rightarrow> bool"

fun f64_of_json :: "'f floats \<Rightarrow> 'f json \<Rightarrow> ('f, serde_error) outcome" where
  "f64_of_json F (JFloat x) = Ok x"
| "f64_of_json F (JPos n) = Ok (fl_of_u64 F n)"
| "f64_of_json F (JNeg i) = Ok (fl_of_i64 F i)"
| "f64_of_json F _ = Err InvalidType"

fun option_of_json :: "('f json \<Rightarrow> ('a, serde_error) outcome) \<Rightarrow> 'f json \<Rightarrow> ('a option, serde_error) outcome" where
  "option_of_json d JNull = Ok None"
| "option_of_json d j = omap Some (d j)"

fun each :: "('a \<Rightarrow> ('b, 'e) outcome) \<Rightarrow> 'a list \<Rightarrow> ('b list, 'e) outcome" where
  "each d [] = Ok []"
| "each d (x # xs) = obind (d x) (\<lambda>y. omap ((#) y) (each d xs))"

fun list_of_json :: "('f json \<Rightarrow> ('a, serde_error) outcome) \<Rightarrow> 'f json \<Rightarrow> ('a list, serde_error) outcome" where
  "list_of_json d (JArr js) = each d js"
| "list_of_json d _ = Err InvalidType"

fun map_of_json :: "'f json \<Rightarrow> ((string \<times> 'f json) list, serde_error) outcome" where
  "map_of_json (JObj es) = Ok es"
| "map_of_json _ = Err InvalidType"

subsection \<open>Structs\<close>

text \<open>A field: its name, whether it must be there, and how its value gets into the struct.\<close>

record ('f, 'r) field_reader =
  fr_name :: string
  fr_required :: bool
  fr_read :: "'f json \<Rightarrow> 'r \<Rightarrow> ('r, serde_error) outcome"

definition field ::
  "string \<Rightarrow> ('f json \<Rightarrow> ('a, serde_error) outcome) \<Rightarrow> (('a \<Rightarrow> 'a) \<Rightarrow> 'r \<Rightarrow> 'r) \<Rightarrow> ('f, 'r) field_reader" where
  "field n d upd = \<lparr>fr_name = n, fr_required = True, fr_read = (\<lambda>j r. omap (\<lambda>a. upd (\<lambda>_. a) r) (d j))\<rparr>"

definition opt_field ::
  "string \<Rightarrow> ('f json \<Rightarrow> ('a, serde_error) outcome) \<Rightarrow> (('a option \<Rightarrow> 'a option) \<Rightarrow> 'r \<Rightarrow> 'r)
     \<Rightarrow> ('f, 'r) field_reader" where
  "opt_field n d upd =
     \<lparr>fr_name = n, fr_required = False, fr_read = (\<lambda>j r. omap (\<lambda>a. upd (\<lambda>_. a) r) (option_of_json d j))\<rparr>"

fun read_entries ::
  "bool \<Rightarrow> ('f, 'r) field_reader list \<Rightarrow> (string \<times> 'f json) list \<Rightarrow> 'r \<Rightarrow> ('r, serde_error) outcome" where
  "read_entries strict fs [] r = Ok r"
| "read_entries strict fs ((k, v) # es) r =
     (case find (\<lambda>f. fr_name f = k) fs of
        None \<Rightarrow> if strict then Err (UnknownField k) else read_entries strict fs es r
      | Some f \<Rightarrow> obind (fr_read f v r) (read_entries strict fs es))"

fun read_elements ::
  "nat \<Rightarrow> ('f, 'r) field_reader list \<Rightarrow> 'f json list \<Rightarrow> 'r \<Rightarrow> ('r, serde_error) outcome" where
  "read_elements i [] [] r = Ok r"
| "read_elements i [] (v # vs) r = Err (InvalidLength (i + length (v # vs)))"
| "read_elements i (f # fs) [] r = Err (InvalidLength i)"
| "read_elements i (f # fs) (v # vs) r = obind (fr_read f v r) (read_elements (Suc i) fs vs)"

definition missing_field :: "('f, 'r) field_reader list \<Rightarrow> (string \<times> 'f json) list \<Rightarrow> string option" where
  "missing_field fs es =
     map_option fr_name (find (\<lambda>f. fr_required f \<and> map_of es (fr_name f) = None) fs)"

text \<open>\<open>strict\<close> is \<open>deny_unknown_fields\<close>; \<open>r\<close> is the struct before any field is read.\<close>

definition read_struct ::
  "bool \<Rightarrow> ('f, 'r) field_reader list \<Rightarrow> 'r \<Rightarrow> 'f json \<Rightarrow> ('r, serde_error) outcome" where
  "read_struct strict fs r j =
     (case j of
        JObj es \<Rightarrow>
          obind (read_entries strict fs es r) (\<lambda>r.
          (case missing_field fs es of None \<Rightarrow> Ok r | Some n \<Rightarrow> Err (MissingField n)))
      | JArr vs \<Rightarrow> read_elements 0 fs vs r
      | _ \<Rightarrow> Err InvalidType)"

subsection \<open>Enums\<close>

definition unit_variant :: "(string \<times> 'a) list \<Rightarrow> 'f json \<Rightarrow> ('a, serde_error) outcome" where
  "unit_variant vs j =
     obind (string_of_json j) (\<lambda>s. ok_or (UnknownVariant s) (map_of vs s))"

text \<open>A tagged enum, \<open>#[serde(tag = "method", content = "params")]\<close>.\<close>

definition tagged_value ::
  "(string \<times> ('f json \<Rightarrow> ('r, serde_error) outcome)) list \<Rightarrow> 'f json \<Rightarrow> 'f json option
     \<Rightarrow> ('r, serde_error) outcome" where
  "tagged_value vs tag content =
     obind (unit_variant vs tag) (\<lambda>d. case content of None \<Rightarrow> Err (MissingField ''params'') | Some c \<Rightarrow> d c)"

definition read_tagged ::
  "(string \<times> ('f json \<Rightarrow> ('r, serde_error) outcome)) list \<Rightarrow> 'f json \<Rightarrow> ('r, serde_error) outcome" where
  "read_tagged vs j =
     (case j of
        JObj es \<Rightarrow>
          (case map_of es ''method'' of
             None \<Rightarrow> Err (MissingField ''method'')
           | Some tag \<Rightarrow> tagged_value vs tag (map_of es ''params''))
      | JArr [] \<Rightarrow> Err (InvalidLength 0)
      | JArr [tag] \<Rightarrow> obind (unit_variant vs tag) (\<lambda>_. Err (InvalidLength 1))
      | JArr (tag # content # rest) \<Rightarrow>
          obind (tagged_value vs tag (Some content)) (\<lambda>r.
          if rest = [] then Ok r else Err (InvalidLength (2 + length rest)))
      | _ \<Rightarrow> Err InvalidType)"

subsection \<open>Writers\<close>

fun option_to_json :: "('a \<Rightarrow> 'f json) \<Rightarrow> 'a option \<Rightarrow> 'f json" where
  "option_to_json e None = JNull"
| "option_to_json e (Some a) = e a"

definition list_to_json :: "('a \<Rightarrow> 'f json) \<Rightarrow> 'a list \<Rightarrow> 'f json" where
  "list_to_json e xs = JArr (map e xs)"

definition u32_to_json :: "u32 \<Rightarrow> 'f json" where
  "u32_to_json n = JPos (ucast n)"

definition u16_to_json :: "u16 \<Rightarrow> 'f json" where
  "u16_to_json n = JPos (ucast n)"

text \<open>A float that is not finite has no number and becomes null.\<close>

definition float_to_json :: "'f floats \<Rightarrow> 'f \<Rightarrow> 'f json" where
  "float_to_json F x = (if fl_finite F x then JFloat x else JNull)"

text \<open>An object with these fields, put into its map one after the other.\<close>

definition json_object :: "(string \<times> 'f json) list \<Rightarrow> 'f json" where
  "json_object es = JObj (fold (\<lambda>(k, v). bt_insert k v) es [])"

definition tagged :: "string \<Rightarrow> 'f json \<Rightarrow> 'f json" where
  "tagged tag content = json_object [(''method'', JStr tag), (''params'', content)]"

text \<open>A field with \<open>skip_serializing_if = "Option::is_none"\<close>.\<close>

fun if_some :: "string \<Rightarrow> ('a \<Rightarrow> 'f json) \<Rightarrow> 'a option \<Rightarrow> (string \<times> 'f json) list" where
  "if_some n e None = []"
| "if_some n e (Some a) = [(n, e a)]"

text \<open>\<open>v["id"] = x\<close>: null becomes an object, and anything else but an object panics.\<close>

fun json_set :: "string \<Rightarrow> 'f json \<Rightarrow> 'f json \<Rightarrow> ('f json, 'e) outcome" where
  "json_set k x JNull = Ok (JObj [(k, x)])"
| "json_set k x (JObj es) = Ok (JObj (bt_insert k x es))"
| "json_set k x _ = Panic"

subsection \<open>What makes a reader fail\<close>

lemma each_fails: "x \<in> set xs \<Longrightarrow> \<forall>y. d x \<noteq> Ok y \<Longrightarrow> each d xs \<noteq> Ok ys"
  by (induction xs arbitrary: ys) (auto simp: obind_eq_Ok omap_eq_Ok)

lemma read_entries_unknown:
  "k \<in> fst ` set es \<Longrightarrow> \<forall>f \<in> set fs. fr_name f \<noteq> k \<Longrightarrow> read_entries True fs es r \<noteq> Ok x"
  by (induction True fs es r rule: read_entries.induct) (auto simp: obind_eq_Ok find_Some_iff split: option.splits)

lemma read_entries_fails:
  "map_of es n = Some v \<Longrightarrow> find (\<lambda>f. fr_name f = n) fs = Some f \<Longrightarrow> \<forall>r x. fr_read f v r \<noteq> Ok x \<Longrightarrow>
    read_entries strict fs es r \<noteq> Ok x"
  by (induction strict fs es r rule: read_entries.induct) (auto simp: obind_eq_Ok split: option.splits if_splits)

subsection \<open>The order of fields\<close>

lemma strict_insert_last: "\<forall>x \<in> set m. fst x < k \<Longrightarrow> bt_insert k v m = m @ [(k, v)]"
  by (induction m) (auto dest: order.asym)

lemma json_object_sorted:
  assumes "bt_sorted es"
  shows "json_object es = JObj es"
proof -
  have "bt_sorted (m @ es) \<Longrightarrow> fold (\<lambda>(k, v). bt_insert k v) es m = m @ es" for m
    by (induction es arbitrary: m) (auto simp: bt_sorted_def sorted_wrt_append strict_insert_last)
  from this [of "[]"] show ?thesis using assms by (simp add: json_object_def)
qed

text \<open>Comparing names, to put the fields of a struct in order.\<close>

lemmas in_order = json_object_def less_char_def

lemma tagged_object: "tagged tag content = JObj [(''method'', JStr tag), (''params'', content)]"
  by (simp add: tagged_def in_order)

subsection \<open>Codecs\<close>

lemma option_of_json_not_null: "j \<noteq> JNull \<Longrightarrow> option_of_json d j = omap Some (d j)"
  by (cases j) simp_all

lemma option_of_list: "option_of_json d (list_to_json e xs) = omap Some (d (list_to_json e xs))"
  by (simp add: list_to_json_def)

lemma unat_u32_u64: "unat (ucast (n :: u32) :: u64) = unat n"
  by (simp add: unsigned_ucast_eq take_bit_nat_eq_self order.strict_trans [OF unsigned_less])

lemma u32_u64_u32: "ucast (ucast (n :: u32) :: u64) = n"
  by (rule bit_word_eqI) (simp add: bit_simps)

text \<open>A type with a writer and a reader that takes back what was written.\<close>

locale json_codec =
  fixes to_json :: "'a \<Rightarrow> 'f json"
    and of_json :: "'f json \<Rightarrow> ('a, serde_error) outcome"
    and ok :: "'a \<Rightarrow> bool"
  assumes of_to: "ok a \<Longrightarrow> of_json (to_json a) = Ok a"
begin

lemma each_of_to: "list_all ok xs \<Longrightarrow> each of_json (map to_json xs) = Ok xs"
  by (induction xs) (simp_all add: of_to)

lemma list_of_to: "list_all ok xs \<Longrightarrow> list_of_json of_json (list_to_json to_json xs) = Ok xs"
  by (simp add: list_to_json_def each_of_to)

lemma written_inj: "ok a \<Longrightarrow> ok b \<Longrightarrow> to_json a = to_json b \<Longrightarrow> a = b"
  by (metis of_to outcome.inject(1))

lemma option_of_to:
  assumes "pred_option ok x" "\<And>a. ok a \<Longrightarrow> to_json a \<noteq> JNull"
  shows "option_of_json of_json (option_to_json to_json x) = Ok x"
proof (cases x)
  case (Some a)
  then have "ok a" using assms(1) by simp
  then show ?thesis
    using Some option_of_json_not_null [OF assms(2), of a of_json] of_to [of a] by simp
qed simp

end

interpretation str: json_codec JStr string_of_json "\<lambda>_. True"
  by unfold_locales simp

interpretation u64: json_codec JPos u64_of_json "\<lambda>_. True"
  by unfold_locales simp

interpretation u32: json_codec u32_to_json u32_of_json "\<lambda>_. True"
  by unfold_locales (simp add: u32_to_json_def u32_of_json_def unat_u32_u64 u32_u64_u32 order.strict_trans2 [OF unsigned_less])

lemmas serde = read_struct_def missing_field_def field_def opt_field_def

end
