(* ===== verification/Messages.thy ===== *)
theory Messages
  imports Json PluginHooks
begin

text \<open>
  The JSON-RPC messages between lightningd and a plugin (\<open>libs/gl-plugin/src/messages.rs\<close>): the
  calls of the hooks and of the plugin's start with their fields, byte strings in hexadecimal,
  and \<open>JsonRpc\<close>, whose hand written \<open>Serialize\<close> and \<open>Deserialize\<close> tell requests from
  notifications by the field \<open>id\<close>. The functions of the crate \<open>hex\<close> are a parameter. Errors keep
  their value where the code wraps them with \<open>de::Error::custom\<close>, which keeps their text.
\<close>

subsection \<open>Bytes and amounts\<close>

record hex_lib =
  hx_encode :: "bytes \<Rightarrow> string"
  hx_decode :: "string \<Rightarrow> (bytes, string) outcome"

definition buffer_to_hex :: "hex_lib \<Rightarrow> bytes \<Rightarrow> 'f json" where
  "buffer_to_hex X b = JStr (hx_encode X b)"

definition hex_to_buffer :: "hex_lib \<Rightarrow> 'f json \<Rightarrow> (bytes, serde_error) outcome" where
  "hex_to_buffer X j = obind (string_of_json j) (\<lambda>s. omap_err Custom (hx_decode X s))"

text \<open>The visitor of \<open>amt_from_str_or_int\<close>, whose methods are those of \<open>Amounts\<close>.\<close>

fun amt_from_str_or_int :: "'f json \<Rightarrow> (nat, serde_error) outcome" where
  "amt_from_str_or_int (JPos n) = omap_err Custom (amt_visit_u64 (unat n))"
| "amt_from_str_or_int (JStr s) = omap_err Custom (amt_visit_str s)"
| "amt_from_str_or_int _ = Err InvalidType"

definition nat_to_json :: "nat \<Rightarrow> 'f json" where
  "nat_to_json n = JPos (word_of_nat n)"

definition nat_of_json :: "'f json \<Rightarrow> (nat, serde_error) outcome" where
  "nat_of_json j = omap unat (u64_of_json j)"

subsection \<open>The htlc_accepted call\<close>

record htlc_call_onion =
  ho_payload :: bytes
  ho_short_channel_id :: "string option"
  ho_forward_amount :: string
  ho_outgoing_cltv_value :: u64
  ho_next_onion :: bytes
  ho_shared_secret :: bytes

definition onion_of_json :: "hex_lib \<Rightarrow> 'f json \<Rightarrow> (htlc_call_onion, serde_error) outcome" where
  "onion_of_json X = read_struct False
     [field ''payload'' (hex_to_buffer X) ho_payload_update,
      opt_field ''short_channel_id'' string_of_json ho_short_channel_id_update,
      field ''forward_amount'' string_of_json ho_forward_amount_update,
      field ''outgoing_cltv_value'' u64_of_json ho_outgoing_cltv_value_update,
      field ''next_onion'' (hex_to_buffer X) ho_next_onion_update,
      field ''shared_secret'' (hex_to_buffer X) ho_shared_secret_update]
     \<lparr>ho_payload = [], ho_short_channel_id = None, ho_forward_amount = [], ho_outgoing_cltv_value = 0,
      ho_next_onion = [], ho_shared_secret = []\<rparr>"

definition onion_to_json :: "hex_lib \<Rightarrow> htlc_call_onion \<Rightarrow> 'f json" where
  "onion_to_json X o' = json_object
     [(''payload'', buffer_to_hex X (ho_payload o')),
      (''short_channel_id'', option_to_json JStr (ho_short_channel_id o')),
      (''forward_amount'', JStr (ho_forward_amount o')),
      (''outgoing_cltv_value'', JPos (ho_outgoing_cltv_value o')),
      (''next_onion'', buffer_to_hex X (ho_next_onion o')),
      (''shared_secret'', buffer_to_hex X (ho_shared_secret o'))]"

record htlc_call_htlc =
  hh_amount :: string
  hh_cltv_expiry :: u64
  hh_cltv_expiry_relative :: u64
  hh_payment_hash :: bytes

definition htlc_of_json :: "hex_lib \<Rightarrow> 'f json \<Rightarrow> (htlc_call_htlc, serde_error) outcome" where
  "htlc_of_json X = read_struct False
     [field ''amount'' string_of_json hh_amount_update,
      field ''cltv_expiry'' u64_of_json hh_cltv_expiry_update,
      field ''cltv_expiry_relative'' u64_of_json hh_cltv_expiry_relative_update,
      field ''payment_hash'' (hex_to_buffer X) hh_payment_hash_update]
     \<lparr>hh_amount = [], hh_cltv_expiry = 0, hh_cltv_expiry_relative = 0, hh_payment_hash = []\<rparr>"

definition htlc_to_json :: "hex_lib \<Rightarrow> htlc_call_htlc \<Rightarrow> 'f json" where
  "htlc_to_json X h = json_object
     [(''amount'', JStr (hh_amount h)), (''cltv_expiry'', JPos (hh_cltv_expiry h)),
      (''cltv_expiry_relative'', JPos (hh_cltv_expiry_relative h)),
      (''payment_hash'', buffer_to_hex X (hh_payment_hash h))]"

record htlc_accepted_call =
  ha_onion :: htlc_call_onion
  ha_htlc :: htlc_call_htlc

definition htlc_accepted_of_json :: "hex_lib \<Rightarrow> 'f json \<Rightarrow> (htlc_accepted_call, serde_error) outcome" where
  "htlc_accepted_of_json X = read_struct False
     [field ''onion'' (onion_of_json X) ha_onion_update, field ''htlc'' (htlc_of_json X) ha_htlc_update]
     \<lparr>ha_onion = \<lparr>ho_payload = [], ho_short_channel_id = None, ho_forward_amount = [], ho_outgoing_cltv_value = 0,
        ho_next_onion = [], ho_shared_secret = []\<rparr>,
      ha_htlc = \<lparr>hh_amount = [], hh_cltv_expiry = 0, hh_cltv_expiry_relative = 0, hh_payment_hash = []\<rparr>\<rparr>"

definition htlc_accepted_to_json :: "hex_lib \<Rightarrow> htlc_accepted_call \<Rightarrow> 'f json" where
  "htlc_accepted_to_json X c = json_object
     [(''onion'', onion_to_json X (ha_onion c)), (''htlc'', htlc_to_json X (ha_htlc c))]"

record htlc_accepted_answer =
  hr_result :: string
  hr_payment_key :: bytes

definition htlc_answer_of_json :: "hex_lib \<Rightarrow> 'f json \<Rightarrow> (htlc_accepted_answer, serde_error) outcome" where
  "htlc_answer_of_json X = read_struct False
     [field ''result'' string_of_json hr_result_update,
      field ''payment_key'' (hex_to_buffer X) hr_payment_key_update]
     \<lparr>hr_result = [], hr_payment_key = []\<rparr>"

definition htlc_answer_to_json :: "hex_lib \<Rightarrow> htlc_accepted_answer \<Rightarrow> 'f json" where
  "htlc_answer_to_json X r = json_object
     [(''result'', JStr (hr_result r)), (''payment_key'', buffer_to_hex X (hr_payment_key r))]"

subsection \<open>The invoice_payment call\<close>

text \<open>A TLV field is a pair of type and value, as in \<open>PluginHooks\<close>.\<close>

definition tlv_field_of_json :: "'f json \<Rightarrow> (nat \<times> string, serde_error) outcome" where
  "tlv_field_of_json = read_struct False
     [field ''type'' nat_of_json apfst, field ''value'' string_of_json apsnd] (0, [])"

definition tlv_field_to_json :: "nat \<times> string \<Rightarrow> 'f json" where
  "tlv_field_to_json t = json_object [(''type'', nat_to_json (fst t)), (''value'', JStr (snd t))]"

definition payment_of_json :: "'f json \<Rightarrow> (payment_call, serde_error) outcome" where
  "payment_of_json = read_struct False
     [field ''label'' string_of_json py_label_update,
      field ''preimage'' string_of_json py_preimage_update,
      field ''msat'' amt_from_str_or_int py_amount_update,
      opt_field ''extratlvs'' (list_of_json tlv_field_of_json) py_extratlvs_update]
     \<lparr>py_label = [], py_preimage = [], py_amount = 0, py_extratlvs = None\<rparr>"

definition payment_to_json :: "payment_call \<Rightarrow> 'f json" where
  "payment_to_json c = json_object
     [(''label'', JStr (py_label c)), (''preimage'', JStr (py_preimage c)),
      (''msat'', nat_to_json (py_amount c)),
      (''extratlvs'', option_to_json (list_to_json tlv_field_to_json) (py_extratlvs c))]"

record invoice_payment_call =
  ipc_payment :: payment_call

definition invoice_payment_of_json :: "'f json \<Rightarrow> (invoice_payment_call, serde_error) outcome" where
  "invoice_payment_of_json = read_struct False [field ''payment'' payment_of_json ipc_payment_update]
     \<lparr>ipc_payment = \<lparr>py_label = [], py_preimage = [], py_amount = 0, py_extratlvs = None\<rparr>\<rparr>"

definition invoice_payment_to_json :: "invoice_payment_call \<Rightarrow> 'f json" where
  "invoice_payment_to_json c = json_object [(''payment'', payment_to_json (ipc_payment c))]"

subsection \<open>Revocations, custom messages and peers\<close>

record commitment_revocation_call =
  cr_commitment_txid :: string
  cr_penalty_tx :: string
  cr_channel_id :: "string option"
  cr_commitnum :: "u64 option"

definition revocation_of_json :: "'f json \<Rightarrow> (commitment_revocation_call, serde_error) outcome" where
  "revocation_of_json = read_struct False
     [field ''commitment_txid'' string_of_json cr_commitment_txid_update,
      field ''penalty_tx'' string_of_json cr_penalty_tx_update,
      opt_field ''channel_id'' string_of_json cr_channel_id_update,
      opt_field ''commitnum'' u64_of_json cr_commitnum_update]
     \<lparr>cr_commitment_txid = [], cr_penalty_tx = [], cr_channel_id = None, cr_commitnum = None\<rparr>"

definition revocation_to_json :: "commitment_revocation_call \<Rightarrow> 'f json" where
  "revocation_to_json c = json_object
     [(''commitment_txid'', JStr (cr_commitment_txid c)), (''penalty_tx'', JStr (cr_penalty_tx c)),
      (''channel_id'', option_to_json JStr (cr_channel_id c)),
      (''commitnum'', option_to_json JPos (cr_commitnum c))]"

text \<open>A custom message as it is read: peer and payload in hexadecimal.\<close>

definition custommsg_of_json :: "'f json \<Rightarrow> (string \<times> string, serde_error) outcome" where
  "custommsg_of_json = read_struct False
     [field ''peer_id'' string_of_json apfst, field ''payload'' string_of_json apsnd] ([], [])"

definition direction_of_json :: "'f json \<Rightarrow> (peer_direction, serde_error) outcome" where
  "direction_of_json = unit_variant [(''in'', InPeer), (''out'', OutPeer)]"

fun direction_to_json :: "peer_direction \<Rightarrow> 'f json" where
  "direction_to_json InPeer = JStr ''in''"
| "direction_to_json OutPeer = JStr ''out''"

definition peer_of_json :: "'f json \<Rightarrow> (peer_msg, serde_error) outcome" where
  "peer_of_json = read_struct False
     [field ''id'' string_of_json pm_id_update,
      field ''direction'' direction_of_json pm_direction_update,
      field ''addr'' string_of_json pm_addr_update,
      field ''features'' string_of_json pm_features_update]
     \<lparr>pm_id = [], pm_direction = InPeer, pm_addr = [], pm_features = []\<rparr>"

definition peer_to_json :: "peer_msg \<Rightarrow> 'f json" where
  "peer_to_json p = json_object
     [(''id'', JStr (pm_id p)), (''direction'', direction_to_json (pm_direction p)),
      (''addr'', JStr (pm_addr p)), (''features'', JStr (pm_features p))]"

record peer_connected_call =
  pc_peer :: peer_msg

definition peer_connected_of_json :: "'f json \<Rightarrow> (peer_connected_call, serde_error) outcome" where
  "peer_connected_of_json = read_struct False [field ''peer'' peer_of_json pc_peer_update]
     \<lparr>pc_peer = \<lparr>pm_id = [], pm_direction = InPeer, pm_addr = [], pm_features = []\<rparr>\<rparr>"

definition peer_connected_to_json :: "peer_connected_call \<Rightarrow> 'f json" where
  "peer_connected_to_json c = json_object [(''peer'', peer_to_json (pc_peer c))]"

subsection \<open>The start of a plugin\<close>

text \<open>\<open>GetManifestCall\<close> has no fields.\<close>

definition get_manifest_of_json :: "'f json \<Rightarrow> (unit, serde_error) outcome" where
  "get_manifest_of_json = read_struct False [] ()"

record plugin_option =
  po_name :: string
  po_default :: string
  po_description :: string

record plugin_rpc_method =
  rm_name :: string
  rm_usage :: string
  rm_description :: string

record get_manifest_result =
  gm_subscriptions :: "string list"
  gm_hooks :: "string list"
  gm_dynamic :: bool
  gm_options :: "plugin_option list"
  gm_rpcmethods :: "plugin_rpc_method list"

definition plugin_option_of_json :: "'f json \<Rightarrow> (plugin_option, serde_error) outcome" where
  "plugin_option_of_json = read_struct False
     [field ''name'' string_of_json po_name_update, field ''default'' string_of_json po_default_update,
      field ''description'' string_of_json po_description_update]
     \<lparr>po_name = [], po_default = [], po_description = []\<rparr>"

definition plugin_option_to_json :: "plugin_option \<Rightarrow> 'f json" where
  "plugin_option_to_json p = json_object
     [(''name'', JStr (po_name p)), (''default'', JStr (po_default p)), (''description'', JStr (po_description p))]"

definition rpc_method_of_json :: "'f json \<Rightarrow> (plugin_rpc_method, serde_error) outcome" where
  "rpc_method_of_json = read_struct False
     [field ''name'' string_of_json rm_name_update, field ''usage'' string_of_json rm_usage_update,
      field ''description'' string_of_json rm_description_update]
     \<lparr>rm_name = [], rm_usage = [], rm_description = []\<rparr>"

definition rpc_method_to_json :: "plugin_rpc_method \<Rightarrow> 'f json" where
  "rpc_method_to_json m = json_object
     [(''name'', JStr (rm_name m)), (''usage'', JStr (rm_usage m)), (''description'', JStr (rm_description m))]"

definition manifest_of_json :: "'f json \<Rightarrow> (get_manifest_result, serde_error) outcome" where
  "manifest_of_json = read_struct False
     [field ''subscriptions'' (list_of_json string_of_json) gm_subscriptions_update,
      field ''hooks'' (list_of_json string_of_json) gm_hooks_update,
      field ''dynamic'' bool_of_json gm_dynamic_update,
      field ''options'' (list_of_json plugin_option_of_json) gm_options_update,
      field ''rpcmethods'' (list_of_json rpc_method_of_json) gm_rpcmethods_update]
     \<lparr>gm_subscriptions = [], gm_hooks = [], gm_dynamic = False, gm_options = [], gm_rpcmethods = []\<rparr>"

definition manifest_to_json :: "get_manifest_result \<Rightarrow> 'f json" where
  "manifest_to_json m = json_object
     [(''subscriptions'', list_to_json JStr (gm_subscriptions m)),
      (''hooks'', list_to_json JStr (gm_hooks m)), (''dynamic'', JBool (gm_dynamic m)),
      (''options'', list_to_json plugin_option_to_json (gm_options m)),
      (''rpcmethods'', list_to_json rpc_method_to_json (gm_rpcmethods m))]"

text \<open>
  A \<open>HashMap\<close> is represented by its entries in the order of their keys: nothing depends on the
  order in which they are visited, as the object they are written to is ordered itself.
\<close>

record 'f init_call =
  in_options :: "'f json"
  in_configuration :: "(string \<times> 'f json) list"

definition init_of_json :: "'f json \<Rightarrow> ('f init_call, serde_error) outcome" where
  "init_of_json = read_struct False
     [field ''options'' Ok in_options_update, field ''configuration'' map_of_json in_configuration_update]
     \<lparr>in_options = JNull, in_configuration = []\<rparr>"

definition init_to_json :: "'f init_call \<Rightarrow> 'f json" where
  "init_to_json c = json_object [(''options'', in_options c), (''configuration'', json_object (in_configuration c))]"

subsection \<open>Requests, notifications and their envelope\<close>

datatype 'f my_requests =
    HtlcAccepted htlc_accepted_call
  | Getmanifest unit
  | InitReq "'f init_call"
  | InvoicePayment invoice_payment_call
  | CommitmentRevocation commitment_revocation_call

definition my_requests_of_json :: "hex_lib \<Rightarrow> 'f json \<Rightarrow> ('f my_requests, serde_error) outcome" where
  "my_requests_of_json X = read_tagged
     [(''htlc_accepted'', \<lambda>j. omap HtlcAccepted (htlc_accepted_of_json X j)),
      (''getmanifest'', \<lambda>j. omap Getmanifest (get_manifest_of_json j)),
      (''init'', \<lambda>j. omap InitReq (init_of_json j)),
      (''invoice_payment'', \<lambda>j. omap InvoicePayment (invoice_payment_of_json j)),
      (''commitment_revocation'', \<lambda>j. omap CommitmentRevocation (revocation_of_json j))]"

fun my_requests_to_json :: "hex_lib \<Rightarrow> 'f my_requests \<Rightarrow> 'f json" where
  "my_requests_to_json X (HtlcAccepted c) = tagged ''htlc_accepted'' (htlc_accepted_to_json X c)"
| "my_requests_to_json X (Getmanifest c) = tagged ''getmanifest'' (json_object [])"
| "my_requests_to_json X (InitReq c) = tagged ''init'' (init_to_json c)"
| "my_requests_to_json X (InvoicePayment c) = tagged ''invoice_payment'' (invoice_payment_to_json c)"
| "my_requests_to_json X (CommitmentRevocation c) = tagged ''commitment_revocation'' (revocation_to_json c)"

record disconnect_notification =
  dn_id :: string

datatype my_notifications = Disconnect disconnect_notification

definition disconnect_of_json :: "'f json \<Rightarrow> (disconnect_notification, serde_error) outcome" where
  "disconnect_of_json = read_struct False [field ''id'' string_of_json dn_id_update] \<lparr>dn_id = []\<rparr>"

definition my_notifications_of_json :: "'f json \<Rightarrow> (my_notifications, serde_error) outcome" where
  "my_notifications_of_json = read_tagged [(''disconnect'', \<lambda>j. omap Disconnect (disconnect_of_json j))]"

fun my_notifications_to_json :: "my_notifications \<Rightarrow> 'f json" where
  "my_notifications_to_json (Disconnect d) = tagged ''disconnect'' (json_object [(''id'', JStr (dn_id d))])"

datatype ('n, 'r) json_rpc = Request u64 'r | Notification 'n

definition json_rpc_to_json ::
  "('n \<Rightarrow> 'f json) \<Rightarrow> ('r \<Rightarrow> 'f json) \<Rightarrow> ('n, 'r) json_rpc \<Rightarrow> ('f json, 'e) outcome" where
  "json_rpc_to_json n_to r_to m =
     (case m of
        Request i r \<Rightarrow> json_set ''id'' (JPos i) (r_to r)
      | Notification n \<Rightarrow> Ok (n_to n))"

record id_helper =
  ih_id :: "u64 option"

definition id_helper_of_json :: "'f json \<Rightarrow> (id_helper, serde_error) outcome" where
  "id_helper_of_json = read_struct False [opt_field ''id'' u64_of_json ih_id_update] \<lparr>ih_id = None\<rparr>"

definition json_rpc_of_json ::
  "('f json \<Rightarrow> ('n, serde_error) outcome) \<Rightarrow> ('f json \<Rightarrow> ('r, serde_error) outcome) \<Rightarrow> 'f json
     \<Rightarrow> (('n, 'r) json_rpc, serde_error) outcome" where
  "json_rpc_of_json n_of r_of v =
     obind (id_helper_of_json v) (\<lambda>helper.
     (case ih_id helper of
        Some i \<Rightarrow> omap (Request i) (r_of v)
      | None \<Rightarrow> omap Notification (n_of v)))"

subsection \<open>Lemmas: the envelope\<close>

lemma obind_Ok_id: "(\<And>y. g y = Ok y) \<Longrightarrow> obind x g = x"
  by (cases x) simp_all

lemma read_entries_absent:
  "map_of es (fr_name f) = None \<Longrightarrow> read_entries False [f] es r = Ok r"
  by (induction es) (auto split: if_splits)

lemma read_entries_inserted:
  assumes "map_of es (fr_name f) = None"
  shows "read_entries False [f] (bt_insert (fr_name f) v es) r = fr_read f v r"
proof -
  show ?thesis using assms
  proof (induction es)
    case Nil
    show ?case by (simp add: obind_Ok_id)
  next
    case (Cons e es)
    then have "read_entries False [f] (e # es) r = Ok r" for r by (intro read_entries_absent)
    with Cons show ?case by (cases e) (auto simp: obind_Ok_id split: if_splits)
  qed
qed

lemma id_helper_written:
  assumes "map_of es ''id'' = None"
  shows "id_helper_of_json (JObj es) = Ok \<lparr>ih_id = None\<rparr>"
    "id_helper_of_json (JObj (bt_insert ''id'' (JPos i) es)) = Ok \<lparr>ih_id = Some i\<rparr>"
proof -
  let ?f = "opt_field ''id'' u64_of_json ih_id_update :: ('a, id_helper) field_reader"
  have name: "fr_name ?f = ''id''" and optional: "missing_field [?f] es' = None" for es'
    by (simp_all add: opt_field_def missing_field_def)
  from assms have "read_entries False [?f] es r = Ok r" for r
    by (intro read_entries_absent) (simp add: name)
  then show "id_helper_of_json (JObj es) = Ok \<lparr>ih_id = None\<rparr>"
    by (simp add: id_helper_of_json_def read_struct_def optional)
  from assms have "read_entries False [?f] (bt_insert ''id'' (JPos i) es) r = fr_read ?f (JPos i) r" for r
    using read_entries_inserted [of es ?f] by (simp add: name)
  then show "id_helper_of_json (JObj (bt_insert ''id'' (JPos i) es)) = Ok \<lparr>ih_id = Some i\<rparr>"
    by (simp add: id_helper_of_json_def read_struct_def optional) (simp add: opt_field_def)
qed

text \<open>
  What \<open>JsonRpc\<close> needs of the types it wraps: codecs whose values are objects without a field
  \<open>id\<close>, and requests that do not mind one.
\<close>

locale rpc_codec =
  n: json_codec n_to n_of n_ok + r: json_codec r_to r_of r_ok
  for n_to :: "'n \<Rightarrow> 'f json" and n_of n_ok and r_to :: "'r \<Rightarrow> 'f json" and r_of r_ok +
  assumes notification_object: "n_ok m \<Longrightarrow> \<exists>es. n_to m = JObj es \<and> map_of es ''id'' = None"
    and request_object: "r_ok q \<Longrightarrow> \<exists>es. r_to q = JObj es \<and> map_of es ''id'' = None"
    and id_ignored: "r_to q = JObj es \<Longrightarrow> r_of (JObj (bt_insert ''id'' v es)) = r_of (JObj es)"
begin

lemma notification_of_to:
  "n_ok m \<Longrightarrow> json_rpc_of_json n_of r_of (n_to m) = Ok (Notification m)"
  using notification_object [of m] n.of_to [of m] by (auto simp: json_rpc_of_json_def id_helper_written)

lemma request_of_to:
  assumes "r_ok q"
  shows "\<exists>es. r_to q = JObj es \<and> json_rpc_to_json n_to r_to (Request i q) = Ok (JObj (bt_insert ''id'' (JPos i) es)) \<and>
    json_rpc_of_json n_of r_of (JObj (bt_insert ''id'' (JPos i) es)) = Ok (Request i q)"
proof -
  from request_object [OF assms] obtain es where es: "r_to q = JObj es" "map_of es ''id'' = None" by blast
  have "r_of (JObj (bt_insert ''id'' (JPos i) es)) = Ok q"
    using id_ignored [OF es(1)] r.of_to [OF assms] by (simp add: es(1))
  then show ?thesis
    using es by (intro exI [of _ es]) (simp add: json_rpc_to_json_def json_rpc_of_json_def id_helper_written)
qed

end

subsection \<open>Lemmas: the messages\<close>

lemma nat_of_to: "n < 2 ^ 64 \<Longrightarrow> nat_of_json (nat_to_json n) = Ok n"
  by (simp add: nat_of_json_def nat_to_json_def unat_of_nat)

interpretation tlv_field: json_codec tlv_field_to_json tlv_field_of_json "\<lambda>t. fst t < 2 ^ 64"
  by unfold_locales (simp add: tlv_field_to_json_def tlv_field_of_json_def serde in_order nat_of_to)

definition payment_ok :: "payment_call \<Rightarrow> bool" where
  "payment_ok c =
     (py_amount c < 2 ^ 64 \<and> pred_option (list_all (\<lambda>t. fst t < 2 ^ 64)) (py_extratlvs c))"

lemma opt_tlvs_of_to:
  "pred_option (list_all (\<lambda>t. fst t < 2 ^ 64)) x \<Longrightarrow>
    option_of_json (list_of_json tlv_field_of_json) (option_to_json (list_to_json tlv_field_to_json) x) = Ok x"
  by (cases x) (simp_all add: tlv_field.list_of_to option_of_list)

interpretation payment: json_codec payment_to_json payment_of_json payment_ok
  by unfold_locales
    (simp add: payment_to_json_def payment_of_json_def serde in_order nat_to_json_def payment_ok_def amt_visit_u64_def
      unat_of_nat opt_tlvs_of_to)

interpretation invoice_payment: json_codec invoice_payment_to_json invoice_payment_of_json "payment_ok \<circ> ipc_payment"
  by unfold_locales (simp add: invoice_payment_of_json_def invoice_payment_to_json_def serde in_order payment.of_to)

lemma opt_string_of_to [simp]: "option_of_json string_of_json (option_to_json JStr x) = Ok x"
  by (rule str.option_of_to) (cases x; simp)+

lemma opt_u64_of_to [simp]: "option_of_json u64_of_json (option_to_json JPos x) = Ok x"
  by (rule u64.option_of_to) (cases x; simp)+

interpretation revocation: json_codec revocation_to_json revocation_of_json "\<lambda>_. True"
  by unfold_locales (simp add: revocation_to_json_def revocation_of_json_def serde in_order)

lemma direction_of_to [simp]: "direction_of_json (direction_to_json d) = Ok d"
  by (cases d) (simp_all add: direction_of_json_def unit_variant_def)

interpretation peer: json_codec peer_to_json peer_of_json "\<lambda>_. True"
  by unfold_locales (simp add: peer_to_json_def peer_of_json_def serde in_order)

interpretation peer_connected: json_codec peer_connected_to_json peer_connected_of_json "\<lambda>_. True"
  by unfold_locales (simp add: peer_connected_to_json_def peer_connected_of_json_def serde in_order peer.of_to)

interpretation plugin_option: json_codec plugin_option_to_json plugin_option_of_json "\<lambda>_. True"
  by unfold_locales (simp add: plugin_option_to_json_def plugin_option_of_json_def serde in_order)

interpretation rpc_method: json_codec rpc_method_to_json rpc_method_of_json "\<lambda>_. True"
  by unfold_locales (simp add: rpc_method_to_json_def rpc_method_of_json_def serde in_order)

interpretation manifest: json_codec manifest_to_json manifest_of_json "\<lambda>_. True"
  by unfold_locales
    (simp add: manifest_to_json_def manifest_of_json_def serde in_order str.list_of_to plugin_option.list_of_to
      rpc_method.list_of_to list.pred_True)

interpretation init: json_codec init_to_json init_of_json "bt_sorted \<circ> in_configuration"
proof
  fix c :: "'a init_call"
  assume "(bt_sorted \<circ> in_configuration) c"
  then have "json_object (in_configuration c) = JObj (in_configuration c)" by (simp add: json_object_sorted)
  then show "init_of_json (init_to_json c) = Ok c"
    by (simp add: init_to_json_def) (simp add: init_of_json_def serde in_order)
qed

interpretation notification: json_codec my_notifications_to_json my_notifications_of_json "\<lambda>_. True"
proof
  fix m :: my_notifications
  show "my_notifications_of_json (my_notifications_to_json m :: 'a json) = Ok m"
    by (cases m) (simp add: my_notifications_of_json_def read_tagged_def tagged_value_def tagged_object unit_variant_def
        disconnect_of_json_def serde in_order)
qed

subsection \<open>Hexadecimal\<close>

text \<open>What the messages need of \<open>hex\<close>: that bytes are read back.\<close>

locale hex_codec =
  fixes X :: hex_lib
  assumes decode_encode: "hx_decode X (hx_encode X b) = Ok b"
begin

lemma buffer_of_to: "hex_to_buffer X (buffer_to_hex X b) = Ok b"
  by (simp add: hex_to_buffer_def buffer_to_hex_def decode_encode)

lemma onion_of_to: "onion_of_json X (onion_to_json X p) = Ok p"
  by (simp add: onion_of_json_def onion_to_json_def serde in_order buffer_of_to)

lemma htlc_of_to: "htlc_of_json X (htlc_to_json X h) = Ok h"
  by (simp add: htlc_of_json_def htlc_to_json_def serde in_order buffer_of_to)

lemma htlc_accepted_of_to: "htlc_accepted_of_json X (htlc_accepted_to_json X c) = Ok c"
  by (simp add: htlc_accepted_of_json_def htlc_accepted_to_json_def serde in_order onion_of_to htlc_of_to)

lemma htlc_answer_of_to: "htlc_answer_of_json X (htlc_answer_to_json X r) = Ok r"
  by (simp add: htlc_answer_of_json_def htlc_answer_to_json_def serde in_order buffer_of_to)

end

fun my_requests_ok :: "'f my_requests \<Rightarrow> bool" where
  "my_requests_ok (InvoicePayment c) = payment_ok (ipc_payment c)"
| "my_requests_ok (InitReq c) = bt_sorted (in_configuration c)"
| "my_requests_ok _ = True"

lemma tagged_request:
  "my_requests_of_json X (JObj (bt_insert ''id'' v [(''method'', JStr m), (''params'', c)])) =
     my_requests_of_json X (tagged m c)"
  by (simp add: my_requests_of_json_def read_tagged_def tagged_object)

lemma read_calls:
  "my_requests_of_json X (tagged ''htlc_accepted'' j) = omap HtlcAccepted (htlc_accepted_of_json X j)"
  "my_requests_of_json X (tagged ''getmanifest'' j) = omap Getmanifest (get_manifest_of_json j)"
  "my_requests_of_json X (tagged ''init'' j) = omap InitReq (init_of_json j)"
  "my_requests_of_json X (tagged ''invoice_payment'' j) = omap InvoicePayment (invoice_payment_of_json j)"
  "my_requests_of_json X (tagged ''commitment_revocation'' j) = omap CommitmentRevocation (revocation_of_json j)"
  by (simp_all add: my_requests_of_json_def read_tagged_def tagged_value_def tagged_object unit_variant_def)

lemma my_requests_tagged: "\<exists>m c. my_requests_to_json X r = tagged m c"
  by (cases r) auto

context hex_codec
begin

lemma my_requests_of_to:
  assumes "my_requests_ok r"
  shows "my_requests_of_json X (my_requests_to_json X r) = Ok r"
proof (cases r)
  case (HtlcAccepted c)
  then show ?thesis by (simp add: read_calls htlc_accepted_of_to)
next
  case (Getmanifest c)
  then show ?thesis by (simp add: read_calls get_manifest_of_json_def serde in_order)
next
  case (InitReq c)
  then show ?thesis using assms by (simp add: read_calls init.of_to)
next
  case (InvoicePayment c)
  then show ?thesis using assms by (simp add: read_calls invoice_payment.of_to)
next
  case (CommitmentRevocation c)
  then show ?thesis by (simp add: read_calls revocation.of_to)
qed

end

sublocale hex_codec \<subseteq> calls: rpc_codec my_notifications_to_json my_notifications_of_json "\<lambda>_. True"
  "my_requests_to_json X" "my_requests_of_json X" my_requests_ok
proof
  fix r :: "'a my_requests" and es v
  show "my_requests_ok r \<Longrightarrow> my_requests_of_json X (my_requests_to_json X r) = Ok r"
    by (rule my_requests_of_to)
  from my_requests_tagged [of X r] obtain m c where r: "my_requests_to_json X r = tagged m c" by blast
  then show "\<exists>es. my_requests_to_json X r = JObj es \<and> map_of es ''id'' = None" by (simp add: tagged_object)
  show "my_requests_of_json X (JObj (bt_insert ''id'' v es)) = my_requests_of_json X (JObj es)"
    if "my_requests_to_json X r = JObj es"
    using that tagged_request [of X v m c] by (simp add: r tagged_object)
next
  fix n :: my_notifications
  show "\<exists>es. my_notifications_to_json n = JObj es \<and> map_of es ''id'' = None"
    by (cases n) (simp add: tagged_object)
qed

context hex_codec
begin

lemmas envelope_of_to = calls.request_of_to calls.notification_of_to

end

subsection \<open>The hooks on JSON\<close>

text \<open>
  The environment of the hooks, with the values lightningd sends: calls are read from JSON, and
  a peer is stored as the text of its JSON. \<open>print\<close> is \<open>serde_json::to_string\<close>.
\<close>

fun readable :: "('a, 'e) outcome \<Rightarrow> 'a option" where
  "readable (Ok a) = Some a"
| "readable _ = None"

definition json_hooks :: "hex_lib \<Rightarrow> ('f json \<Rightarrow> string) \<Rightarrow> 'v hooks_env \<Rightarrow> 'f json hooks_env" where
  "json_hooks X print H =
     \<lparr>he_custommsg = readable \<circ> custommsg_of_json,
      he_peer_connected = readable \<circ> omap pc_peer \<circ> peer_connected_of_json,
      he_payment = omap ipc_payment \<circ> omap_err (\<lambda>_. ''could not decode the call'') \<circ> invoice_payment_of_json,
      he_peer_to_string = print \<circ> peer_to_json, he_hex_decode = readable \<circ> hx_decode X,
      he_request_from_str = he_request_from_str H, he_config_decode = he_config_decode H,
      he_rpc = he_rpc H, he_listinvoices = he_listinvoices H\<rparr>"

text \<open>A call that cannot be read is ignored, but for an amount without a number, which panics.\<close>

lemma unreadable_amount_panics_hook:
  "on_invoice_payment (json_hooks X print H) (JObj [(''payment'', JObj
      [(''label'', JStr l), (''preimage'', JStr p), (''msat'', JStr ''msat'')])]) = ([], Panic)"
  "on_invoice_payment (json_hooks X print H) (JObj [(''payment'', JObj
      [(''label'', JStr l), (''preimage'', JStr p), (''msat'', JStr ''1'')])]) = ([], Ok Continue)"
  by (simp_all add: on_invoice_payment_def json_hooks_def invoice_payment_of_json_def payment_of_json_def serde in_order
      amt_visit_str_def unit_factor_def parse_unsigned_def is_digit_def less_eq_char_def)

subsection \<open>An instance\<close>

text \<open>Lower case hexadecimal, read in either case.\<close>

definition hex_char :: "nat \<Rightarrow> char" where
  "hex_char n = (if n < 10 then char_of (48 + n) else char_of (87 + n))"

definition hex_value :: "char \<Rightarrow> nat option" where
  "hex_value c =
     (let n = of_char c :: nat in
      if 48 \<le> n \<and> n < 58 then Some (n - 48) else if 97 \<le> n \<and> n < 103 then Some (n - 87)
      else if 65 \<le> n \<and> n < 71 then Some (n - 55) else None)"

fun hex_bytes :: "string \<Rightarrow> (bytes, string) outcome" where
  "hex_bytes [] = Ok []"
| "hex_bytes [c] = Err ''Odd number of digits''"
| "hex_bytes (c # d # s) =
     (case (hex_value c, hex_value d) of
        (Some a, Some b) \<Rightarrow> omap ((#) (word_of_nat (16 * a + b))) (hex_bytes s)
      | _ \<Rightarrow> Err ''Invalid character'')"

definition lower_hex :: hex_lib where
  "lower_hex =
     \<lparr>hx_encode = concat \<circ> map (\<lambda>x. [hex_char (unat x div 16), hex_char (unat x mod 16)]), hx_decode = hex_bytes\<rparr>"

lemma hex_value_char: "n < 16 \<Longrightarrow> hex_value (hex_char n) = Some n"
  by (simp add: hex_value_def hex_char_def of_char_of Let_def)

interpretation lower: hex_codec lower_hex
proof
  fix b
  have "unat x div 16 < 16" for x :: u8 using unat_u8_less [of x] by (simp add: less_mult_imp_div_less)
  then show "hx_decode lower_hex (hx_encode lower_hex b) = Ok b"
    by (induction b) (simp_all add: lower_hex_def hex_value_char)
qed

section \<open>Properties\<close>

text \<open>
  C40: what \<open>JsonRpc\<close> writes it reads back. A request is written as an object with the fields
  \<open>id\<close>, \<open>method\<close> and \<open>params\<close>, in the order of a sorted map and without a panic, and is read as
  the same request with the same id; a notification is written without an id, so that it is
  read as a notification. This holds for every call of \<open>MyRequests\<close>, whatever its optional
  fields and byte strings are.
\<close>

theorem json_rpc_roundtrip:
  assumes "\<And>b. hx_decode X (hx_encode X b) = Ok b" and "my_requests_ok r"
  shows "(\<exists>m c. my_requests_to_json X r = JObj [(''method'', JStr m), (''params'', c)] \<and>
      json_rpc_to_json my_notifications_to_json (my_requests_to_json X) (Request i r) =
        Ok (JObj [(''id'', JPos i), (''method'', JStr m), (''params'', c)]) \<and>
      json_rpc_of_json my_notifications_of_json (my_requests_of_json X)
          (JObj [(''id'', JPos i), (''method'', JStr m), (''params'', c)]) =
        Ok (Request i r)) \<and>
    (\<exists>m c. json_rpc_to_json my_notifications_to_json (my_requests_to_json X) (Notification n) =
        (Ok (JObj [(''method'', JStr m), (''params'', c)]) :: ('f json, serde_error) outcome) \<and>
      json_rpc_of_json my_notifications_of_json (my_requests_of_json X)
          (JObj [(''method'', JStr m), (''params'', c)] :: 'f json) =
        Ok (Notification n))"
proof -
  have X: "hex_codec X" using assms(1) by unfold_locales
  obtain m c where r: "my_requests_to_json X r = JObj [(''method'', JStr m), (''params'', c)]"
    using my_requests_tagged [of X r] by (auto simp: tagged_object)
  have "bt_insert ''id'' v [(''method'', JStr m), (''params'', c)] =
      [(''id'', v), (''method'', JStr m), (''params'', c)]" for v by (simp add: less_char_def)
  note request = hex_codec.envelope_of_to(1) [OF X assms(2), of i, unfolded r json.inject ex_simps, simplified this]
  obtain m' c' where n: "my_notifications_to_json n = (JObj [(''method'', JStr m'), (''params'', c')] :: 'f json)"
    by (cases n) (auto simp: tagged_object)
  have "json_rpc_of_json my_notifications_of_json (my_requests_of_json X) (my_notifications_to_json n :: 'f json) =
      Ok (Notification n)"
    by (rule hex_codec.envelope_of_to(2) [OF X TrueI])
  with request r n show ?thesis by (auto simp: json_rpc_to_json_def)
qed

definition demo_call :: "unit my_requests" where
  "demo_call = InvoicePayment \<lparr>ipc_payment =
     \<lparr>py_label = ''l'', py_preimage = ''00'', py_amount = 42, py_extratlvs = Some [(7, ''ff'')]\<rparr>\<rparr>"

lemma json_rpc_roundtrip_witness:
  "\<exists>c. json_rpc_to_json my_notifications_to_json (my_requests_to_json lower_hex) (Request 9 demo_call) =
       (Ok (JObj [(''id'', JPos 9), (''method'', JStr ''invoice_payment''), (''params'', c)])
         :: (unit json, serde_error) outcome) \<and>
     json_rpc_of_json my_notifications_of_json (my_requests_of_json lower_hex)
       (JObj [(''id'', JPos 9), (''method'', JStr ''invoice_payment''), (''params'', c)]) = Ok (Request 9 demo_call)"
proof -
  have "my_requests_ok demo_call" by (simp add: demo_call_def payment_ok_def)
  from json_rpc_roundtrip [OF lower.decode_encode this] obtain m c where
    "my_requests_to_json lower_hex demo_call = JObj [(''method'', JStr m), (''params'', c)]"
    "json_rpc_to_json my_notifications_to_json (my_requests_to_json lower_hex) (Request 9 demo_call) =
       (Ok (JObj [(''id'', JPos 9), (''method'', JStr m), (''params'', c)]) :: (unit json, serde_error) outcome)"
    "json_rpc_of_json my_notifications_of_json (my_requests_of_json lower_hex)
       (JObj [(''id'', JPos 9), (''method'', JStr m), (''params'', c)]) = Ok (Request 9 demo_call)" by blast
  then show ?thesis by (auto simp: demo_call_def tagged_object)
qed

end
