(* ===== verification/Lsp.thy ===== *)
theory Lsp
  imports Tlv Messages
begin

text \<open>
  The htlc hook for just-in-time channels (\<open>on_htlc_accepted\<close> in
  \<open>libs/gl-plugin/src/lsp.rs\<close>): an incoming HTLC that pays less than the onion says gets an
  amended payload with the smaller amount to forward and the invoice's total. The calls to
  lightningd are parameters, and so are the readers of \<open>ShortChannelId\<close> and \<open>Amount\<close> of \<open>cln_rpc\<close>
  and the crate \<open>hex\<close>.
\<close>

record onion =
  onion_payload :: serialized_tlv_stream
  onion_short_channel_id :: "string option"
  onion_forward_msat :: "u64 option"
  onion_outgoing_cltv_value :: "u32 option"
  onion_shared_secret :: bytes
  onion_next_onion :: bytes
  onion_total_msat :: "u64 option"

record htlc =
  htlc_short_channel_id :: string
  htlc_amount_msat :: u64
  htlc_payment_hash :: bytes

record htlc_accepted_request =
  har_onion :: onion
  har_htlc :: htlc

record htlc_accepted_response =
  result :: string
  payload :: "bytes option"

definition TLV_FORWARD_AMT :: u64 where "TLV_FORWARD_AMT = 2"
definition TLV_PAYMENT_SECRET :: u64 where "TLV_PAYMENT_SECRET = 8"

definition continue_response :: htlc_accepted_response where
  "continue_response = \<lparr>result = ''continue'', payload = None\<rparr>"

text \<open>
  \<open>parsed\<close> is the request read from the hook's JSON (\<open>None\<close> when it does not parse),
  \<open>connect\<close> the connection to lightningd, and \<open>listinvoices\<close> the amounts of the invoices
  with a payment hash. Everything \<open>unwrap_or_continue\<close> guards ends in a plain continue.
\<close>

definition on_htlc_accepted ::
  "(unit, string) outcome \<Rightarrow> (bytes \<Rightarrow> (u64 option list, string) outcome) \<Rightarrow> htlc_accepted_request option
     \<Rightarrow> (htlc_accepted_response, string) outcome" where
  "on_htlc_accepted connect listinvoices parsed =
     (case parsed of
        None \<Rightarrow> Ok continue_response
      | Some req \<Rightarrow>
          let htlc_amt = htlc_amount_msat (har_htlc req) in
          (case onion_forward_msat (har_onion req) of
             None \<Rightarrow> Ok continue_response
           | Some onion_amt \<Rightarrow>
               if htlc_amt < onion_amt then
                 obind (tlv_set_tu64 TLV_FORWARD_AMT htlc_amt (onion_payload (har_onion req))) (\<lambda>stream.
                 (case tlv_get TLV_PAYMENT_SECRET stream of
                    None \<Rightarrow> Ok continue_response
                  | Some payment_secret \<Rightarrow>
                      obind connect (\<lambda>_.
                      obind (listinvoices (htlc_payment_hash (har_htlc req))) (\<lambda>invoices.
                      (case invoices of
                         [] \<Rightarrow> Ok continue_response
                       | None # _ \<Rightarrow> Ok continue_response
                       | Some total_msat # _ \<Rightarrow>
                           if length (tlv_value payment_secret) < 32 then Panic
                           else
                           obind (tlv_set_bytes TLV_PAYMENT_SECRET
                                    (take 32 (tlv_value payment_secret) @ put_tu64 total_msat) stream) (\<lambda>stream.
                           Ok \<lparr>result = ''continue'', payload = Some (tlv_to_bytes stream)\<rparr>))))))
               else Ok continue_response))"

subsection \<open>The call and its answer in JSON\<close>

record 'f cln_primitives =
  cp_scid :: "'f json \<Rightarrow> (string, serde_error) outcome"
  cp_amount :: "'f json \<Rightarrow> (u64, serde_error) outcome"

definition from_hex :: "hex_lib \<Rightarrow> 'f json \<Rightarrow> (bytes, serde_error) outcome" where
  "from_hex X j = obind (string_of_json j) (\<lambda>s. omap_err Custom (hx_decode X s))"

fun to_hex :: "hex_lib \<Rightarrow> bytes option \<Rightarrow> 'f json" where
  "to_hex X None = JNull"
| "to_hex X (Some b) = JStr (hx_encode X b)"

text \<open>The \<open>Deserialize\<close> of \<open>SerializedTlvStream\<close>; a payload that is too short panics in it.\<close>

definition tlv_of_json :: "hex_lib \<Rightarrow> 'f json \<Rightarrow> (serialized_tlv_stream, serde_error) outcome" where
  "tlv_of_json X j = obind (string_of_json j) (\<lambda>s. omap_err Custom (tlv_deserialize (readable \<circ> hx_decode X) s))"

definition no_onion :: onion where
  "no_onion = \<lparr>onion_payload = tlv_new, onion_short_channel_id = None, onion_forward_msat = None,
     onion_outgoing_cltv_value = None, onion_shared_secret = [], onion_next_onion = [], onion_total_msat = None\<rparr>"

definition lsp_onion_of_json :: "hex_lib \<Rightarrow> 'f cln_primitives \<Rightarrow> 'f json \<Rightarrow> (onion, serde_error) outcome" where
  "lsp_onion_of_json X P = read_struct False
     [field ''payload'' (tlv_of_json X) onion_payload_update,
      opt_field ''short_channel_id'' (cp_scid P) onion_short_channel_id_update,
      opt_field ''forward_msat'' (cp_amount P) onion_forward_msat_update,
      opt_field ''outgoing_cltv_value'' u32_of_json onion_outgoing_cltv_value_update,
      field ''shared_secret'' (from_hex X) onion_shared_secret_update,
      field ''next_onion'' (from_hex X) onion_next_onion_update,
      opt_field ''total_msat'' (cp_amount P) onion_total_msat_update] no_onion"

definition no_htlc :: htlc where
  "no_htlc = \<lparr>htlc_short_channel_id = [], htlc_amount_msat = 0, htlc_payment_hash = []\<rparr>"

definition lsp_htlc_of_json :: "hex_lib \<Rightarrow> 'f cln_primitives \<Rightarrow> 'f json \<Rightarrow> (htlc, serde_error) outcome" where
  "lsp_htlc_of_json X P = read_struct False
     [field ''short_channel_id'' (cp_scid P) htlc_short_channel_id_update,
      field ''amount_msat'' (cp_amount P) htlc_amount_msat_update,
      field ''payment_hash'' (from_hex X) htlc_payment_hash_update] no_htlc"

definition htlc_request_of_json ::
  "hex_lib \<Rightarrow> 'f cln_primitives \<Rightarrow> 'f json \<Rightarrow> (htlc_accepted_request, serde_error) outcome" where
  "htlc_request_of_json X P = read_struct False
     [field ''onion'' (lsp_onion_of_json X P) har_onion_update, field ''htlc'' (lsp_htlc_of_json X P) har_htlc_update]
     \<lparr>har_onion = no_onion, har_htlc = no_htlc\<rparr>"

definition htlc_response_to_json :: "hex_lib \<Rightarrow> htlc_accepted_response \<Rightarrow> 'f json" where
  "htlc_response_to_json X r = json_object
     ([(''result'', JStr (result r))] @ (if payload r = None then [] else [(''payload'', to_hex X (payload r))]))"

definition htlc_accepted_hook ::
  "hex_lib \<Rightarrow> 'f cln_primitives \<Rightarrow> (unit, string) outcome \<Rightarrow> (bytes \<Rightarrow> (u64 option list, string) outcome) \<Rightarrow> 'f json
     \<Rightarrow> ('f json, string) outcome" where
  "htlc_accepted_hook X P connect listinvoices v =
     (case htlc_request_of_json X P v of
        Panic \<Rightarrow> Panic
      | r \<Rightarrow> omap (htlc_response_to_json X) (on_htlc_accepted connect listinvoices (readable r)))"

subsection \<open>Lemmas\<close>

text \<open>
  A call that cannot be read is left to lightningd. A call whose payload is there but empty is
  not: reading the length from it panics.
\<close>

lemma unreadable_call_continues:
  "htlc_request_of_json X P v = Err e \<Longrightarrow>
    htlc_accepted_hook X P connect listinvoices v = Ok (JObj [(''result'', JStr ''continue'')])"
  by (simp add: htlc_accepted_hook_def on_htlc_accepted_def continue_response_def htlc_response_to_json_def in_order)

lemma empty_payload_panics_hook:
  assumes "hx_decode X [] = Ok []"
  shows "htlc_accepted_hook X P connect listinvoices
    (JObj [(''onion'', JObj ((''payload'', JStr []) # onion)), (''htlc'', h)]) = Panic"
  using assms
  by (simp add: htlc_accepted_hook_def htlc_request_of_json_def lsp_onion_of_json_def tlv_of_json_def
      tlv_deserialize_def get_compact_size_def get_be_def get_bytes_def serde)


lemma tlv_set_bytes_values:
  assumes "tlv_ok s" "\<forall>e \<in> set (entries s). length (tlv_value e) < 2 ^ 64" "length val < 2 ^ 64"
    and "tlv_set_bytes typ val s = Ok s'"
  shows "\<forall>e \<in> set (entries s'). length (tlv_value e) < 2 ^ 64"
  using tlv_set_bytes_spec [OF assms(1), of "typ" val] assms(2-4) by auto

lemma put_tu64_short: "length (put_tu64 u) \<le> 8"
  using length_dropWhile_le [of "\<lambda>x. x = 0" "put_u64 u"] by (simp add: put_tu64_def put_u64_def)

lemma tlv_set_bytes_get:
  assumes "tlv_ok s" "tlv_set_bytes typ val s = Ok s'"
  shows "tlv_ok s' \<and> tlv_get other s' =
    (if other = typ then Some \<lparr>tlv_typ = typ, tlv_value = val\<rparr> else tlv_get other s)"
proof -
  have s': "tlv_ok s'"
    "set (entries s') = insert \<lparr>tlv_typ = typ, tlv_value = val\<rparr> {e \<in> set (entries s). tlv_typ e \<noteq> typ}"
    using tlv_set_bytes_spec [OF assms(1), of "typ" val] assms(2) by auto
  have d: "distinct (map tlv_typ (entries s))" "distinct (map tlv_typ (entries s'))"
    using assms(1) s'(1) by (simp_all add: tlv_ok_def)
  have "tlv_get other s' = Some e \<longleftrightarrow>
      (if other = typ then e = \<lparr>tlv_typ = typ, tlv_value = val\<rparr> else tlv_get other s = Some e)" for e
    by (auto simp: tlv_get_Some [OF d(1)] tlv_get_Some [OF d(2)] s'(2))
  then have "tlv_get other s' =
      (if other = typ then Some \<lparr>tlv_typ = typ, tlv_value = val\<rparr> else tlv_get other s)"
    by (metis not_None_eq)
  then show ?thesis using s'(1) by simp
qed

section \<open>Properties\<close>

text \<open>
  An underpaid HTLC is forwarded with its own amount. When the HTLC pays less than the
  onion says, the onion has a payment secret of 32 bytes or more, and lightningd knows an
  invoice with an amount, the hook continues with a payload that reads back as the onion's
  stream in which the amount to forward is the HTLC's, the secret's entry is the first 32
  bytes of the secret followed by the invoice's total, and every other entry is unchanged.
\<close>

theorem underpaid_htlc_is_amended:
  assumes "onion_forward_msat (har_onion req) = Some onion_amt"
    and "htlc_amount_msat (har_htlc req) < onion_amt"
    and "tlv_ok (onion_payload (har_onion req))"
    and "\<forall>e \<in> set (entries (onion_payload (har_onion req))). length (tlv_value e) < 2 ^ 64"
    and "tlv_get TLV_PAYMENT_SECRET (onion_payload (har_onion req)) = Some ps" "32 \<le> length (tlv_value ps)"
    and "connect = Ok ()" "listinvoices (htlc_payment_hash (har_htlc req)) = Ok (Some total_msat # invs)"
  shows "\<exists>b s. on_htlc_accepted connect listinvoices (Some req) =
        Ok \<lparr>result = ''continue'', payload = Some b\<rparr> \<and> tlv_from_bytes b = Ok s \<and>
      tlv_get TLV_FORWARD_AMT s =
        Some \<lparr>tlv_typ = TLV_FORWARD_AMT, tlv_value = put_tu64 (htlc_amount_msat (har_htlc req))\<rparr> \<and>
      tlv_get TLV_PAYMENT_SECRET s =
        Some \<lparr>tlv_typ = TLV_PAYMENT_SECRET, tlv_value = take 32 (tlv_value ps) @ put_tu64 total_msat\<rparr> \<and>
      (\<forall>t. t \<noteq> TLV_FORWARD_AMT \<and> t \<noteq> TLV_PAYMENT_SECRET \<longrightarrow>
         tlv_get t s = tlv_get t (onion_payload (har_onion req)))"
proof -
  let ?s0 = "onion_payload (har_onion req)" and ?amt = "put_tu64 (htlc_amount_msat (har_htlc req))"
  let ?sec = "take 32 (tlv_value ps) @ put_tu64 total_msat"
  obtain s1 where s1: "tlv_set_bytes TLV_FORWARD_AMT ?amt ?s0 = Ok s1"
    using tlv_set_bytes_spec [OF assms(3)] by blast
  have g1: "tlv_ok s1" "tlv_get t s1 =
      (if t = TLV_FORWARD_AMT then Some \<lparr>tlv_typ = TLV_FORWARD_AMT, tlv_value = ?amt\<rparr> else tlv_get t ?s0)" for t
    using tlv_set_bytes_get [OF assms(3) s1] by simp_all
  obtain s where s: "tlv_set_bytes TLV_PAYMENT_SECRET ?sec s1 = Ok s"
    using tlv_set_bytes_spec [OF g1(1)] by blast
  have g: "tlv_get t s =
      (if t = TLV_PAYMENT_SECRET then Some \<lparr>tlv_typ = TLV_PAYMENT_SECRET, tlv_value = ?sec\<rparr> else tlv_get t s1)" for t
    using tlv_set_bytes_get [OF g1(1) s] by simp
  have short: "length (put_tu64 u) < 2 ^ 64 - 32" for u
    using put_tu64_short [of u] by (rule le_less_trans) simp
  have "\<forall>e \<in> set (entries s1). length (tlv_value e) < 2 ^ 64"
    using short [of "htlc_amount_msat (har_htlc req)"] by (intro tlv_set_bytes_values [OF assms(3,4) _ s1]) simp
  then have "\<forall>e \<in> set (entries s). length (tlv_value e) < 2 ^ 64"
    using short [of total_msat] by (intro tlv_set_bytes_values [OF g1(1) _ _ s]) auto
  then have "tlv_from_bytes (tlv_to_bytes s) = Ok s"
    using parse_entries_concat [of "entries s" "[]" "[]"]
    by (simp add: tlv_from_bytes_def tlv_to_bytes_def)
  moreover have ne: "TLV_PAYMENT_SECRET \<noteq> TLV_FORWARD_AMT"
    by (simp add: TLV_PAYMENT_SECRET_def TLV_FORWARD_AMT_def)
  moreover have "on_htlc_accepted connect listinvoices (Some req) =
      Ok \<lparr>result = ''continue'', payload = Some (tlv_to_bytes s)\<rparr>"
    using assms s1 s g1(2) ne by (simp add: on_htlc_accepted_def tlv_set_tu64_def Let_def)
  ultimately show ?thesis using g g1(2) by auto
qed

definition demo_htlc :: htlc_accepted_request where
  "demo_htlc = \<lparr>har_onion = \<lparr>onion_payload = \<lparr>entries = [\<lparr>tlv_typ = 8, tlv_value = replicate 32 1\<rparr>]\<rparr>,
       onion_short_channel_id = None, onion_forward_msat = Some 1000, onion_outgoing_cltv_value = None,
       onion_shared_secret = [], onion_next_onion = [], onion_total_msat = None\<rparr>,
     har_htlc = \<lparr>htlc_short_channel_id = [], htlc_amount_msat = 900, htlc_payment_hash = [7]\<rparr>\<rparr>"

lemma underpaid_htlc_is_amended_witness:
  "\<exists>b s. on_htlc_accepted (Ok ()) (\<lambda>_. Ok [Some 1000]) (Some demo_htlc) =
        Ok \<lparr>result = ''continue'', payload = Some b\<rparr> \<and> tlv_from_bytes b = Ok s \<and>
      tlv_get TLV_FORWARD_AMT s = Some \<lparr>tlv_typ = TLV_FORWARD_AMT, tlv_value = put_tu64 900\<rparr>"
  using underpaid_htlc_is_amended [of demo_htlc 1000 "\<lparr>tlv_typ = 8, tlv_value = replicate 32 1\<rparr>"
      "Ok ()" "\<lambda>_. Ok [Some 1000]" 1000 "[]"]
  by (auto simp: demo_htlc_def tlv_ok_def tlv_get_def TLV_PAYMENT_SECRET_def)

end
