(* ===== verification/PluginInit.thy ===== *)
theory PluginInit
  imports Lsp
begin

text \<open>
  The plugin as lightningd sees it (\<open>init\<close> and \<open>Builder\<close> in \<open>libs/gl-plugin/src/lib.rs\<close>): the
  handlers of the hooks, from the JSON of a call to that of the answer, and their registration.
  Handlers share the datastore of lightningd and the channel of events. The builder of
  \<open>cln_plugin\<close>, which keeps the hooks and calls them, is a record of functions.
\<close>

record 'd plugin_world =
  pw_datastore :: 'd
  pw_events :: "plugin_event list"

type_synonym ('f, 'd) hook_handler = "'f json \<Rightarrow> 'd plugin_world \<Rightarrow> 'd plugin_world \<times> ('f json, string) outcome"

text \<open>
  What the handlers use: \<open>hex\<close>, the primitives of \<open>cln_rpc\<close>, the environment of the hooks, the
  datastore, the entries under \<open>glconf.request\<close>, and the amounts of the invoices of a hash.
\<close>

record ('f, 'd) plugin_env =
  pn_hex :: hex_lib
  pn_primitives :: "'f cln_primitives"
  pn_hooks :: "'f json hooks_env"
  pn_datastore :: "'d datastore_ops"
  pn_glconf :: "'d \<Rightarrow> (string option list, string) outcome"
  pn_invoices :: "bytes \<Rightarrow> (u64 option list, string) outcome"

fun reply_to_json :: "hook_reply \<Rightarrow> 'f json" where
  "reply_to_json Continue = json_object [(''result'', JStr ''continue'')]"
| "reply_to_json (ContinueCloseTo a) = json_object [(''result'', JStr ''continue''), (''close_to'', JStr a)]"

subsection \<open>Handlers\<close>

definition handle_htlc_accepted :: "('f, 'd) plugin_env \<Rightarrow> ('f, 'd) hook_handler" where
  "handle_htlc_accepted E v w =
     (w, htlc_accepted_hook (pn_hex E) (pn_primitives E) (he_rpc (pn_hooks E)) (pn_invoices E) v)"

definition with_events ::
  "plugin_event list \<times> (hook_reply, string) outcome \<Rightarrow> 'd plugin_world \<Rightarrow> 'd plugin_world \<times> ('f json, string) outcome" where
  "with_events r w = (w\<lparr>pw_events := pw_events w @ fst r\<rparr>, omap reply_to_json (snd r))"

definition handle_invoice_payment :: "('f, 'd) plugin_env \<Rightarrow> ('f, 'd) hook_handler" where
  "handle_invoice_payment E v = with_events (on_invoice_payment (pn_hooks E) v)"

definition handle_custommsg :: "('f, 'd) plugin_env \<Rightarrow> ('f, 'd) hook_handler" where
  "handle_custommsg E v = with_events (on_custommsg (pn_hooks E) v)"

definition handle_peer_connected :: "('f, 'd) plugin_env \<Rightarrow> ('f, 'd) hook_handler" where
  "handle_peer_connected E v w =
     (let (ds, r) = on_peer_connected (pn_hooks E) (pn_datastore E) v (pw_datastore w) in
      (w\<lparr>pw_datastore := ds\<rparr>, omap reply_to_json r))"

definition handle_openchannel :: "('f, 'd) plugin_env \<Rightarrow> ('f, 'd) hook_handler" where
  "handle_openchannel E v w =
     (w, omap reply_to_json (on_openchannel (pn_hooks E) (pn_glconf E (pw_datastore w))))"

subsection \<open>The builder\<close>

text \<open>
  The builder of \<open>cln_plugin\<close>, on a state \<open>'c\<close>; \<open>GlPlugin\<close> and \<open>Builder\<close> with the stage \<open>'s\<close> and
  the sender of events \<open>'e\<close>.
\<close>

record ('f, 'd, 'c) cln_builder =
  cb_new :: 'c
  cb_hook :: "string \<Rightarrow> ('f, 'd) hook_handler \<Rightarrow> 'c \<Rightarrow> 'c"
  cb_subscribe :: "string \<Rightarrow> ('f, 'd) hook_handler \<Rightarrow> 'c \<Rightarrow> 'c"

record ('s, 'e) gl_plugin =
  gp_stage :: 's
  gp_events :: 'e

record ('c, 's, 'e) gl_builder =
  bd_inner :: 'c
  bd_events :: 'e
  bd_state :: "('s, 'e) gl_plugin"

definition builder_hook ::
  "('f, 'd, 'c) cln_builder \<Rightarrow> string \<Rightarrow> ('f, 'd) hook_handler \<Rightarrow> ('c, 's, 'e) gl_builder \<Rightarrow> ('c, 's, 'e) gl_builder" where
  "builder_hook C hookname callback b = b\<lparr>bd_inner := cb_hook C hookname callback (bd_inner b)\<rparr>"

definition builder_subscribe ::
  "('f, 'd, 'c) cln_builder \<Rightarrow> string \<Rightarrow> ('f, 'd) hook_handler \<Rightarrow> ('c, 's, 'e) gl_builder \<Rightarrow> ('c, 's, 'e) gl_builder" where
  "builder_subscribe C hookname callback b = b\<lparr>bd_inner := cb_subscribe C hookname callback (bd_inner b)\<rparr>"

definition builder_stage :: "('c, 's, 'e) gl_builder \<Rightarrow> 's" where
  "builder_stage b = gp_stage (bd_state b)"

definition gl_plugin_init ::
  "('f, 'd, 'c) cln_builder \<Rightarrow> ('f, 'd) plugin_env \<Rightarrow> 's \<Rightarrow> 'e \<Rightarrow> ('c, 's, 'e) gl_builder" where
  "gl_plugin_init C E stage events =
     (let inner =
        (cb_hook C ''custommsg'' (handle_custommsg E) \<circ>
         cb_hook C ''openchannel'' (handle_openchannel E) \<circ>
         cb_hook C ''peer_connected'' (handle_peer_connected E) \<circ>
         cb_hook C ''invoice_payment'' (handle_invoice_payment E) \<circ>
         cb_hook C ''htlc_accepted'' (handle_htlc_accepted E)) (cb_new C) in
      \<lparr>bd_inner = inner, bd_events = events, bd_state = \<lparr>gp_stage = stage, gp_events = events\<rparr>\<rparr>)"

subsection \<open>Lemmas\<close>

lemma answers_in_order:
  "reply_to_json Continue = JObj [(''result'', JStr ''continue'')]"
  "reply_to_json (ContinueCloseTo a) = JObj [(''close_to'', JStr a), (''result'', JStr ''continue'')]"
  by (simp_all add: in_order)

lemma on_htlc_accepted_continues:
  assumes "on_htlc_accepted connect listinvoices parsed = Ok r"
  shows "result r = ''continue''"
proof (cases parsed)
  case (Some req)
  let ?l = "listinvoices (htlc_payment_hash (har_htlc req))"
  consider "?l = Ok []" | "is" where "?l = Ok (None # is)" | t "is" where "?l = Ok (Some t # is)" | "\<forall>is. ?l \<noteq> Ok is"
    by (metis list.exhaust option.exhaust)
  then show ?thesis
    using assms unfolding on_htlc_accepted_def continue_response_def
    by cases (auto simp: Some Let_def obind_eq_Ok split: option.split_asm if_split_asm)
qed (use assms in \<open>auto simp: on_htlc_accepted_def continue_response_def\<close>)

text \<open>The extra TLVs of a call are those that were written in hexadecimal.\<close>

lemma decode_tlvs_encoded:
  "(\<And>b. he_hex_decode H (enc b) = Some b) \<Longrightarrow> decode_tlvs H (map (\<lambda>(t, b). (t, enc b)) ts) = Ok ts"
  by (induction ts) auto

section \<open>Properties\<close>

text \<open>
  C36: what lightningd reports becomes an event. Called with the JSON of a custom message, the
  hook announces exactly this message, with the bytes of peer and payload. Called with the JSON
  of a payment, it announces exactly this payment, with the bytes of the preimage and of the
  TLVs and the amount of the call, completed by the last invoice lightningd lists for the label,
  and nothing when there is none. Both leave the datastore alone and answer that lightningd
  continues. \<open>peer_connected\<close> and \<open>openchannel\<close> announce nothing.
\<close>

theorem hook_calls_become_events:
  assumes "\<And>b. hx_decode X (hx_encode X b) = Ok b"
    and "pn_hooks E = json_hooks X print H" "he_rpc H = Ok ()"
    and "py_preimage c = hx_encode X preimage" "py_amount c < 2 ^ 64"
    and "py_extratlvs c = map_option (map (\<lambda>(t, b). (t, hx_encode X b))) tlvs"
    and "\<forall>(t, b) \<in> set (case tlvs of None \<Rightarrow> [] | Some ts \<Rightarrow> ts). t < 2 ^ 64"
    and "he_listinvoices H (py_label c) = Ok invoices"
    and "invoices \<noteq> [] \<longrightarrow> nv_bolt11 (last invoices) = Some bolt11"
  shows "handle_custommsg E (json_object [(''peer_id'', JStr (hx_encode X peer)), (''payload'', JStr (hx_encode X msg))]) w =
      (w\<lparr>pw_events := pw_events w @ [CustomMsgEvent \<lparr>cu_peer_id = peer, cu_payload = msg\<rparr>]\<rparr>,
       Ok (JObj [(''result'', JStr ''continue'')]))
    \<and> handle_invoice_payment E (invoice_payment_to_json \<lparr>ipc_payment = c\<rparr>) w =
      (w\<lparr>pw_events := pw_events w @
           (if invoices = [] then [] else
            [IncomingPaymentEvent \<lparr>ip_label = nv_label (last invoices), ip_preimage = preimage,
               ip_amount = py_amount c, ip_extratlvs = (case tlvs of None \<Rightarrow> [] | Some ts \<Rightarrow> ts),
               ip_bolt11 = bolt11, ip_payment_hash = nv_payment_hash (last invoices)\<rparr>])\<rparr>,
       Ok (JObj [(''result'', JStr ''continue'')]))
    \<and> pw_events (fst (handle_peer_connected E v w)) = pw_events w
    \<and> pw_events (fst (handle_openchannel E v w)) = pw_events w"
proof (intro conjI)
  have hex: "he_hex_decode (pn_hooks E) (hx_encode X b) = Some b" for b
    by (simp add: assms(1,2) json_hooks_def)
  have call: "he_custommsg (pn_hooks E) (json_object [(''peer_id'', JStr a), (''payload'', JStr b)]) = Some (a, b)" for a b
    by (simp add: assms(2) json_hooks_def custommsg_of_json_def serde in_order)
  show "handle_custommsg E (json_object [(''peer_id'', JStr (hx_encode X peer)), (''payload'', JStr (hx_encode X msg))]) w =
      (w\<lparr>pw_events := pw_events w @ [CustomMsgEvent \<lparr>cu_peer_id = peer, cu_payload = msg\<rparr>]\<rparr>,
       Ok (JObj [(''result'', JStr ''continue'')]))"
    by (simp only: handle_custommsg_def with_events_def on_custommsg_def call option.case prod.case hex)
      (simp add: in_order)
  have "payment_ok c"
    using assms(5-7) by (cases tlvs) (auto simp: payment_ok_def list_all_iff)
  then have "he_payment (pn_hooks E) (invoice_payment_to_json \<lparr>ipc_payment = c\<rparr>) = Ok c"
    by (simp add: assms(2) json_hooks_def invoice_payment.of_to)
  moreover have "payment_details (pn_hooks E) c (last invoices) = Ok \<lparr>ip_label = nv_label (last invoices),
      ip_preimage = preimage, ip_amount = py_amount c, ip_extratlvs = (case tlvs of None \<Rightarrow> [] | Some ts \<Rightarrow> ts),
      ip_bolt11 = bolt11, ip_payment_hash = nv_payment_hash (last invoices)\<rparr>" if "invoices \<noteq> []"
    using assms(4,6,9) that decode_tlvs_encoded [of "pn_hooks E" "hx_encode X", OF hex]
    by (cases tlvs) (simp_all add: payment_details_def hex)
  moreover have "he_rpc (pn_hooks E) = Ok ()" "he_listinvoices (pn_hooks E) = he_listinvoices H"
    using assms(2,3) by (simp_all add: json_hooks_def)
  ultimately show "handle_invoice_payment E (invoice_payment_to_json \<lparr>ipc_payment = c\<rparr>) w =
      (w\<lparr>pw_events := pw_events w @
           (if invoices = [] then [] else
            [IncomingPaymentEvent \<lparr>ip_label = nv_label (last invoices), ip_preimage = preimage,
               ip_amount = py_amount c, ip_extratlvs = (case tlvs of None \<Rightarrow> [] | Some ts \<Rightarrow> ts),
               ip_bolt11 = bolt11, ip_payment_hash = nv_payment_hash (last invoices)\<rparr>])\<rparr>,
       Ok (JObj [(''result'', JStr ''continue'')]))"
    using assms(8)
    by (cases invoices) (simp_all add: handle_invoice_payment_def with_events_def on_invoice_payment_def in_order)
  show "pw_events (fst (handle_peer_connected E v w)) = pw_events w"
    by (simp add: handle_peer_connected_def split_beta Let_def)
  show "pw_events (fst (handle_openchannel E v w)) = pw_events w"
    by (simp add: handle_openchannel_def)
qed

definition demo_listing :: "peer_msg hooks_env" where
  "demo_listing = demo_hooks\<lparr>he_listinvoices :=
     (\<lambda>l. if l = ''l'' then Ok [\<lparr>nv_label = ''l'', nv_bolt11 = Some ''lnbc1'', nv_payment_hash = [7]\<rparr>] else Ok [])\<rparr>"

definition demo_plugin_env :: "(unit, (string list \<times> string) list) plugin_env" where
  "demo_plugin_env =
     \<lparr>pn_hex = lower_hex, pn_primitives = \<lparr>cp_scid = string_of_json, cp_amount = u64_of_json\<rparr>,
      pn_hooks = json_hooks lower_hex (\<lambda>j. []) demo_listing, pn_datastore = demo_datastore,
      pn_glconf = (\<lambda>ds. Ok []), pn_invoices = (\<lambda>h. Ok [])\<rparr>"

definition demo_paid :: payment_call where
  "demo_paid = \<lparr>py_label = ''l'', py_preimage = hx_encode lower_hex [9], py_amount = 42, py_extratlvs = None\<rparr>"

lemma hook_calls_become_events_witness:
  "pw_events (fst (handle_custommsg demo_plugin_env (json_object [(''peer_id'', JStr ''02''), (''payload'', JStr ''ff'')])
      \<lparr>pw_datastore = [], pw_events = []\<rparr>)) = [CustomMsgEvent \<lparr>cu_peer_id = [2], cu_payload = [255]\<rparr>] \<and>
   map (\<lambda>e. case e of IncomingPaymentEvent p \<Rightarrow> ip_amount p | _ \<Rightarrow> 0)
     (pw_events (fst (handle_invoice_payment demo_plugin_env (invoice_payment_to_json \<lparr>ipc_payment = demo_paid\<rparr>)
      \<lparr>pw_datastore = [], pw_events = []\<rparr>))) = [42]"
proof -
  have h: "pn_hooks demo_plugin_env = json_hooks lower_hex (\<lambda>j. []) demo_listing" "he_rpc demo_listing = Ok ()"
    by (simp_all add: demo_plugin_env_def demo_listing_def demo_hooks_def)
  have i: "he_listinvoices demo_listing (py_label demo_paid) =
      Ok [\<lparr>nv_label = ''l'', nv_bolt11 = Some ''lnbc1'', nv_payment_hash = [7]\<rparr>]"
    by (simp add: demo_listing_def demo_paid_def)
  have hex: "hx_encode lower_hex [2] = ''02''" "hx_encode lower_hex [255] = ''ff''"
    by code_simp+
  note all = hook_calls_become_events [OF lower.decode_encode h, of demo_paid "[9]" None _ "''lnbc1''" "[2]" "[255]"
      "\<lparr>pw_datastore = [], pw_events = []\<rparr>", OF _ _ _ _ i]
  from all show ?thesis by (simp add: demo_paid_def hex)
qed

end
