(* ===== verification/RpcRequests.thy ===== *)
theory RpcRequests
  imports Messages
begin

text \<open>
  The parameters of the calls the plugin makes (\<open>libs/gl-plugin/src/requests.rs\<close>) as the JSON
  lightningd gets: fields have the names of the attributes, and an optional field that is not set
  is left out, unless the attribute does not say so. Amounts, fee rates and outpoints are
  written by the serializers of \<open>Amounts\<close>; \<open>AmountOrAny\<close> of \<open>cln_rpc\<close> by the parameter \<open>A\<close>.
\<close>

subsection \<open>Amounts, fee rates and outpoints\<close>

record outpoint =
  op_txid :: bytes
  op_outnum :: u16

definition amount_to_json :: "req_amount \<Rightarrow> 'f json" where
  "amount_to_json a = JStr (req_amount_serialize a)"

definition feerate_to_json :: "feerate \<Rightarrow> 'f json" where
  "feerate_to_json r = JStr (feerate_serialize r)"

definition outpoint_to_json :: "(bytes \<Rightarrow> string) \<Rightarrow> outpoint \<Rightarrow> 'f json" where
  "outpoint_to_json H x = JStr (outpoint_serialize H (op_txid x) (unat (op_outnum x)))"

text \<open>The integer keys of a \<open>HashMap\<close> become strings.\<close>

definition extratlvs_to_json :: "(u64 \<times> string) list \<Rightarrow> 'f json" where
  "extratlvs_to_json ts = json_object (map (\<lambda>(t, v). (decimal (unat t), JStr v)) ts)"

subsection \<open>Calls of lightningd\<close>

record routehint_hop =
  hop_id :: string
  hop_scid :: string
  hop_feebase :: u64
  hop_feeprop :: u32
  hop_expirydelta :: u16

definition routehint_hop_to_json :: "routehint_hop \<Rightarrow> 'f json" where
  "routehint_hop_to_json x = json_object
     [(''id'', JStr (hop_id x)), (''scid'', JStr (hop_scid x)), (''feebase'', JPos (hop_feebase x)),
       (''feeprop'', u32_to_json (hop_feeprop x)),
       (''expirydelta'', u16_to_json (hop_expirydelta x))]"

record withdraw_req =
  wq_destination :: string
  wq_amount :: req_amount
  wq_feerate :: "feerate option"
  wq_minconf :: "u32 option"
  wq_utxos :: "outpoint list option"

definition withdraw_req_to_json :: "(bytes \<Rightarrow> string) \<Rightarrow> withdraw_req \<Rightarrow> 'f json" where
  "withdraw_req_to_json H x = json_object
     ([(''destination'', JStr (wq_destination x)), (''satoshi'', amount_to_json (wq_amount x))] @
      if_some ''feerate'' feerate_to_json (wq_feerate x) @
      if_some ''minconf'' u32_to_json (wq_minconf x) @
      if_some ''utxos'' (list_to_json (outpoint_to_json H)) (wq_utxos x))"

record fundchannel_req =
  fq_id :: string
  fq_amount :: req_amount
  fq_feerate :: "feerate option"
  fq_announce :: "bool option"
  fq_minconf :: "u32 option"
  fq_close_to :: "string option"

definition fundchannel_req_to_json :: "fundchannel_req \<Rightarrow> 'f json" where
  "fundchannel_req_to_json x = json_object
     ([(''id'', JStr (fq_id x)), (''amount'', amount_to_json (fq_amount x))] @
      if_some ''feerate'' feerate_to_json (fq_feerate x) @
      if_some ''announce'' JBool (fq_announce x) @
      if_some ''minconf'' u32_to_json (fq_minconf x) @
      if_some ''close_to'' JStr (fq_close_to x))"

record close_req =
  cq_node_id :: string
  cq_timeout :: "u32 option"
  cq_destination :: "string option"

definition close_req_to_json :: "close_req \<Rightarrow> 'f json" where
  "close_req_to_json x = json_object
     ([(''id'', JStr (cq_node_id x))] @
      if_some ''unilateraltimeout'' u32_to_json (cq_timeout x) @
      if_some ''destination'' JStr (cq_destination x))"

record 'f pay_req =
  pq_bolt11 :: string
  pq_amount :: "req_amount option"
  pq_retry_for :: "u32 option"
  pq_maxfeepercent :: "'f option"
  pq_maxfee :: "req_amount option"

definition pay_req_to_json :: "'f floats \<Rightarrow> 'f pay_req \<Rightarrow> 'f json" where
  "pay_req_to_json F x = json_object
     ([(''bolt11'', JStr (pq_bolt11 x))] @
      if_some ''msatoshi'' amount_to_json (pq_amount x) @
      if_some ''retry_for'' u32_to_json (pq_retry_for x) @
      if_some ''maxfeepercent'' (float_to_json F) (pq_maxfeepercent x) @
      if_some ''maxfee'' amount_to_json (pq_maxfee x))"

record listpays_req =
  lpq_bolt11 :: "string option"
  lpq_payment_hash :: "string option"

definition listpays_req_to_json :: "listpays_req \<Rightarrow> 'f json" where
  "listpays_req_to_json x = json_object
     (if_some ''bolt11'' JStr (lpq_bolt11 x) @
      if_some ''payment_hash'' JStr (lpq_payment_hash x))"

record listinvoices_req =
  liq_label :: "string option"
  liq_invstring :: "string option"
  liq_payment_hash :: "string option"

definition listinvoices_req_to_json :: "listinvoices_req \<Rightarrow> 'f json" where
  "listinvoices_req_to_json x = json_object
     (if_some ''label'' JStr (liq_label x) @
      if_some ''invstring'' JStr (liq_invstring x) @
      if_some ''payment_hash'' JStr (liq_payment_hash x))"

record keysend_req =
  kq_destination :: string
  kq_msatoshi :: req_amount
  kq_label :: string
  kq_maxfeepercent :: "u32 option"
  kq_retry_for :: "u32 option"
  kq_maxdelay :: "u32 option"
  kq_exemptfee :: "u64 option"
  kq_routehints :: "routehint_hop list list option"
  kq_extratlvs :: "(u64 \<times> string) list option"

definition keysend_req_to_json :: "keysend_req \<Rightarrow> 'f json" where
  "keysend_req_to_json x = json_object
     ([(''destination'', JStr (kq_destination x)), (''msatoshi'', amount_to_json (kq_msatoshi x)),
       (''label'', JStr (kq_label x))] @
      if_some ''maxfeepercent'' u32_to_json (kq_maxfeepercent x) @
      if_some ''retry_for'' u32_to_json (kq_retry_for x) @
      if_some ''maxdelay'' u32_to_json (kq_maxdelay x) @
      if_some ''exemptfee'' JPos (kq_exemptfee x) @
      if_some ''routehints'' (list_to_json (list_to_json routehint_hop_to_json)) (kq_routehints x) @
      if_some ''extratlvs'' extratlvs_to_json (kq_extratlvs x))"

text \<open>\<open>ListFunds\<close> and \<open>ListIncoming\<close> have no fields.\<close>

definition listfunds_req_to_json :: "unit \<Rightarrow> 'f json" where
  "listfunds_req_to_json x = json_object []"

definition listincoming_req_to_json :: "unit \<Rightarrow> 'f json" where
  "listincoming_req_to_json x = json_object []"

subsection \<open>Invoices and LSPs\<close>

text \<open>The fee of a hop is the one optional field that is written as null.\<close>

definition dev_hop_to_json :: "dev_hop \<Rightarrow> 'f json" where
  "dev_hop_to_json h = json_object
     [(''id'', JStr (dh_id h)), (''short_channel_id'', JStr (dh_short_channel_id h)),
      (''fee_base_msat'', option_to_json nat_to_json (dh_fee_base_msat h)),
      (''fee_proportional_millionths'', nat_to_json (dh_fee_proportional_millionths h)),
      (''cltv_expiry_delta'', nat_to_json (dh_cltv_expiry_delta h))]"

definition invoice_call_to_json :: "(amount_or_any \<Rightarrow> 'f json) \<Rightarrow> invoice_call \<Rightarrow> 'f json" where
  "invoice_call_to_json A c = json_object
     ([(''amount_msat'', A (inv_amount c)), (''description'', JStr (inv_description c)),
       (''label'', JStr (inv_label c))] @
      if_some ''expiry'' nat_to_json (inv_expiry c) @
      if_some ''fallbacks'' (list_to_json JStr) (inv_fallbacks c) @
      if_some ''preimage'' JStr (inv_preimage c) @
      if_some ''cltv'' nat_to_json (inv_cltv c) @
      if_some ''deschashonly'' JBool (inv_deschashonly c) @
      if_some ''exposeprivatechannels'' (list_to_json JStr) (inv_exposeprivatechannels c) @
      if_some ''dev-routes'' (list_to_json (list_to_json dev_hop_to_json)) (inv_dev_routes c))"

text \<open>\<open>LspInvoiceRequest\<close> and its second version have the same fields.\<close>

definition lsp_call_to_json :: "(amount_or_any \<Rightarrow> 'f json) \<Rightarrow> lsp_call \<Rightarrow> 'f json" where
  "lsp_call_to_json A c = json_object
     ([(''lsp_id'', JStr (lc_lsp_id c))] @
      if_some ''token'' JStr (lc_token c) @
      [(''amount_msat'', A (lc_amount c)), (''description'', JStr (lc_description c)),
       (''label'', JStr (lc_label c))])"

record lsp_getinfo_req =
  gq_lsp_id :: string
  gq_token :: "string option"

definition lsp_getinfo_req_to_json :: "lsp_getinfo_req \<Rightarrow> 'f json" where
  "lsp_getinfo_req_to_json x = json_object
     ([(''lsp_id'', JStr (gq_lsp_id x))] @
      if_some ''token'' JStr (gq_token x))"

text \<open>\<open>TypedRequest\<close>: the method a request is for, and its parameters.\<close>

datatype typed_request =
    LspInvoice lsp_call | LspInvoiceV2 lsp_call | LspGetinfo lsp_getinfo_req

fun typed_method :: "typed_request \<Rightarrow> string" where
  "typed_method (LspInvoice c) = ''lsps-jitchannel''"
| "typed_method (LspInvoiceV2 c) = ''lsps-lsps2-invoice''"
| "typed_method (LspGetinfo c) = ''lsps-lsps2-getinfo''"

fun typed_params :: "(amount_or_any \<Rightarrow> 'f json) \<Rightarrow> typed_request \<Rightarrow> 'f json" where
  "typed_params A (LspInvoice c) = lsp_call_to_json A c"
| "typed_params A (LspInvoiceV2 c) = lsp_call_to_json A c"
| "typed_params A (LspGetinfo c) = lsp_getinfo_req_to_json c"

end
