(* ===== verification/RpcResponses.thy ===== *)
theory RpcResponses
  imports RpcRequests
begin

text \<open>
  The answers of lightningd the plugin reads (\<open>libs/gl-plugin/src/responses.rs\<close>): \<open>MSat\<close>, which
  takes a number or a string that ends in \<open>msat\<close>, and the structs, whose fields have the names of
  the attributes. All structs but the parameters of an LSP ignore fields they do not know.
\<close>

text \<open>The visitor of \<open>MSat\<close>, whose methods are those of \<open>Amounts\<close>.\<close>

fun msat_of_json :: "'f json \<Rightarrow> (nat, serde_error) outcome" where
  "msat_of_json (JPos n) = omap_err Custom (msat_visit_u64 (unat n))"
| "msat_of_json (JStr s) = omap_err Custom (msat_visit_str s)"
| "msat_of_json _ = Err InvalidType"

definition nat32_of_json :: "'f json \<Rightarrow> (nat, serde_error) outcome" where
  "nat32_of_json j = omap unat (u32_of_json j)"

subsection \<open>Payments and invoices\<close>

record withdraw_result =
  wr_tx :: string
  wr_txid :: string

definition withdraw_result_of_json :: "'f json \<Rightarrow> (withdraw_result, serde_error) outcome" where
  "withdraw_result_of_json = read_struct False
     [field ''tx'' string_of_json wr_tx_update,
      field ''txid'' string_of_json wr_txid_update]
     \<lparr>wr_tx = [], wr_txid = []\<rparr>"

record fundchannel_result =
  fd_tx :: string
  fd_txid :: string
  fd_outpoint :: u32
  fd_channel_id :: string
  fd_close_to :: "string option"

definition fundchannel_result_of_json :: "'f json \<Rightarrow> (fundchannel_result, serde_error) outcome" where
  "fundchannel_result_of_json = read_struct False
     [field ''tx'' string_of_json fd_tx_update,
      field ''txid'' string_of_json fd_txid_update,
      field ''outnum'' u32_of_json fd_outpoint_update,
      field ''channel_id'' string_of_json fd_channel_id_update,
      opt_field ''close_to'' string_of_json fd_close_to_update]
     \<lparr>fd_tx = [], fd_txid = [], fd_outpoint = 0, fd_channel_id = [],
      fd_close_to = None\<rparr>"

record getinfo_result =
  gi_id :: string
  gi_alias :: string
  gi_color :: string
  gi_num_peers :: u64
  gi_num_pending_channels :: u64
  gi_num_active_channels :: u64
  gi_num_inactive_channels :: u64
  gi_version :: string
  gi_blockheight :: u32
  gi_network :: string
  gi_ligthning_dir :: string
  gi_warning_bitcoind_sync :: "string option"
  gi_warning_lightningd_sync :: "string option"

definition getinfo_result_of_json :: "'f json \<Rightarrow> (getinfo_result, serde_error) outcome" where
  "getinfo_result_of_json = read_struct False
     [field ''id'' string_of_json gi_id_update,
      field ''alias'' string_of_json gi_alias_update,
      field ''color'' string_of_json gi_color_update,
      field ''num_peers'' u64_of_json gi_num_peers_update,
      field ''num_pending_channels'' u64_of_json gi_num_pending_channels_update,
      field ''num_active_channels'' u64_of_json gi_num_active_channels_update,
      field ''num_inactive_channels'' u64_of_json gi_num_inactive_channels_update,
      field ''version'' string_of_json gi_version_update,
      field ''blockheight'' u32_of_json gi_blockheight_update,
      field ''network'' string_of_json gi_network_update,
      field ''lightning-dir'' string_of_json gi_ligthning_dir_update,
      opt_field ''warning_bitcoind_sync'' string_of_json gi_warning_bitcoind_sync_update,
      opt_field ''warning_lightningd_sync'' string_of_json gi_warning_lightningd_sync_update]
     \<lparr>gi_id = [], gi_alias = [], gi_color = [], gi_num_peers = 0,
      gi_num_pending_channels = 0, gi_num_active_channels = 0, gi_num_inactive_channels = 0,
      gi_version = [], gi_blockheight = 0, gi_network = [], gi_ligthning_dir = [],
      gi_warning_bitcoind_sync = None, gi_warning_lightningd_sync = None\<rparr>"

record close_result =
  cl_close_type :: string
  cl_tx :: string
  cl_txid :: string

definition close_result_of_json :: "'f json \<Rightarrow> (close_result, serde_error) outcome" where
  "close_result_of_json = read_struct False
     [field ''type'' string_of_json cl_close_type_update,
      field ''tx'' string_of_json cl_tx_update,
      field ''txid'' string_of_json cl_txid_update]
     \<lparr>cl_close_type = [], cl_tx = [], cl_txid = []\<rparr>"

record 'f pay_result =
  pa_destination :: string
  pa_payment_hash :: string
  pa_created_at :: "'f"
  pa_completed_at :: "u64 option"
  pa_parts :: u32
  pa_msatoshi :: u64
  pa_msatoshi_sent :: u64
  pa_preimage :: "string option"
  pa_status :: string
  pa_bolt11 :: "string option"

definition pay_result_of_json :: "'f floats \<Rightarrow> 'f json \<Rightarrow> ('f pay_result, serde_error) outcome" where
  "pay_result_of_json F = read_struct False
     [field ''destination'' string_of_json pa_destination_update,
      field ''payment_hash'' string_of_json pa_payment_hash_update,
      field ''created_at'' (f64_of_json F) pa_created_at_update,
      opt_field ''completed_at'' u64_of_json pa_completed_at_update,
      field ''parts'' u32_of_json pa_parts_update,
      field ''msatoshi'' u64_of_json pa_msatoshi_update,
      field ''msatoshi_sent'' u64_of_json pa_msatoshi_sent_update,
      opt_field ''preimage'' string_of_json pa_preimage_update,
      field ''status'' string_of_json pa_status_update,
      opt_field ''bolt11'' string_of_json pa_bolt11_update]
     \<lparr>pa_destination = [], pa_payment_hash = [], pa_created_at = fl_of_u64 F 0,
      pa_completed_at = None, pa_parts = 0, pa_msatoshi = 0, pa_msatoshi_sent = 0,
      pa_preimage = None, pa_status = [], pa_bolt11 = None\<rparr>"

record 'f listpays_pay =
  ls_bolt11 :: "string option"
  ls_destination :: string
  ls_payment_hash :: string
  ls_created_at :: "'f"
  ls_completed_at :: "u64 option"
  ls_amount_msat :: "nat option"
  ls_amount_sent_msat :: nat
  ls_payment_preimage :: "string option"
  ls_status :: string

definition listpays_pay_of_json :: "'f floats \<Rightarrow> 'f json \<Rightarrow> ('f listpays_pay, serde_error) outcome" where
  "listpays_pay_of_json F = read_struct False
     [opt_field ''bolt11'' string_of_json ls_bolt11_update,
      field ''destination'' string_of_json ls_destination_update,
      field ''payment_hash'' string_of_json ls_payment_hash_update,
      field ''created_at'' (f64_of_json F) ls_created_at_update,
      opt_field ''completed_at'' u64_of_json ls_completed_at_update,
      opt_field ''amount_msat'' msat_of_json ls_amount_msat_update,
      field ''amount_sent_msat'' msat_of_json ls_amount_sent_msat_update,
      opt_field ''preimage'' string_of_json ls_payment_preimage_update,
      field ''status'' string_of_json ls_status_update]
     \<lparr>ls_bolt11 = None, ls_destination = [], ls_payment_hash = [],
      ls_created_at = fl_of_u64 F 0, ls_completed_at = None, ls_amount_msat = None,
      ls_amount_sent_msat = 0, ls_payment_preimage = None, ls_status = []\<rparr>"

record listinvoices_invoice =
  lin_label :: string
  lin_description :: string
  lin_payment_preimage :: "string option"
  lin_amount :: "nat option"
  lin_received :: "nat option"
  lin_payment_time :: "u32 option"
  lin_status :: string
  lin_expiry_time :: u32
  lin_bolt11 :: string
  lin_payment_hash :: string

definition listinvoices_invoice_of_json :: "'f json \<Rightarrow> (listinvoices_invoice, serde_error) outcome" where
  "listinvoices_invoice_of_json = read_struct False
     [field ''label'' string_of_json lin_label_update,
      field ''description'' string_of_json lin_description_update,
      opt_field ''payment_preimage'' string_of_json lin_payment_preimage_update,
      opt_field ''amount_msat'' msat_of_json lin_amount_update,
      opt_field ''amount_received_msat'' msat_of_json lin_received_update,
      opt_field ''paid_at'' u32_of_json lin_payment_time_update,
      field ''status'' string_of_json lin_status_update,
      field ''expires_at'' u32_of_json lin_expiry_time_update,
      field ''bolt11'' string_of_json lin_bolt11_update,
      field ''payment_hash'' string_of_json lin_payment_hash_update]
     \<lparr>lin_label = [], lin_description = [], lin_payment_preimage = None, lin_amount = None,
      lin_received = None, lin_payment_time = None, lin_status = [], lin_expiry_time = 0,
      lin_bolt11 = [], lin_payment_hash = []\<rparr>"

record keysend_result =
  ks_destination :: string
  ks_status :: string
  ks_payment_preimage :: "string option"
  ks_payment_hash :: string
  ks_msatoshi :: "u64 option"
  ks_msatoshi_sent :: "u64 option"
  ks_amount_sent_msat :: "nat option"
  ks_amount_msat :: "nat option"

definition keysend_result_of_json :: "'f json \<Rightarrow> (keysend_result, serde_error) outcome" where
  "keysend_result_of_json = read_struct False
     [field ''destination'' string_of_json ks_destination_update,
      field ''status'' string_of_json ks_status_update,
      opt_field ''payment_preimage'' string_of_json ks_payment_preimage_update,
      field ''payment_hash'' string_of_json ks_payment_hash_update,
      opt_field ''msatoshi'' u64_of_json ks_msatoshi_update,
      opt_field ''msatoshi_sent'' u64_of_json ks_msatoshi_sent_update,
      opt_field ''amount_sent_msat'' msat_of_json ks_amount_sent_msat_update,
      opt_field ''amount_msat'' msat_of_json ks_amount_msat_update]
     \<lparr>ks_destination = [], ks_status = [], ks_payment_preimage = None, ks_payment_hash = [],
      ks_msatoshi = None, ks_msatoshi_sent = None, ks_amount_sent_msat = None,
      ks_amount_msat = None\<rparr>"

text \<open>\<open>ListPays\<close>, \<open>ListInvoices\<close> and \<open>ListIncoming\<close> hold one list each.\<close>

definition listpays_of_json :: "'f floats \<Rightarrow> 'f json \<Rightarrow> ('f listpays_pay list, serde_error) outcome" where
  "listpays_of_json F = read_struct False
     [field ''pays'' (list_of_json (listpays_pay_of_json F)) (\<lambda>f r. f r)] []"

definition listinvoices_of_json :: "'f json \<Rightarrow> (listinvoices_invoice list, serde_error) outcome" where
  "listinvoices_of_json = read_struct False
     [field ''invoices'' (list_of_json listinvoices_invoice_of_json) (\<lambda>f r. f r)] []"

definition invoice_result_of_json :: "'f json \<Rightarrow> (invoice_result, serde_error) outcome" where
  "invoice_result_of_json = read_struct False
     [field ''expires_at'' nat32_of_json ir_expiry_time_update, field ''bolt11'' string_of_json ir_bolt11_update,
      field ''payment_hash'' string_of_json ir_payment_hash_update,
      opt_field ''payment_secret'' string_of_json ir_payment_secret_update]
     \<lparr>ir_expiry_time = 0, ir_bolt11 = [], ir_payment_hash = [], ir_payment_secret = None\<rparr>"

definition incoming_channel_of_json :: "'f json \<Rightarrow> (incoming_channel, serde_error) outcome" where
  "incoming_channel_of_json = read_struct False
     [field ''id'' string_of_json ic_id_update,
      field ''short_channel_id'' string_of_json ic_short_channel_id_update,
      field ''fee_base_msat'' string_of_json ic_fee_base_msat_update,
      field ''fee_proportional_millionths'' nat32_of_json ic_fee_proportional_millionths_update,
      field ''cltv_expiry_delta'' nat32_of_json ic_cltv_expiry_delta_update,
      field ''incoming_capacity_msat'' string_of_json ic_incoming_capacity_msat_update]
     \<lparr>ic_id = [], ic_short_channel_id = [], ic_fee_base_msat = [], ic_fee_proportional_millionths = 0,
      ic_cltv_expiry_delta = 0, ic_incoming_capacity_msat = []\<rparr>"

definition listincoming_of_json :: "'f json \<Rightarrow> (incoming_channel list, serde_error) outcome" where
  "listincoming_of_json = read_struct False
     [field ''incoming'' (list_of_json incoming_channel_of_json) (\<lambda>f r. f r)] []"

subsection \<open>The node, its peers and funds\<close>

record chain_info =
  ci_chain :: string
  ci_headercount :: u32
  ci_blockcount :: u32
  ci_ibd :: bool

definition chain_info_of_json :: "'f json \<Rightarrow> (chain_info, serde_error) outcome" where
  "chain_info_of_json = read_struct False
     [field ''chain'' string_of_json ci_chain_update,
      field ''headercount'' u32_of_json ci_headercount_update,
      field ''blockcount'' u32_of_json ci_blockcount_update,
      field ''ibd'' bool_of_json ci_ibd_update]
     \<lparr>ci_chain = [], ci_headercount = 0, ci_blockcount = 0, ci_ibd = False\<rparr>"

record getlog_entry =
  le_type :: string
  le_num_skipped :: "u64 option"
  le_time :: "string option"
  le_node_id :: "string option"
  le_source :: "string option"
  le_log :: "string option"
  le_data :: "string option"

definition getlog_entry_of_json :: "'f json \<Rightarrow> (getlog_entry, serde_error) outcome" where
  "getlog_entry_of_json = read_struct False
     [field ''type'' string_of_json le_type_update,
      opt_field ''num_skipped'' u64_of_json le_num_skipped_update,
      opt_field ''time'' string_of_json le_time_update,
      opt_field ''node_id'' string_of_json le_node_id_update,
      opt_field ''source'' string_of_json le_source_update,
      opt_field ''log'' string_of_json le_log_update,
      opt_field ''data'' string_of_json le_data_update]
     \<lparr>le_type = [], le_num_skipped = None, le_time = None, le_node_id = None,
      le_source = None, le_log = None, le_data = None\<rparr>"

record getlog_result =
  gl_created_at :: string
  gl_bytes_used :: u64
  gl_bytes_max :: u64
  gl_log :: "getlog_entry list"

definition getlog_result_of_json :: "'f json \<Rightarrow> (getlog_result, serde_error) outcome" where
  "getlog_result_of_json = read_struct False
     [field ''created_at'' string_of_json gl_created_at_update,
      field ''bytes_used'' u64_of_json gl_bytes_used_update,
      field ''bytes_max'' u64_of_json gl_bytes_max_update,
      field ''log'' (list_of_json getlog_entry_of_json) gl_log_update]
     \<lparr>gl_created_at = [], gl_bytes_used = 0, gl_bytes_max = 0, gl_log = []\<rparr>"

record peer_htlc =
  ht_direction :: string
  ht_id :: u64
  ht_amount_msat :: nat
  ht_expiry :: u64
  ht_payment_hash :: string
  ht_state :: string
  ht_local_trimmed :: "bool option"

definition peer_htlc_of_json :: "'f json \<Rightarrow> (peer_htlc, serde_error) outcome" where
  "peer_htlc_of_json = read_struct False
     [field ''direction'' string_of_json ht_direction_update,
      field ''id'' u64_of_json ht_id_update,
      field ''amount_msat'' msat_of_json ht_amount_msat_update,
      field ''expiry'' u64_of_json ht_expiry_update,
      field ''payment_hash'' string_of_json ht_payment_hash_update,
      field ''state'' string_of_json ht_state_update,
      opt_field ''local_trimmed'' bool_of_json ht_local_trimmed_update]
     \<lparr>ht_direction = [], ht_id = 0, ht_amount_msat = 0, ht_expiry = 0, ht_payment_hash = [],
      ht_state = [], ht_local_trimmed = None\<rparr>"

record alias_pair =
  ap_local :: "string option"
  ap_remote :: "string option"

definition alias_pair_of_json :: "'f json \<Rightarrow> (alias_pair, serde_error) outcome" where
  "alias_pair_of_json = read_struct False
     [opt_field ''local'' string_of_json ap_local_update,
      opt_field ''remote'' string_of_json ap_remote_update]
     \<lparr>ap_local = None, ap_remote = None\<rparr>"

record cln_channel =
  ch_state :: string
  ch_scratch_txid :: "string option"
  ch_owner :: "string option"
  ch_short_channel_id :: "string option"
  ch_alias :: "alias_pair option"
  ch_direction :: "u64 option"
  ch_channel_id :: string
  ch_funding_txid :: string
  ch_close_to_addr :: "string option"
  ch_close_to :: "string option"
  ch_private :: bool
  ch_to_us_msat :: nat
  ch_min_to_us_msat :: nat
  ch_max_to_us_msat :: nat
  ch_total_msat :: nat
  ch_dust_limit_msat :: nat
  ch_max_total_htlc_in_msat :: nat
  ch_their_reserve_msat :: nat
  ch_our_reserve_msat :: nat
  ch_spendable_msat :: nat
  ch_receivable_msat :: nat
  ch_minimum_htlc_in_msat :: nat
  ch_their_to_self_delay :: u64
  ch_our_to_self_delay :: u64
  ch_max_accepted_htlcs :: u64
  ch_status :: "string list"
  ch_in_payments_offered :: u64
  ch_in_offered_msat :: nat
  ch_in_payments_fulfilled :: u64
  ch_in_fulfilled_msat :: nat
  ch_out_payments_offered :: u64
  ch_out_offered_msat :: nat
  ch_out_payments_fulfilled :: u64
  ch_out_fulfilled_msat :: nat
  ch_htlcs :: "peer_htlc list"

definition cln_channel_of_json :: "'f json \<Rightarrow> (cln_channel, serde_error) outcome" where
  "cln_channel_of_json = read_struct False
     [field ''state'' string_of_json ch_state_update,
      opt_field ''scratch_txid'' string_of_json ch_scratch_txid_update,
      opt_field ''owner'' string_of_json ch_owner_update,
      opt_field ''short_channel_id'' string_of_json ch_short_channel_id_update,
      opt_field ''alias'' alias_pair_of_json ch_alias_update,
      opt_field ''direction'' u64_of_json ch_direction_update,
      field ''channel_id'' string_of_json ch_channel_id_update,
      field ''funding_txid'' string_of_json ch_funding_txid_update,
      opt_field ''close_to_addr'' string_of_json ch_close_to_addr_update,
      opt_field ''close_to'' string_of_json ch_close_to_update,
      field ''private'' bool_of_json ch_private_update,
      field ''to_us_msat'' msat_of_json ch_to_us_msat_update,
      field ''min_to_us_msat'' msat_of_json ch_min_to_us_msat_update,
      field ''max_to_us_msat'' msat_of_json ch_max_to_us_msat_update,
      field ''total_msat'' msat_of_json ch_total_msat_update,
      field ''dust_limit_msat'' msat_of_json ch_dust_limit_msat_update,
      field ''max_total_htlc_in_msat'' msat_of_json ch_max_total_htlc_in_msat_update,
      field ''their_reserve_msat'' msat_of_json ch_their_reserve_msat_update,
      field ''our_reserve_msat'' msat_of_json ch_our_reserve_msat_update,
      field ''spendable_msat'' msat_of_json ch_spendable_msat_update,
      field ''receivable_msat'' msat_of_json ch_receivable_msat_update,
      field ''minimum_htlc_in_msat'' msat_of_json ch_minimum_htlc_in_msat_update,
      field ''their_to_self_delay'' u64_of_json ch_their_to_self_delay_update,
      field ''our_to_self_delay'' u64_of_json ch_our_to_self_delay_update,
      field ''max_accepted_htlcs'' u64_of_json ch_max_accepted_htlcs_update,
      field ''status'' (list_of_json string_of_json) ch_status_update,
      field ''in_payments_offered'' u64_of_json ch_in_payments_offered_update,
      field ''in_offered_msat'' msat_of_json ch_in_offered_msat_update,
      field ''in_payments_fulfilled'' u64_of_json ch_in_payments_fulfilled_update,
      field ''in_fulfilled_msat'' msat_of_json ch_in_fulfilled_msat_update,
      field ''out_payments_offered'' u64_of_json ch_out_payments_offered_update,
      field ''out_offered_msat'' msat_of_json ch_out_offered_msat_update,
      field ''out_payments_fulfilled'' u64_of_json ch_out_payments_fulfilled_update,
      field ''out_fulfilled_msat'' msat_of_json ch_out_fulfilled_msat_update,
      field ''htlcs'' (list_of_json peer_htlc_of_json) ch_htlcs_update]
     \<lparr>ch_state = [], ch_scratch_txid = None, ch_owner = None, ch_short_channel_id = None,
      ch_alias = None, ch_direction = None, ch_channel_id = [], ch_funding_txid = [],
      ch_close_to_addr = None, ch_close_to = None, ch_private = False, ch_to_us_msat = 0,
      ch_min_to_us_msat = 0, ch_max_to_us_msat = 0, ch_total_msat = 0, ch_dust_limit_msat = 0,
      ch_max_total_htlc_in_msat = 0, ch_their_reserve_msat = 0, ch_our_reserve_msat = 0,
      ch_spendable_msat = 0, ch_receivable_msat = 0, ch_minimum_htlc_in_msat = 0,
      ch_their_to_self_delay = 0, ch_our_to_self_delay = 0, ch_max_accepted_htlcs = 0,
      ch_status = [], ch_in_payments_offered = 0, ch_in_offered_msat = 0,
      ch_in_payments_fulfilled = 0, ch_in_fulfilled_msat = 0, ch_out_payments_offered = 0,
      ch_out_offered_msat = 0, ch_out_payments_fulfilled = 0, ch_out_fulfilled_msat = 0,
      ch_htlcs = []\<rparr>"

record peer_entry =
  pe_id :: string
  pe_connected :: bool
  pe_netaddr :: "string list option"
  pe_features :: "string option"
  pe_channels :: "cln_channel list"
  pe_log :: "getlog_entry list option"

definition peer_entry_of_json :: "'f json \<Rightarrow> (peer_entry, serde_error) outcome" where
  "peer_entry_of_json = read_struct False
     [field ''id'' string_of_json pe_id_update,
      field ''connected'' bool_of_json pe_connected_update,
      opt_field ''netaddr'' (list_of_json string_of_json) pe_netaddr_update,
      opt_field ''features'' string_of_json pe_features_update,
      field ''channels'' (list_of_json cln_channel_of_json) pe_channels_update,
      opt_field ''log'' (list_of_json getlog_entry_of_json) pe_log_update]
     \<lparr>pe_id = [], pe_connected = False, pe_netaddr = None, pe_features = None,
      pe_channels = [], pe_log = None\<rparr>"

definition listpeers_of_json :: "'f json \<Rightarrow> (peer_entry list, serde_error) outcome" where
  "listpeers_of_json = read_struct False
     [field ''peers'' (list_of_json peer_entry_of_json) (\<lambda>f r. f r)] []"

record funds_output =
  fo_txid :: string
  fo_output :: u64
  fo_amount_msat :: nat
  fo_address :: string
  fo_status :: string
  fo_reserved :: bool
  fo_reserved_to_block :: "u32 option"

definition funds_output_of_json :: "'f json \<Rightarrow> (funds_output, serde_error) outcome" where
  "funds_output_of_json = read_struct False
     [field ''txid'' string_of_json fo_txid_update,
      field ''output'' u64_of_json fo_output_update,
      field ''amount_msat'' msat_of_json fo_amount_msat_update,
      field ''address'' string_of_json fo_address_update,
      field ''status'' string_of_json fo_status_update,
      field ''reserved'' bool_of_json fo_reserved_update,
      opt_field ''reserved_to_block'' u32_of_json fo_reserved_to_block_update]
     \<lparr>fo_txid = [], fo_output = 0, fo_amount_msat = 0, fo_address = [], fo_status = [],
      fo_reserved = False, fo_reserved_to_block = None\<rparr>"

record funds_channel =
  fc_peer_id :: string
  fc_connected :: bool
  fc_short_channel_id :: "string option"
  fc_our_amount_msat :: nat
  fc_amount_msat :: nat
  fc_funding_txid :: string
  fc_funding_output :: u64

definition funds_channel_of_json :: "'f json \<Rightarrow> (funds_channel, serde_error) outcome" where
  "funds_channel_of_json = read_struct False
     [field ''peer_id'' string_of_json fc_peer_id_update,
      field ''connected'' bool_of_json fc_connected_update,
      opt_field ''short_channel_id'' string_of_json fc_short_channel_id_update,
      field ''our_amount_msat'' msat_of_json fc_our_amount_msat_update,
      field ''amount_msat'' msat_of_json fc_amount_msat_update,
      field ''funding_txid'' string_of_json fc_funding_txid_update,
      field ''funding_output'' u64_of_json fc_funding_output_update]
     \<lparr>fc_peer_id = [], fc_connected = False, fc_short_channel_id = None,
      fc_our_amount_msat = 0, fc_amount_msat = 0, fc_funding_txid = [],
      fc_funding_output = 0\<rparr>"

record listfunds_result =
  lf_outputs :: "funds_output list"
  lf_channels :: "funds_channel list"

definition listfunds_result_of_json :: "'f json \<Rightarrow> (listfunds_result, serde_error) outcome" where
  "listfunds_result_of_json = read_struct False
     [field ''outputs'' (list_of_json funds_output_of_json) lf_outputs_update,
      field ''channels'' (list_of_json funds_channel_of_json) lf_channels_update]
     \<lparr>lf_outputs = [], lf_channels = []\<rparr>"

subsection \<open>LSPs\<close>

definition lsp_call_result_of_json :: "'f json \<Rightarrow> (lsp_call_result, serde_error) outcome" where
  "lsp_call_result_of_json = read_struct False
     [field ''bolt11'' string_of_json lr_bolt11_update, field ''created_index'' nat32_of_json lr_created_index_update,
      field ''expires_at'' nat32_of_json lr_expires_at_update,
      field ''payment_hash'' string_of_json lr_payment_hash_update,
      field ''payment_secret'' string_of_json lr_payment_secret_update]
     \<lparr>lr_bolt11 = [], lr_created_index = 0, lr_expires_at = 0, lr_payment_hash = [], lr_payment_secret = []\<rparr>"

definition fee_params_fields :: "('f, opening_fee_params) field_reader list" where
  "fee_params_fields =
     [field ''min_fee_msat'' string_of_json of_min_fee_msat_update,
      field ''proportional'' u64_of_json of_proportional_update,
      field ''valid_until'' string_of_json of_valid_until_update,
      field ''min_lifetime'' u32_of_json of_min_lifetime_update,
      field ''max_client_to_self_delay'' u32_of_json of_max_client_to_self_delay_update,
      field ''min_payment_size_msat'' string_of_json of_min_payment_size_msat_update,
      field ''max_payment_size_msat'' string_of_json of_max_payment_size_msat_update,
      field ''promise'' string_of_json of_promise_update]"

definition fee_params_of_json :: "'f json \<Rightarrow> (opening_fee_params, serde_error) outcome" where
  "fee_params_of_json = read_struct True fee_params_fields
     \<lparr>of_min_fee_msat = [], of_proportional = 0, of_valid_until = [], of_min_lifetime = 0,
      of_max_client_to_self_delay = 0, of_min_payment_size_msat = [], of_max_payment_size_msat = [], of_promise = []\<rparr>"

definition lsp_getinfo_of_json :: "'f json \<Rightarrow> (opening_fee_params list, serde_error) outcome" where
  "lsp_getinfo_of_json = read_struct False
     [field ''opening_fee_params_menu'' (list_of_json fee_params_of_json) (\<lambda>f r. f r)] []"

text \<open>How the task that asks a peer ends, by what comes of the call within two seconds.\<close>

datatype 'f rpc_answer = Answer "'f json" | RpcFailed string | TimedOut | ConnectFailed

fun offer_of_answer :: "'f rpc_answer \<Rightarrow> offer_answer" where
  "offer_of_answer (Answer j) =
     (case lsp_getinfo_of_json j of
        Ok params \<Rightarrow> Menu params
      | Err e \<Rightarrow> OfferError ''response does not parse''
      | Panic \<Rightarrow> OfferTaskFailed)"
| "offer_of_answer (RpcFailed e) = OfferError e"
| "offer_of_answer TimedOut = OfferTimeout"
| "offer_of_answer ConnectFailed = OfferTaskFailed"

subsection \<open>Lemmas\<close>

lemma offer_of_answer_Menu:
  "offer_of_answer a = Menu params \<longleftrightarrow> (\<exists>j. a = Answer j \<and> lsp_getinfo_of_json j = Ok params)"
  by (cases a) (auto split: outcome.split)

lemma fee_params_names:
  "fr_name ` set fee_params_fields = {''min_fee_msat'', ''proportional'', ''valid_until'', ''min_lifetime'',
    ''max_client_to_self_delay'', ''min_payment_size_msat'', ''max_payment_size_msat'', ''promise''}"
  by (simp add: fee_params_fields_def field_def)

lemma menu_refused:
  assumes "map_of es ''opening_fee_params_menu'' = Some (JArr menu)" "JObj params \<in> set menu"
    and "k \<in> fst ` set params"
    and "k \<notin> {''min_fee_msat'', ''proportional'', ''valid_until'', ''min_lifetime'', ''max_client_to_self_delay'',
      ''min_payment_size_msat'', ''max_payment_size_msat'', ''promise''}"
  shows "lsp_getinfo_of_json (JObj es) \<noteq> Ok offers"
proof -
  have "\<forall>f \<in> set fee_params_fields. fr_name f \<noteq> k"
    using assms(4) fee_params_names by blast
  from read_entries_unknown [OF assms(3) this] have "fee_params_of_json (JObj params) \<noteq> Ok x" for x
    by (simp add: fee_params_of_json_def read_struct_def obind_eq_Ok)
  then have "each fee_params_of_json menu \<noteq> Ok xs" for xs using each_fails [OF assms(2)] by blast
  then have fails: "\<forall>r x. fr_read (field ''opening_fee_params_menu'' (list_of_json fee_params_of_json) (\<lambda>f r. f r))
      (JArr menu) r \<noteq> Ok x"
    by (simp add: field_def omap_eq_Ok)
  have "read_entries False [field ''opening_fee_params_menu'' (list_of_json fee_params_of_json) (\<lambda>f r. f r)] es [] \<noteq> Ok x" for x
    by (rule read_entries_fails [OF assms(1) _ fails]) (simp add: field_def)
  then show ?thesis by (simp add: lsp_getinfo_of_json_def read_struct_def obind_eq_Ok)
qed

section \<open>Properties\<close>

text \<open>
  C37: an LSP with a fee parameter the node does not know is not used. When the menu a peer
  answers has an entry with a field beside the eight of LSPS2, the peer is not among the offers,
  so that no invoice is negotiated with it; peers among the offers have answered the menu that
  is kept with them.
\<close>

theorem unknown_fee_parameter_refused:
  assumes "\<forall>p. nr_offers R p = offer_of_answer (answer p)" "get_lsps_offers R = Ok offers"
    and "answer lsp = Answer (JObj es)" "map_of es ''opening_fee_params_menu'' = Some (JArr menu)"
    and "JObj params \<in> set menu" "k \<in> fst ` set params"
    and "k \<notin> {''min_fee_msat'', ''proportional'', ''valid_until'', ''min_lifetime'', ''max_client_to_self_delay'',
      ''min_payment_size_msat'', ''max_payment_size_msat'', ''promise''}"
  shows "lsp \<notin> lo_node_id ` set offers \<and>
    (\<forall>off \<in> set offers. \<exists>j. answer (lo_node_id off) = Answer j \<and> lsp_getinfo_of_json j = Ok (lo_params off))"
proof -
  have kept: "\<exists>j. answer (lo_node_id off) = Answer j \<and> lsp_getinfo_of_json j = Ok (lo_params off)"
    if "off \<in> set offers" for off
    using lsps_offers_answered [OF assms(2) that] by (simp add: assms(1) offer_of_answer_Menu)
  then show ?thesis using menu_refused [OF assms(4-7)] assms(3) by fastforce
qed

definition demo_answer :: "string \<Rightarrow> unit rpc_answer" where
  "demo_answer p =
     (if p = ''b'' then Answer (JObj [(''opening_fee_params_menu'', JArr [JObj [(''surprise'', JNull)]])])
      else if p = ''c'' then Answer (JObj [(''opening_fee_params_menu'', JArr [])]) else TimedOut)"

lemma unknown_fee_parameter_refused_witness:
  "get_lsps_offers (demo_rpc\<lparr>nr_offers := offer_of_answer \<circ> demo_answer\<rparr>) =
     Ok [\<lparr>lo_node_id = ''c'', lo_params = []\<rparr>] \<and> ''b'' \<notin> lo_node_id ` {\<lparr>lo_node_id = ''c'', lo_params = []\<rparr>}"
proof -
  let ?R = "demo_rpc\<lparr>nr_offers := offer_of_answer \<circ> demo_answer\<rparr>"
  have offers: "get_lsps_offers ?R = Ok [\<lparr>lo_node_id = ''c'', lo_params = []\<rparr>]"
    by (simp add: get_lsps_offers_def demo_rpc_def demo_answer_def map_filter_simps lsp_getinfo_of_json_def
        fee_params_of_json_def fee_params_fields_def serde)
  have "''b'' \<notin> lo_node_id ` set [\<lparr>lo_node_id = ''c'', lo_params = []\<rparr>]"
    by (rule conjunct1 [OF unknown_fee_parameter_refused [of ?R demo_answer, OF _ offers, of "''b''"
          "[(''opening_fee_params_menu'', JArr [JObj [(''surprise'', JNull)]])]" "[JObj [(''surprise'', JNull)]]"
          "[(''surprise'', JNull)]" "''surprise''"]])
      (simp_all add: demo_answer_def)
  then show ?thesis using offers by simp
qed

end
