(* ===== verification/Awaitables.thy ===== *)
theory Awaitables
  imports Prelude
begin

text \<open>
  Waiting for a peer and for a channel (\<open>libs/gl-plugin/src/awaitables.rs\<close>): the calls of
  lightningd that are waited for, and \<open>AwaitableChannel::poll\<close>, a hand written future that
  goes through them one after the other. What the inner futures do at one poll is data of the
  poll: each of them is still running, or it ends now with the answers of the RPC at that
  time. An inner future that is polled again after it has ended panics, as an async block
  does. Times are milliseconds.
\<close>

subsection \<open>The calls\<close>

datatype awaitable_error =
    UnknownPeer string | PeerConnectFailure string | ChannelError string | RpcFailed string | ServiceError string

record listed_channel =
  lch_short_channel_id :: "string option"
  lch_alias_local :: "string option"
  lch_status :: "string list option"
  lch_spendable_msat :: "nat option"

text \<open>The answers of lightningd; of a listed peer, whether it is connected.\<close>

record await_rpc =
  aw_open :: "(unit, string) outcome"
  aw_listpeers :: "string \<Rightarrow> (bool list, string) outcome"
  aw_connect :: "string \<Rightarrow> (unit, string) outcome"
  aw_version :: "(string, string) outcome"
  aw_listpeerchannels :: "string \<Rightarrow> (listed_channel list, string) outcome"
  aw_getroute :: "string \<Rightarrow> (unit, string) outcome"

definition aw_connect_rpc :: "await_rpc \<Rightarrow> (unit, awaitable_error) outcome" where
  "aw_connect_rpc R = omap_err (\<lambda>e. ServiceError (''cant connect to rpc '' @ e)) (aw_open R)"

definition ensure_peer_connection :: "await_rpc \<Rightarrow> string \<Rightarrow> (unit, awaitable_error) outcome" where
  "ensure_peer_connection R peer =
     obind (aw_connect_rpc R) (\<lambda>_.
     obind (omap_err RpcFailed (aw_listpeers R peer)) (\<lambda>peers.
     case peers of
       [] \<Rightarrow> Err (UnknownPeer peer)
     | connected # _ \<Rightarrow>
         if \<not> connected then omap_err (\<lambda>_. PeerConnectFailure peer) (aw_connect R peer) else Ok ()))"

definition get_version :: "await_rpc \<Rightarrow> (string, awaitable_error) outcome" where
  "get_version R = obind (aw_connect_rpc R) (\<lambda>_. omap_err RpcFailed (aw_version R))"

definition min_version :: string where
  "min_version = ''v23.05gl1''"

definition unsupported_version :: "string \<Rightarrow> awaitable_error" where
  "unsupported_version v =
     ServiceError (''Not supported in this version of core-lightning: '' @ v @ '', need at least v23.05gl1'')"

definition is_channel :: "string \<Rightarrow> listed_channel \<Rightarrow> bool" where
  "is_channel scid c = (lch_short_channel_id c = Some scid \<or> lch_alias_local c = Some scid)"

definition listed :: "await_rpc \<Rightarrow> string \<Rightarrow> string \<Rightarrow> (listed_channel, awaitable_error) outcome" where
  "listed R peer scid =
     obind (omap_err RpcFailed (aw_listpeerchannels R peer)) (\<lambda>channels.
     ok_or (ChannelError ''Could not find the channel in listpeerchannels'') (find (is_channel scid) channels))"

definition billboard :: "await_rpc \<Rightarrow> string \<Rightarrow> string \<Rightarrow> string \<Rightarrow> (string list, awaitable_error) outcome" where
  "billboard R version peer scid =
     obind (aw_connect_rpc R) (\<lambda>_.
       if min_version \<le> version then
         obind (listed R peer scid) (\<lambda>c. ok_or (ChannelError ''Status not found'') (lch_status c))
       else Err (unsupported_version version))"

definition get_route :: "await_rpc \<Rightarrow> string \<Rightarrow> (unit, awaitable_error) outcome" where
  "get_route R peer = obind (aw_connect_rpc R) (\<lambda>_. omap_err RpcFailed (aw_getroute R peer))"

definition spendable_msat_call :: "await_rpc \<Rightarrow> string \<Rightarrow> string \<Rightarrow> string \<Rightarrow> (nat, awaitable_error) outcome" where
  "spendable_msat_call R version peer scid =
     obind (aw_connect_rpc R) (\<lambda>_.
       if min_version \<le> version then
         obind (listed R peer scid) (\<lambda>c. ok_or (ChannelError ''No amount found'') (lch_spendable_msat c))
       else Err (unsupported_version version))"

definition channel_ready_status :: "string list \<Rightarrow> bool" where
  "channel_ready_status statuses =
     list_ex (\<lambda>s. contains_str s ''Channel ready'' \<or> contains_str s ''Reconnected, and reestablished'') statuses"

subsection \<open>Polling\<close>

datatype 'a polled = Ready 'a | Pending

text \<open>An inner future is running or has ended; it is polled with what it does now.\<close>

datatype inner_future = Running | Ended

definition poll_inner ::
  "inner_future \<Rightarrow> await_rpc option \<Rightarrow> (await_rpc \<Rightarrow> ('a, awaitable_error) outcome)
     \<Rightarrow> inner_future \<times> ('a, awaitable_error) outcome polled" where
  "poll_inner fut answer call =
     (case fut of
        Ended \<Rightarrow> (Ended, Ready Panic)
      | Running \<Rightarrow> (case answer of None \<Rightarrow> (Running, Pending) | Some R \<Rightarrow> (Ended, Ready (call R))))"

record awaitable_channel =
  ac_scid :: string
  ac_peer_id :: string
  ac_version :: "string option"
  ac_peer_connected :: bool
  ac_channel_ready :: bool
  ac_route_found :: bool
  ac_last_check :: "nat option"
  ac_rpc_call_delay :: nat
  ac_get_version :: "inner_future option"
  ac_ensure_peer_connection :: "inner_future option"
  ac_billboard :: "inner_future option"
  ac_get_route :: "inner_future option"
  ac_spendable_msat :: "inner_future option"

definition RPC_CALL_DELAY_MSEC :: nat where
  "RPC_CALL_DELAY_MSEC = 250"

definition awaitable_channel_start :: "string \<Rightarrow> string \<Rightarrow> awaitable_channel" where
  "awaitable_channel_start peer scid =
     \<lparr>ac_scid = scid, ac_peer_id = peer, ac_version = None, ac_peer_connected = False,
      ac_channel_ready = False, ac_route_found = False, ac_last_check = None,
      ac_rpc_call_delay = RPC_CALL_DELAY_MSEC, ac_get_version = None,
      ac_ensure_peer_connection = None, ac_billboard = None, ac_get_route = None,
      ac_spendable_msat = None\<rparr>"

text \<open>One poll: the time it starts, the time a failed check is noted at, and what the inner futures do.\<close>

record poll_env =
  pl_now :: nat
  pl_checked :: nat
  pl_version :: "await_rpc option"
  pl_peer :: "await_rpc option"
  pl_billboard :: "await_rpc option"
  pl_route :: "await_rpc option"
  pl_spendable :: "await_rpc option"

type_synonym channel_poll = "awaitable_channel \<times> (nat, awaitable_error) outcome polled"

text \<open>\<open>get_or_insert\<close>: the inner future that is there, or a new one.\<close>

definition started :: "inner_future option \<Rightarrow> inner_future" where
  "started f = (case f of None \<Rightarrow> Running | Some f \<Rightarrow> f)"

definition poll_spendable :: "poll_env \<Rightarrow> awaitable_channel \<Rightarrow> channel_poll" where
  "poll_spendable e c =
     (case ac_version c of
        None \<Rightarrow> (c, Ready Panic)
      | Some v \<Rightarrow>
          (let (f, r) = poll_inner (started (ac_spendable_msat c)) (pl_spendable e)
                          (\<lambda>R. spendable_msat_call R v (ac_peer_id c) (ac_scid c))
           in (c\<lparr>ac_spendable_msat := Some f\<rparr>, r)))"

definition poll_route :: "poll_env \<Rightarrow> awaitable_channel \<Rightarrow> channel_poll" where
  "poll_route e c =
     (if ac_route_found c then poll_spendable e c
      else
        let (f, r) = poll_inner (started (ac_get_route c)) (pl_route e) (\<lambda>R. get_route R (ac_peer_id c));
            c = c\<lparr>ac_get_route := Some f\<rparr>
        in (case r of
              Ready (Ok _) \<Rightarrow> poll_spendable e (c\<lparr>ac_route_found := True\<rparr>)
            | Ready (Err _) \<Rightarrow> (c\<lparr>ac_last_check := Some (pl_checked e), ac_get_route := None\<rparr>, Pending)
            | Ready Panic \<Rightarrow> (c, Ready Panic)
            | Pending \<Rightarrow> (c, Pending)))"

definition poll_billboard :: "poll_env \<Rightarrow> awaitable_channel \<Rightarrow> channel_poll" where
  "poll_billboard e c =
     (if ac_channel_ready c then poll_route e c
      else
        case ac_version c of
          None \<Rightarrow> (c, Ready Panic)
        | Some v \<Rightarrow>
            (let (f, r) = poll_inner (started (ac_billboard c)) (pl_billboard e)
                            (\<lambda>R. billboard R v (ac_peer_id c) (ac_scid c));
                 c = c\<lparr>ac_billboard := Some f\<rparr>
             in (case r of
                   Ready (Ok statuses) \<Rightarrow>
                     if \<not> channel_ready_status statuses then
                       (c\<lparr>ac_last_check := Some (pl_checked e), ac_billboard := None\<rparr>, Pending)
                     else poll_route e (c\<lparr>ac_channel_ready := True\<rparr>)
                 | Ready (Err x) \<Rightarrow> (c, Ready (Err x))
                 | Ready Panic \<Rightarrow> (c, Ready Panic)
                 | Pending \<Rightarrow> (c, Pending))))"

definition poll_peer :: "poll_env \<Rightarrow> awaitable_channel \<Rightarrow> channel_poll" where
  "poll_peer e c =
     (if ac_peer_connected c then poll_billboard e c
      else
        let (f, r) = poll_inner (started (ac_ensure_peer_connection c)) (pl_peer e)
                       (\<lambda>R. ensure_peer_connection R (ac_peer_id c));
            c = c\<lparr>ac_ensure_peer_connection := Some f\<rparr>
        in (case r of
              Ready (Ok _) \<Rightarrow> poll_billboard e (c\<lparr>ac_peer_connected := True\<rparr>)
            | Ready (Err x) \<Rightarrow> (c, Ready (Err x))
            | Ready Panic \<Rightarrow> (c, Ready Panic)
            | Pending \<Rightarrow> (c, Pending)))"

definition poll_version :: "poll_env \<Rightarrow> awaitable_channel \<Rightarrow> channel_poll" where
  "poll_version e c =
     (if ac_version c \<noteq> None then poll_peer e c
      else
        let (f, r) = poll_inner (started (ac_get_version c)) (pl_version e) get_version;
            c = c\<lparr>ac_get_version := Some f\<rparr>
        in (case r of
              Ready (Ok v) \<Rightarrow> poll_peer e (c\<lparr>ac_version := Some v\<rparr>)
            | Ready (Err x) \<Rightarrow> (c, Ready (Err x))
            | Ready Panic \<Rightarrow> (c, Ready Panic)
            | Pending \<Rightarrow> (c, Pending)))"

definition backing_off :: "nat \<Rightarrow> awaitable_channel \<Rightarrow> bool" where
  "backing_off now c = (case ac_last_check c of None \<Rightarrow> False | Some t \<Rightarrow> now - t < ac_rpc_call_delay c)"

definition channel_poll :: "poll_env \<Rightarrow> awaitable_channel \<Rightarrow> channel_poll" where
  "channel_poll e c = (if backing_off (pl_now e) c then (c, Pending) else poll_version e c)"

text \<open>Polls one after the other, until the first one that is ready.\<close>

fun channel_await :: "poll_env list \<Rightarrow> awaitable_channel \<Rightarrow> channel_poll" where
  "channel_await [] c = (c, Pending)"
| "channel_await (e # es) c =
     (case channel_poll e c of
        (c, Pending) \<Rightarrow> channel_await es c
      | (c, Ready r) \<Rightarrow> (c, Ready r))"

subsection \<open>Waiting for a peer\<close>

record awaitable_peer =
  ap_peer_id :: string
  ap_ensure_peer_connection :: "inner_future option"

definition awaitable_peer_new :: "string \<Rightarrow> awaitable_peer" where
  "awaitable_peer_new peer = \<lparr>ap_peer_id = peer, ap_ensure_peer_connection = None\<rparr>"

definition awaitable_peer_wait :: "await_rpc \<Rightarrow> awaitable_peer \<Rightarrow> (unit, awaitable_error) outcome" where
  "awaitable_peer_wait R p = ensure_peer_connection R (ap_peer_id p)"

definition peer_poll ::
  "await_rpc option \<Rightarrow> awaitable_peer \<Rightarrow> awaitable_peer \<times> (unit, awaitable_error) outcome polled" where
  "peer_poll answer p =
     (let (f, r) = poll_inner (started (ap_ensure_peer_connection p)) answer
                     (\<lambda>R. ensure_peer_connection R (ap_peer_id p))
      in (p\<lparr>ap_ensure_peer_connection := Some f\<rparr>, r))"

subsection \<open>The invariant of a channel that is waited for\<close>

text \<open>
  What has been reached has an inner future that has ended, the next one may be running, and
  those after it have not been created.
\<close>

definition ac_ok :: "awaitable_channel \<Rightarrow> bool" where
  "ac_ok c \<longleftrightarrow>
     (if ac_version c = None then ac_get_version c \<noteq> Some Ended \<and> \<not> ac_peer_connected c \<and>
        ac_ensure_peer_connection c = None
      else ac_get_version c = Some Ended) \<and>
     (if ac_peer_connected c then ac_ensure_peer_connection c = Some Ended
      else ac_ensure_peer_connection c \<noteq> Some Ended \<and> \<not> ac_channel_ready c \<and> ac_billboard c = None) \<and>
     (if ac_channel_ready c then ac_billboard c = Some Ended
      else ac_billboard c \<noteq> Some Ended \<and> \<not> ac_route_found c \<and> ac_get_route c = None) \<and>
     (if ac_route_found c then ac_get_route c = Some Ended
      else ac_get_route c \<noteq> Some Ended \<and> ac_spendable_msat c = None) \<and>
     ac_spendable_msat c \<noteq> Some Ended"

lemma ac_ok_start: "ac_ok (awaitable_channel_start peer scid)"
  by (simp add: ac_ok_def awaitable_channel_start_def)

text \<open>Predicates that held at polls, the first of the list last.\<close>

fun in_order :: "('e \<Rightarrow> bool) list \<Rightarrow> 'e list \<Rightarrow> bool" where
  "in_order [] es = True"
| "in_order (P # Ps) es = (\<exists>i < length es. P (es ! i) \<and> in_order Ps (take (Suc i) es))"

lemma in_order_append: "in_order Ps es \<Longrightarrow> in_order Ps (es @ es')"
proof (induction Ps arbitrary: es)
  case (Cons P Ps)
  then obtain i where i: "i < length es" "P (es ! i)" "in_order Ps (take (Suc i) es)" by auto
  then show ?case by (auto intro!: exI [of _ i] simp: nth_append)
qed simp

lemma in_order_Cons: "es \<noteq> [] \<Longrightarrow> P (last es) \<Longrightarrow> in_order Ps es \<Longrightarrow> in_order (P # Ps) es"
  by (auto intro!: exI [of _ "length es - 1"] simp: last_conv_nth)

definition told_version :: "string \<Rightarrow> poll_env \<Rightarrow> bool" where
  "told_version v e = (case pl_version e of None \<Rightarrow> False | Some R \<Rightarrow> get_version R = Ok v)"

definition told_connected :: "string \<Rightarrow> poll_env \<Rightarrow> bool" where
  "told_connected peer e =
     (case pl_peer e of None \<Rightarrow> False | Some R \<Rightarrow> ensure_peer_connection R peer = Ok ())"

definition told_ready :: "string \<Rightarrow> string \<Rightarrow> string \<Rightarrow> poll_env \<Rightarrow> bool" where
  "told_ready v peer scid e =
     (case pl_billboard e of None \<Rightarrow> False
      | Some R \<Rightarrow> (case billboard R v peer scid of Ok statuses \<Rightarrow> channel_ready_status statuses | _ \<Rightarrow> False))"

definition told_routable :: "string \<Rightarrow> poll_env \<Rightarrow> bool" where
  "told_routable peer e = (case pl_route e of None \<Rightarrow> False | Some R \<Rightarrow> is_ok (get_route R peer))"

definition told_spendable :: "string \<Rightarrow> string \<Rightarrow> string \<Rightarrow> nat \<Rightarrow> poll_env \<Rightarrow> bool" where
  "told_spendable v peer scid amount e =
     (case pl_spendable e of None \<Rightarrow> False | Some R \<Rightarrow> spendable_msat_call R v peer scid = Ok amount)"

lemmas told_defs = told_version_def told_connected_def told_ready_def told_routable_def told_spendable_def

definition ac_inv :: "string \<Rightarrow> string \<Rightarrow> poll_env list \<Rightarrow> awaitable_channel \<Rightarrow> bool" where
  "ac_inv peer scid es c \<longleftrightarrow> ac_ok c \<and> ac_peer_id c = peer \<and> ac_scid c = scid \<and>
     ac_rpc_call_delay c = RPC_CALL_DELAY_MSEC \<and>
     (\<forall>v. ac_version c = Some v \<longrightarrow>
        in_order [told_version v] es \<and>
        (ac_peer_connected c \<longrightarrow> in_order [told_connected peer, told_version v] es) \<and>
        (ac_channel_ready c \<longrightarrow> in_order [told_ready v peer scid, told_connected peer, told_version v] es) \<and>
        (ac_route_found c \<longrightarrow>
           in_order [told_routable peer, told_ready v peer scid, told_connected peer, told_version v] es))"

text \<open>No poll panics.\<close>

definition rpc_total :: "await_rpc \<Rightarrow> bool" where
  "rpc_total R \<longleftrightarrow> aw_open R \<noteq> Panic \<and> aw_version R \<noteq> Panic \<and> (\<forall>p. aw_listpeers R p \<noteq> Panic \<and>
     aw_connect R p \<noteq> Panic \<and> aw_listpeerchannels R p \<noteq> Panic \<and> aw_getroute R p \<noteq> Panic)"

definition env_total :: "poll_env \<Rightarrow> bool" where
  "env_total e \<longleftrightarrow> (\<forall>x \<in> {pl_version e, pl_peer e, pl_billboard e, pl_route e, pl_spendable e}. pred_option rpc_total x)"

lemma obind_not_Panic [simp]: "obind r f \<noteq> Panic \<longleftrightarrow> r \<noteq> Panic \<and> (\<forall>a. r = Ok a \<longrightarrow> f a \<noteq> Panic)"
  by (cases r) auto

lemma omap_err_not_Panic [simp]: "omap_err f r = Panic \<longleftrightarrow> r = Panic"
  by (cases r) auto

lemma ok_or_not_Panic [simp]: "ok_or e x \<noteq> Panic"
  by (cases x) auto

lemma calls_total:
  assumes "rpc_total R"
  shows "get_version R \<noteq> Panic" "ensure_peer_connection R peer \<noteq> Panic" "billboard R v peer scid \<noteq> Panic"
    "get_route R peer \<noteq> Panic" "spendable_msat_call R v peer scid \<noteq> Panic"
  using assms
  by (simp_all add: rpc_total_def get_version_def ensure_peer_connection_def billboard_def get_route_def
        spendable_msat_call_def aw_connect_rpc_def listed_def split: list.split)

lemma env_totalD:
  assumes "env_total e"
  shows "pl_version e = Some R \<Longrightarrow> rpc_total R" "pl_peer e = Some R \<Longrightarrow> rpc_total R"
    "pl_billboard e = Some R \<Longrightarrow> rpc_total R" "pl_route e = Some R \<Longrightarrow> rpc_total R"
    "pl_spendable e = Some R \<Longrightarrow> rpc_total R"
  using assms by (auto simp: env_total_def)

lemma not_total_last:
  "es \<noteq> [] \<Longrightarrow> \<not> env_total (last es) \<Longrightarrow> \<exists>e \<in> set es. \<not> env_total e"
  by (intro bexI [of _ "last es"]) simp_all

definition ac_result :: "string \<Rightarrow> string \<Rightarrow> poll_env list \<Rightarrow> channel_poll \<Rightarrow> bool" where
  "ac_result peer scid es p \<longleftrightarrow>
     (case snd p of
        Pending \<Rightarrow> ac_inv peer scid es (fst p)
      | Ready (Ok amount) \<Rightarrow>
          (\<exists>v. in_order [told_spendable v peer scid amount, told_routable peer, told_ready v peer scid,
                 told_connected peer, told_version v] es)
      | Ready (Err x) \<Rightarrow> True
      | Ready Panic \<Rightarrow> (\<exists>e \<in> set es. \<not> env_total e))"

text \<open>What each stage of a poll gives, and with it a run of polls.\<close>

declare in_order.simps(2) [simp del]

lemma ac_ok_connected: "ac_ok c \<Longrightarrow> ac_peer_connected c \<Longrightarrow> ac_version c \<noteq> None"
  by (auto simp: ac_ok_def split: if_splits)

lemma ac_ok_ready: "ac_ok c \<Longrightarrow> ac_channel_ready c \<Longrightarrow> ac_peer_connected c"
  by (auto simp: ac_ok_def split: if_splits)

lemma ac_ok_route: "ac_ok c \<Longrightarrow> ac_route_found c \<Longrightarrow> ac_channel_ready c"
  by (auto simp: ac_ok_def split: if_splits)

lemma ac_inv_version: "ac_inv peer scid es c \<Longrightarrow> ac_peer_connected c \<Longrightarrow> \<exists>v. ac_version c = Some v"
  using ac_ok_connected by (auto simp: ac_inv_def)

lemma poll_inner_cases:
  "poll_inner f a call = (g, r) \<Longrightarrow> f \<noteq> Ended \<Longrightarrow>
     (a = None \<and> g = Running \<and> r = Pending) \<or> (\<exists>R. a = Some R \<and> g = Ended \<and> r = Ready (call R))"
  by (cases f) (auto simp: poll_inner_def split: option.splits)

lemma started_not_Ended [simp]: "f \<noteq> Some Ended \<Longrightarrow> started f = Running"
  by (cases f rule: option.exhaust; cases "the f") (auto simp: started_def)

lemma poll_inner_Running [simp]:
  "poll_inner Running a call = (case a of None \<Rightarrow> (Running, Pending) | Some R \<Rightarrow> (Ended, Ready (call R)))"
  by (simp add: poll_inner_def)

lemma poll_spendable_result:
  assumes "ac_inv peer scid es c" "ac_route_found c" "es \<noteq> []"
  shows "ac_result peer scid es (poll_spendable (last es) c)"
proof -
  have r: "ac_channel_ready c" "ac_peer_connected c"
    using assms(1,2) ac_ok_route ac_ok_ready by (auto simp: ac_inv_def)
  then obtain v where v: "ac_version c = Some v" using ac_inv_version assms(1) by blast
  have S: "ac_spendable_msat c \<noteq> Some Ended" using assms(1) by (simp add: ac_inv_def ac_ok_def)
  show ?thesis
  proof (cases "pl_spendable (last es)")
    case None
    then show ?thesis using assms v r S
      by (simp add: poll_spendable_def ac_result_def ac_inv_def ac_ok_def)
  next
    case (Some R)
    show ?thesis
    proof (cases "spendable_msat_call R v peer scid")
      case (Ok amount)
      have "in_order [told_routable peer, told_ready v peer scid, told_connected peer, told_version v] es"
        using assms v by (simp add: ac_inv_def)
      then have "in_order [told_spendable v peer scid amount, told_routable peer, told_ready v peer scid,
                 told_connected peer, told_version v] es"
        using assms(3) Some Ok by (simp add: in_order_Cons told_spendable_def)
      then show ?thesis using assms v r S Some Ok
        by (auto simp: poll_spendable_def ac_result_def ac_inv_def)
    next
      case Panic
      then have "\<not> env_total (last es)" using Some env_totalD(5) calls_total(5) by blast
      then have "\<exists>e \<in> set es. \<not> env_total e" using assms(3) not_total_last by blast
      with Panic show ?thesis using assms v r S Some
        by (simp add: poll_spendable_def ac_result_def ac_inv_def)
    qed (use assms v r S Some in \<open>simp_all add: poll_spendable_def ac_result_def ac_inv_def\<close>)
  qed
qed

lemma poll_route_result:
  assumes "ac_inv peer scid es c" "ac_channel_ready c" "es \<noteq> []"
  shows "ac_result peer scid es (poll_route (last es) c)"
proof (cases "ac_route_found c")
  case True
  then show ?thesis using assms by (simp add: poll_route_def poll_spendable_result)
next
  case False
  have r: "ac_peer_connected c" using assms(1,2) ac_ok_ready by (auto simp: ac_inv_def)
  then obtain v where v: "ac_version c = Some v" using ac_inv_version assms(1) by blast
  have S: "ac_get_route c \<noteq> Some Ended" using assms(1) False by (simp add: ac_inv_def ac_ok_def)
  have o: "in_order [told_ready v peer scid, told_connected peer, told_version v] es"
    using assms v by (simp add: ac_inv_def)
  show ?thesis
  proof (cases "pl_route (last es)")
    case None
    then show ?thesis using assms v r S False
      by (simp add: poll_route_def ac_result_def ac_inv_def ac_ok_def)
  next
    case (Some R)
    show ?thesis
    proof (cases "get_route R peer")
      case (Ok u)
      have "in_order [told_routable peer, told_ready v peer scid, told_connected peer, told_version v] es"
        using assms(3) Some Ok o by (simp add: in_order_Cons told_routable_def)
      then have "ac_inv peer scid es (c\<lparr>ac_get_route := Some Ended, ac_route_found := True\<rparr>)"
        using assms v r False by (simp add: ac_inv_def ac_ok_def)
      from poll_spendable_result [OF this _ assms(3)]
      show ?thesis using assms v r S Some Ok False by (simp add: poll_route_def ac_inv_def)
    next
      case Panic
      then have "\<not> env_total (last es)" using Some env_totalD(4) calls_total(4) by blast
      then have "\<exists>e \<in> set es. \<not> env_total e" using assms(3) not_total_last by blast
      with Panic show ?thesis using assms v r S False Some
        by (simp add: poll_route_def ac_result_def ac_inv_def)
    qed (use assms v r S Some False in \<open>simp_all add: poll_route_def ac_result_def ac_inv_def ac_ok_def\<close>)
  qed
qed

lemma poll_billboard_result:
  assumes "ac_inv peer scid es c" "ac_peer_connected c" "es \<noteq> []"
  shows "ac_result peer scid es (poll_billboard (last es) c)"
proof (cases "ac_channel_ready c")
  case True
  then show ?thesis using assms by (simp add: poll_billboard_def poll_route_result)
next
  case False
  from assms(1,2) obtain v where v: "ac_version c = Some v" using ac_inv_version by blast
  have S: "ac_billboard c \<noteq> Some Ended" using assms(1) False by (simp add: ac_inv_def ac_ok_def)
  have o: "in_order [told_connected peer, told_version v] es"
    using assms v by (simp add: ac_inv_def)
  show ?thesis
  proof (cases "pl_billboard (last es)")
    case None
    then show ?thesis using assms v S False
      by (simp add: poll_billboard_def ac_result_def ac_inv_def ac_ok_def)
  next
    case (Some R)
    show ?thesis
    proof (cases "billboard R v peer scid")
      case (Ok st)
      show ?thesis
      proof (cases "channel_ready_status st")
        case True
        have "in_order [told_ready v peer scid, told_connected peer, told_version v] es"
          using assms(3) Some Ok o True by (simp add: in_order_Cons told_ready_def)
        then have "ac_inv peer scid es (c\<lparr>ac_billboard := Some Ended, ac_channel_ready := True\<rparr>)"
          using assms v False by (simp add: ac_inv_def ac_ok_def)
        from poll_route_result [OF this _ assms(3)]
        show ?thesis using assms v S Some Ok False True by (simp add: poll_billboard_def ac_inv_def)
      next
        case F: False
        then show ?thesis using assms v S Some Ok False
          by (simp add: poll_billboard_def ac_result_def ac_inv_def ac_ok_def)
      qed
    next
      case Panic
      then have "\<not> env_total (last es)" using Some env_totalD(3) calls_total(3) by blast
      then have "\<exists>e \<in> set es. \<not> env_total e" using assms(3) not_total_last by blast
      with Panic show ?thesis using assms v S False Some
        by (simp add: poll_billboard_def ac_result_def ac_inv_def)
    qed (use assms v S Some False in \<open>simp_all add: poll_billboard_def ac_result_def ac_inv_def\<close>)
  qed
qed

lemma poll_peer_result:
  assumes "ac_inv peer scid es c" "ac_version c \<noteq> None" "es \<noteq> []"
  shows "ac_result peer scid es (poll_peer (last es) c)"
proof (cases "ac_peer_connected c")
  case True
  then show ?thesis using assms by (simp add: poll_peer_def poll_billboard_result)
next
  case False
  from assms(2) obtain v where v: "ac_version c = Some v" by auto
  have S: "ac_ensure_peer_connection c \<noteq> Some Ended" using assms(1) False by (simp add: ac_inv_def ac_ok_def)
  have o: "in_order [told_version v] es" using assms v by (simp add: ac_inv_def)
  show ?thesis
  proof (cases "pl_peer (last es)")
    case None
    then show ?thesis using assms v S False
      by (simp add: poll_peer_def ac_result_def ac_inv_def ac_ok_def)
  next
    case (Some R)
    show ?thesis
    proof (cases "ensure_peer_connection R peer")
      case (Ok u)
      have "in_order [told_connected peer, told_version v] es"
        using assms(3) Some Ok o by (simp add: in_order_Cons told_connected_def)
      then have "ac_inv peer scid es (c\<lparr>ac_ensure_peer_connection := Some Ended, ac_peer_connected := True\<rparr>)"
        using assms v False by (simp add: ac_inv_def ac_ok_def)
      from poll_billboard_result [OF this _ assms(3)]
      show ?thesis using assms v S Some Ok False by (simp add: poll_peer_def ac_inv_def)
    next
      case Panic
      then have "\<not> env_total (last es)" using Some env_totalD(2) calls_total(2) by blast
      then have "\<exists>e \<in> set es. \<not> env_total e" using assms(3) not_total_last by blast
      with Panic show ?thesis using assms v S False Some
        by (simp add: poll_peer_def ac_result_def ac_inv_def)
    qed (use assms v S Some False in \<open>simp_all add: poll_peer_def ac_result_def ac_inv_def\<close>)
  qed
qed

lemma poll_version_result:
  assumes "ac_inv peer scid es c" "es \<noteq> []"
  shows "ac_result peer scid es (poll_version (last es) c)"
proof (cases "ac_version c = None")
  case False
  then show ?thesis using assms by (simp add: poll_version_def poll_peer_result)
next
  case True
  have S: "ac_get_version c \<noteq> Some Ended" using assms(1) True by (simp add: ac_inv_def ac_ok_def)
  show ?thesis
  proof (cases "pl_version (last es)")
    case None
    then show ?thesis using assms S True
      by (simp add: poll_version_def ac_result_def ac_inv_def ac_ok_def)
  next
    case (Some R)
    show ?thesis
    proof (cases "get_version R")
      case (Ok v)
      have "in_order [told_version v] es"
        using assms(2) Some Ok by (simp add: in_order_Cons told_version_def)
      then have "ac_inv peer scid es (c\<lparr>ac_get_version := Some Ended, ac_version := Some v\<rparr>)"
        using assms True by (simp add: ac_inv_def ac_ok_def)
      from poll_peer_result [OF this _ assms(2)]
      show ?thesis using assms S Some Ok True by (simp add: poll_version_def)
    next
      case Panic
      then have "\<not> env_total (last es)" using Some env_totalD(1) calls_total(1) by blast
      then have "\<exists>e \<in> set es. \<not> env_total e" using assms(2) not_total_last by blast
      with Panic show ?thesis using assms S True Some
        by (simp add: poll_version_def ac_result_def ac_inv_def)
    qed (use assms S Some True in \<open>simp_all add: poll_version_def ac_result_def ac_inv_def\<close>)
  qed
qed

lemma ac_inv_snoc: "ac_inv peer scid es c \<Longrightarrow> ac_inv peer scid (es @ es') c"
  unfolding ac_inv_def by (blast intro: in_order_append)

lemma channel_poll_result:
  assumes "ac_inv peer scid es c"
  shows "ac_result peer scid (es @ [e]) (channel_poll e c)"
  using poll_version_result [OF ac_inv_snoc [OF assms, of "[e]"]] ac_inv_snoc [OF assms, of "[e]"]
  by (simp add: channel_poll_def ac_result_def)

lemma channel_await_result:
  "ac_inv peer scid es c \<Longrightarrow> ac_result peer scid (es @ es') (channel_await es' c)"
proof (induction es' arbitrary: es c)
  case (Cons e es')
  obtain c' r where p: "channel_poll e c = (c', r)" by (cases "channel_poll e c")
  have R: "ac_result peer scid (es @ [e]) (c', r)" using channel_poll_result [OF Cons.prems, of e] p by simp
  show ?case
  proof (cases r)
    case Pending
    then have "ac_inv peer scid (es @ [e]) c'" using R by (simp add: ac_result_def)
    from Cons.IH [OF this] show ?thesis using p Pending by simp
  next
    case (Ready x)
    then show ?thesis using R p in_order_append [of _ "es @ [e]" es']
      by (cases x) (fastforce simp: ac_result_def)+
  qed
qed (simp add: ac_result_def)


lemma ac_inv_start: "ac_inv peer scid [] (awaitable_channel_start peer scid)"
  using ac_ok_start [of peer scid] by (simp add: ac_inv_def awaitable_channel_start_def)

lemma await_from_start:
  "ac_result peer scid es (channel_await es (awaitable_channel_start peer scid))"
  using channel_await_result [OF ac_inv_start, of peer scid es] by simp

lemma channel_await_snoc:
  "channel_await es c = (c', Pending) \<Longrightarrow> channel_await (es @ es') c = channel_await es' c'"
  by (induction es arbitrary: c) (auto split: prod.splits polled.splits)

lemma backing_off_await:
  "\<forall>e \<in> set es. backing_off (pl_now e) c \<Longrightarrow> channel_await es c = (c, Pending)"
  by (induction es) (simp_all add: channel_poll_def)

definition no_inner_running :: "awaitable_channel \<Rightarrow> bool" where
  "no_inner_running c \<longleftrightarrow> Some Running \<notin> {ac_get_version c, ac_ensure_peer_connection c, ac_billboard c,
     ac_get_route c, ac_spendable_msat c}"

subsection \<open>An instance\<close>

definition demo_await_rpc :: "string \<Rightarrow> await_rpc" where
  "demo_await_rpc status =
     \<lparr>aw_open = Ok (), aw_listpeers = (\<lambda>p. Ok [True]), aw_connect = (\<lambda>p. Ok ()), aw_version = Ok ''v24.02'',
      aw_listpeerchannels = (\<lambda>p. Ok [\<lparr>lch_short_channel_id = Some ''1x1x1'', lch_alias_local = None,
        lch_status = Some [status], lch_spendable_msat = Some 77\<rparr>]),
      aw_getroute = (\<lambda>p. Ok ())\<rparr>"

definition demo_poll :: "nat \<Rightarrow> string \<Rightarrow> poll_env" where
  "demo_poll now status =
     (let R = Some (demo_await_rpc status) in
      \<lparr>pl_now = now, pl_checked = now, pl_version = R, pl_peer = R, pl_billboard = R, pl_route = R, pl_spendable = R\<rparr>)"

definition idle_poll :: "nat \<Rightarrow> poll_env" where
  "idle_poll now =
     \<lparr>pl_now = now, pl_checked = now, pl_version = None, pl_peer = None, pl_billboard = None, pl_route = None,
      pl_spendable = None\<rparr>"

section \<open>Properties\<close>

text \<open>
  C13: no amount before the channel can be used. When waiting for a channel returns an amount, then
  at polls in this order lightningd told its version, the peer was connected, the channel was
  reported ready or reestablished, a route to the peer was found, and the amount is what the
  channel could spend at the last of them.
\<close>

theorem awaited_channel_was_ready:
  assumes "channel_await es (awaitable_channel_start peer scid) = (c, Ready (Ok amount))"
  shows "\<exists>v. in_order [told_spendable v peer scid amount, told_routable peer, told_ready v peer scid,
           told_connected peer, told_version v] es"
  using await_from_start [of peer scid es] assms by (simp add: ac_result_def)

theorem awaited_channel_was_ready_witness:
  "\<exists>c v. channel_await [idle_poll 0, demo_poll 5 ''Channel ready''] (awaitable_channel_start ''p'' ''1x1x1'') =
     (c, Ready (Ok 77)) \<and>
   in_order [told_spendable v ''p'' ''1x1x1'' 77, told_routable ''p'', told_ready v ''p'' ''1x1x1'',
     told_connected ''p'', told_version v] [idle_poll 0, demo_poll 5 ''Channel ready'']"
proof -
  have "snd (channel_await [idle_poll 0, demo_poll 5 ''Channel ready''] (awaitable_channel_start ''p'' ''1x1x1'')) =
     Ready (Ok 77)" by code_simp
  then obtain c where c: "channel_await [idle_poll 0, demo_poll 5 ''Channel ready'']
      (awaitable_channel_start ''p'' ''1x1x1'') = (c, Ready (Ok 77))"
    by (cases "channel_await [idle_poll 0, demo_poll 5 ''Channel ready''] (awaitable_channel_start ''p'' ''1x1x1'')") simp
  from awaited_channel_was_ready [OF c] c show ?thesis by blast
qed

text \<open>
  C34: waiting does not panic. Whatever the calls answer and whenever, as long as they do not panic
  themselves, no poll of the waiting channel panics: no inner future is polled after it has
  ended, and the version is there when it is needed.
\<close>

theorem await_never_panics:
  assumes "\<forall>e \<in> set es. env_total e"
  shows "snd (channel_await es (awaitable_channel_start peer scid)) \<noteq> Ready Panic"
  using await_from_start [of peer scid es] assms
  by (auto simp: ac_result_def split: prod.splits polled.splits outcome.splits)

theorem await_never_panics_witness:
  "snd (channel_await [demo_poll 0 ''loading'', demo_poll 300 ''Channel ready''] (awaitable_channel_start ''p'' ''1x1x1''))
     \<noteq> Ready Panic"
  by (rule await_never_panics)
    (simp add: demo_poll_def env_total_def rpc_total_def demo_await_rpc_def Let_def)

text \<open>
  Waiting ends. From every state that polls have led to, one poll outside of the back-off at
  which lightningd answers all that is still asked gives the amount.
\<close>

theorem answered_channel_resolves:
  assumes "channel_await es (awaitable_channel_start peer scid) = (c, Pending)"
    and "\<not> backing_off (pl_now e) c"
    and "told_version v e" "ac_version c = None \<or> ac_version c = Some v"
    and "told_connected peer e" "told_ready v peer scid e" "told_routable peer e"
    and "told_spendable v peer scid amount e"
  shows "\<exists>c'. channel_await (es @ [e]) (awaitable_channel_start peer scid) = (c', Ready (Ok amount))"
proof -
  have c: "ac_ok c" "ac_peer_id c = peer" "ac_scid c = scid"
    using await_from_start [of peer scid es] assms(1) by (simp_all add: ac_result_def ac_inv_def)
  from assms(3,5-8) obtain R1 R2 R3 R4 R5 st u where
    "pl_version e = Some R1" "get_version R1 = Ok v" "pl_peer e = Some R2" "ensure_peer_connection R2 peer = Ok ()"
    "pl_billboard e = Some R3" "billboard R3 v peer scid = Ok st" "channel_ready_status st"
    "pl_route e = Some R4" "get_route R4 peer = Ok u" "pl_spendable e = Some R5"
    "spendable_msat_call R5 v peer scid = Ok amount"
    by (auto simp: told_defs is_ok_iff split: option.splits outcome.splits)
  note e = this
  have spend: "\<exists>c'. poll_spendable e d = (c', Ready (Ok amount))"
    if "ac_version d = Some v" "ac_spendable_msat d \<noteq> Some Ended" "ac_peer_id d = peer" "ac_scid d = scid" for d
    using that e by (simp add: poll_spendable_def)
  have "\<exists>c'. poll_version e c = (c', Ready (Ok amount))"
    using c assms(4) e spend
    by (cases "ac_version c"; cases "ac_peer_connected c"; cases "ac_channel_ready c"; cases "ac_route_found c")
      (simp_all add: poll_version_def poll_peer_def poll_billboard_def poll_route_def ac_ok_def)
  then show ?thesis using channel_await_snoc [OF assms(1), of "[e]"] assms(2) by (auto simp: channel_poll_def)
qed

theorem answered_channel_resolves_witness:
  "\<exists>c c'. channel_await [demo_poll 0 ''loading''] (awaitable_channel_start ''p'' ''1x1x1'') = (c, Pending) \<and>
     channel_await ([demo_poll 0 ''loading''] @ [demo_poll 300 ''Channel ready'']) (awaitable_channel_start ''p'' ''1x1x1'')
       = (c', Ready (Ok 77))"
proof -
  let ?p = "channel_await [demo_poll 0 ''loading''] (awaitable_channel_start ''p'' ''1x1x1'')"
  have p: "snd ?p = Pending" "\<not> backing_off (pl_now (demo_poll 300 ''Channel ready'')) (fst ?p)"
    "ac_version (fst ?p) = Some ''v24.02''"
    by code_simp+
  then have c: "?p = (fst ?p, Pending)" by (metis prod.collapse)
  have t: "told_version ''v24.02'' (demo_poll 300 ''Channel ready'')" "told_connected ''p'' (demo_poll 300 ''Channel ready'')"
    "told_ready ''v24.02'' ''p'' ''1x1x1'' (demo_poll 300 ''Channel ready'')"
    "told_routable ''p'' (demo_poll 300 ''Channel ready'')"
    "told_spendable ''v24.02'' ''p'' ''1x1x1'' 77 (demo_poll 300 ''Channel ready'')"
    by code_simp+
  have "\<exists>c'. channel_await ([demo_poll 0 ''loading''] @ [demo_poll 300 ''Channel ready''])
      (awaitable_channel_start ''p'' ''1x1x1'') = (c', Ready (Ok 77))"
    using p(3) by (intro answered_channel_resolves [OF c p(2), of "''v24.02''"]) (simp_all add: t)
  with c show ?thesis by blast
qed

text \<open>
  A channel that is not ready yet is left without a wake-up. When the status of a connected
  channel does not say ready, the poll is pending although no inner future is running that
  could wake the task, and every poll of the next 250 milliseconds does nothing at all.
\<close>

theorem unready_channel_backs_off:
  assumes "channel_await es (awaitable_channel_start peer scid) = (c, Pending)"
    and "\<not> backing_off (pl_now e) c" "ac_version c = Some v" "ac_peer_connected c" "\<not> ac_channel_ready c"
    and "pl_billboard e = Some R" "billboard R v peer scid = Ok st" "\<not> channel_ready_status st"
    and "\<forall>e' \<in> set es'. pl_now e' < pl_checked e + 250"
  shows "\<exists>c'. channel_await (es @ e # es') (awaitable_channel_start peer scid) = (c', Pending) \<and>
    no_inner_running c' \<and> channel_await es' c' = (c', Pending)"
proof -
  have c: "ac_ok c" "ac_peer_id c = peer" "ac_scid c = scid" and delay: "ac_rpc_call_delay c = 250"
    using await_from_start [of peer scid es] assms(1)
    by (simp_all add: ac_result_def ac_inv_def RPC_CALL_DELAY_MSEC_def)
  let ?c = "c\<lparr>ac_last_check := Some (pl_checked e), ac_billboard := None\<rparr>"
  have "channel_poll e c = (?c, Pending)"
    using c assms(2-8) by (simp add: channel_poll_def poll_version_def poll_peer_def poll_billboard_def ac_ok_def)
  moreover have "channel_await es' ?c = (?c, Pending)"
    using assms(9) delay by (intro backing_off_await) (auto simp: backing_off_def)
  moreover have "no_inner_running ?c" using c(1) assms(3-5) by (simp add: no_inner_running_def ac_ok_def)
  ultimately show ?thesis using channel_await_snoc [OF assms(1), of "e # es'"] by simp
qed
theorem unready_channel_backs_off_witness:
  "\<exists>c c'. channel_await [demo_poll 0 ''loading''] (awaitable_channel_start ''p'' ''1x1x1'') = (c, Pending) \<and>
     channel_await ([demo_poll 0 ''loading''] @ demo_poll 300 ''loading'' # [demo_poll 549 ''Channel ready''])
       (awaitable_channel_start ''p'' ''1x1x1'') = (c', Pending) \<and> no_inner_running c'"
proof -
  let ?p = "channel_await [demo_poll 0 ''loading''] (awaitable_channel_start ''p'' ''1x1x1'')"
  have p: "snd ?p = Pending" "\<not> backing_off (pl_now (demo_poll 300 ''loading'')) (fst ?p)"
    "ac_version (fst ?p) = Some ''v24.02''" "ac_peer_connected (fst ?p)" "\<not> ac_channel_ready (fst ?p)"
    by code_simp+
  then have c: "?p = (fst ?p, Pending)" by (metis prod.collapse)
  have R: "pl_billboard (demo_poll 300 ''loading'') = Some (demo_await_rpc ''loading'')"
    "\<forall>e' \<in> set [demo_poll 549 ''Channel ready'']. pl_now e' < pl_checked (demo_poll 300 ''loading'') + 250"
    by (simp_all add: demo_poll_def Let_def)
  have e: "billboard (demo_await_rpc ''loading'') ''v24.02'' ''p'' ''1x1x1'' = Ok [''loading'']"
    "\<not> channel_ready_status [''loading'']"
    by code_simp+
  from unready_channel_backs_off [OF c p(2-5) R(1) e R(2)] c show ?thesis by blast
qed

end
