(* ===== verification/SignerSetup.thy ===== *)
theory SignerSetup
  imports Client SignerProcess
begin

text \<open>
  Making a signer and keeping it running (\<open>Signer::new\<close>, the handlers, and the outermost loops
  in \<open>libs/gl-client/src/signer/mod.rs\<close>, with the reports of \<open>report.rs\<close>). VLS is a record of
  functions: policies and filters, the handler that is built, what it answers to the init
  message, and the derivation of the secret of the master rune.
\<close>

subsection \<open>Policy\<close>

datatype filter_rule = NewWarn string

text \<open>The fields of the policy that are set; VLS makes the others. Filters are values of \<open>'f\<close>.\<close>

record 'f policy =
  po_filter :: 'f
  po_max_feerate_per_kw :: nat
  po_max_invoices :: nat
  po_max_routing_fee_msat :: nat

record key_version =
  kv_pubkey_version :: nat
  kv_privkey_version :: nat

record hsmd_init =
  hi_key_version :: key_version
  hi_chain_params :: bytes
  hi_encryption_key :: "bytes option"
  hi_dev_privkey :: "bytes option"
  hi_dev_bip32_seed :: "bytes option"
  hi_dev_channel_secrets :: "bytes option"
  hi_dev_channel_secrets_shaseed :: "bytes option"
  hi_wire_min_version :: nat
  hi_wire_max_version :: nat

record init_reply =
  ir_node_id :: bytes
  ir_vec :: bytes

record ('f, 'j) node_services =
  sv_policy :: "'f policy"
  sv_persister :: "'j signer_state"
  sv_trusted_oracle_pubkeys :: "bytes list"

record ('f, 'j, 'a, 'h, 'r) vls_lib =
  vl_default_policy :: "string \<Rightarrow> 'f policy"
  vl_filter_default :: 'f
  vl_filter_merge :: "'f \<Rightarrow> filter_rule list \<Rightarrow> 'f"
  vl_build :: "string \<Rightarrow> nat \<Rightarrow> ('f, 'j) node_services \<Rightarrow> bytes \<Rightarrow> 'a option \<Rightarrow> ('h, string) outcome"
  vl_handle :: "'h \<Rightarrow> hsmd_init \<Rightarrow> ('h \<times> bytes option, string) outcome"
  vl_parse_init :: "bytes \<Rightarrow> (init_reply, string) outcome"
  vl_hkdf_sha256 :: "bytes \<Rightarrow> bytes \<Rightarrow> bytes \<Rightarrow> bytes"
  vl_new_master_rune :: "bytes \<Rightarrow> restriction list \<Rightarrow> string option \<Rightarrow> string option \<Rightarrow> ('r, rune_error) outcome"

definition filter_merge :: "('f, 'j, 'a, 'h, 'r) vls_lib \<Rightarrow> string list \<Rightarrow> 'f policy \<Rightarrow> 'f policy" where
  "filter_merge V rules p = p\<lparr>po_filter := vl_filter_merge V (po_filter p) (map NewWarn rules)\<rparr>"

definition signer_policy :: "('f, 'j, 'a, 'h, 'r) vls_lib \<Rightarrow> string \<Rightarrow> 'f policy" where
  "signer_policy V net =
     (let p = vl_default_policy V net;
          p = p\<lparr>po_filter := vl_filter_default V\<rparr>;
          p = filter_merge V [''policy-channel-safe-type-anchors'', ''policy-routing-balanced'',
                              ''policy-commitment-retry-same''] p;
          p = p\<lparr>po_max_feerate_per_kw := 150000\<rparr>;
          p = filter_merge V [''policy-commitment-fee-range'', ''policy-mutual-fee-range''] p;
          p = filter_merge V [''policy-routing-balanced'', ''policy-htlc-fee-range''] p;
          p = filter_merge V [''policy-revoke-new-commitment-signed''] p;
          p = p\<lparr>po_max_invoices := 10000\<rparr> in
      p\<lparr>po_max_routing_fee_msat := 1000000\<rparr>)"

subsection \<open>The signer\<close>

record ('f, 'j, 'r) signer_instance = "'r signer" +
  si_secret :: bytes
  si_services :: "('f, 'j) node_services"
  si_tls :: tls_config
  si_network :: string
  si_state :: "'j signer_state"

definition RUNE_DERIVATION_SECRET :: string where "RUNE_DERIVATION_SECRET = ''gl-commando''"

definition initreq :: hsmd_init where
  "initreq =
     \<lparr>hi_key_version = \<lparr>kv_pubkey_version = 0, kv_privkey_version = 0\<rparr>, hi_chain_params = replicate 32 0,
      hi_encryption_key = None, hi_dev_privkey = None, hi_dev_bip32_seed = None, hi_dev_channel_secrets = None,
      hi_dev_channel_secrets_shaseed = None, hi_wire_min_version = 4, hi_wire_max_version = 6\<rparr>"

definition initmsg :: "('f, 'j, 'a, 'h, 'r) vls_lib \<Rightarrow> 'h \<Rightarrow> (bytes, string) outcome" where
  "initmsg V handler =
     omap (\<lambda>(h, response). or_else response [])
       (omap_err (\<lambda>e. ''Failed to handle init request: '' @ e) (vl_handle V handler initreq))"

definition signer_new ::
  "('f, 'j, 'a, 'h, 'r) vls_lib \<Rightarrow> bytes \<Rightarrow> string \<Rightarrow> tls_config
     \<Rightarrow> (('f, 'j, 'r) signer_instance, anyhow_error) outcome" where
  "signer_new V secret net tls =
     obind (slice 0 32 secret) (\<lambda>sec.
     let services = \<lparr>sv_policy = signer_policy V net, sv_persister = state_new, sv_trusted_oracle_pubkeys = []\<rparr> in
     obind (omap_err (\<lambda>e. Msg (''building root_handler: '' @ e)) (vl_build V net 0 services sec None)) (\<lambda>handler.
     obind (omap_err Msg (initmsg V handler)) (\<lambda>init.
     obind (omap_err (\<lambda>e. Msg (''Failed to parse init message as HsmdInitReplyV4: '' @ e)) (vl_parse_init V init)) (\<lambda>init.
     let rune_secret = vl_hkdf_sha256 V sec (as_bytes RUNE_DERIVATION_SECRET) [] in
     obind (omap_err RuneErr (vl_new_master_rune V rune_secret [] None (Some RUNE_VERSION))) (\<lambda>mr.
     Ok \<lparr>signer_node_id = ir_node_id init, signer_init = ir_vec init, master_rune = mr, si_secret = sec,
         si_services = services, si_tls = tls, si_network = net, si_state = state_new\<rparr>)))))"

text \<open>
  The persister of the services and the state of the signer are one object; a handler is built
  on what it holds now.
\<close>

definition current_services :: "('f, 'j, 'r) signer_instance \<Rightarrow> ('f, 'j) node_services" where
  "current_services s = (si_services s)\<lparr>sv_persister := si_state s\<rparr>"

definition init_handler ::
  "('f, 'j, 'a, 'h, 'r) vls_lib \<Rightarrow> ('f, 'j, 'r) signer_instance \<Rightarrow> ('h, string) outcome" where
  "init_handler V s =
     omap_err (\<lambda>e. ''building root_handler: '' @ e)
       (vl_build V (si_network s) 0 (current_services s) (si_secret s) None)"

definition handler ::
  "('f, 'j, 'a, 'h, 'r) vls_lib \<Rightarrow> ('f, 'j, 'r) signer_instance \<Rightarrow> ('h, string) outcome" where
  "handler V s =
     obind (init_handler V s) (\<lambda>h.
     omap fst (omap_err (\<lambda>e. ''Failed to handle hsmd_init message: '' @ e) (vl_handle V h initreq)))"

definition handler_with_approver ::
  "('f, 'j, 'a, 'h, 'r) vls_lib \<Rightarrow> 'a \<Rightarrow> ('f, 'j, 'r) signer_instance \<Rightarrow> ('h, string) outcome" where
  "handler_with_approver V approver s =
     obind (omap_err (\<lambda>e. ''Could not create handler: '' @ e)
       (vl_build V (si_network s) 0 (current_services s) (si_secret s) (Some approver))) (\<lambda>h.
     omap fst (omap_err (\<lambda>e. ''Failed to handle hsmd_init message: '' @ e) (vl_handle V h initreq)))"

subsection \<open>Running it\<close>

text \<open>
  \<open>run_forever_scheduler\<close>: what the successive connections to the scheduler end with. No error
  ends the loop.
\<close>

fun run_forever_scheduler :: "(unit, string) outcome list \<Rightarrow> (unit, string) loop_result" where
  "run_forever_scheduler [] = Streaming"
| "run_forever_scheduler (Panic # rs) = Left Panic"
| "run_forever_scheduler (r # rs) = run_forever_scheduler rs"

text \<open>
  The loops run beside each other until one of them ends or there is something on the shutdown
  channel: a message, or nothing any more since all its senders are dropped.
\<close>

datatype signer_event =
    InnerLoopEnded "(unit, string) outcome" | SchedulerLoopEnded "(unit, string) outcome"
  | ShutdownSignal | ShutdownDropped

definition run_forever_with_uri :: "(unit, string) outcome \<Rightarrow> signer_event \<Rightarrow> (unit, string) outcome" where
  "run_forever_with_uri scheduler event =
     obind scheduler (\<lambda>_.
     case event of
       InnerLoopEnded Panic \<Rightarrow> Panic
     | SchedulerLoopEnded Panic \<Rightarrow> Panic
     | _ \<Rightarrow> Ok ())"

text \<open>\<open>connect\<close> is \<open>init_scheduler\<close> on a URI.\<close>

definition run_forever ::
  "host \<Rightarrow> (string \<Rightarrow> (unit, string) outcome) \<Rightarrow> signer_event \<Rightarrow> (unit, string) outcome" where
  "run_forever H connect event = run_forever_with_uri (connect (scheduler_uri H)) event"

text \<open>A report goes to the scheduler with the identity of nobody; that it fails is only logged.\<close>

definition report ::
  "creds_lib \<Rightarrow> transport \<Rightarrow> host \<Rightarrow> builtin_certs \<Rightarrow> (endpoint \<Rightarrow> signer_rejection \<Rightarrow> (unit, string) outcome)
     \<Rightarrow> signer_rejection \<Rightarrow> (unit, string) outcome" where
  "report C T H B send r =
     (let tls = tls_new C H B; uri = scheduler_uri H in
      obind (unwrap_result (endpoint_with T uri (tc_inner tls) None)) (\<lambda>channel.
      case send channel r of Panic \<Rightarrow> Panic | _ \<Rightarrow> Ok ()))"

subsection \<open>Lemmas\<close>

lemma obind_assoc: "obind (obind r f) g = obind r (\<lambda>a. obind (f a) g)"
  by (cases r) simp_all

lemma signer_new_first_32:
  "32 \<le> length secret \<Longrightarrow> signer_new V secret net tls = signer_new V (take 32 secret) net tls"
  by (simp add: signer_new_def slice.simps)

lemma signer_new_short: "length secret < 32 \<Longrightarrow> signer_new V secret net tls = Panic"
  by (simp add: signer_new_def slice.simps)

lemma signer_new_secret: "signer_new V secret net tls = Ok s \<Longrightarrow> si_secret s = take 32 secret"
  by (cases "32 \<le> length secret") (auto simp: signer_new_def slice.simps obind_eq_Ok Let_def)

text \<open>The TLS settings are kept beside the signer and do not enter its keys.\<close>

lemma signer_new_tls:
  "signer_new V secret net tls = omap (\<lambda>s. s\<lparr>si_tls := tls\<rparr>) (signer_new V secret net tls')"
  by (simp add: signer_new_def Let_def omap_as_obind obind_assoc)

end
