(* ===== verification/Sdk.thy ===== *)
theory Sdk
  imports SignerSetup NodeCalls Amounts
begin

text \<open>
  The SDK for applications (\<open>libs/gl-sdk/src\<close>) and its JavaScript interface
  (\<open>libs/gl-sdk-napi/src/lib.rs\<close>): a node whose clients are made once and kept, payments on and
  off chain, registration and recovery, and a signer that runs until its handle stops it. The
  calls of the node are a record of functions; mnemonics are functions too. Amounts are natural
  numbers below \<open>2 ^ 64\<close>, products wrap as in a release build, and a panic ends the process, as
  the profile of the workspace says.
\<close>

subsection \<open>Errors and networks\<close>

datatype sdk_error =
    UnparseableCreds | PhraseCorrupted | SdkRpc string | Argument string string | SdkOther string

datatype sdk_network = BITCOIN | REGTEST

fun network_from :: "sdk_network \<Rightarrow> string" where
  "network_from BITCOIN = ''bitcoin''"
| "network_from REGTEST = ''regtest''"

subsection \<open>The calls of the node\<close>

record 'f cln_pay =
  cp_bolt11 :: string
  cp_amount_msat :: "nat option"
  cp_label :: "string option"
  cp_riskfactor :: "'f option"
  cp_maxfeepercent :: "'f option"
  cp_retry_for :: "nat option"
  cp_maxdelay :: "nat option"
  cp_exemptfee :: "nat option"
  cp_localinvreqid :: "bytes option"
  cp_exclude :: "string list"
  cp_maxfee :: "nat option"
  cp_description :: "string option"
  cp_partial_msat :: "nat option"

record cln_pay_response =
  cr_status :: int
  cr_payment_preimage :: bytes
  cr_amount_msat :: "nat option"
  cr_amount_sent_msat :: "nat option"
  cr_parts :: nat

datatype amount_or_all = AmountMsat nat | AllFunds

record cln_withdraw =
  cw_destination :: string
  cw_satoshi :: "amount_or_all option"
  cw_minconf :: "nat option"
  cw_feerate :: "nat option"
  cw_utxos :: "string list"

record cln_withdraw_response =
  cv_tx :: bytes
  cv_txid :: bytes
  cv_psbt :: string

record cln_newaddr_response =
  ca_bech32 :: "string option"
  ca_p2tr :: "string option"

record 'f sdk_env =
  se_creds :: creds_lib
  se_auth :: auth_lib
  se_transport :: transport
  se_host :: host
  se_send :: "string scheduler_send"
  se_stop :: "node_client \<Rightarrow> (unit, string) outcome"
  se_lsp_invoice :: "node_client \<Rightarrow> lsp_invoice_request \<Rightarrow> (string, string) outcome"
  se_pay :: "node_client \<Rightarrow> 'f cln_pay \<Rightarrow> (cln_pay_response, string) outcome"
  se_withdraw :: "node_client \<Rightarrow> cln_withdraw \<Rightarrow> (cln_withdraw_response, string) outcome"
  se_new_addr :: "node_client \<Rightarrow> (cln_newaddr_response, string) outcome"

subsection \<open>A node and its clients\<close>

record sdk_node =
  sn_inner :: node_builder
  sn_cln_client :: "node_client option"
  sn_gl_client :: "node_client option"

definition sdk_node_new :: "'f sdk_env \<Rightarrow> device \<Rightarrow> (sdk_node, sdk_error) outcome" where
  "sdk_node_new E credentials =
     obind (omap_err (\<lambda>_. UnparseableCreds) (device_node_id (se_creds E) credentials)) (\<lambda>node_id.
     obind (unwrap_result (node_new (se_creds E) node_id credentials)) (\<lambda>inner.
     Ok \<lparr>sn_inner = inner, sn_cln_client = None, sn_gl_client = None\<rparr>))"

text \<open>\<open>get_or_try_init\<close>: what is there is taken, an error leaves the cell empty.\<close>

definition get_or_try_init :: "'a option \<Rightarrow> ('a, string) outcome \<Rightarrow> ('a, sdk_error) outcome" where
  "get_or_try_init cell init =
     (case cell of Some c \<Rightarrow> Ok c | None \<Rightarrow> omap_err SdkRpc init)"

definition schedule_inner :: "'f sdk_env \<Rightarrow> sdk_node \<Rightarrow> (node_client, string) outcome" where
  "schedule_inner E n = node_schedule (se_auth E) (se_transport E) (se_host E) (se_send E) (sn_inner n)"

definition get_cln_client :: "'f sdk_env \<Rightarrow> sdk_node \<Rightarrow> (node_client, sdk_error) outcome \<times> sdk_node" where
  "get_cln_client E n =
     (case get_or_try_init (sn_cln_client n) (schedule_inner E n) of
        Ok c \<Rightarrow> (Ok c, n\<lparr>sn_cln_client := Some c\<rparr>)
      | r \<Rightarrow> (r, n))"

definition get_gl_client :: "'f sdk_env \<Rightarrow> sdk_node \<Rightarrow> (node_client, sdk_error) outcome \<times> sdk_node" where
  "get_gl_client E n =
     (case get_or_try_init (sn_gl_client n) (schedule_inner E n) of
        Ok c \<Rightarrow> (Ok c, n\<lparr>sn_gl_client := Some c\<rparr>)
      | r \<Rightarrow> (r, n))"

definition sdk_stop :: "'f sdk_env \<Rightarrow> sdk_node \<Rightarrow> (unit, sdk_error) outcome \<times> sdk_node" where
  "sdk_stop E n =
     apfst (\<lambda>r. obind r (\<lambda>c. case se_stop E c of Panic \<Rightarrow> Panic | _ \<Rightarrow> Ok ())) (get_cln_client E n)"

definition sdk_receive ::
  "'f sdk_env \<Rightarrow> string \<Rightarrow> string \<Rightarrow> nat option \<Rightarrow> sdk_node \<Rightarrow> (string, sdk_error) outcome \<times> sdk_node" where
  "sdk_receive E label description amount_msat n =
     apfst (\<lambda>r. obind r (\<lambda>c.
       omap_err SdkRpc (se_lsp_invoice E c
         \<lparr>li_lsp_id = [], li_token = [], li_amount_msat = or_else amount_msat 0, li_description = description,
          li_label = label\<rparr>))) (get_gl_client E n)"

datatype pay_status = COMPLETE | PENDING | FAILED

definition pay_status_from :: "int \<Rightarrow> (pay_status, 'e) outcome" where
  "pay_status_from i =
     (if i = 0 then Ok COMPLETE else if i = 1 then Ok PENDING else if i = 2 then Ok FAILED else Panic)"

record send_response =
  sq_status :: pay_status
  sq_preimage :: bytes
  sq_amount_msat :: nat
  sq_amount_sent_msat :: nat
  sq_parts :: nat

definition send_response_from :: "cln_pay_response \<Rightarrow> (send_response, 'e) outcome" where
  "send_response_from r =
     obind (pay_status_from (cr_status r)) (\<lambda>status.
     obind (unwrap (cr_amount_msat r)) (\<lambda>amount.
     obind (unwrap (cr_amount_sent_msat r)) (\<lambda>sent.
     Ok \<lparr>sq_status = status, sq_preimage = cr_payment_preimage r, sq_amount_msat = amount,
         sq_amount_sent_msat = sent, sq_parts = cr_parts r\<rparr>)))"

definition sdk_pay_request :: "string \<Rightarrow> nat option \<Rightarrow> 'f cln_pay" where
  "sdk_pay_request invoice amount_msat =
     \<lparr>cp_bolt11 = invoice, cp_amount_msat = amount_msat, cp_label = None, cp_riskfactor = None,
      cp_maxfeepercent = None, cp_retry_for = None, cp_maxdelay = None, cp_exemptfee = None,
      cp_localinvreqid = None, cp_exclude = [], cp_maxfee = None, cp_description = None, cp_partial_msat = None\<rparr>"

definition sdk_send ::
  "'f sdk_env \<Rightarrow> string \<Rightarrow> nat option \<Rightarrow> sdk_node \<Rightarrow> (send_response, sdk_error) outcome \<times> sdk_node" where
  "sdk_send E invoice amount_msat n =
     apfst (\<lambda>r. obind r (\<lambda>c.
       obind (omap_err SdkRpc (se_pay E c (sdk_pay_request invoice amount_msat))) send_response_from))
       (get_cln_client E n)"

text \<open>
  What the user means to send on chain: the digits of the string, wherever they are, are the
  number, the rest is the unit.
\<close>

definition amount_or_all_of :: "string \<Rightarrow> (amount_or_all, sdk_error) outcome" where
  "amount_or_all_of amount_or_all =
     (let num = filter is_digit amount_or_all; suffix = filter (\<lambda>c. \<not> is_digit c) amount_or_all in
      obind (if 0 < length num then unwrap (parse_unsigned (2 ^ 64) num) else Ok 0) (\<lambda>n.
      if suffix = [] \<or> suffix = ''sat'' then Ok (AmountMsat (n * 1000 mod 2 ^ 64))
      else if suffix = ''msat'' then Ok (AmountMsat (n * 1000 mod 2 ^ 64))
      else if n = 0 \<and> suffix = ''all'' then Ok AllFunds
      else Err (Argument ''amount_or_all'' amount_or_all)))"

definition sdk_onchain_send ::
  "'f sdk_env \<Rightarrow> string \<Rightarrow> string \<Rightarrow> sdk_node \<Rightarrow> (cln_withdraw_response, sdk_error) outcome \<times> sdk_node" where
  "sdk_onchain_send E destination amount_or_all n =
     apfst (\<lambda>r. obind r (\<lambda>c.
       obind (amount_or_all_of amount_or_all) (\<lambda>satoshi.
       omap_err SdkRpc (se_withdraw E c
         \<lparr>cw_destination = destination, cw_satoshi = Some satoshi, cw_minconf = None, cw_feerate = None,
          cw_utxos = []\<rparr>)))) (get_cln_client E n)"

record onchain_receive_response =
  oc_bech32 :: string
  oc_p2tr :: string

definition sdk_onchain_receive ::
  "'f sdk_env \<Rightarrow> sdk_node \<Rightarrow> (onchain_receive_response, sdk_error) outcome \<times> sdk_node" where
  "sdk_onchain_receive E n =
     apfst (\<lambda>r. obind r (\<lambda>c.
       omap (\<lambda>res. \<lparr>oc_bech32 = or_else (ca_bech32 res) [], oc_p2tr = or_else (ca_p2tr res) []\<rparr>)
         (omap_err SdkRpc (se_new_addr E c)))) (get_cln_client E n)"

subsection \<open>Credentials, registration and the signer\<close>

definition sdk_credentials_load :: "creds_lib \<Rightarrow> bytes \<Rightarrow> (device, sdk_error) outcome" where
  "sdk_credentials_load C raw = device_from_bytes C raw"

definition sdk_credentials_save :: "creds_lib \<Rightarrow> device \<Rightarrow> (bytes, sdk_error) outcome" where
  "sdk_credentials_save C d = Ok (device_to_bytes C d)"

text \<open>
  \<open>S\<close> gives what the scheduler behind a client answers; \<open>show\<close> prints an error of \<open>anyhow\<close>.
\<close>

record 'r sdk_scheduler_env =
  sz_creds :: creds_lib
  sz_transport :: transport
  sz_host :: host
  sz_builtin :: builtin_certs
  sz_runes :: "'r rune_lib"
  sz_scheduler :: "nobody sched_client \<Rightarrow> scheduler"
  sz_show :: "anyhow_error \<Rightarrow> string"

definition sdk_inner_scheduler ::
  "'r sdk_scheduler_env \<Rightarrow> string \<Rightarrow> (nobody sched_client, sdk_error) outcome" where
  "sdk_inner_scheduler Z net =
     obind (unwrap_result (nobody_new (sz_host Z) (sz_builtin Z))) (\<lambda>nobody.
     omap_err SdkOther
       (scheduler_new (sz_transport Z) (sz_host Z) (nobody_tls_config (sz_creds Z)) net nobody))"

definition sdk_register ::
  "'r sdk_scheduler_env \<Rightarrow> string \<Rightarrow> 'r signer \<Rightarrow> device_key \<Rightarrow> string option \<Rightarrow> (device, sdk_error) outcome" where
  "sdk_register Z net signer K code =
     obind (sdk_inner_scheduler Z net) (\<lambda>inner.
     obind (omap_err (SdkOther \<circ> sz_show Z)
       (register (sz_creds Z) (sz_runes Z) signer (sz_scheduler Z inner) K code)) (\<lambda>res.
     omap_err (\<lambda>_. UnparseableCreds) (sdk_credentials_load (sz_creds Z) (rr_creds res))))"

definition sdk_recover ::
  "'r sdk_scheduler_env \<Rightarrow> string \<Rightarrow> 'r signer \<Rightarrow> device_key \<Rightarrow> (device, sdk_error) outcome" where
  "sdk_recover Z net signer K =
     obind (sdk_inner_scheduler Z net) (\<lambda>inner.
     obind (omap_err (SdkOther \<circ> sz_show Z)
       (recover (sz_creds Z) (sz_runes Z) signer (sz_scheduler Z inner) K)) (\<lambda>res.
     omap_err (\<lambda>_. UnparseableCreds) (sdk_credentials_load (sz_creds Z) (rr_creds res))))"

record ('f, 'j, 'r) sdk_signer =
  ss_seed :: bytes
  ss_inner :: "('f, 'j, 'r) signer_instance"
  ss_credentials :: "device option"

text \<open>
  The crate \<open>bip39\<close>: a mnemonic is parsed or generated, shown, and has a number of words and a
  seed for a passphrase. \<open>to_seed\<close> normalises the passphrase (Unicode NFKD) and
  \<open>to_seed_normalized\<close> takes it as it is.
\<close>

record 'm bip39 =
  bm_parse :: "string \<Rightarrow> ('m, string) outcome"
  bm_from_str :: "string \<Rightarrow> ('m, string) outcome"
  bm_generate :: "nat \<Rightarrow> ('m, string) outcome"
  bm_word_count :: "'m \<Rightarrow> nat"
  bm_nfkd :: "string \<Rightarrow> string"
  bm_to_seed :: "'m \<Rightarrow> string \<Rightarrow> bytes"
  bm_to_seed_normalized :: "'m \<Rightarrow> string \<Rightarrow> bytes"
  bm_show :: "'m \<Rightarrow> string"

text \<open>
  What its documentation says: \<open>to_seed\<close> is \<open>to_seed_normalized\<close> of the normalised passphrase,
  normalisation leaves ASCII alone, and \<open>from_str\<close> parses like \<open>parse\<close>.
\<close>

definition bip39_documented :: "'m bip39 \<Rightarrow> bool" where
  "bip39_documented M \<longleftrightarrow>
     (\<forall>m p. bm_to_seed M m p = bm_to_seed_normalized M m (bm_nfkd M p)) \<and>
     (\<forall>p. list_all (\<lambda>c. of_char c < (128 :: nat)) p \<longrightarrow> bm_nfkd M p = p) \<and>
     (\<forall>s m. bm_from_str M s = Ok m \<longrightarrow> bm_parse M s = Ok m)"

definition sdk_signer_new ::
  "('f, 'j, 'a, 'h, 'r) vls_lib \<Rightarrow> 'r sdk_scheduler_env \<Rightarrow> 'm bip39 \<Rightarrow> string
     \<Rightarrow> (('f, 'j, 'r) sdk_signer, sdk_error) outcome" where
  "sdk_signer_new V Z M phrase =
     obind (omap_err (\<lambda>_. PhraseCorrupted) (bm_from_str M phrase)) (\<lambda>mnemonic.
     let seed = bm_to_seed_normalized M mnemonic [] in
     obind (unwrap_result (nobody_new (sz_host Z) (sz_builtin Z))) (\<lambda>nobody.
     omap (\<lambda>inner. \<lparr>ss_seed = seed, ss_inner = inner, ss_credentials = None\<rparr>)
       (omap_err (SdkOther \<circ> sz_show Z)
         (signer_new V seed ''bitcoin'' (nobody_tls_config (sz_creds Z) nobody)))))"

definition sdk_signer_authenticate ::
  "('f, 'j, 'a, 'h, 'r) vls_lib \<Rightarrow> 'r sdk_scheduler_env \<Rightarrow> device \<Rightarrow> ('f, 'j, 'r) sdk_signer
     \<Rightarrow> (('f, 'j, 'r) sdk_signer, sdk_error) outcome" where
  "sdk_signer_authenticate V Z creds s =
     omap (\<lambda>inner. s\<lparr>ss_inner := inner, ss_credentials := Some creds\<rparr>)
       (omap_err (SdkOther \<circ> sz_show Z)
         (signer_new V (ss_seed s) ''bitcoin'' (device_tls_config (sz_creds Z) creds)))"

definition sdk_signer_node_id :: "('f, 'j, 'r) sdk_signer \<Rightarrow> bytes" where
  "sdk_signer_node_id s = signer_node_id (ss_inner s)"

text \<open>
  The handle of a running signer: a channel for one message, and the thread that takes it,
  leaves its loop and drops the receiver, or has left it before. With the handle comes what
  becomes of the thread, which only logs an error.
\<close>

record shutdown_channel =
  hc_pending :: nat
  hc_closed :: bool

definition sdk_signer_start ::
  "host \<Rightarrow> (string \<Rightarrow> (unit, string) outcome) \<Rightarrow> signer_event \<Rightarrow> shutdown_channel \<times> (unit, sdk_error) outcome" where
  "sdk_signer_start H connect event =
     (\<lparr>hc_pending = 0, hc_closed = False\<rparr>,
      case run_forever H connect event of Panic \<Rightarrow> Panic | _ \<Rightarrow> Ok ())"

definition try_send :: "shutdown_channel \<Rightarrow> (shutdown_channel, string) outcome" where
  "try_send ch =
     (if hc_closed ch then Err ''channel closed''
      else if 1 \<le> hc_pending ch then Err ''no available capacity''
      else Ok (ch\<lparr>hc_pending := hc_pending ch + 1\<rparr>))"

definition handle_stop :: "shutdown_channel \<Rightarrow> (shutdown_channel, sdk_error) outcome" where
  "handle_stop ch = unwrap_result (try_send ch)"

definition signer_thread_exits :: "shutdown_channel \<Rightarrow> shutdown_channel" where
  "signer_thread_exits ch = ch\<lparr>hc_pending := 0, hc_closed := True\<rparr>"

subsection \<open>JavaScript\<close>

text \<open>Casts between \<open>i64\<close> and \<open>u64\<close> keep the bits.\<close>

definition i64_as_u64 :: "int \<Rightarrow> nat" where
  "i64_as_u64 a = nat (a mod 2 ^ 64)"

definition u64_as_i64 :: "nat \<Rightarrow> int" where
  "u64_as_i64 n = (let i = int n mod 2 ^ 64 in if i < 2 ^ 63 then i else i - 2 ^ 64)"

fun sdk_error_display :: "sdk_error \<Rightarrow> string" where
  "sdk_error_display UnparseableCreds = ''The provided credentials could not be parsed, please recover.''"
| "sdk_error_display PhraseCorrupted = ''The passphrase you provided fails the checksum''"
| "sdk_error_display (SdkRpc e) = ''Error calling the rpc: '' @ e"
| "sdk_error_display (Argument a v) = ''Invalid argument: '' @ a @ ''='' @ v"
| "sdk_error_display (SdkOther e) = ''Generic error: '' @ e"

text \<open>A task on the blocking pool; the error of the task is a reason for JavaScript.\<close>

definition spawn_blocking :: "('a, sdk_error) outcome \<Rightarrow> ('a, string) outcome" where
  "spawn_blocking r = omap_err sdk_error_display r"

definition napi_credentials_load :: "creds_lib \<Rightarrow> bytes \<Rightarrow> (device, string) outcome" where
  "napi_credentials_load C raw = spawn_blocking (sdk_credentials_load C raw)"

definition napi_credentials_save :: "creds_lib \<Rightarrow> device \<Rightarrow> (bytes, string) outcome" where
  "napi_credentials_save C d = spawn_blocking (sdk_credentials_save C d)"

definition napi_scheduler_new :: "string \<Rightarrow> (sdk_network, string) outcome" where
  "napi_scheduler_new net =
     (let lower = to_lowercase net in
      if lower = ''bitcoin'' then Ok BITCOIN
      else if lower = ''regtest'' then Ok REGTEST
      else Err (''Invalid network: '' @ net @ ''. Must be '' @ CHR 0x27 # ''bitcoin'' @ CHR 0x27 # '' or '' @ CHR 0x27 # ''regtest'' @ [CHR 0x27]))"

definition napi_register ::
  "'r sdk_scheduler_env \<Rightarrow> sdk_network \<Rightarrow> 'r signer \<Rightarrow> device_key \<Rightarrow> string option \<Rightarrow> (device, string) outcome" where
  "napi_register Z net signer K code = spawn_blocking (sdk_register Z (network_from net) signer K code)"

definition napi_recover ::
  "'r sdk_scheduler_env \<Rightarrow> sdk_network \<Rightarrow> 'r signer \<Rightarrow> device_key \<Rightarrow> (device, string) outcome" where
  "napi_recover Z net signer K = spawn_blocking (sdk_recover Z (network_from net) signer K)"

definition napi_signer_new ::
  "('f, 'j, 'a, 'h, 'r) vls_lib \<Rightarrow> 'r sdk_scheduler_env \<Rightarrow> 'm bip39 \<Rightarrow> string
     \<Rightarrow> (('f, 'j, 'r) sdk_signer, string) outcome" where
  "napi_signer_new V Z M phrase = omap_err sdk_error_display (sdk_signer_new V Z M phrase)"

definition napi_signer_authenticate ::
  "('f, 'j, 'a, 'h, 'r) vls_lib \<Rightarrow> 'r sdk_scheduler_env \<Rightarrow> device \<Rightarrow> ('f, 'j, 'r) sdk_signer
     \<Rightarrow> (('f, 'j, 'r) sdk_signer, string) outcome" where
  "napi_signer_authenticate V Z creds s = spawn_blocking (sdk_signer_authenticate V Z creds s)"

definition napi_node_new :: "'f sdk_env \<Rightarrow> device \<Rightarrow> (sdk_node, string) outcome" where
  "napi_node_new E credentials = omap_err sdk_error_display (sdk_node_new E credentials)"

text \<open>\<open>debug\<close> is the derived \<open>Debug\<close> of the error.\<close>

definition napi_stop :: "'f sdk_env \<Rightarrow> (sdk_error \<Rightarrow> string) \<Rightarrow> sdk_node \<Rightarrow> (unit, string) outcome \<times> sdk_node" where
  "napi_stop E debug n = apfst (omap_err (\<lambda>e. ''Failed to stop node: '' @ debug e)) (sdk_stop E n)"

definition napi_receive ::
  "'f sdk_env \<Rightarrow> string \<Rightarrow> string \<Rightarrow> int option \<Rightarrow> sdk_node \<Rightarrow> (string, string) outcome \<times> sdk_node" where
  "napi_receive E label description amount_msat n =
     apfst spawn_blocking (sdk_receive E label description (map_option i64_as_u64 amount_msat) n)"

record napi_send_response =
  np_status :: nat
  np_preimage :: bytes
  np_amount_msat :: int
  np_amount_sent_msat :: int
  np_parts :: nat

fun pay_status_code :: "pay_status \<Rightarrow> nat" where
  "pay_status_code COMPLETE = 0"
| "pay_status_code PENDING = 1"
| "pay_status_code FAILED = 2"

definition napi_send ::
  "'f sdk_env \<Rightarrow> string \<Rightarrow> int option \<Rightarrow> sdk_node \<Rightarrow> (napi_send_response, string) outcome \<times> sdk_node" where
  "napi_send E invoice amount_msat n =
     apfst (\<lambda>r. omap (\<lambda>response.
         \<lparr>np_status = pay_status_code (sq_status response), np_preimage = sq_preimage response,
          np_amount_msat = u64_as_i64 (sq_amount_msat response),
          np_amount_sent_msat = u64_as_i64 (sq_amount_sent_msat response), np_parts = sq_parts response\<rparr>)
       (spawn_blocking r)) (sdk_send E invoice (map_option i64_as_u64 amount_msat) n)"

definition napi_onchain_send ::
  "'f sdk_env \<Rightarrow> string \<Rightarrow> string \<Rightarrow> sdk_node \<Rightarrow> (cln_withdraw_response, string) outcome \<times> sdk_node" where
  "napi_onchain_send E destination amount_or_all n =
     apfst spawn_blocking (sdk_onchain_send E destination amount_or_all n)"

definition napi_onchain_receive ::
  "'f sdk_env \<Rightarrow> sdk_node \<Rightarrow> (onchain_receive_response, string) outcome \<times> sdk_node" where
  "napi_onchain_receive E n = apfst spawn_blocking (sdk_onchain_receive E n)"

subsection \<open>Lemmas\<close>

lemma snd_apfst [simp]: "snd (apfst f p) = snd p" and fst_apfst [simp]: "fst (apfst f p) = f (fst p)"
  by (cases p; simp)+

lemma node_schedule_Ok:
  "node_schedule A T H send n = Ok c \<Longrightarrow> \<exists>uri. node_connect A T uri n = Ok c"
  by (auto simp: node_schedule_def node_schedule_with_uri_def obind_eq_Ok)

text \<open>A client that is there is used again, whatever became of the scheduler.\<close>

lemma get_cln_client_cached:
  "fst (get_cln_client E n) = Ok c \<Longrightarrow> get_cln_client E' (snd (get_cln_client E n)) = (Ok c, snd (get_cln_client E n))"
  by (auto simp: get_cln_client_def get_or_try_init_def split: outcome.splits option.splits)

lemma get_client_error:
  "fst (get_cln_client E n) = Err e \<Longrightarrow> snd (get_cln_client E n) = n"
  "fst (get_gl_client E n) = Err e \<Longrightarrow> snd (get_gl_client E n) = n"
  by (auto simp: get_cln_client_def get_gl_client_def split: outcome.splits)

lemma i64_as_u64_cases:
  "- (2 ^ 63) \<le> a \<Longrightarrow> a < 2 ^ 63 \<Longrightarrow> i64_as_u64 a = (if 0 \<le> a then nat a else 2 ^ 64 - nat (- a))"
proof -
  assume a: "- (2 ^ 63) \<le> a" "a < 2 ^ 63"
  have "(a + 2 ^ 64) mod 2 ^ 64 = a + 2 ^ 64" if "a < 0" using a that by (intro mod_pos_pos_trivial) simp_all
  then have "a mod 2 ^ 64 = a + 2 ^ 64" if "a < 0" using that by simp
  then show ?thesis using a by (simp add: i64_as_u64_def nat_diff_distrib' nat_eq_iff)
qed

lemma handle_stop_twice:
  "handle_stop ch = Ok ch' \<Longrightarrow> handle_stop ch' = Panic \<and> handle_stop (signer_thread_exits ch') = Panic"
  by (auto simp: handle_stop_def try_send_def signer_thread_exits_def split: if_splits)

inductive sdk_reach :: "'f sdk_env \<Rightarrow> device \<Rightarrow> sdk_node \<Rightarrow> bool" for E d where
  new: "sdk_node_new E d = Ok n \<Longrightarrow> sdk_reach E d n"
| stop: "sdk_reach E d n \<Longrightarrow> sdk_reach E d (snd (sdk_stop E n))"
| receive: "sdk_reach E d n \<Longrightarrow> sdk_reach E d (snd (sdk_receive E label description amount n))"
| send: "sdk_reach E d n \<Longrightarrow> sdk_reach E d (snd (sdk_send E invoice amount n))"
| onchain_send: "sdk_reach E d n \<Longrightarrow> sdk_reach E d (snd (sdk_onchain_send E destination amount_or_all n))"
| onchain_receive: "sdk_reach E d n \<Longrightarrow> sdk_reach E d (snd (sdk_onchain_receive E n))"

definition sdk_node_ok :: "'f sdk_env \<Rightarrow> device \<Rightarrow> sdk_node \<Rightarrow> bool" where
  "sdk_node_ok E d n \<longleftrightarrow>
     nb_tls (sn_inner n) = device_tls_config (se_creds E) d \<and> nb_rune (sn_inner n) = dv_rune d \<and>
     (\<forall>c. sn_cln_client n = Some c \<or> sn_gl_client n = Some c \<longrightarrow>
        (\<exists>uri. node_connect (se_auth E) (se_transport E) uri (sn_inner n) = Ok c))"

lemma sdk_node_ok_clients:
  assumes "sdk_node_ok E d n"
  shows "sdk_node_ok E d (snd (get_cln_client E n)) \<and> sdk_node_ok E d (snd (get_gl_client E n))"
  using assms node_schedule_Ok
  by (auto simp: get_cln_client_def get_gl_client_def get_or_try_init_def schedule_inner_def sdk_node_ok_def
      split: outcome.splits option.splits)

lemma sdk_reach_ok: "sdk_reach E d n \<Longrightarrow> sdk_node_ok E d n"
proof (induction rule: sdk_reach.induct)
  case (new n)
  then show ?case by (auto simp: sdk_node_new_def node_new_def obind_eq_Ok sdk_node_ok_def)
qed (simp_all add: sdk_stop_def sdk_receive_def sdk_send_def sdk_onchain_send_def sdk_onchain_receive_def
    sdk_node_ok_clients)

lemma digits_then_unit:
  assumes "list_all is_digit ds" "list_all (\<lambda>c. \<not> is_digit c) u"
  shows "filter is_digit (ds @ u) = ds \<and> filter (\<lambda>c. \<not> is_digit c) (ds @ u) = u"
  using assms by (auto simp: list_all_iff filter_empty_conv)

subsection \<open>An instance\<close>

definition demo_sdk :: "unit sdk_env" where
  "demo_sdk =
     \<lparr>se_creds = demo_creds_lib, se_auth = demo_auth, se_transport = demo_transport,
      se_host = \<lparr>ho_env = (\<lambda>v. None), ho_read = (\<lambda>f. Err f)\<rparr>, se_send = (\<lambda>ep r. Ok ''gl1''),
      se_stop = (\<lambda>c. Err ''closed''), se_lsp_invoice = (\<lambda>c r. Ok ''lnbc''),
      se_pay = (\<lambda>c r. Err ''no route''),
      se_withdraw = (\<lambda>c w. Ok \<lparr>cv_tx = [], cv_txid = [], cv_psbt = cw_destination w\<rparr>),
      se_new_addr = (\<lambda>c. Ok \<lparr>ca_bech32 = Some ''bc1'', ca_p2tr = None\<rparr>)\<rparr>"

lemma demo_device_node_id: "device_node_id demo_creds_lib demo_device = Ok [0]"
  by (simp add: device_node_id_def get_node_id_from_tls_config_def demo_creds_lib_def demo_device_def)

lemma demo_connect: "\<exists>c. node_connect demo_auth demo_transport ''gl1'' n = Ok c" if "tc_private_key (nb_tls n) = Some [2]"
  using that by (simp add: node_connect_def Let_def demo_transport_def auth_layer_new_def demo_auth_def endpoint_with_def)

lemma demo_sdk_client:
  "\<exists>n c. sdk_node_new demo_sdk demo_device = Ok n \<and> sn_cln_client (snd (sdk_onchain_receive demo_sdk n)) = Some c"
proof -
  define n where "n = \<lparr>sn_inner = \<lparr>nb_node_id = [0], nb_tls = device_tls_config demo_creds_lib demo_device,
    nb_rune = ''r'', nb_max_size = None\<rparr>, sn_cln_client = None, sn_gl_client = None\<rparr>"
  have new: "sdk_node_new demo_sdk demo_device = Ok n"
    using demo_device_node_id by (simp add: sdk_node_new_def node_new_def demo_sdk_def n_def demo_device_def)
  have "tc_private_key (nb_tls (sn_inner n)) = Some [2]"
    by (simp add: n_def device_tls_config_def tls_with_def demo_device_def)
  from demo_connect [OF this] obtain c where "node_connect demo_auth demo_transport ''gl1'' (sn_inner n) = Ok c" by blast
  then have "schedule_inner demo_sdk n = Ok c"
    by (simp add: schedule_inner_def node_schedule_def node_schedule_with_uri_def demo_sdk_def endpoint_with_def
        demo_transport_def)
  moreover have "sn_cln_client n = None" by (simp add: n_def)
  ultimately show ?thesis using new
    by (simp add: sdk_onchain_receive_def get_cln_client_def get_or_try_init_def)
qed

section \<open>Properties\<close>

text \<open>
  C29: an application speaks as its device. Whatever it calls and however often the scheduler is
  asked, the clients a node keeps have the certificate and key of its credentials as TLS
  identity and sign with that key and the rune of the credentials.
\<close>

theorem sdk_clients_are_the_device:
  assumes "sdk_reach E d n" "sn_cln_client n = Some c \<or> sn_gl_client n = Some c"
  shows "ti_identity (ep_tls (nc_endpoint c)) = Some (dv_cert d, dv_key d) \<and>
    auth_layer_new (se_auth E) (dv_key d) (dv_rune d) = Ok (nc_service c)"
proof -
  from sdk_reach_ok [OF assms(1)] assms(2) obtain uri where
    c: "node_connect (se_auth E) (se_transport E) uri (sn_inner n) = Ok c"
    and n: "nb_tls (sn_inner n) = device_tls_config (se_creds E) d" "nb_rune (sn_inner n) = dv_rune d"
    by (auto simp: sdk_node_ok_def)
  obtain k host where "tc_private_key (nb_tls (sn_inner n)) = Some k"
    "auth_layer_new (se_auth E) k (nb_rune (sn_inner n)) = Ok (nc_service c)"
    "ep_tls (nc_endpoint c) =
      (tc_inner (nb_tls (sn_inner n)))\<lparr>ti_domain := domain_for host (ti_domain (tc_inner (nb_tls (sn_inner n))))\<rparr>"
    by (rule node_connect_Ok [OF c])
  then show ?thesis unfolding n by (simp add: device_tls_config_def tls_with_def)
qed

theorem sdk_clients_are_the_device_witness:
  "\<exists>n c. sdk_reach demo_sdk demo_device n \<and> sn_cln_client n = Some c \<and>
     ti_identity (ep_tls (nc_endpoint c)) = Some ([1], [2])"
proof -
  obtain n c where n: "sdk_node_new demo_sdk demo_device = Ok n"
    "sn_cln_client (snd (sdk_onchain_receive demo_sdk n)) = Some c"
    using demo_sdk_client by blast
  then have r: "sdk_reach demo_sdk demo_device (snd (sdk_onchain_receive demo_sdk n))"
    by (intro sdk_reach.onchain_receive sdk_reach.new)
  from sdk_clients_are_the_device [OF this] n(2) have "ti_identity (ep_tls (nc_endpoint c)) = Some ([1], [2])"
    by (simp add: demo_device_def)
  with r n(2) show ?thesis by blast
qed

text \<open>
  On chain, millisatoshi are sent as satoshi. For a number, alone or with the unit sat or
  msat, the withdrawal is of a thousand times as many millisatoshi; only the word all withdraws
  everything.
\<close>

theorem onchain_msat_sent_as_sat:
  assumes "n * 1000 < 2 ^ 64" "unit \<in> {[], ''sat'', ''msat''}"
  shows "fst (sdk_onchain_send E destination (decimal n @ unit) node) =
    obind (fst (get_cln_client E node)) (\<lambda>c. omap_err SdkRpc (se_withdraw E c
      \<lparr>cw_destination = destination, cw_satoshi = Some (AmountMsat (n * 1000)), cw_minconf = None,
       cw_feerate = None, cw_utxos = []\<rparr>))"
proof -
  have u: "list_all (\<lambda>c. \<not> is_digit c) unit" using assms(2) by (auto simp: is_digit_def)
  have "parse_unsigned (2 ^ 64) (decimal n) = Some n" using assms(1) by (intro parse_unsigned_decimal) simp
  then have "(amount_or_all_of (decimal n @ unit) :: (_, sdk_error) outcome) = Ok (AmountMsat (n * 1000))"
    using assms digits_then_unit [OF decimal_digits u]
    by (auto simp: amount_or_all_of_def Let_def simp del: filter_append)
  then show ?thesis by (simp add: sdk_onchain_send_def)
qed

theorem onchain_msat_sent_as_sat_witness:
  "\<forall>node. fst (sdk_onchain_send demo_sdk ''bc1q'' ''21msat'' node) =
    obind (fst (get_cln_client demo_sdk node)) (\<lambda>c. omap_err SdkRpc (se_withdraw demo_sdk c
      \<lparr>cw_destination = ''bc1q'', cw_satoshi = Some (AmountMsat 21000), cw_minconf = None,
       cw_feerate = None, cw_utxos = []\<rparr>))"
proof -
  have "decimal 21 = ''21''" by code_simp
  then show ?thesis
    using onchain_msat_sent_as_sat [of 21 "''msat''" demo_sdk "''bc1q''"] by simp
qed

end
