(* ===== verification/Cli.thy ===== *)
theory Cli
  imports Sdk Lnurl
begin

text \<open>
  The command line (\<open>libs/gl-cli/src\<close>): the files it keeps in its directory, the seed of the
  node and the credentials of the device (\<open>util.rs\<close>), and the commands for the scheduler
  (\<open>scheduler.rs\<close>), the node (\<open>node.rs\<close>) and the signer (\<open>signer.rs\<close>). A command is a function on
  the files and the lines it has printed. Mnemonics, writing to disk and the services are
  functions; floating point numbers are their bits.
\<close>

subsection \<open>Files and errors\<close>

definition SEED_FILE_NAME :: string where "SEED_FILE_NAME = ''hsm_secret''"
definition CREDENTIALS_FILE_NAME :: string where "CREDENTIALS_FILE_NAME = ''credentials.gfs''"
definition DEFAULT_GREENLIGHT_DIR :: string where "DEFAULT_GREENLIGHT_DIR = ''greenlight''"

datatype utils_error = IoError string | MnemonicError string | DataError | UtilsCustom string

datatype cli_error =
    CliCustom string | SeedNotFoundError string | CredentialsNotFoundError string | UtilError utils_error

record cli_world =
  cw_files :: "string \<Rightarrow> bytes option"
  cw_out :: "string list"

text \<open>
  What the disk does: whether a file that is there can be read (its permissions, errors of the
  device), whether a directory and a file can be made, what is in a file after the write and
  whether the write failed, and the result of the sync. \<open>fs_parent\<close> is the directory of a path,
  \<open>fs_read_error\<close> what a read that fails says.
\<close>

record file_system =
  fs_parent :: "string \<Rightarrow> string option"
  fs_readable :: "string \<Rightarrow> bool"
  fs_read_error :: "string \<Rightarrow> string"
  fs_create_dir_all :: "string \<Rightarrow> (unit, string) outcome"
  fs_create :: "string \<Rightarrow> (unit, string) outcome"
  fs_write_all :: "string \<Rightarrow> bytes \<Rightarrow> bytes \<times> (unit, string) outcome"
  fs_sync_all :: "string \<Rightarrow> (unit, string) outcome"

definition say :: "string \<Rightarrow> cli_world \<Rightarrow> cli_world" where
  "say line w = w\<lparr>cw_out := cw_out w @ [line]\<rparr>"

definition join_path :: "string \<Rightarrow> string \<Rightarrow> string" where
  "join_path dir file = dir @ ''/'' @ file"

text \<open>\<open>fs::read(path).ok()\<close>: a file that is not there and one that cannot be read look the same.\<close>

definition fs_read :: "file_system \<Rightarrow> string \<Rightarrow> cli_world \<Rightarrow> bytes option" where
  "fs_read F path w = (if fs_readable F path then cw_files w path else None)"

text \<open>A step on the world that may fail, followed by another one.\<close>

definition wbind ::
  "('a, 'e) outcome \<times> cli_world \<Rightarrow> ('a \<Rightarrow> cli_world \<Rightarrow> ('b, 'e) outcome \<times> cli_world) \<Rightarrow> ('b, 'e) outcome \<times> cli_world" where
  "wbind r f =
     (case r of
        (Ok a, w) \<Rightarrow> f a w
      | (Err e, w) \<Rightarrow> (Err e, w)
      | (Panic, w) \<Rightarrow> (Panic, w))"

text \<open>Creating a file empties it.\<close>

definition write_credentials ::
  "file_system \<Rightarrow> string \<Rightarrow> bytes \<Rightarrow> cli_world \<Rightarrow> (unit, utils_error) outcome \<times> cli_world" where
  "write_credentials F path creds w =
     wbind (omap_err IoError (fs_create F path), w) (\<lambda>_ w.
     let (written, r) = fs_write_all F path creds;
         w = w\<lparr>cw_files := (cw_files w)(path \<mapsto> written)\<rparr> in
     wbind (omap_err IoError r, w) (\<lambda>_ w.
       (omap_err IoError (fs_sync_all F path), w)))"

definition write_seed ::
  "file_system \<Rightarrow> string \<Rightarrow> bytes \<Rightarrow> cli_world \<Rightarrow> (unit, utils_error) outcome \<times> cli_world" where
  "write_seed F path seed w =
     wbind (omap_err IoError (case fs_parent F path of Some p \<Rightarrow> fs_create_dir_all F p | None \<Rightarrow> Ok ()), w) (\<lambda>_ w.
     wbind (omap_err IoError (fs_create F path), w) (\<lambda>_ w.
     let (written, r) = fs_write_all F path seed;
         w = w\<lparr>cw_files := (cw_files w)(path \<mapsto> written)\<rparr> in
     wbind (omap_err IoError r, w) (\<lambda>_ w.
       (omap_err IoError (fs_sync_all F path), w))))"

definition read_seed :: "file_system \<Rightarrow> string \<Rightarrow> cli_world \<Rightarrow> bytes option" where
  "read_seed F path w = fs_read F path w"

definition read_credentials ::
  "creds_lib \<Rightarrow> file_system \<Rightarrow> string \<Rightarrow> cli_world \<Rightarrow> (device, 'e) outcome option" where
  "read_credentials C F path w = map_option (device_from_bytes C) (fs_read F path w)"

definition generate_seed :: "'m bip39 \<Rightarrow> string option \<Rightarrow> (bytes \<times> 'm, utils_error) outcome" where
  "generate_seed M words =
     obind (omap_err MnemonicError (case words of Some sentence \<Rightarrow> bm_parse M sentence | None \<Rightarrow> bm_generate M 12)) (\<lambda>mnemonic.
     let n = bm_word_count M mnemonic in
     if n \<noteq> 12 then Err (UtilsCustom (''Mnemonic contains '' @ decimal n @ '' words, but 12 were expected.''))
     else omap (\<lambda>seed. (seed, mnemonic)) (slice 0 32 (bm_to_seed M mnemonic [])))"

definition default_data_dir :: "string option \<Rightarrow> (string, 'e) outcome" where
  "default_data_dir dirs_data_dir = omap (\<lambda>d. join_path d DEFAULT_GREENLIGHT_DIR) (unwrap dirs_data_dir)"

text \<open>The amount of an invoice on the command line; what does not parse panics.\<close>

definition cli_amount_or_any :: "string \<Rightarrow> (amount_or_any, 'e) outcome" where
  "cli_amount_or_any s =
     (if s = ''any'' then Ok AnyAmount
      else case parse_unsigned (2 ^ 64) s of Some msat \<Rightarrow> Ok (Amount msat) | None \<Rightarrow> Panic)"

subsection \<open>The environment of a command\<close>

record cli_config =
  cc_data_dir :: string
  cc_network :: string

record cli_invoice =
  cx_label :: string
  cx_description :: string
  cx_amount_msat :: "amount_or_any option"
  cx_expiry :: "nat option"
  cx_fallbacks :: "string list"
  cx_preimage :: "bytes option"
  cx_cltv :: "nat option"
  cx_deschashonly :: "bool option"
  cx_exposeprivatechannels :: "string list"

record cli_listpays =
  cx_bolt11 :: "string option"
  cx_payment_hash :: "bytes option"
  cx_status :: "int option"
  cx_index :: "int option"
  cx_start :: "nat option"
  cx_limit :: "nat option"

datatype node_call =
    CallStop
  | CallGetinfo
  | CallInvoice cli_invoice
  | CallConnectPeer string "string option" "nat option"
  | CallListPays cli_listpays
  | CallPay "u64 cln_pay"

text \<open>What comes first while the logs are followed; when there is nothing more, the stream has ended.\<close>

datatype log_event = CtrlC | LogLine string | LogFailed string

record pairing_view = pairing_data +
  pv_device_name :: string
  pv_description :: string

text \<open>
  \<open>ce_call\<close> gives the printed answer of the node, \<open>ce_input\<close> is the line the user types, and
  \<open>ce_signer\<close> is how the connection to the scheduler and the loops of a running signer go until
  it is interrupted.
\<close>

record ('f, 'j, 'a, 'h, 'r, 'm) cli_env =
  ce_vls :: "('f, 'j, 'a, 'h, 'r) vls_lib"
  ce_sched :: "'r sdk_scheduler_env"
  ce_auth :: auth_lib
  ce_send :: "string scheduler_send"
  ce_call :: "node_client \<Rightarrow> node_call \<Rightarrow> (string, string) outcome"
  ce_stream_log :: "node_client \<Rightarrow> (log_event list, string) outcome"
  ce_bip39 :: "'m bip39"
  ce_fs :: file_system
  ce_data_dir :: "string option"
  ce_key :: device_key
  ce_input :: string
  ce_signer :: "('f, 'j, 'r) signer_instance \<Rightarrow> (unit, string) outcome \<times> signer_event"
  ce_ctrl_c :: "(unit, string) outcome"
  ce_pair_device :: "endpoint \<Rightarrow> pair_device_request \<Rightarrow> (pair_device_response, string) outcome"
  ce_pairing_data :: "endpoint \<Rightarrow> string \<Rightarrow> nat \<Rightarrow> (pairing_view, string) outcome \<times> nat"
  ce_wakes :: "nat \<Rightarrow> nat"
  ce_clock :: nat
  ce_now :: "(u64, string) outcome"
  ce_csr_key :: "bytes \<Rightarrow> (bytes option, string) outcome"
  ce_approve :: "endpoint \<Rightarrow> approve_pairing_request \<Rightarrow> (unit, string) outcome"

definition ce_creds :: "('f, 'j, 'a, 'h, 'r, 'm) cli_env \<Rightarrow> creds_lib" where
  "ce_creds E = sz_creds (ce_sched E)"

definition seed_path :: "cli_config \<Rightarrow> string" where
  "seed_path cfg = join_path (cc_data_dir cfg) SEED_FILE_NAME"

definition creds_path :: "cli_config \<Rightarrow> string" where
  "creds_path cfg = join_path (cc_data_dir cfg) CREDENTIALS_FILE_NAME"

text \<open>What every command for a device begins with: its credentials, and a scheduler with them.\<close>

definition stored_credentials ::
  "('f, 'j, 'a, 'h, 'r, 'm) cli_env \<Rightarrow> cli_config \<Rightarrow> cli_world \<Rightarrow> (device, cli_error) outcome" where
  "stored_credentials E cfg w =
     (case read_credentials (ce_creds E) (ce_fs E) (creds_path cfg) w of
        Some creds \<Rightarrow> creds
      | None \<Rightarrow> Err (CredentialsNotFoundError (''could not read from '' @ creds_path cfg)))"

definition device_scheduler ::
  "('f, 'j, 'a, 'h, 'r, 'm) cli_env \<Rightarrow> cli_config \<Rightarrow> device \<Rightarrow> (device sched_client, string) outcome" where
  "device_scheduler E cfg creds =
     scheduler_new (sz_transport (ce_sched E)) (sz_host (ce_sched E)) (device_tls_config (ce_creds E)) (cc_network cfg) creds"

subsection \<open>Commands for the node\<close>

definition cli_node ::
  "('f, 'j, 'a, 'h, 'r, 'm) cli_env \<Rightarrow> cli_config \<Rightarrow> cli_world \<Rightarrow> (node_client, cli_error) outcome" where
  "cli_node E cfg w =
     obind (stored_credentials E cfg w) (\<lambda>creds.
     obind (omap_err CliCustom (device_scheduler E cfg creds)) (\<lambda>scheduler.
     omap_err CliCustom
       (sched_node (ce_creds E) (ce_auth E) (sz_transport (ce_sched E)) (ce_send E) scheduler)))"

definition cli_call ::
  "('f, 'j, 'a, 'h, 'r, 'm) cli_env \<Rightarrow> cli_config \<Rightarrow> node_call \<Rightarrow> cli_world \<Rightarrow> (unit, cli_error) outcome \<times> cli_world" where
  "cli_call E cfg call w =
     wbind (cli_node E cfg w, w) (\<lambda>node w.
     wbind (omap_err CliCustom (ce_call E node call), w) (\<lambda>res w.
     (Ok (), say res w)))"

definition node_init_handler ::
  "('f, 'j, 'a, 'h, 'r, 'm) cli_env \<Rightarrow> cli_config \<Rightarrow> string option \<Rightarrow> cli_world
     \<Rightarrow> (unit, cli_error) outcome \<times> cli_world" where
  "node_init_handler E cfg mnemonic w =
     (let path = seed_path cfg;
          message = (case mnemonic of Some _ \<Rightarrow> ''Secret seed derived from user provided mnemonic''
                     | None \<Rightarrow> ''Your recovery mnemonic is'') in
      if read_seed (ce_fs E) path w \<noteq> None then (Err (CliCustom (''Seed already exists at '' @ path)), w)
      else
        wbind (omap_err (\<lambda>e. CliCustom (''Failed to create data directory: '' @ e))
                (fs_create_dir_all (ce_fs E) (cc_data_dir cfg)), w) (\<lambda>_ w.
        let w = say (''Local greenlight directory created at '' @ cc_data_dir cfg) w in
        wbind (omap_err UtilError (generate_seed (ce_bip39 E) mnemonic), w) (\<lambda>(seed, mnemonic) w.
        wbind (apfst (omap_err UtilError) (write_seed (ce_fs E) path seed w)) (\<lambda>_ w.
        (Ok (), say (message @ '': '' @ bm_show (ce_bip39 E) mnemonic) w)))))"

fun log_loop :: "log_event list \<Rightarrow> cli_world \<Rightarrow> (unit, cli_error) outcome \<times> cli_world" where
  "log_loop [] w = (Ok (), w)"
| "log_loop (CtrlC # events) w = (Ok (), w)"
| "log_loop (LogLine line # events) w = log_loop events (say line w)"
| "log_loop (LogFailed e # events) w = (Err (CliCustom e), w)"

definition log_handler ::
  "('f, 'j, 'a, 'h, 'r, 'm) cli_env \<Rightarrow> cli_config \<Rightarrow> cli_world \<Rightarrow> (unit, cli_error) outcome \<times> cli_world" where
  "log_handler E cfg w =
     wbind (cli_node E cfg w, w) (\<lambda>node w.
     wbind (omap_err CliCustom (ce_stream_log E node), w) log_loop)"

definition stop_handler ::
  "('f, 'j, 'a, 'h, 'r, 'm) cli_env \<Rightarrow> cli_config \<Rightarrow> cli_world \<Rightarrow> (unit, cli_error) outcome \<times> cli_world" where
  "stop_handler E cfg w = cli_call E cfg CallStop w"

definition getinfo_handler ::
  "('f, 'j, 'a, 'h, 'r, 'm) cli_env \<Rightarrow> cli_config \<Rightarrow> cli_world \<Rightarrow> (unit, cli_error) outcome \<times> cli_world" where
  "getinfo_handler E cfg w = cli_call E cfg CallGetinfo w"

definition invoice_handler ::
  "('f, 'j, 'a, 'h, 'r, 'm) cli_env \<Rightarrow> cli_config \<Rightarrow> string \<Rightarrow> string \<Rightarrow> amount_or_any option \<Rightarrow> nat option
     \<Rightarrow> string list option \<Rightarrow> bytes option \<Rightarrow> nat option \<Rightarrow> bool option \<Rightarrow> cli_world
     \<Rightarrow> (unit, cli_error) outcome \<times> cli_world" where
  "invoice_handler E cfg label description amount_msat expiry fallbacks preimage cltv deschashonly w =
     cli_call E cfg (CallInvoice
       \<lparr>cx_label = label, cx_description = description, cx_amount_msat = amount_msat, cx_expiry = expiry,
        cx_fallbacks = or_else fallbacks [], cx_preimage = preimage, cx_cltv = cltv,
        cx_deschashonly = deschashonly, cx_exposeprivatechannels = []\<rparr>) w"

definition connect_handler ::
  "('f, 'j, 'a, 'h, 'r, 'm) cli_env \<Rightarrow> cli_config \<Rightarrow> string \<Rightarrow> string option \<Rightarrow> nat option \<Rightarrow> cli_world
     \<Rightarrow> (unit, cli_error) outcome \<times> cli_world" where
  "connect_handler E cfg peer host port w = cli_call E cfg (CallConnectPeer peer host port) w"

definition listpays_handler ::
  "('f, 'j, 'a, 'h, 'r, 'm) cli_env \<Rightarrow> cli_config \<Rightarrow> string option \<Rightarrow> bytes option \<Rightarrow> int option \<Rightarrow> cli_world
     \<Rightarrow> (unit, cli_error) outcome \<times> cli_world" where
  "listpays_handler E cfg bolt11 payment_hash status w =
     cli_call E cfg (CallListPays
       \<lparr>cx_bolt11 = bolt11, cx_payment_hash = payment_hash, cx_status = status, cx_index = None,
        cx_start = None, cx_limit = None\<rparr>) w"

record pay_args =
  px_bolt11 :: string
  px_amount_msat :: "nat option"
  px_label :: "string option"
  px_riskfactor :: "u64 option"
  px_maxfeepercent :: "u64 option"
  px_retry_for :: "nat option"
  px_maxdelay :: "nat option"
  px_exemptfee :: "nat option"
  px_localinvreqid :: "bytes option"
  px_exclude :: "string list option"
  px_maxfee :: "nat option"
  px_description :: "string option"

definition pay_handler ::
  "('f, 'j, 'a, 'h, 'r, 'm) cli_env \<Rightarrow> cli_config \<Rightarrow> pay_args \<Rightarrow> cli_world \<Rightarrow> (unit, cli_error) outcome \<times> cli_world" where
  "pay_handler E cfg a w =
     cli_call E cfg (CallPay
       \<lparr>cp_bolt11 = px_bolt11 a, cp_amount_msat = px_amount_msat a, cp_label = px_label a,
        cp_riskfactor = px_riskfactor a, cp_maxfeepercent = px_maxfeepercent a, cp_retry_for = px_retry_for a,
        cp_maxdelay = px_maxdelay a, cp_exemptfee = px_exemptfee a, cp_localinvreqid = px_localinvreqid a,
        cp_exclude = or_else (px_exclude a) [], cp_maxfee = px_maxfee a, cp_description = px_description a,
        cp_partial_msat = None\<rparr>) w"

datatype node_command =
    NodeInit "string option"
  | NodeLog
  | NodeGetInfo
  | NodeInvoice string string "amount_or_any option" "nat option" "string list option" "bytes option"
      "nat option" "bool option"
  | NodePay pay_args
  | NodeConnect string "string option" "nat option"
  | NodeListpays "string option" "string option" "string option"
  | NodeStop

definition listpays_status :: "string \<Rightarrow> int option" where
  "listpays_status s =
     (if s = ''pending'' then Some 0
      else if s = ''complete'' then Some 1
      else if s = ''failed'' then Some 2
      else None)"

definition invalid_status :: "string \<Rightarrow> string" where
  "invalid_status s =
     ''Invalid status: '' @ s @ '', expected one of '' @ CHR 0x22 # ''pending'' @ CHR 0x22 # '', '' @
     CHR 0x22 # ''completed'' @ CHR 0x22 # '', '' @ CHR 0x22 # ''failed'' @ [CHR 0x22]"

fun node_command_handler ::
  "('f, 'j, 'a, 'h, 'r, 'm) cli_env \<Rightarrow> node_command \<Rightarrow> cli_config \<Rightarrow> cli_world
     \<Rightarrow> (unit, cli_error) outcome \<times> cli_world" where
  "node_command_handler E (NodeInit mnemonic) cfg w = node_init_handler E cfg mnemonic w"
| "node_command_handler E NodeLog cfg w = log_handler E cfg w"
| "node_command_handler E NodeGetInfo cfg w = getinfo_handler E cfg w"
| "node_command_handler E (NodeInvoice label description amount_msat expiry fallbacks preimage cltv deschashonly) cfg w =
     invoice_handler E cfg label description amount_msat expiry fallbacks preimage cltv deschashonly w"
| "node_command_handler E (NodePay args) cfg w = pay_handler E cfg args w"
| "node_command_handler E (NodeConnect peer host port) cfg w = connect_handler E cfg peer host port w"
| "node_command_handler E (NodeListpays bolt11 payment_hash status) cfg w =
     (case map_option (cl_hex_decode (ce_creds E)) payment_hash of
        Some (Err e) \<Rightarrow> (Ok (), say (''Payment hash is not a valid hex string: '' @ e) w)
      | Some Panic \<Rightarrow> (Panic, w)
      | decoded \<Rightarrow>
          let payment_hash = (case decoded of Some (Ok hash) \<Rightarrow> Some hash | _ \<Rightarrow> None) in
          (case status of
             None \<Rightarrow> listpays_handler E cfg bolt11 payment_hash None w
           | Some s \<Rightarrow>
               (case listpays_status s of
                  Some n \<Rightarrow> listpays_handler E cfg bolt11 payment_hash (Some n) w
                | None \<Rightarrow> (Ok (), say (invalid_status s) w))))"
| "node_command_handler E NodeStop cfg w = stop_handler E cfg w"

subsection \<open>Commands for the scheduler\<close>

definition nobody_creds ::
  "('f, 'j, 'a, 'h, 'r, 'm) cli_env \<Rightarrow> (nobody, cli_error) outcome" where
  "nobody_creds E = unwrap_result (nobody_new (sz_host (ce_sched E)) (sz_builtin (ce_sched E)))"

definition cli_signer ::
  "('f, 'j, 'a, 'h, 'r, 'm) cli_env \<Rightarrow> cli_config \<Rightarrow> bytes \<Rightarrow> tls_config
     \<Rightarrow> (('f, 'j, 'r) signer_instance, cli_error) outcome" where
  "cli_signer E cfg seed tls =
     omap_err (\<lambda>e. CliCustom (''Failed to create signer: '' @ sz_show (ce_sched E) e))
       (signer_new (ce_vls E) seed (cc_network cfg) tls)"

definition failed_to :: "string \<Rightarrow> ('a, string) outcome \<Rightarrow> ('a, cli_error) outcome" where
  "failed_to what r = omap_err (\<lambda>e. CliCustom (''Failed to '' @ what @ '': '' @ e)) r"

text \<open>A signer and a scheduler with the credentials of nobody.\<close>

definition nobody_session ::
  "('f, 'j, 'a, 'h, 'r, 'm) cli_env \<Rightarrow> cli_config \<Rightarrow> bytes
     \<Rightarrow> (('f, 'j, 'r) signer_instance \<times> nobody sched_client, cli_error) outcome" where
  "nobody_session E cfg seed =
     obind (nobody_creds E) (\<lambda>creds.
     obind (cli_signer E cfg seed (nobody_tls_config (ce_creds E) creds)) (\<lambda>signer.
     omap (\<lambda>scheduler. (signer, scheduler))
       (failed_to ''create scheduler''
         (scheduler_new (sz_transport (ce_sched E)) (sz_host (ce_sched E)) (nobody_tls_config (ce_creds E))
            (cc_network cfg) creds))))"

definition register_seed ::
  "('f, 'j, 'a, 'h, 'r, 'm) cli_env \<Rightarrow> cli_config \<Rightarrow> cli_world \<Rightarrow> (bytes, cli_error) outcome \<times> cli_world" where
  "register_seed E cfg w =
     (case read_seed (ce_fs E) (seed_path cfg) w of
        Some seed \<Rightarrow> (Ok seed, say (''Seed already exists at '' @ seed_path cfg @ '', using it'') w)
      | None \<Rightarrow>
          wbind (omap_err UtilError (generate_seed (ce_bip39 E) None), w) (\<lambda>(seed, mnemonic) w.
          let w = say (''New seed generated from mnemonic: '' @ bm_show (ce_bip39 E) mnemonic) w in
          wbind (apfst (omap_err UtilError) (write_seed (ce_fs E) (seed_path cfg) seed w)) (\<lambda>_ w.
          (Ok seed, say (''Seed saved to '' @ seed_path cfg) w))))"

definition save_credentials ::
  "('f, 'j, 'a, 'h, 'r, 'm) cli_env \<Rightarrow> cli_config \<Rightarrow> bytes \<Rightarrow> cli_world \<Rightarrow> (unit, cli_error) outcome \<times> cli_world" where
  "save_credentials E cfg creds w =
     wbind (apfst (omap_err UtilError) (write_credentials (ce_fs E) (creds_path cfg) creds w)) (\<lambda>_ w.
     (Ok (), say (''Credentials saved at '' @ creds_path cfg) w))"

text \<open>What a registration and a recovery do with the answer.\<close>

definition keep_answer ::
  "('f, 'j, 'a, 'h, 'r, 'm) cli_env \<Rightarrow> cli_config \<Rightarrow> registration_response \<Rightarrow> cli_world
     \<Rightarrow> (unit, cli_error) outcome \<times> cli_world" where
  "keep_answer E cfg res w =
     (let w = (if rr_creds res = [] then say ''No credentials found. Please recover the node.'' w else w) in
      wbind (device_from_bytes (ce_creds E) (rr_creds res), w) (\<lambda>device_creds w.
      save_credentials E cfg (device_to_bytes (ce_creds E) device_creds) w))"

definition register_handler ::
  "('f, 'j, 'a, 'h, 'r, 'm) cli_env \<Rightarrow> cli_config \<Rightarrow> string option \<Rightarrow> cli_world
     \<Rightarrow> (unit, cli_error) outcome \<times> cli_world" where
  "register_handler E cfg invite_code w =
     wbind (register_seed E cfg w) (\<lambda>seed w.
     wbind (nobody_session E cfg seed, w) (\<lambda>(signer, scheduler) w.
     wbind (failed_to ''register node'' (omap_err (sz_show (ce_sched E))
             (register (ce_creds E) (sz_runes (ce_sched E)) (signer.truncate signer)
                (sz_scheduler (ce_sched E) scheduler) (ce_key E) invite_code)), w) (\<lambda>res w.
     keep_answer E cfg res w)))"

definition seed_not_found :: "string \<Rightarrow> cli_config \<Rightarrow> cli_world \<Rightarrow> ('a, cli_error) outcome \<times> cli_world" where
  "seed_not_found line cfg w = (Err (SeedNotFoundError (''could not read from '' @ seed_path cfg)), say line w)"

definition recover_handler ::
  "('f, 'j, 'a, 'h, 'r, 'm) cli_env \<Rightarrow> cli_config \<Rightarrow> cli_world \<Rightarrow> (unit, cli_error) outcome \<times> cli_world" where
  "recover_handler E cfg w =
     (case read_seed (ce_fs E) (seed_path cfg) w of
        None \<Rightarrow> seed_not_found ''No seed found. Need to register first.'' cfg w
      | Some seed \<Rightarrow>
          wbind (nobody_session E cfg seed, w) (\<lambda>(signer, scheduler) w.
          wbind (failed_to ''register node'' (omap_err (sz_show (ce_sched E))
                  (recover (ce_creds E) (sz_runes (ce_sched E)) (signer.truncate signer)
                     (sz_scheduler (ce_sched E) scheduler) (ce_key E))), w) (\<lambda>res w.
          keep_answer E cfg res w)))"

text \<open>The credentials of the device, or a line and an error.\<close>

definition credentials_or_line ::
  "('f, 'j, 'a, 'h, 'r, 'm) cli_env \<Rightarrow> cli_config \<Rightarrow> cli_world \<Rightarrow> (device, cli_error) outcome \<times> cli_world" where
  "credentials_or_line E cfg w =
     (stored_credentials E cfg w,
      if fs_read (ce_fs E) (creds_path cfg) w = None then say (''Could not find credentials at '' @ creds_path cfg) w else w)"

definition schedule_handler ::
  "('f, 'j, 'a, 'h, 'r, 'm) cli_env \<Rightarrow> cli_config \<Rightarrow> cli_world \<Rightarrow> (unit, cli_error) outcome \<times> cli_world" where
  "schedule_handler E cfg w =
     wbind (credentials_or_line E cfg w) (\<lambda>creds w.
     wbind (failed_to ''create scheduler'' (device_scheduler E cfg creds), w) (\<lambda>scheduler w.
     wbind (failed_to ''register node'' (sched_schedule (ce_creds E) (ce_send E) scheduler), w) (\<lambda>res w.
     (Ok (), say res w))))"

definition read_or_error ::
  "('f, 'j, 'a, 'h, 'r, 'm) cli_env \<Rightarrow> string \<Rightarrow> cli_world \<Rightarrow> (bytes, cli_error) outcome" where
  "read_or_error E path w = ok_or (CliCustom (fs_read_error (ce_fs E) path)) (fs_read (ce_fs E) path w)"

definition upgrade_credentials_handler ::
  "('f, 'j, 'a, 'h, 'r, 'm) cli_env \<Rightarrow> cli_config \<Rightarrow> cli_world \<Rightarrow> (unit, cli_error) outcome \<times> cli_world" where
  "upgrade_credentials_handler E cfg w =
     (case read_seed (ce_fs E) (seed_path cfg) w of
        None \<Rightarrow> seed_not_found ''No seed found. Need to register first.'' cfg w
      | Some seed \<Rightarrow>
          wbind (read_or_error E (join_path (cc_data_dir cfg) ''device.crt'') w, w) (\<lambda>cert w.
          wbind (read_or_error E (join_path (cc_data_dir cfg) ''device-key.pem'') w, w) (\<lambda>key w.
          wbind (device_default (ce_creds E), w) (\<lambda>dflt w.
          wbind (nobody_session E cfg seed, w) (\<lambda>(signer, scheduler) w.
          wbind (omap_err (CliCustom \<circ> sz_show (ce_sched E))
                  (device_upgrade (ce_creds E) (sz_runes (ce_sched E)) (signer.truncate signer)
                     (dflt\<lparr>dv_cert := cert, dv_key := key\<rparr>)), w) (\<lambda>creds w.
          save_credentials E cfg (device_to_bytes (ce_creds E) creds) w))))))"

text \<open>\<open>Client::connect\<close> of both pairing clients.\<close>

definition pairing_connect ::
  "('f, 'j, 'a, 'h, 'r, 'm) cli_env \<Rightarrow> tls_config \<Rightarrow> (endpoint, string) outcome" where
  "pairing_connect E tls =
     endpoint_with (sz_transport (ce_sched E)) (scheduler_uri (sz_host (ce_sched E))) (tc_inner tls) (Some client_keepalive)"

fun pairing_loop ::
  "('f, 'j, 'a, 'h, 'r, 'm) cli_env \<Rightarrow> cli_config \<Rightarrow> pairing_session_data list \<Rightarrow> cli_world
     \<Rightarrow> (unit, cli_error) outcome \<times> cli_world" where
  "pairing_loop E cfg [] w = (Err (CliCustom ''Connection to scheduler has been closed''), w)"
| "pairing_loop E cfg (PairingResponse r # ms) w = save_credentials E cfg (pq_creds r) w"
| "pairing_loop E cfg (PairingQr qr # ms) w =
     pairing_loop E cfg ms (say qr (say ''Share the following data with the device to pair with:'' w))"
| "pairing_loop E cfg (PairingError status # ms) w = (Err (CliCustom (''Pairing failed: '' @ status)), w)"

definition pair_device_handler ::
  "('f, 'j, 'a, 'h, 'r, 'm) cli_env \<Rightarrow> cli_config \<Rightarrow> string \<Rightarrow> string \<Rightarrow> string \<Rightarrow> cli_world
     \<Rightarrow> (unit, cli_error) outcome \<times> cli_world" where
  "pair_device_handler E cfg name description restrictions w =
     wbind (nobody_creds E, w) (\<lambda>creds w.
     wbind (omap_err CliCustom (pairing_connect E (nobody_tls_config (ce_creds E) creds)), w) (\<lambda>dc w.
     wbind (omap_err CliCustom
             (pair_device (cl_hex (ce_creds E))
                (\<lambda>cert key rune. omap (device_to_bytes (ce_creds E)) (device_with (ce_creds E) cert key rune))
                (ce_key E) (ce_pair_device E dc) name description restrictions), w) (\<lambda>ms w.
     pairing_loop E cfg ms w)))"

definition confirmed :: "string \<Rightarrow> bool" where
  "confirmed input \<longleftrightarrow> to_lowercase (trim input) = ''y''"

fun say_all :: "string list \<Rightarrow> cli_world \<Rightarrow> cli_world" where
  "say_all [] w = w"
| "say_all (l # ls) w = say_all ls (say l w)"

definition export_handler ::
  "('f, 'j, 'a, 'h, 'r, 'm) cli_env \<Rightarrow> cli_config \<Rightarrow> cli_world \<Rightarrow> (unit, cli_error) outcome \<times> cli_world" where
  "export_handler E cfg w =
     wbind (credentials_or_line E cfg w) (\<lambda>creds w.
     wbind (failed_to ''create scheduler'' (device_scheduler E cfg creds), w) (\<lambda>scheduler w.
     let w = say_all
       [''WARNING: Exporting your node will make it no longer schedulable on Greenlight.'',
        ''After export, you will need to run the node on your own infrastructure.'',
        ''This operation is idempotent and can be called multiple times.'', [],
        ''Are you sure you want to export your node? (y/N) ''] w in
     if \<not> confirmed (ce_input E) then (Ok (), say ''Export cancelled.'' w)
     else
       wbind (failed_to ''export node'' (sched_export_node (ce_send E) scheduler), w) (\<lambda>url w.
       (Ok (), say_all
         [''Node export initiated successfully!'', ''Download the encrypted backup from: '' @ url, [],
          ''Note: After exporting, the node will no longer be schedulable on Greenlight.'',
          ''The backup is encrypted and can only be decrypted with your node secret.''] w))))"

definition pairing_device_id :: "string \<Rightarrow> (string, cli_error) outcome" where
  "pairing_device_id pairing_data =
     (case dropWhile (\<lambda>c. c \<noteq> CHR '':'') pairing_data of
        _ # device_id \<Rightarrow> Ok device_id
      | [] \<Rightarrow> Err (CliCustom (''could not extract device_id from given pairing data '' @ pairing_data)))"

definition attestation_of ::
  "('f, 'j, 'a, 'h, 'r, 'm) cli_env \<Rightarrow> device \<Rightarrow> attestation_creds" where
  "attestation_of E creds =
     \<lparr>at_now = ce_now E, at_node_id = device_node_id (ce_creds E) creds,
      at_private_key = tc_private_key (device_tls_config (ce_creds E) creds), at_rune = dv_rune creds\<rparr>"

definition approve_pairing_handler ::
  "('f, 'j, 'a, 'h, 'r, 'm) cli_env \<Rightarrow> cli_config \<Rightarrow> string \<Rightarrow> cli_world
     \<Rightarrow> (unit, cli_error) outcome \<times> cli_world" where
  "approve_pairing_handler E cfg pairing_data w =
     wbind (credentials_or_line E cfg w) (\<lambda>creds w.
     wbind (omap_err CliCustom (pairing_connect E (device_tls_config (ce_creds E) creds)), w) (\<lambda>ac w.
     wbind (pairing_device_id pairing_data, w) (\<lambda>device_id w.
     wbind (omap_err CliCustom (fst (get_pairing_data (ce_pairing_data E ac device_id) (ce_wakes E) (ce_clock E))), w) (\<lambda>data w.
     wbind (omap_err (\<lambda>e. CliCustom (''could not verify pairing data: '' @ e))
             (verify_pairing_data (ce_csr_key E) (cl_hex (ce_creds E)) (pairing_data.truncate data)), w) (\<lambda>_ w.
     let w = say_all
       [''The following device requests attestation:'', ''        id: '' @ pg_device_id data, ''        name: '' @ pv_device_name data,
        ''        description: '' @ pv_description data, ''        restrictions: '' @ pg_restrictions data,
        ''        Do you want to continue and attestate the pairing (y/N)? ''] w in
     if \<not> confirmed (ce_input E) then (Ok (), say ''Abort pairing.'' w)
     else
       wbind (omap_err (\<lambda>e. CliCustom (''failed to attestate pairing data: '' @ e))
               (obind (approve_pairing (ce_auth E) (attestation_of E creds) (pg_device_id data)
                         (pv_device_name data) (pg_restrictions data)) (ce_approve E ac)),
              say ''Continue attestation.'' w) (\<lambda>_ w.
       (Ok (), say ''Pairing done!'' w)))))))"

datatype scheduler_command =
    SchedRegister "string option"
  | SchedRecover
  | SchedSchedule
  | SchedUpgradeCredentials
  | SchedPairDevice string "string option" "string option"
  | SchedApprovePairing string
  | SchedExport

fun scheduler_command_handler ::
  "('f, 'j, 'a, 'h, 'r, 'm) cli_env \<Rightarrow> scheduler_command \<Rightarrow> cli_config \<Rightarrow> cli_world
     \<Rightarrow> (unit, cli_error) outcome \<times> cli_world" where
  "scheduler_command_handler E (SchedRegister invite_code) cfg w = register_handler E cfg invite_code w"
| "scheduler_command_handler E SchedRecover cfg w = recover_handler E cfg w"
| "scheduler_command_handler E SchedSchedule cfg w = schedule_handler E cfg w"
| "scheduler_command_handler E SchedUpgradeCredentials cfg w = upgrade_credentials_handler E cfg w"
| "scheduler_command_handler E (SchedPairDevice name description restrictions) cfg w =
     pair_device_handler E cfg name (or_else description []) (or_else restrictions []) w"
| "scheduler_command_handler E (SchedApprovePairing pairing_data) cfg w = approve_pairing_handler E cfg pairing_data w"
| "scheduler_command_handler E SchedExport cfg w = export_handler E cfg w"

subsection \<open>Commands for the signer\<close>

definition VERSION :: string where "VERSION = ''v25.12''"

definition run_handler ::
  "('f, 'j, 'a, 'h, 'r, 'm) cli_env \<Rightarrow> cli_config \<Rightarrow> cli_world \<Rightarrow> (unit, cli_error) outcome \<times> cli_world" where
  "run_handler E cfg w =
     (case read_seed (ce_fs E) (seed_path cfg) w of
        None \<Rightarrow> seed_not_found ''Seed not found'' cfg w
      | Some seed \<Rightarrow>
          wbind (stored_credentials E cfg w, w) (\<lambda>creds w.
          wbind (cli_signer E cfg seed (device_tls_config (ce_creds E) creds), w) (\<lambda>signer w.
          let (scheduler, event) = ce_signer E signer in
          case run_forever (sz_host (ce_sched E)) (\<lambda>_. scheduler) event of
            Panic \<Rightarrow> (Panic, w)
          | _ \<Rightarrow> (omap_err CliCustom (ce_ctrl_c E), w))))"

definition version_handler ::
  "('f, 'j, 'a, 'h, 'r, 'm) cli_env \<Rightarrow> cli_config \<Rightarrow> cli_world \<Rightarrow> (unit, cli_error) outcome \<times> cli_world" where
  "version_handler E cfg w =
     (case read_seed (ce_fs E) (seed_path cfg) w of
        None \<Rightarrow> seed_not_found ''Seed not found'' cfg w
      | Some seed \<Rightarrow>
          wbind (nobody_creds E, w) (\<lambda>creds w.
          wbind (cli_signer E cfg seed (nobody_tls_config (ce_creds E) creds), w) (\<lambda>signer w.
          (Ok (), say VERSION w))))"

datatype signer_command = SignerRun | SignerVersion

fun signer_command_handler ::
  "('f, 'j, 'a, 'h, 'r, 'm) cli_env \<Rightarrow> signer_command \<Rightarrow> cli_config \<Rightarrow> cli_world
     \<Rightarrow> (unit, cli_error) outcome \<times> cli_world" where
  "signer_command_handler E SignerRun cfg w = run_handler E cfg w"
| "signer_command_handler E SignerVersion cfg w = version_handler E cfg w"

subsection \<open>The program\<close>

datatype cli_command =
    SchedulerCommand scheduler_command | SignerCommand signer_command | NodeCommand node_command

definition run ::
  "('f, 'j, 'a, 'h, 'r, 'm) cli_env \<Rightarrow> string option \<Rightarrow> string \<Rightarrow> cli_command \<Rightarrow> cli_world
     \<Rightarrow> (unit, cli_error) outcome \<times> cli_world" where
  "run E data_dir net cmd w =
     wbind (case data_dir of Some d \<Rightarrow> Ok d | None \<Rightarrow> default_data_dir (ce_data_dir E), w) (\<lambda>data_dir w.
     let cfg = \<lparr>cc_data_dir = data_dir, cc_network = net\<rparr> in
     case cmd of
       SchedulerCommand c \<Rightarrow> scheduler_command_handler E c cfg w
     | SignerCommand c \<Rightarrow> signer_command_handler E c cfg w
     | NodeCommand c \<Rightarrow> node_command_handler E c cfg w)"

subsection \<open>Lemmas\<close>

text \<open>The commands that make a seed: \<open>init\<close> and \<open>register\<close>.\<close>

definition node_makes_seed :: "node_command \<Rightarrow> bool" where
  "node_makes_seed c \<longleftrightarrow> (case c of NodeInit _ \<Rightarrow> True | _ \<Rightarrow> False)"

definition scheduler_makes_seed :: "scheduler_command \<Rightarrow> bool" where
  "scheduler_makes_seed c \<longleftrightarrow> (case c of SchedRegister _ \<Rightarrow> True | _ \<Rightarrow> False)"

definition makes_seed :: "cli_command \<Rightarrow> bool" where
  "makes_seed cmd \<longleftrightarrow>
     (case cmd of
        NodeCommand c \<Rightarrow> node_makes_seed c
      | SchedulerCommand c \<Rightarrow> scheduler_makes_seed c
      | SignerCommand _ \<Rightarrow> False)"

lemma say_files [simp]: "cw_files (say line w) = cw_files w"
  by (simp add: say_def)

lemma say_all_files [simp]: "cw_files (say_all ls w) = cw_files w"
  by (induction ls arbitrary: w) simp_all

lemma wbind_Ok: "fst (wbind r f) = Ok b \<longleftrightarrow> (\<exists>a. fst r = Ok a \<and> fst (f a (snd r)) = Ok b)"
  by (cases r; cases "fst r") (auto simp: wbind_def)

lemma wbind_snd_Ok: "fst r = Ok a \<Longrightarrow> wbind r f = f a (snd r)"
  by (cases r) (simp add: wbind_def)

text \<open>A step that leaves a file as it was.\<close>

definition keeps :: "string \<Rightarrow> cli_world \<Rightarrow> ('a, 'e) outcome \<times> cli_world \<Rightarrow> bool" where
  "keeps p w r \<longleftrightarrow> cw_files (snd r) p = cw_files w p"

lemma keeps_wbind:
  "keeps p w r \<Longrightarrow> (\<And>a w'. cw_files w' p = cw_files w p \<Longrightarrow> keeps p w' (f a w')) \<Longrightarrow> keeps p w (wbind r f)"
  by (cases r; cases "fst r") (auto simp: wbind_def keeps_def)

lemma keeps_pair [simp]: "keeps p w (r, w') \<longleftrightarrow> cw_files w' p = cw_files w p"
  by (simp add: keeps_def)

lemma keeps_apfst [simp]: "keeps p w (apfst f r) \<longleftrightarrow> keeps p w r"
  by (cases r) simp

lemma keeps_write:
  "p \<noteq> q \<Longrightarrow> keeps p w (write_credentials F q creds w)"
  "p \<noteq> q \<Longrightarrow> keeps p w (write_seed F q seed w)"
  by (auto simp: write_credentials_def write_seed_def Let_def split: prod.split intro!: keeps_wbind)

lemma keeps_say [simp]: "keeps p (say line w) r \<longleftrightarrow> keeps p w r"
  by (simp add: keeps_def)

lemma keeps_save: "p \<noteq> creds_path cfg \<Longrightarrow> keeps p w (save_credentials E cfg creds w)"
  by (auto simp: save_credentials_def keeps_write intro!: keeps_wbind)

lemma keeps_answer: "p \<noteq> creds_path cfg \<Longrightarrow> keeps p w (keep_answer E cfg res w)"
  by (auto simp: keep_answer_def Let_def keeps_save intro!: keeps_wbind)

lemma keeps_pairing_loop: "p \<noteq> creds_path cfg \<Longrightarrow> keeps p w (pairing_loop E cfg ms w)"
proof (induction ms arbitrary: w)
  case (Cons m ms)
  then have "keeps p w' (pairing_loop E cfg ms w')" for w' by blast
  from this [of "say _ (say _ w)"] show ?case using Cons.prems by (cases m) (simp_all add: keeps_save)
qed simp

lemma keeps_log_loop: "keeps p w (log_loop events w)"
proof (induction events w rule: log_loop.induct)
  case (3 line events w)
  then show ?case by simp
qed simp_all

lemma seed_is_not_creds: "seed_path cfg \<noteq> creds_path cfg"
  by (simp add: seed_path_def creds_path_def join_path_def SEED_FILE_NAME_def CREDENTIALS_FILE_NAME_def)

lemma keeps_creds_or_line: "keeps p w (credentials_or_line E cfg w)"
  by (simp add: credentials_or_line_def)

lemma keeps_cli_call: "keeps p w (cli_call E cfg call w)"
  by (auto simp: cli_call_def intro!: keeps_wbind)

lemma keeps_node_command:
  assumes "cw_files w (seed_path cfg) = Some seed" "fs_readable (ce_fs E) (seed_path cfg) \<or> \<not> node_makes_seed c"
  shows "keeps (seed_path cfg) w (node_command_handler E c cfg w)"
proof (cases c)
  case (NodeInit m)
  then show ?thesis using assms by (simp add: node_makes_seed_def node_init_handler_def read_seed_def fs_read_def Let_def)
next
  case NodeLog
  then show ?thesis by (auto simp: log_handler_def keeps_log_loop intro!: keeps_wbind)
qed (auto simp: getinfo_handler_def invoice_handler_def pay_handler_def connect_handler_def listpays_handler_def
    stop_handler_def keeps_cli_call Let_def split: option.split outcome.split)

lemma keeps_scheduler_command:
  assumes "cw_files w (seed_path cfg) = Some seed" "fs_readable (ce_fs E) (seed_path cfg) \<or> \<not> scheduler_makes_seed c"
  shows "keeps (seed_path cfg) w (scheduler_command_handler E c cfg w)"
proof (cases c)
  case (SchedRegister code)
  then show ?thesis using assms
    by (auto simp: scheduler_makes_seed_def register_handler_def register_seed_def read_seed_def fs_read_def keeps_answer seed_is_not_creds intro!: keeps_wbind)
next
  case (SchedPairDevice name description restrictions)
  then show ?thesis
    by (auto simp: pair_device_handler_def keeps_pairing_loop seed_is_not_creds intro!: keeps_wbind)
qed (use assms in \<open>auto simp: recover_handler_def schedule_handler_def upgrade_credentials_handler_def
    approve_pairing_handler_def export_handler_def read_seed_def seed_not_found_def Let_def keeps_save keeps_answer seed_is_not_creds keeps_creds_or_line
    intro!: keeps_wbind split: option.split\<close>)

lemma keeps_signer_command: "keeps p w (signer_command_handler E c cfg w)"
  by (cases c) (auto simp: run_handler_def version_handler_def seed_not_found_def Let_def intro!: keeps_wbind
      split: option.split prod.split outcome.split)

lemma keeps_run:
  assumes "cw_files w (join_path d SEED_FILE_NAME) = Some seed"
    and "fs_readable (ce_fs E) (join_path d SEED_FILE_NAME) \<or> \<not> makes_seed cmd"
  shows "keeps (join_path d SEED_FILE_NAME) w (run E (Some d) net cmd w)"
proof -
  let ?cfg = "\<lparr>cc_data_dir = d, cc_network = net\<rparr>"
  have p: "join_path d SEED_FILE_NAME = seed_path ?cfg" by (simp add: seed_path_def)
  show ?thesis
    using keeps_node_command [of w ?cfg seed E] keeps_scheduler_command [of w ?cfg seed E]
      keeps_signer_command [of "seed_path ?cfg" w E _ ?cfg] assms
    unfolding p by (cases cmd) (simp_all add: run_def wbind_def makes_seed_def)
qed

text \<open>A disk that writes what it is told to when it reports no error.\<close>

definition faithful_disk :: "file_system \<Rightarrow> bool" where
  "faithful_disk F \<longleftrightarrow> (\<forall>path content written. fs_write_all F path content = (written, Ok ()) \<longrightarrow> written = content)"

lemma write_seed_Ok:
  "fst (write_seed F path seed w) = Ok () \<Longrightarrow> faithful_disk F \<Longrightarrow>
   cw_files (snd (write_seed F path seed w)) = (cw_files w)(path \<mapsto> seed)"
  by (cases "fs_write_all F path seed") (auto simp: write_seed_def wbind_Ok wbind_snd_Ok faithful_disk_def Let_def)

lemma write_credentials_Ok:
  "fst (write_credentials F path creds w) = Ok () \<Longrightarrow> faithful_disk F \<Longrightarrow>
   cw_files (snd (write_credentials F path creds w)) = (cw_files w)(path \<mapsto> creds)"
  by (cases "fs_write_all F path creds") (auto simp: write_credentials_def wbind_Ok wbind_snd_Ok faithful_disk_def Let_def)

lemma save_credentials_Ok:
  assumes "fst (save_credentials E cfg creds w) = Ok ()" "faithful_disk (ce_fs E)"
  shows "cw_files (snd (save_credentials E cfg creds w)) = (cw_files w)(creds_path cfg \<mapsto> creds)"
proof -
  let ?r = "write_credentials (ce_fs E) (creds_path cfg) creds w"
  from assms(1) have ok: "fst ?r = Ok ()" by (auto simp: save_credentials_def wbind_Ok)
  then show ?thesis
    using write_credentials_Ok [OF ok assms(2)] by (simp add: save_credentials_def wbind_snd_Ok [where a = "()"])
qed

lemma register_seed_Ok:
  assumes "fst (register_seed E cfg w) = Ok seed" "faithful_disk (ce_fs E)"
  shows "cw_files (snd (register_seed E cfg w)) (seed_path cfg) = Some seed"
proof (cases "fs_read (ce_fs E) (seed_path cfg) w")
  case None
  with assms(1) obtain m where g: "generate_seed (ce_bip39 E) None = Ok (seed, m)"
    and wr: "fst (write_seed (ce_fs E) (seed_path cfg) seed
      (say (''New seed generated from mnemonic: '' @ bm_show (ce_bip39 E) m) w)) = Ok ()"
    by (auto simp: register_seed_def read_seed_def wbind_Ok wbind_snd_Ok Let_def)
  show ?thesis
    using None g wr write_seed_Ok [OF wr assms(2)]
    by (simp add: register_seed_def read_seed_def wbind_snd_Ok [where a = "()"] wbind_snd_Ok [where a = "(seed, m)"] Let_def)
qed (use assms in \<open>auto simp: register_seed_def read_seed_def fs_read_def split: if_splits\<close>)

lemma keep_answer_Ok:
  assumes "fst (keep_answer E cfg res w) = Ok ()" "faithful_disk (ce_fs E)"
  obtains d where "device_from_bytes (ce_creds E) (rr_creds res) = (Ok d :: (device, cli_error) outcome)"
    "cw_files (snd (keep_answer E cfg res w)) = (cw_files w)(creds_path cfg \<mapsto> device_to_bytes (ce_creds E) d)"
proof -
  define w' where "w' = (if rr_creds res = [] then say ''No credentials found. Please recover the node.'' w else w)"
  have f: "cw_files w' = cw_files w" by (simp add: w'_def)
  from assms(1) obtain d where d: "device_from_bytes (ce_creds E) (rr_creds res) = (Ok d :: (device, cli_error) outcome)"
    and s: "fst (save_credentials E cfg (device_to_bytes (ce_creds E) d) w') = Ok ()"
    by (auto simp: keep_answer_def wbind_Ok w'_def Let_def)
  have "snd (keep_answer E cfg res w) = snd (save_credentials E cfg (device_to_bytes (ce_creds E) d) w')"
    by (simp add: keep_answer_def w'_def [symmetric] wbind_snd_Ok d Let_def)
  with save_credentials_Ok [OF s assms(2)] show thesis by (intro that [OF d]) (simp add: f)
qed

lemma keep_answer_stored:
  assumes "fst (keep_answer E cfg res w) = Ok ()" "faithful_disk (ce_fs E)" "creds_codec (ce_creds E)"
    and "cl_ca (ce_creds E) = Ok ca" "cl_identity (ce_creds E) = Ok i"
    and "fs_readable (ce_fs E) (creds_path cfg)"
  shows "\<exists>d. device_from_bytes (ce_creds E) (rr_creds res) = (Ok d :: (device, cli_error) outcome) \<and>
    stored_credentials E cfg (snd (keep_answer E cfg res w)) = Ok (d\<lparr>dv_version := CRED_VERSION\<rparr>)"
proof -
  obtain d where d: "device_from_bytes (ce_creds E) (rr_creds res) = (Ok d :: (device, cli_error) outcome)"
    "cw_files (snd (keep_answer E cfg res w)) = (cw_files w)(creds_path cfg \<mapsto> device_to_bytes (ce_creds E) d)"
    by (rule keep_answer_Ok [OF assms(1,2)])
  then show ?thesis
    using device_bytes_roundtrip [OF assms(3-5), of d] assms(6)
    by (simp add: stored_credentials_def read_credentials_def fs_read_def)
qed

subsection \<open>An instance\<close>

definition demo_vls :: "(unit, unit, unit, unit, restriction list) vls_lib" where
  "demo_vls =
     \<lparr>vl_default_policy = (\<lambda>n. \<lparr>po_filter = (), po_max_feerate_per_kw = 0, po_max_invoices = 0, po_max_routing_fee_msat = 0\<rparr>),
      vl_filter_default = (), vl_filter_merge = (\<lambda>f rules. ()), vl_build = (\<lambda>n e s sec a. Ok ()),
      vl_handle = (\<lambda>h m. Ok (h, Some [])), vl_parse_init = (\<lambda>b. Ok \<lparr>ir_node_id = [2, 3], ir_vec = []\<rparr>),
      vl_hkdf_sha256 = (\<lambda>s i t. s), vl_new_master_rune = (\<lambda>s r i v. Ok [])\<rparr>"

definition demo_sz :: "restriction list sdk_scheduler_env" where
  "demo_sz =
     \<lparr>sz_creds = demo_creds_lib, sz_transport = demo_transport,
      sz_host = \<lparr>ho_env = (\<lambda>v. None), ho_read = (\<lambda>f. Err f)\<rparr>,
      sz_builtin = \<lparr>bc_ca = [], bc_nobody_crt = [], bc_nobody_key = []\<rparr>, sz_runes = demo_key_lib,
      sz_scheduler = (\<lambda>c. demo_scheduler), sz_show = (\<lambda>e. [])\<rparr>"

definition demo_disk :: file_system where
  "demo_disk =
     \<lparr>fs_parent = (\<lambda>p. None), fs_readable = (\<lambda>p. True), fs_read_error = (\<lambda>p. p), fs_create_dir_all = (\<lambda>p. Ok ()), fs_create = (\<lambda>p. Ok ()),
      fs_write_all = (\<lambda>p b. (b, Ok ())), fs_sync_all = (\<lambda>p. Ok ())\<rparr>"

definition demo_bip39 :: "string bip39" where
  "demo_bip39 =
     \<lparr>bm_parse = Ok, bm_from_str = Ok, bm_generate = (\<lambda>n. Ok ''m''), bm_word_count = (\<lambda>m. 12), bm_nfkd = (\<lambda>p. p),
      bm_to_seed = (\<lambda>m p. replicate 64 (if p = [] then 9 else 8)),
      bm_to_seed_normalized = (\<lambda>m p. replicate 64 (if p = [] then 9 else 8)),
      bm_show = (\<lambda>m. m)\<rparr>"

definition demo_cli :: "(unit, unit, unit, unit, restriction list, string) cli_env" where
  "demo_cli =
     \<lparr>ce_vls = demo_vls, ce_sched = demo_sz, ce_auth = demo_auth, ce_send = (\<lambda>ep c. Ok ''gl1''),
      ce_call = (\<lambda>c r. Ok ''ok''), ce_stream_log = (\<lambda>c. Ok []), ce_bip39 = demo_bip39, ce_fs = demo_disk,
      ce_data_dir = None, ce_key = demo_device_key, ce_input = ''Y'', ce_signer = (\<lambda>s. (Ok (), ShutdownSignal)),
      ce_ctrl_c = Ok (), ce_pair_device = (\<lambda>e r. Err ''closed''), ce_pairing_data = (\<lambda>e d t. (Err ''closed'', 0)),
      ce_wakes = (\<lambda>t. t), ce_clock = 0, ce_now = Ok 0, ce_csr_key = (\<lambda>b. Ok None), ce_approve = (\<lambda>e r. Ok ())\<rparr>"

definition demo_config :: cli_config where
  "demo_config = \<lparr>cc_data_dir = ''d'', cc_network = ''bitcoin''\<rparr>"

lemma demo_signer_new:
  "\<exists>s. signer_new demo_vls (replicate 32 9) net tls = Ok s \<and> signer.truncate s = demo_signer_id"
  by (simp add: signer_new_def demo_vls_def slice.simps initmsg_def or_else_def signer.truncate_def demo_signer_id_def Let_def)

lemma demo_session:
  "\<exists>s c. nobody_session demo_cli demo_config (replicate 32 9) = Ok (s, c) \<and> signer.truncate s = demo_signer_id"
proof -
  have "nobody_creds demo_cli = Ok \<lparr>nb_cert = [], nb_key = [], nb_ca = []\<rparr>"
    by (simp add: nobody_creds_def nobody_new_def nobody_default_def identity_default_def creds_load_file_or_default_def
        demo_cli_def demo_sz_def)
  moreover obtain s where "signer_new demo_vls (replicate 32 9) ''bitcoin''
      (nobody_tls_config demo_creds_lib \<lparr>nb_cert = [], nb_key = [], nb_ca = []\<rparr>) = Ok s" "signer.truncate s = demo_signer_id"
    using demo_signer_new by blast
  ultimately show ?thesis
    by (simp add: nobody_session_def cli_signer_def ce_creds_def demo_cli_def demo_sz_def demo_config_def scheduler_new_def
        scheduler_with_def endpoint_with_def demo_transport_def failed_to_def)
qed

section \<open>Properties\<close>

text \<open>
  C15: the command line keeps the seed of a node that it can read. Whatever commands are run on a
  directory, in whatever environment and with whatever network, a seed file that is there stays
  as it is, provided that it can be read whenever \<open>init\<close> or \<open>register\<close> runs: \<open>init\<close> refuses,
  \<open>register\<close> uses it, and nothing else writes to it. Without the proviso it does not hold: to
  \<open>read_seed\<close> an unreadable seed is no seed.
\<close>

theorem seed_never_overwritten:
  assumes "cw_files w (join_path d SEED_FILE_NAME) = Some seed"
    and "\<forall>(E, net, cmd) \<in> set steps. fs_readable (ce_fs E) (join_path d SEED_FILE_NAME) \<or> \<not> makes_seed cmd"
  shows "cw_files (foldl (\<lambda>w (E, net, cmd). snd (run E (Some d) net cmd w)) w steps) (join_path d SEED_FILE_NAME) =
    Some seed"
  using assms
proof (induction steps arbitrary: w)
  case (Cons step steps)
  obtain E net cmd where "step = (E, net, cmd)" by (cases step)
  then show ?case
    using Cons keeps_run [of w d seed E cmd net] by (simp add: keeps_def)
qed simp

theorem seed_never_overwritten_witness:
  "cw_files (foldl (\<lambda>w (E, net, cmd). snd (run E (Some ''d'') net cmd w))
        \<lparr>cw_files = [join_path ''d'' SEED_FILE_NAME \<mapsto> [7]], cw_out = []\<rparr>
        [(demo_cli, ''bitcoin'', NodeCommand (NodeInit None)), (demo_cli, ''bitcoin'', SchedulerCommand (SchedRegister None))])
     (join_path ''d'' SEED_FILE_NAME) = Some [7]"
  by (rule seed_never_overwritten) (simp_all add: demo_cli_def demo_disk_def)

text \<open>
  A seed that cannot be read is lost. \<open>init\<close> does not see it, succeeds, and writes the seed of a
  new mnemonic in its place, when the file may still be written.
\<close>

theorem unreadable_seed_is_overwritten:
  assumes "\<not> fs_readable (ce_fs E) (seed_path cfg)" "generate_seed (ce_bip39 E) mnemonic = Ok (new, m)"
    and "fst (write_seed (ce_fs E) (seed_path cfg) new (say (''Local greenlight directory created at '' @ cc_data_dir cfg) w)) = Ok ()"
    and "fs_create_dir_all (ce_fs E) (cc_data_dir cfg) = Ok ()" "faithful_disk (ce_fs E)"
  shows "fst (node_init_handler E cfg mnemonic w) = Ok () \<and>
    cw_files (snd (node_init_handler E cfg mnemonic w)) (seed_path cfg) = Some new"
  using assms(1,2,4) assms(3) write_seed_Ok [OF assms(3,5)]
  by (simp add: node_init_handler_def read_seed_def fs_read_def Let_def wbind_Ok wbind_snd_Ok [where a = "()"]
      wbind_snd_Ok [where a = "(new, m)"])

theorem unreadable_seed_is_overwritten_witness:
  "\<exists>E :: (unit, unit, unit, unit, restriction list, string) cli_env. fst (node_init_handler E demo_config None \<lparr>cw_files = [seed_path demo_config \<mapsto> [7]], cw_out = []\<rparr>) = Ok () \<and>
     cw_files (snd (node_init_handler E demo_config None \<lparr>cw_files = [seed_path demo_config \<mapsto> [7]], cw_out = []\<rparr>))
       (seed_path demo_config) = Some (replicate 32 (9 :: u8))"
proof -
  let ?E = "demo_cli\<lparr>ce_fs := demo_disk\<lparr>fs_readable := (\<lambda>p. False)\<rparr>\<rparr>"
  have "generate_seed (ce_bip39 ?E) None = Ok (replicate 32 9, ''m'')"
    by (simp add: generate_seed_def demo_cli_def demo_bip39_def slice.simps Let_def)
  then show ?thesis
    using unreadable_seed_is_overwritten [of ?E demo_config None "replicate 32 9" "''m''"
        "\<lparr>cw_files = [seed_path demo_config \<mapsto> [7]], cw_out = []\<rparr>"]
    by (intro exI [of _ ?E]) (simp add: write_seed_def demo_disk_def wbind_def faithful_disk_def Let_def)
qed

text \<open>
  C22: a registration is complete on the disk. When \<open>register\<close> succeeds, the seed file holds the
  seed whose signer registered the node, and the credentials that every later command reads are
  those the scheduler gave for it.
\<close>

theorem registration_is_on_disk:
  assumes "fst (register_handler E cfg code w) = Ok ()" "faithful_disk (ce_fs E)" "creds_codec (ce_creds E)"
    and "cl_ca (ce_creds E) = Ok ca" "cl_identity (ce_creds E) = Ok i"
    and "fs_readable (ce_fs E) (creds_path cfg)"
  shows "\<exists>seed signer scheduler res d.
    cw_files (snd (register_handler E cfg code w)) (seed_path cfg) = Some seed \<and>
    nobody_session E cfg seed = Ok (signer, scheduler) \<and>
    register (ce_creds E) (sz_runes (ce_sched E)) (signer.truncate signer) (sz_scheduler (ce_sched E) scheduler)
      (ce_key E) code = Ok res \<and>
    device_from_bytes (ce_creds E) (rr_creds res) = (Ok d :: (device, cli_error) outcome) \<and>
    stored_credentials E cfg (snd (register_handler E cfg code w)) = Ok (d\<lparr>dv_version := CRED_VERSION\<rparr>)"
proof -
  define w' where "w' = snd (register_seed E cfg w)"
  from assms(1) obtain seed signer scheduler res where seed: "fst (register_seed E cfg w) = Ok seed"
    and session: "nobody_session E cfg seed = Ok (signer, scheduler)"
    and res: "register (ce_creds E) (sz_runes (ce_sched E)) (signer.truncate signer)
      (sz_scheduler (ce_sched E) scheduler) (ce_key E) code = Ok res"
    and keep: "fst (keep_answer E cfg res w') = Ok ()"
    by (auto simp: register_handler_def wbind_Ok wbind_snd_Ok failed_to_def w'_def)
  have final: "snd (register_handler E cfg code w) = snd (keep_answer E cfg res w')"
    by (simp add: register_handler_def wbind_snd_Ok seed session res failed_to_def w'_def)
  have "cw_files (snd (keep_answer E cfg res w')) (seed_path cfg) = Some seed"
    using keeps_answer [OF seed_is_not_creds, of cfg w' E res] register_seed_Ok [OF seed assms(2)]
    by (simp add: keeps_def w'_def)
  with keep_answer_stored [OF keep assms(2-6)] session res show ?thesis
    unfolding final by blast
qed

theorem registration_is_on_disk_witness:
  "fst (register_handler demo_cli demo_config None \<lparr>cw_files = [seed_path demo_config \<mapsto> replicate 32 9], cw_out = []\<rparr>) = Ok () \<and>
   (\<exists>d. stored_credentials demo_cli demo_config (snd (register_handler demo_cli demo_config None
      \<lparr>cw_files = [seed_path demo_config \<mapsto> replicate 32 9], cw_out = []\<rparr>)) = Ok (d :: device))"
proof -
  let ?w = "\<lparr>cw_files = [seed_path demo_config \<mapsto> replicate 32 9], cw_out = []\<rparr>"
  have r: "\<exists>res. register demo_creds_lib demo_key_lib demo_signer_id demo_scheduler demo_device_key None = Ok res"
    using demo_pubkey_rune
    by (simp add: register_def inner_register_def issue_credentials_def demo_scheduler_def device_with_def
        demo_device_key_def Let_def) (simp add: demo_creds_lib_def)
  have e: "ce_creds demo_cli = demo_creds_lib" "ce_fs demo_cli = demo_disk" "ce_sched demo_cli = demo_sz"
    "ce_key demo_cli = demo_device_key" "sz_runes demo_sz = demo_key_lib" "sz_scheduler demo_sz c = demo_scheduler" for c
    by (simp_all add: demo_cli_def demo_sz_def ce_creds_def)
  obtain s c where sc: "nobody_session demo_cli demo_config (replicate 32 9) = Ok (s, c)" "signer.truncate s = demo_signer_id"
    using demo_session by blast
  obtain res where res: "register demo_creds_lib demo_key_lib demo_signer_id demo_scheduler demo_device_key None = Ok res"
    using r by blast
  have keep: "fst (keep_answer demo_cli demo_config res w) = Ok ()" for w
    by (simp add: keep_answer_def save_credentials_def write_credentials_def e demo_disk_def Let_def wbind_Ok
        device_from_bytes_def device_default_def)
      (simp add: demo_creds_lib_def split: option.split)
  have ok: "fst (register_handler demo_cli demo_config None ?w) = Ok ()"
    by (simp add: register_handler_def register_seed_def read_seed_def fs_read_def demo_disk_def wbind_Ok e sc res failed_to_def keep)
  moreover have "faithful_disk (ce_fs demo_cli)" by (simp add: e demo_disk_def faithful_disk_def)
  moreover have "cl_ca (ce_creds demo_cli) = Ok []" "cl_identity (ce_creds demo_cli) = Ok ([], [])"
    by (simp_all add: e demo_creds_lib_def)
  ultimately show ?thesis
    using registration_is_on_disk [of demo_cli demo_config None ?w] demo_creds_codec unfolding e by (fastforce simp: demo_disk_def)
qed

text \<open>
  C23: one mnemonic is one node. For a mnemonic of twelve words that the SDK accepts, \<open>init\<close> writes
  a seed of 32 bytes, and on the network \<open>bitcoin\<close> (the only one of the SDK's signer) this seed
  makes the same signer as the SDK makes of the mnemonic: secret, node id and master rune are
  the same, so a node that was registered by one can be used by the other. It depends on both
  sides' passphrases, which are empty.
\<close>

theorem mnemonic_is_one_node:
  assumes "bip39_documented M" "sdk_signer_new V Z M phrase = Ok s"
    and "\<forall>m. bm_from_str M phrase = Ok m \<longrightarrow> bm_word_count M m = 12"
  shows "\<exists>seed m i. generate_seed M (Some phrase) = Ok (seed, m) \<and> length seed = 32 \<and>
    signer_new V seed ''bitcoin'' tls = Ok i \<and> si_secret i = seed \<and> si_secret (ss_inner s) = seed \<and>
    signer_node_id i = sdk_signer_node_id s \<and> master_rune i = master_rune (ss_inner s)"
proof -
  from assms(2) obtain m tls' where m: "bm_from_str M phrase = Ok m"
    and s: "signer_new V (bm_to_seed_normalized M m []) ''bitcoin'' tls' = Ok (ss_inner s)"
    by (auto simp: sdk_signer_new_def obind_eq_Ok omap_eq_Ok Let_def)
  let ?full = "bm_to_seed_normalized M m []"
  have p: "bm_parse M phrase = Ok m" "bm_to_seed M m [] = ?full"
    using assms(1) m by (simp_all add: bip39_documented_def)
  have len: "32 \<le> length ?full"
    using s signer_new_short [of ?full V] by (cases "length ?full < 32") simp_all
  then have g: "generate_seed M (Some phrase) = Ok (take 32 ?full, m)"
    using assms(3) m p by (simp add: generate_seed_def slice.simps Let_def)
  from s have i: "signer_new V (take 32 ?full) ''bitcoin'' tls = Ok ((ss_inner s)\<lparr>si_tls := tls\<rparr>)"
    using signer_new_first_32 [OF len, of V] signer_new_tls [of V "take 32 ?full" "''bitcoin''" tls tls'] by simp
  have "si_secret (ss_inner s) = take 32 ?full"
    using signer_new_secret [OF s] len by simp
  with g i len show ?thesis by (simp add: sdk_signer_node_id_def)
qed

theorem mnemonic_is_one_node_witness:
  "\<exists>seed m i. generate_seed demo_bip39 (Some ''m'') = Ok (seed, m) \<and>
     signer_new demo_vls seed ''bitcoin'' (tls_with demo_creds_lib [] [] []) = Ok i \<and> signer_node_id i = [2, 3]"
proof -
  obtain s where s: "sdk_signer_new demo_vls demo_sz demo_bip39 ''m'' = Ok s" "sdk_signer_node_id s = [2, 3]"
    by (simp add: sdk_signer_new_def demo_bip39_def demo_sz_def nobody_new_def nobody_default_def identity_default_def
        creds_load_file_or_default_def signer_new_def demo_vls_def slice.simps initmsg_def or_else_def Let_def
        sdk_signer_node_id_def)
  have b: "bip39_documented demo_bip39" "\<forall>m. bm_from_str demo_bip39 ''m'' = Ok m \<longrightarrow> bm_word_count demo_bip39 m = 12"
    by (simp_all add: bip39_documented_def demo_bip39_def)
  from mnemonic_is_one_node [OF b(1) s(1) b(2), of "tls_with demo_creds_lib [] [] []"] s(2) show ?thesis by auto
qed

text \<open>
  A device is attested only by consent. The approval of a pairing is sent only after the
  data that was fetched for the device has been verified and the user has said yes: without
  either, the command does the same whatever an approval would do.
\<close>

theorem approval_needs_consent:
  assumes "\<not> confirmed (ce_input E) \<or>
      (\<forall>data. verify_pairing_data (ce_csr_key E) (cl_hex (ce_creds E)) data \<noteq> Ok ())"
  shows "approve_pairing_handler (E\<lparr>ce_approve := approve\<rparr>) cfg pairing_data w = approve_pairing_handler E cfg pairing_data w"
proof -
  have v: "wbind (omap_err f (verify_pairing_data csr hx data), w) k =
      (case verify_pairing_data csr hx data of Err e \<Rightarrow> (Err (f e), w) | _ \<Rightarrow> (Panic, w))"
    if "verify_pairing_data csr hx data \<noteq> Ok ()" for csr hx data f w and k :: "unit \<Rightarrow> cli_world \<Rightarrow> (unit, cli_error) outcome \<times> cli_world"
    using that by (cases "verify_pairing_data csr hx data") (simp_all add: wbind_def)
  have e: "ce_creds (E\<lparr>ce_approve := approve\<rparr>) = ce_creds E"
    "stored_credentials (E\<lparr>ce_approve := approve\<rparr>) = stored_credentials E"
    "pairing_connect (E\<lparr>ce_approve := approve\<rparr>) = pairing_connect E"
    "attestation_of (E\<lparr>ce_approve := approve\<rparr>) = attestation_of E"
    "credentials_or_line (E\<lparr>ce_approve := approve\<rparr>) = credentials_or_line E"
    by (auto simp: ce_creds_def stored_credentials_def pairing_connect_def attestation_of_def credentials_or_line_def
        fun_eq_iff)
  from assms show ?thesis
    by (elim disjE) (simp_all add: approve_pairing_handler_def e v Let_def)
qed

theorem approval_needs_consent_witness:
  "\<forall>approve w. approve_pairing_handler (demo_cli\<lparr>ce_input := ''no'', ce_approve := approve\<rparr>) demo_config ''gl-pairing:00'' w =
     approve_pairing_handler (demo_cli\<lparr>ce_input := ''no''\<rparr>) demo_config ''gl-pairing:00'' w"
proof -
  have n: "\<not> confirmed ''no''" by code_simp
  then show ?thesis using approval_needs_consent [of "demo_cli\<lparr>ce_input := ''no''\<rparr>"] by simp
qed

end
