(* ===== verification/Export.thy ===== *)
theory Export
  imports TrampPay Amounts
begin

text \<open>
  Two helpers of clients: reading the backup of an exported node
  (\<open>libs/gl-client/src/export.rs\<close>), and the test for a feature bit (\<open>libs/gl-client/src/util.rs\<close>),
  which the plugin makes in its own way before a trampoline payment. Keys of secp256k1 and the
  cipher are functions on values of any types \<open>'k\<close> and \<open>'p\<close>.
\<close>

subsection \<open>Backups\<close>

record ('k, 'p) backup_lib =
  bk_secret_key :: "bytes \<Rightarrow> ('k, string) outcome"
  bk_node_secret :: "'k \<Rightarrow> 'k"
  bk_public_key :: "'k \<Rightarrow> bytes"
  bk_parse_public_key :: "bytes \<Rightarrow> ('p, string) outcome"
  bk_shared_secret :: "'p \<Rightarrow> 'k \<Rightarrow> bytes"
  bk_open :: "bytes \<Rightarrow> bytes \<Rightarrow> bytes \<Rightarrow> bytes \<Rightarrow> bytes \<Rightarrow> (bytes, string) outcome"

definition BACKUP_VERSION :: u8 where "BACKUP_VERSION = 1"

text \<open>Version byte, public key, nonce and tag.\<close>

definition HEADER_LEN :: nat where "HEADER_LEN = 1 + 33 + 12 + 16"

definition read_exact :: "nat \<Rightarrow> bytes \<Rightarrow> (bytes \<times> bytes, string) outcome" where
  "read_exact n r = (if length r < n then Err ''failed to fill whole buffer'' else Ok (take n r, drop n r))"

text \<open>\<open>bk_open\<close> takes key, nonce, associated data and tag before the text.\<close>

definition decrypt :: "('k, 'p) backup_lib \<Rightarrow> bytes \<Rightarrow> 'k \<Rightarrow> (bytes, string) outcome" where
  "decrypt B enc privkey =
     obind (read_exact 1 enc) (\<lambda>(version, r).
     if BACKUP_VERSION \<noteq> version ! 0 then
       Err (''Backup version '' @ decimal (unat (version ! 0)) @ '' is not supported by this client version '' @
            decimal (unat BACKUP_VERSION))
     else
       obind (read_exact 33 r) (\<lambda>(ephkey, r).
       obind (read_exact 12 r) (\<lambda>(nonce, r).
       obind (read_exact 16 r) (\<lambda>(tag, r).
       obind (omap_err (\<lambda>_. ''loading ephemeral key'') (bk_parse_public_key B ephkey)) (\<lambda>ephkey.
       let node_id = bk_public_key B privkey;
           shared_secret = bk_shared_secret B ephkey privkey;
           enc = drop HEADER_LEN enc in
       omap_err (\<lambda>e. ''Error decrypting: '' @ e) (bk_open B shared_secret nonce node_id tag enc))))))"

definition decrypt_with_seed :: "('k, 'p) backup_lib \<Rightarrow> bytes \<Rightarrow> 'k \<Rightarrow> (bytes, string) outcome" where
  "decrypt_with_seed B enc seed = decrypt B enc (bk_node_secret B seed)"

subsection \<open>Feature bits\<close>

definition is_feature_bit_enabled :: "bytes \<Rightarrow> nat \<Rightarrow> bool" where
  "is_feature_bit_enabled bitmap index =
     (let n_bytes = length bitmap; byte_index = index div 8; bit_index = index mod 8 in
      if n_bytes \<le> byte_index then False
      else and (bitmap ! (n_bytes - 1 - byte_index)) (push_bit bit_index 1) \<noteq> 0)"

text \<open>The number whose big endian bytes a bitmap is.\<close>

definition bitmap_number :: "bytes \<Rightarrow> nat" where
  "bitmap_number bitmap = foldl (\<lambda>n b. push_bit 8 n + unat b) 0 bitmap"

subsection \<open>Lemmas\<close>

lemma read_exact_append: "length a = n \<Longrightarrow> read_exact n (a @ r) = Ok (a, r)"
  by (auto simp: read_exact_def)

text \<open>A client of this version reads exactly the backups with its own header.\<close>

lemma decrypt_short: "length enc < HEADER_LEN \<Longrightarrow> \<exists>e. decrypt B enc k = Err e"
  by (auto simp: decrypt_def read_exact_def HEADER_LEN_def)

lemma decrypt_reads:
  assumes "length ephkey = 33" "length nonce = 12" "length tag = 16" "bk_parse_public_key B ephkey = Ok p"
  shows "decrypt B ([BACKUP_VERSION] @ ephkey @ nonce @ tag @ enc) k =
    omap_err (\<lambda>e. ''Error decrypting: '' @ e)
      (bk_open B (bk_shared_secret B p k) nonce (bk_public_key B k) tag enc)"
  using assms
  by (cases "bk_open B (bk_shared_secret B p k) nonce (bk_public_key B k) tag enc")
    (simp_all add: decrypt_def read_exact_def HEADER_LEN_def Let_def)

lemma bit_of_byte: "and b (push_bit i 1) \<noteq> 0 \<longleftrightarrow> bit (b :: u8) i" if "i < 8"
proof -
  have "bit (and b (push_bit i 1)) j \<longleftrightarrow> j = i \<and> bit b i" for j
    using that by (auto simp: bit_and_iff bit_push_bit_iff bit_1_iff simp del: push_bit_of_1)
  then show ?thesis by (metis bit_0_eq bit_eqI bot_apply bot_bool_def)
qed

lemma bit_push_plus:
  assumes "b < 256"
  shows "bit (push_bit 8 n + b :: nat) i \<longleftrightarrow> (if i < 8 then bit b i else bit n (i - 8))"
proof -
  have b: "take_bit 8 b = b" using assms by (simp add: take_bit_nat_eq_self)
  have "\<not> bit b j" if "8 \<le> j" for j
    using that b by (metis bit_take_bit_iff not_less)
  moreover have "push_bit 8 n + b = or (push_bit 8 n) b"
    by (rule disjunctive_add) (use calculation in \<open>auto simp: bit_push_bit_iff\<close>)
  ultimately show ?thesis by (auto simp: bit_or_iff bit_push_bit_iff)
qed

lemma bitmap_bit: "bit (bitmap_number bitmap) i \<longleftrightarrow> i div 8 < length bitmap \<and> bit (rev bitmap ! (i div 8)) (i mod 8)"
proof (induction bitmap arbitrary: i rule: rev_induct)
  case Nil
  then show ?case by (simp add: bitmap_number_def)
next
  case (snoc b bs)
  have "bitmap_number (bs @ [b]) = push_bit 8 (bitmap_number bs) + unat b" by (simp add: bitmap_number_def)
  moreover have "unat b < 256" using unsigned_less [of b] by simp
  moreover have "bit (bitmap_number bs) (i - 8) \<longleftrightarrow> i div 8 < length (bs @ [b]) \<and> bit (rev (bs @ [b]) ! (i div 8)) (i mod 8)"
    if "8 \<le> i"
  proof -
    obtain k where k: "i = 8 + k" using \<open>8 \<le> i\<close> le_Suc_ex by blast
    then have "i div 8 = Suc (k div 8)" "i mod 8 = k mod 8" by simp_all
    with snoc.IH [of k] show ?thesis unfolding k by simp
  qed
  ultimately show ?case by (simp add: bit_push_plus bit_unsigned_iff)
qed

section \<open>Properties\<close>

text \<open>
  Both tests for a feature bit read the feature vector as a number. Client and plugin index
  the bytes in their own ways, and both find bit \<open>i\<close> of the big endian number, bits beyond the
  vector being unset.
\<close>

theorem feature_tests_agree:
  "(is_feature_bit_enabled bitmap i \<longleftrightarrow> bit (bitmap_number bitmap) i) \<and>
   (feature_guard bitmap i = Ok () \<longleftrightarrow> bit (bitmap_number bitmap) i)"
proof (cases "i div 8 < length bitmap")
  case True
  then have "bitmap ! (length bitmap - 1 - i div 8) = rev bitmap ! (i div 8)" by (simp add: rev_nth)
  then show ?thesis
    using True bit_of_byte [of "i mod 8" "rev bitmap ! (i div 8)"] bitmap_bit [of bitmap i]
    by (auto simp: is_feature_bit_enabled_def feature_guard_def Let_def)
qed (simp add: is_feature_bit_enabled_def feature_guard_def bitmap_bit Let_def)

text \<open>
  A backup is opened with the key of the node only. A client decrypts what was sealed for
  the node with the shared secret of its key and the ephemeral one, and every byte of the
  header enters the decryption.
\<close>

theorem backup_roundtrip:
  assumes "length ephkey = 33" "length nonce = 12" "length tag = 16" "bk_parse_public_key B ephkey = Ok p"
    and "bk_open B (bk_shared_secret B p (bk_node_secret B seed)) nonce (bk_public_key B (bk_node_secret B seed)) tag enc = Ok backup"
  shows "decrypt_with_seed B ([BACKUP_VERSION] @ ephkey @ nonce @ tag @ enc) seed = Ok backup \<and>
    (\<forall>v. v \<noteq> BACKUP_VERSION \<longrightarrow> (\<exists>e. decrypt_with_seed B ([v] @ ephkey @ nonce @ tag @ enc) seed = Err e))"
  using assms decrypt_reads [OF assms(1-4), of enc "bk_node_secret B seed"]
  by (simp add: decrypt_with_seed_def) (simp add: decrypt_def read_exact_def)

theorem backup_roundtrip_witness:
  "decrypt_with_seed
     \<lparr>bk_secret_key = (\<lambda>b. Ok ()), bk_node_secret = (\<lambda>k. ()), bk_public_key = (\<lambda>k. [2]), bk_parse_public_key = (\<lambda>b. Ok ()),
      bk_shared_secret = (\<lambda>p k. [7]), bk_open = (\<lambda>k n a t c. if t = replicate 16 9 then Ok c else Err ''tag'')\<rparr>
     ([BACKUP_VERSION] @ replicate 33 1 @ replicate 12 0 @ replicate 16 9 @ [4, 5]) () = Ok [4, 5]"
  by (rule backup_roundtrip [THEN conjunct1]) simp_all

end
