(* ===== verification/PyClient.thy ===== *)
theory PyClient
  imports Sdk Export
begin

text \<open>
  The Python interface of the client (\<open>libs/gl-client-py/src\<close>): credentials of both kinds in one
  type, a scheduler that knows whether it is authenticated, the signer and its handle, the node
  and its streams, and pairing. Protobuf encoding and the services are functions. A Python
  exception is an \<open>Err\<close> with its text; a Rust panic is a \<open>Panic\<close>.
\<close>

subsection \<open>Credentials\<close>

datatype unified_credentials = NobodyCreds nobody | DeviceCreds device

fun ensure_nobody :: "unified_credentials \<Rightarrow> (unit, string) outcome" where
  "ensure_nobody (NobodyCreds _) = Ok ()"
| "ensure_nobody (DeviceCreds _) = Err ''identity mismatch: credentials are not of type nobody''"

fun ensure_device :: "unified_credentials \<Rightarrow> (unit, string) outcome" where
  "ensure_device (DeviceCreds _) = Ok ()"
| "ensure_device (NobodyCreds _) = Err ''identity mismatch: credentials are not of type device''"

fun unified_tls_config :: "creds_lib \<Rightarrow> unified_credentials \<Rightarrow> tls_config" where
  "unified_tls_config C (NobodyCreds n) = nobody_tls_config C n"
| "unified_tls_config C (DeviceCreds d) = device_tls_config C d"

fun unified_rune :: "unified_credentials \<Rightarrow> (string, string) outcome" where
  "unified_rune (NobodyCreds _) = Panic"
| "unified_rune (DeviceCreds d) = Ok (dv_rune d)"

fun unified_node_id :: "creds_lib \<Rightarrow> unified_credentials \<Rightarrow> (bytes, string) outcome" where
  "unified_node_id C (NobodyCreds _) = Panic"
| "unified_node_id C (DeviceCreds d) = device_node_id C d"

definition py_credentials_new :: "host \<Rightarrow> builtin_certs \<Rightarrow> (unified_credentials, string) outcome" where
  "py_credentials_new H B = omap NobodyCreds (nobody_default H B)"

definition py_nobody_with :: "host \<Rightarrow> builtin_certs \<Rightarrow> bytes \<Rightarrow> bytes \<Rightarrow> (unified_credentials, string) outcome" where
  "py_nobody_with H B cert key = omap NobodyCreds (nobody_with H B cert key)"

definition py_from_path :: "creds_lib \<Rightarrow> host \<Rightarrow> string \<Rightarrow> (unified_credentials, string) outcome" where
  "py_from_path C H path = omap DeviceCreds (device_from_path C H path)"

definition py_from_bytes :: "creds_lib \<Rightarrow> bytes \<Rightarrow> (unified_credentials, string) outcome" where
  "py_from_bytes C data = omap DeviceCreds (device_from_bytes C data)"

definition py_from_parts :: "creds_lib \<Rightarrow> bytes \<Rightarrow> bytes \<Rightarrow> string \<Rightarrow> (unified_credentials, string) outcome" where
  "py_from_parts C cert key rune = omap DeviceCreds (device_with C cert key rune)"

text \<open>The scheduler is not asked: both of its kinds lead to the same upgrade.\<close>

fun py_upgrade ::
  "creds_lib \<Rightarrow> 'r rune_lib \<Rightarrow> (anyhow_error \<Rightarrow> string) \<Rightarrow> 'r signer \<Rightarrow> unified_credentials
     \<Rightarrow> (unified_credentials, string) outcome" where
  "py_upgrade C lib show_error signer (NobodyCreds _) = Err ''identity mismatch: can not upgrade nobody credentials''"
| "py_upgrade C lib show_error signer (DeviceCreds creds) =
     omap DeviceCreds (omap_err show_error (device_upgrade C lib signer creds))"

fun py_to_bytes :: "creds_lib \<Rightarrow> unified_credentials \<Rightarrow> (bytes, string) outcome" where
  "py_to_bytes C (NobodyCreds _) = Err ''identity mismatch: can not convert nobody into bytes''"
| "py_to_bytes C (DeviceCreds d) = Ok (device_to_bytes C d)"

fun py_with_ca :: "bytes \<Rightarrow> unified_credentials \<Rightarrow> unified_credentials" where
  "py_with_ca ca (NobodyCreds n) = NobodyCreds (nobody_with_ca ca n)"
| "py_with_ca ca (DeviceCreds d) = DeviceCreds (device_with_ca ca d)"

subsection \<open>The scheduler\<close>

datatype unified_scheduler =
    Unauthenticated "unified_credentials sched_client" | Authenticated "unified_credentials sched_client"

fun scheduler_inner :: "unified_scheduler \<Rightarrow> unified_credentials sched_client" where
  "scheduler_inner (Unauthenticated s) = s"
| "scheduler_inner (Authenticated s) = s"

fun authenticated_scheduler :: "unified_scheduler \<Rightarrow> (unified_credentials sched_client, string) outcome" where
  "authenticated_scheduler (Unauthenticated _) = Err ''scheduler needs to be authenticated''"
| "authenticated_scheduler (Authenticated a) = Ok a"

definition py_scheduler_new ::
  "creds_lib \<Rightarrow> transport \<Rightarrow> host \<Rightarrow> (string \<Rightarrow> string option) \<Rightarrow> string \<Rightarrow> unified_credentials
     \<Rightarrow> (unified_scheduler, string) outcome" where
  "py_scheduler_new C T H parse_net net creds =
     obind (ok_or ''Error parsing the network'' (parse_net net)) (\<lambda>net.
     let uri = scheduler_uri H in
     case creds of
       NobodyCreds _ \<Rightarrow> omap Unauthenticated (scheduler_with T (unified_tls_config C) net creds uri)
     | DeviceCreds _ \<Rightarrow> omap Authenticated (scheduler_with T (unified_tls_config C) net creds uri))"

fun unified_authenticate ::
  "creds_lib \<Rightarrow> transport \<Rightarrow> unified_credentials \<Rightarrow> unified_scheduler \<Rightarrow> (unified_scheduler, string) outcome" where
  "unified_authenticate C T creds (Unauthenticated u) =
     omap Authenticated (scheduler_authenticate T (unified_tls_config C) creds u)"
| "unified_authenticate C T creds (Authenticated _) = Err ''scheduler is already authenticated''"

definition py_authenticate ::
  "creds_lib \<Rightarrow> transport \<Rightarrow> unified_credentials \<Rightarrow> unified_scheduler \<Rightarrow> (unified_scheduler, string) outcome" where
  "py_authenticate C T creds s =
     obind (omap_err (\<lambda>_. ''can not authenticate scheduler, need device credentials'') (ensure_device creds)) (\<lambda>_.
     omap_err (\<lambda>e. ''could not authenticate scheduler '' @ e) (unified_authenticate C T creds s))"

definition error_calling_remote_method :: "string \<Rightarrow> string" where
  "error_calling_remote_method e = ''error calling remote method: '' @ e"

definition convert :: "('a \<Rightarrow> bytes) \<Rightarrow> ('a, string) outcome \<Rightarrow> (bytes, string) outcome" where
  "convert encode r = omap encode (omap_err error_calling_remote_method r)"

text \<open>\<open>server\<close> is what the scheduler behind a client answers.\<close>

definition py_register ::
  "creds_lib \<Rightarrow> 'r rune_lib \<Rightarrow> (anyhow_error \<Rightarrow> string) \<Rightarrow> (unified_credentials sched_client \<Rightarrow> scheduler)
     \<Rightarrow> (registration_response \<Rightarrow> bytes) \<Rightarrow> 'r signer \<Rightarrow> device_key \<Rightarrow> string option \<Rightarrow> unified_scheduler
     \<Rightarrow> (bytes, string) outcome" where
  "py_register C lib show_error server encode signer K invite_code s =
     convert encode (omap_err show_error (register C lib signer (server (scheduler_inner s)) K invite_code))"

definition py_recover ::
  "creds_lib \<Rightarrow> 'r rune_lib \<Rightarrow> (anyhow_error \<Rightarrow> string) \<Rightarrow> (unified_credentials sched_client \<Rightarrow> scheduler)
     \<Rightarrow> (registration_response \<Rightarrow> bytes) \<Rightarrow> 'r signer \<Rightarrow> device_key \<Rightarrow> unified_scheduler \<Rightarrow> (bytes, string) outcome" where
  "py_recover C lib show_error server encode signer K s =
     convert encode (omap_err show_error (recover C lib signer (server (scheduler_inner s)) K))"

text \<open>A call for the node of the credentials, and one that names no node.\<close>

definition call_for_node ::
  "creds_lib \<Rightarrow> 'a scheduler_send \<Rightarrow> (bytes \<Rightarrow> scheduler_call) \<Rightarrow> unified_scheduler \<Rightarrow> ('a, string) outcome" where
  "call_for_node C send call s =
     obind (authenticated_scheduler s) (\<lambda>a.
     obind (unified_node_id C (sk_creds a)) (\<lambda>node_id. send (sk_endpoint a) (call node_id)))"

definition call_plain :: "'a scheduler_send \<Rightarrow> scheduler_call \<Rightarrow> unified_scheduler \<Rightarrow> ('a, string) outcome" where
  "call_plain send call s = obind (authenticated_scheduler s) (\<lambda>a. send (sk_endpoint a) call)"

definition py_export_node :: "'a scheduler_send \<Rightarrow> ('a \<Rightarrow> bytes) \<Rightarrow> unified_scheduler \<Rightarrow> (bytes, string) outcome" where
  "py_export_node send encode s = convert encode (call_plain send ExportNodeCall s)"

definition py_schedule ::
  "creds_lib \<Rightarrow> 'a scheduler_send \<Rightarrow> ('a \<Rightarrow> bytes) \<Rightarrow> unified_scheduler \<Rightarrow> (bytes, string) outcome" where
  "py_schedule C send encode s = convert encode (call_for_node C send ScheduleCall s)"

definition py_node ::
  "creds_lib \<Rightarrow> 'a scheduler_send \<Rightarrow> ('a \<Rightarrow> bytes) \<Rightarrow> unified_scheduler \<Rightarrow> (bytes, string) outcome" where
  "py_node C send encode s = convert encode (call_for_node C send ScheduleCall s)"

definition py_get_node_info ::
  "creds_lib \<Rightarrow> 'a scheduler_send \<Rightarrow> ('a \<Rightarrow> bytes) \<Rightarrow> bool \<Rightarrow> unified_scheduler \<Rightarrow> (bytes, string) outcome" where
  "py_get_node_info C send encode wait s = convert encode (call_for_node C send (\<lambda>n. GetNodeInfoCall n wait) s)"

definition py_get_invite_codes :: "'a scheduler_send \<Rightarrow> ('a \<Rightarrow> bytes) \<Rightarrow> unified_scheduler \<Rightarrow> (bytes, string) outcome" where
  "py_get_invite_codes send encode s = convert encode (call_plain send ListInviteCodesCall s)"

definition py_add_outgoing_webhook ::
  "creds_lib \<Rightarrow> 'a scheduler_send \<Rightarrow> ('a \<Rightarrow> bytes) \<Rightarrow> string \<Rightarrow> unified_scheduler \<Rightarrow> (bytes, string) outcome" where
  "py_add_outgoing_webhook C send encode uri s =
     convert encode (call_for_node C send (\<lambda>n. AddOutgoingWebhookCall n uri) s)"

definition py_list_outgoing_webhooks ::
  "creds_lib \<Rightarrow> 'a scheduler_send \<Rightarrow> ('a \<Rightarrow> bytes) \<Rightarrow> unified_scheduler \<Rightarrow> (bytes, string) outcome" where
  "py_list_outgoing_webhooks C send encode s = convert encode (call_for_node C send ListOutgoingWebhooksCall s)"

definition py_delete_outgoing_webhooks ::
  "creds_lib \<Rightarrow> 'a scheduler_send \<Rightarrow> ('a \<Rightarrow> bytes) \<Rightarrow> int list \<Rightarrow> unified_scheduler \<Rightarrow> (bytes, string) outcome" where
  "py_delete_outgoing_webhooks C send encode ids s =
     convert encode (call_for_node C send (\<lambda>n. DeleteOutgoingWebhooksCall n ids) s)"

definition py_rotate_outgoing_webhook_secret ::
  "creds_lib \<Rightarrow> 'a scheduler_send \<Rightarrow> ('a \<Rightarrow> bytes) \<Rightarrow> int \<Rightarrow> unified_scheduler \<Rightarrow> (bytes, string) outcome" where
  "py_rotate_outgoing_webhook_secret C send encode webhook_id s =
     convert encode (call_for_node C send (\<lambda>n. RotateOutgoingWebhookSecretCall n webhook_id) s)"

subsection \<open>The signer\<close>

definition py_signer_new ::
  "('f, 'j, 'a, 'h, 'r) vls_lib \<Rightarrow> creds_lib \<Rightarrow> (anyhow_error \<Rightarrow> string) \<Rightarrow> (string \<Rightarrow> string option)
     \<Rightarrow> bytes \<Rightarrow> string \<Rightarrow> unified_credentials \<Rightarrow> (('f, 'j, 'r) signer_instance, string) outcome" where
  "py_signer_new V C show_error parse_net secret net creds =
     obind (ok_or (''Unknown / unsupported network '' @ net) (parse_net net)) (\<lambda>net.
     omap_err (\<lambda>e. ''Error initializing Signer: '' @ show_error e)
       (signer_new V secret net (unified_tls_config C creds)))"

text \<open>The channel is kept until the end, so only the loops end the run.\<close>

definition run_in_foreground ::
  "host \<Rightarrow> (string \<Rightarrow> (unit, string) outcome) \<Rightarrow> signer_event \<Rightarrow> (unit, string) outcome" where
  "run_in_foreground H connect event = omap_err (\<lambda>e. ''Error running Signer: '' @ e) (run_forever H connect event)"

definition py_bip32_key :: "'r signer \<Rightarrow> (bytes, string) outcome" where
  "py_bip32_key s = (if length (signer_init s) < 35 then Panic else Ok (drop 35 (signer_init s)))"

definition py_create_rune ::
  "'r rune_lib \<Rightarrow> (anyhow_error \<Rightarrow> string) \<Rightarrow> 'r signer \<Rightarrow> string list list \<Rightarrow> string option \<Rightarrow> (string, string) outcome" where
  "py_create_rune lib show_error signer restrictions rune = omap_err show_error (create_rune lib signer rune restrictions)"

definition handle_shutdown :: "shutdown_channel \<Rightarrow> (unit, string) outcome \<times> shutdown_channel" where
  "handle_shutdown ch = (case try_send ch of Ok ch' \<Rightarrow> (Ok (), ch') | _ \<Rightarrow> (Ok (), ch))"

subsection \<open>The node\<close>

record py_node_clients =
  pn_client :: node_client
  pn_gclient :: node_client
  pn_cln_client :: node_client

text \<open>Three connections are made at once; their errors are looked at in order.\<close>

definition node_from_inner ::
  "auth_lib \<Rightarrow> transport \<Rightarrow> node_builder \<Rightarrow> string \<Rightarrow> (py_node_clients, string) outcome" where
  "node_from_inner A T inner grpc_uri =
     omap_err (\<lambda>e. ''could not connect to node: '' @ e)
       (obind (node_connect A T grpc_uri inner) (\<lambda>client.
        obind (node_connect A T grpc_uri inner) (\<lambda>gclient.
        obind (node_connect A T grpc_uri inner) (\<lambda>cln_client.
        Ok \<lparr>pn_client = client, pn_gclient = gclient, pn_cln_client = cln_client\<rparr>))))"

definition unified_node_builder :: "creds_lib \<Rightarrow> bytes \<Rightarrow> unified_credentials \<Rightarrow> (node_builder, string) outcome" where
  "unified_node_builder C node_id creds =
     omap (\<lambda>rune. \<lparr>nb_node_id = node_id, nb_tls = unified_tls_config C creds, nb_rune = rune, nb_max_size = None\<rparr>)
       (unified_rune creds)"

definition py_node_new ::
  "creds_lib \<Rightarrow> auth_lib \<Rightarrow> transport \<Rightarrow> bytes \<Rightarrow> string \<Rightarrow> unified_credentials \<Rightarrow> (py_node_clients, string) outcome" where
  "py_node_new C A T node_id grpc_uri creds =
     obind (ensure_device creds) (\<lambda>_.
     obind (unified_node_builder C node_id creds) (\<lambda>inner.
     node_from_inner A T inner grpc_uri))"

definition py_call ::
  "(node_client \<Rightarrow> grpc_inner) \<Rightarrow> (generic_error \<Rightarrow> string) \<Rightarrow> string \<Rightarrow> bytes \<Rightarrow> py_node_clients \<Rightarrow> (bytes, string) outcome" where
  "py_call grpc show_status method payload n =
     omap_err (\<lambda>s. ''Error calling '' @ method @ '': '' @ show_status s) (generic_call (grpc (pn_gclient n)) method payload)"

definition error_decoding_request :: "string \<Rightarrow> string" where
  "error_decoding_request e = ''error decoding request: '' @ e"

definition error_starting_stream :: "string \<Rightarrow> string" where
  "error_starting_stream e = ''Error starting stream: '' @ e"

text \<open>The three streams: the request is decoded, and the call gives the stream.\<close>

definition py_stream ::
  "(bytes \<Rightarrow> ('q, string) outcome) \<Rightarrow> (node_client \<Rightarrow> 'q \<Rightarrow> ('s, string) outcome) \<Rightarrow> bytes \<Rightarrow> py_node_clients
     \<Rightarrow> ('s, string) outcome" where
  "py_stream decode call args n =
     obind (omap_err error_decoding_request (decode args)) (\<lambda>req.
     omap_err error_starting_stream (call (pn_client n) req))"

text \<open>A status is its code and its text; the code of \<open>Unknown\<close> is 2.\<close>

definition convert_stream_entry ::
  "('m \<Rightarrow> bytes) \<Rightarrow> ('m option, status_code \<times> string) outcome \<Rightarrow> (bytes option, string) outcome" where
  "convert_stream_entry encode r =
     (case r of
        Ok (Some v) \<Rightarrow> Ok (Some (encode v))
      | Ok None \<Rightarrow> Ok None
      | Err (code, e) \<Rightarrow> if code = OtherCode 2 then Ok None else Err (error_calling_remote_method e)
      | Panic \<Rightarrow> Panic)"

record py_tramp_request =
  pt_bolt11 :: string
  pt_trampoline_node_id :: bytes
  pt_amount_msat :: nat
  pt_label :: string
  pt_maxfeepercent :: u32
  pt_maxdelay :: nat
  pt_description :: string

definition py_trampoline_pay ::
  "(node_client \<Rightarrow> py_tramp_request \<Rightarrow> ('a, string) outcome) \<Rightarrow> ('a \<Rightarrow> bytes) \<Rightarrow> string \<Rightarrow> bytes \<Rightarrow> nat option
     \<Rightarrow> string option \<Rightarrow> u32 option \<Rightarrow> nat option \<Rightarrow> string option \<Rightarrow> py_node_clients \<Rightarrow> (bytes, string) outcome" where
  "py_trampoline_pay call encode bolt11 trampoline_node_id amount_msat label maxfeepercent maxdelay description n =
     obind (omap_err error_calling_remote_method (call (pn_client n)
       \<lparr>pt_bolt11 = bolt11, pt_trampoline_node_id = trampoline_node_id, pt_amount_msat = or_else amount_msat 0,
        pt_label = or_else label [], pt_maxfeepercent = or_else maxfeepercent 0, pt_maxdelay = or_else maxdelay 0,
        pt_description = or_else description []\<rparr>)) (\<lambda>res. convert encode (Ok res))"

definition py_configure ::
  "(bytes \<Rightarrow> ('q, string) outcome) \<Rightarrow> (node_client \<Rightarrow> 'q \<Rightarrow> (unit, string) outcome) \<Rightarrow> bytes \<Rightarrow> py_node_clients
     \<Rightarrow> (unit, string) outcome" where
  "py_configure decode call payload n =
     obind (omap_err error_decoding_request (decode payload)) (\<lambda>req.
     omap_err error_calling_remote_method (call (pn_client n) req))"

definition py_lsps_invoice ::
  "(node_client \<Rightarrow> lsp_invoice_request \<Rightarrow> ('a, string) outcome) \<Rightarrow> ('a \<Rightarrow> bytes) \<Rightarrow> string \<Rightarrow> string \<Rightarrow> nat option
     \<Rightarrow> string option \<Rightarrow> py_node_clients \<Rightarrow> (bytes, string) outcome" where
  "py_lsps_invoice call encode label description amount_msat token n =
     obind (omap_err error_calling_remote_method (call (pn_client n)
       \<lparr>li_lsp_id = [], li_token = or_else token [], li_amount_msat = or_else amount_msat 0,
        li_description = description, li_label = label\<rparr>)) (\<lambda>res. convert encode (Ok res))"

subsection \<open>Pairing\<close>

definition py_pairing_client ::
  "creds_lib \<Rightarrow> transport \<Rightarrow> host \<Rightarrow> unified_credentials \<Rightarrow> string option \<Rightarrow> (endpoint, string) outcome" where
  "py_pairing_client C T H creds uri =
     endpoint_with T (or_else uri (scheduler_uri H)) (tc_inner (unified_tls_config C creds)) (Some client_keepalive)"

text \<open>
  The credentials of an attestation client. Its node id is looked at before its rune, so the
  rune of nobody never matters.
\<close>

definition py_attestation_creds ::
  "creds_lib \<Rightarrow> (u64, string) outcome \<Rightarrow> unified_credentials \<Rightarrow> attestation_creds" where
  "py_attestation_creds C now creds =
     \<lparr>at_now = now, at_node_id = unified_node_id C creds, at_private_key = tc_private_key (unified_tls_config C creds),
      at_rune = (case creds of DeviceCreds d \<Rightarrow> dv_rune d | NobodyCreds _ \<Rightarrow> [])\<rparr>"

definition py_approve_pairing ::
  "creds_lib \<Rightarrow> auth_lib \<Rightarrow> (approve_pairing_request \<Rightarrow> (bytes, string) outcome) \<Rightarrow> (u64, string) outcome
     \<Rightarrow> string \<Rightarrow> string \<Rightarrow> string \<Rightarrow> unified_credentials \<Rightarrow> (bytes, string) outcome" where
  "py_approve_pairing C A send now device_id device_name restrs creds =
     obind (approve_pairing A (py_attestation_creds C now creds) device_id device_name restrs) send"

definition py_verify_pairing_data ::
  "creds_lib \<Rightarrow> (bytes \<Rightarrow> (pairing_data, string) outcome) \<Rightarrow> (bytes \<Rightarrow> (bytes option, string) outcome) \<Rightarrow> bytes
     \<Rightarrow> (unit, string) outcome" where
  "py_verify_pairing_data C decode csr_key data =
     obind (decode data) (\<lambda>pd. verify_pairing_data csr_key (cl_hex C) pd)"

text \<open>A message with its type in front.\<close>

definition convert_pairing :: "('m \<Rightarrow> bytes) \<Rightarrow> 'm \<Rightarrow> u8 \<Rightarrow> (bytes, string) outcome" where
  "convert_pairing encode msg typ = Ok (typ # encode msg)"

fun pairing_recv ::
  "(pair_device_response \<Rightarrow> bytes) \<Rightarrow> (string \<Rightarrow> bytes) \<Rightarrow> pairing_session_data list
     \<Rightarrow> (bytes, string) outcome \<times> pairing_session_data list" where
  "pairing_recv enc enc_str [] = (Err ''channel error'', [])"
| "pairing_recv enc enc_str (PairingResponse d # ms) = (convert_pairing enc d 1, ms)"
| "pairing_recv enc enc_str (PairingQr d # ms) = (convert_pairing enc_str d 2, ms)"
| "pairing_recv enc enc_str (PairingError d # ms) = (Err d, ms)"

definition pairing_next ::
  "(pair_device_response \<Rightarrow> bytes) \<Rightarrow> (string \<Rightarrow> bytes) \<Rightarrow> pairing_session_data list
     \<Rightarrow> bytes option \<times> pairing_session_data list" where
  "pairing_next enc enc_str ms = apfst (\<lambda>r. case r of Ok b \<Rightarrow> Some b | _ \<Rightarrow> None) (pairing_recv enc enc_str ms)"

subsection \<open>Backups and TLS\<close>

definition backup_decrypt_with_seed :: "('k, 'p) backup_lib \<Rightarrow> bytes \<Rightarrow> bytes \<Rightarrow> (bytes, string) outcome" where
  "backup_decrypt_with_seed B encrypted seed =
     obind (omap_err (\<lambda>e. ''error decoding secret: '' @ e) (bk_secret_key B seed)) (\<lambda>seed.
     omap_err (\<lambda>e. ''error decrypting: '' @ e) (decrypt_with_seed B encrypted seed))"

definition py_identity_from_path ::
  "creds_lib \<Rightarrow> host \<Rightarrow> string \<Rightarrow> tls_config \<Rightarrow> (tls_config, string) outcome" where
  "py_identity_from_path C H path t = omap_err (\<lambda>_. path) (tls_identity_from_path C H path t)"

subsection \<open>Lemmas\<close>

text \<open>What Python can make: a scheduler, and an authenticated one of it.\<close>

inductive py_sched_reach ::
  "creds_lib \<Rightarrow> transport \<Rightarrow> host \<Rightarrow> (string \<Rightarrow> string option) \<Rightarrow> unified_scheduler \<Rightarrow> bool" for C T H p where
  new: "py_scheduler_new C T H p net creds = Ok s \<Longrightarrow> py_sched_reach C T H p s"
| authenticate: "py_sched_reach C T H p s \<Longrightarrow> py_authenticate C T creds s = Ok s' \<Longrightarrow> py_sched_reach C T H p s'"

fun of_its_kind :: "unified_scheduler \<Rightarrow> bool" where
  "of_its_kind (Unauthenticated u) \<longleftrightarrow> (\<exists>n. sk_creds u = NobodyCreds n)"
| "of_its_kind (Authenticated a) \<longleftrightarrow> (\<exists>d. sk_creds a = DeviceCreds d)"

lemma ensure_device_Ok [simp]: "ensure_device c = Ok u \<longleftrightarrow> (\<exists>d. c = DeviceCreds d)"
  by (cases c) simp_all

lemma scheduler_creds:
  "scheduler_with T tls_of net c uri = Ok sc \<Longrightarrow> sk_creds sc = c"
  "scheduler_authenticate T tls_of c sc = Ok sc' \<Longrightarrow> sk_creds sc' = c"
  by (auto simp: scheduler_with_def scheduler_authenticate_def omap_eq_Ok)

lemma py_sched_reach_kind: "py_sched_reach C T H p s \<Longrightarrow> of_its_kind s"
proof (induction rule: py_sched_reach.induct)
  case (new net creds s)
  then show ?case
    by (cases creds) (auto simp: py_scheduler_new_def obind_eq_Ok omap_eq_Ok Let_def dest: scheduler_creds)
next
  case (authenticate s creds s')
  then show ?case
    by (cases s) (auto simp: py_authenticate_def obind_eq_Ok omap_eq_Ok dest: scheduler_creds)
qed

lemma no_panic_omap [simp]: "omap f r = Panic \<longleftrightarrow> r = Panic" "omap_err g r = Panic \<longleftrightarrow> r = Panic"
  by (cases r; simp)+

lemma no_panic_obind: "obind r f = Panic \<longleftrightarrow> r = Panic \<or> (\<exists>a. r = Ok a \<and> f a = Panic)"
  by (cases r) simp_all

lemma convert_no_panic [simp]: "convert encode r = Panic \<longleftrightarrow> r = Panic"
  by (simp add: convert_def)

lemma node_id_no_panic:
  "\<forall>h. cl_hex_decode C h \<noteq> Panic \<Longrightarrow> device_node_id C d \<noteq> Panic"
  by (auto simp: device_node_id_def get_node_id_from_tls_config_def Let_def split: subject.split)

lemma call_no_panic:
  assumes "of_its_kind s" "\<forall>h. cl_hex_decode C h \<noteq> Panic" "\<forall>ep call. send ep call \<noteq> Panic"
  shows "call_for_node C send call s \<noteq> Panic \<and> call_plain send c s \<noteq> Panic"
  using assms node_id_no_panic [OF assms(2)]
  by (cases s) (auto simp: call_for_node_def call_plain_def no_panic_obind)

text \<open>A client that attests with the credentials of nobody is not refused, and panics in the end.\<close>

lemma attestation_of_nobody_panics:
  "py_approve_pairing C A send (Ok now) device_id device_name restrs (NobodyCreds n) = Panic"
  by (simp add: py_approve_pairing_def approve_pairing_def py_attestation_creds_def)

text \<open>A shutdown that finds no room is no error, in contrast to the SDK.\<close>

lemma handle_shutdown_twice:
  "fst (handle_shutdown (snd (handle_shutdown ch))) = Ok () \<and> snd (handle_shutdown (snd (handle_shutdown ch))) = snd (handle_shutdown ch)"
  by (auto simp: handle_shutdown_def try_send_def split: outcome.splits if_splits)

lemma pairing_messages_typed:
  "pairing_next enc enc_str (PairingQr qr # ms) = (Some (2 # enc_str qr), ms) \<and>
   pairing_next enc enc_str (PairingResponse r # ms) = (Some (1 # enc r), ms) \<and>
   pairing_next enc enc_str (PairingError e # ms) = (None, ms)"
  by (simp add: pairing_next_def convert_pairing_def)

section \<open>Properties\<close>

text \<open>
  A scheduler in Python is of one kind. Whatever is made and authenticated, an authenticated
  scheduler has the credentials of a device, so no call for a node reaches the panics of the
  credentials of nobody: it is answered or an exception.
\<close>

theorem python_scheduler_never_panics:
  assumes "py_sched_reach C T H p s" "\<forall>h. cl_hex_decode C h \<noteq> Panic" "\<forall>ep call. send ep call \<noteq> Panic"
  shows "Panic \<notin> {py_schedule C send encode s, py_node C send encode s, py_get_node_info C send encode wait s,
    py_export_node send encode s, py_get_invite_codes send encode s, py_add_outgoing_webhook C send encode uri s,
    py_list_outgoing_webhooks C send encode s, py_delete_outgoing_webhooks C send encode ids s,
    py_rotate_outgoing_webhook_secret C send encode i s}"
  using call_no_panic [OF py_sched_reach_kind [OF assms(1)] assms(2,3)]
  by (auto simp: py_schedule_def py_node_def py_get_node_info_def py_export_node_def py_get_invite_codes_def
      py_add_outgoing_webhook_def py_list_outgoing_webhooks_def py_delete_outgoing_webhooks_def
      py_rotate_outgoing_webhook_secret_def dest: sym)

theorem python_scheduler_never_panics_witness:
  "\<exists>s. py_sched_reach demo_creds_lib demo_transport \<lparr>ho_env = (\<lambda>v. None), ho_read = Err\<rparr> Some s \<and>
     (\<exists>a. s = Authenticated a) \<and> py_schedule demo_creds_lib (\<lambda>ep c. Ok [1]) (\<lambda>b. b) s \<noteq> Panic"
proof -
  let ?H = "\<lparr>ho_env = (\<lambda>v. None), ho_read = Err\<rparr>"
  obtain a where a: "py_scheduler_new demo_creds_lib demo_transport ?H Some ''bitcoin'' (DeviceCreds demo_device) = Ok (Authenticated a)"
    by (simp add: py_scheduler_new_def scheduler_with_def endpoint_with_def demo_transport_def Let_def)
  then have r: "py_sched_reach demo_creds_lib demo_transport ?H Some (Authenticated a)" by (rule py_sched_reach.new)
  have "\<forall>h. cl_hex_decode demo_creds_lib h \<noteq> Panic" by (simp add: demo_creds_lib_def)
  from python_scheduler_never_panics [OF r this, of "\<lambda>ep c. Ok [1]" "\<lambda>b. b"]
  have "py_schedule demo_creds_lib (\<lambda>ep c. Ok [1]) (\<lambda>b. b) (Authenticated a) \<noteq> Panic" by auto
  with r show ?thesis by blast
qed

end
