(* ===== verification/SignerProxy.thy ===== *)
theory SignerProxy
  imports Codec SignerProcess
begin

text \<open>
  The proxy that stands in for lightningd's hsmd (\<open>libs/gl-signerproxy/src\<close>): the frames of
  the inter-daemon protocol (\<open>wire.rs\<close>) and the handlers of the connections, which answer some
  messages themselves and forward the others to the plugin (\<open>hsmproxy.rs\<close>, \<open>pb.rs\<close>). A
  Unix stream socket carries bytes, and a byte may carry a file with it: a file descriptor is
  sent as one more byte of the stream that has the file attached. A connection is the list of
  all bytes the other end sends until it closes, so that its end is the end of the stream and
  waiting for a byte takes no place in it; \<open>PassFd\<close> has the system calls, with waiting and
  failures, that this stands for. Every handler is a thread; what they share is the counter of
  request ids, so handling one message is a step.
\<close>

subsection \<open>Messages and frames\<close>

text \<open>The type \<open>'f\<close> is that of a descriptor in the process, of an open file in the stream.\<close>

record 'f wire_message =
  wm_typ :: nat
  wm_body :: bytes
  wm_fds :: "'f list"

definition message_new_with_fds :: "bytes \<Rightarrow> 'f list \<Rightarrow> ('f wire_message, 'e) outcome" where
  "message_new_with_fds raw fds =
     (if length raw < 2 then Panic
      else Ok \<lparr>wm_typ = of_be_bytes (take 2 raw), wm_body = raw, wm_fds = fds\<rparr>)"

definition message_new :: "bytes \<Rightarrow> ('f wire_message, 'e) outcome" where
  "message_new raw = message_new_with_fds raw []"

definition message_eq :: "'f wire_message \<Rightarrow> 'f wire_message \<Rightarrow> bool" where
  "message_eq a b = (wm_body a = wm_body b \<and> wm_typ a = wm_typ b \<and> wm_fds a = wm_fds b)"

definition count_fds :: "nat \<Rightarrow> nat" where
  "count_fds typ = (if typ = 109 then 1 else 0)"

definition put_frame :: "bytes \<Rightarrow> bytes" where
  "put_frame body = be_bytes 4 (length body) @ body"

text \<open>A byte of the stream, with the file sent along with it, if any.\<close>

type_synonym 'f cell = "u8 \<times> 'f option"

definition plain :: "bytes \<Rightarrow> 'f cell list" where
  "plain bs = map (\<lambda>b. (b, None)) bs"

text \<open>Reading bytes drops the files that come with them; \<open>recv_fd\<close> reads one byte with its file.\<close>

definition read_exact :: "nat \<Rightarrow> 'f cell list \<Rightarrow> (bytes \<times> 'f cell list, string) outcome" where
  "read_exact n cs =
     (if n \<le> length cs then Ok (map fst (take n cs), drop n cs) else Err ''failed to fill whole buffer'')"

definition get_frame :: "'f cell list \<Rightarrow> (bytes \<times> 'f cell list, string) outcome" where
  "get_frame cs =
     obind (read_exact 4 cs) (\<lambda>(len_buf, cs). read_exact (of_be_bytes len_buf) cs)"

fun recv_fds :: "nat \<Rightarrow> 'f cell list \<Rightarrow> ('f list \<times> 'f cell list, string) outcome" where
  "recv_fds 0 cs = Ok ([], cs)"
| "recv_fds (Suc n) [] = Err ''0 bytes read''"
| "recv_fds (Suc n) ((b, None) # cs) = Err ''bad control msg (header)''"
| "recv_fds (Suc n) ((b, Some f) # cs) = omap (\<lambda>(got, rest). (f # got, rest)) (recv_fds n cs)"

definition wire_read :: "'f cell list \<Rightarrow> ('f wire_message \<times> 'f cell list, string) outcome" where
  "wire_read cs =
     obind (get_frame cs) (\<lambda>(buf, cs).
     if length buf < 2 then Panic
     else
       obind (recv_fds (count_fds (of_be_bytes (take 2 buf))) cs) (\<lambda>(fds, cs).
       omap (\<lambda>m. (m, cs)) (if fds = [] then message_new buf else message_new_with_fds buf fds)))"

text \<open>The length and the body, then a byte with each descriptor.\<close>

definition wire_write :: "'f wire_message \<Rightarrow> 'f cell list" where
  "wire_write m = plain (put_frame (wm_body m)) @ map (\<lambda>f. (0, Some f)) (wm_fds m)"

subsection \<open>Requests\<close>

definition from_client_hsmfd_msg :: "'f wire_message \<Rightarrow> (hsm_request_context, string) outcome" where
  "from_client_hsmfd_msg m =
     (if wm_typ m \<noteq> 9 then Err ''message is not an init''
      else if length (wm_body m) < 51 then Panic
      else Ok \<lparr>hrc_node_id = take 33 (drop 2 (wm_body m)),
              hrc_dbid = word_of_nat (of_be_bytes (take 8 (drop 35 (wm_body m)))),
              hrc_capabilities = word_of_nat (of_be_bytes (take 8 (drop 43 (wm_body m))))\<rparr>)"

subsection \<open>Handlers\<close>

text \<open>
  A handler has the context of its connection, and runs or has ended (with an error or a
  panic). What was forwarded and what was written are logged with the handler's number.
\<close>

record proxy =
  px_counter :: u64
  px_handlers :: "(hsm_request_context option \<times> bool) list"
  px_requests :: "(nat \<times> hsm_request) list"
  px_replies :: "(nat \<times> int wire_message) list"

text \<open>The main handler has no context; \<open>ping\<close> tells whether the plugin answers.\<close>

definition proxy_start :: "bool \<Rightarrow> proxy" where
  "proxy_start ping = \<lparr>px_counter = 1000, px_handlers = [(None, ping)], px_requests = [], px_replies = []\<rparr>"

text \<open>
  One round of a handler: the body it reads, if any, whether the write goes through, a new
  socket pair and whether the plugin answers the new handler's ping, and the answer of the
  plugin to a forwarded request.
\<close>

record proxy_event =
  pe_handler :: nat
  pe_body :: "bytes option"
  pe_writes :: bool
  pe_pair :: "(int, string) outcome"
  pe_ping :: bool
  pe_answer :: "(bytes, string) outcome"

definition end_handler :: "nat \<Rightarrow> proxy \<Rightarrow> proxy" where
  "end_handler i px = px\<lparr>px_handlers := (px_handlers px)[i := (fst (px_handlers px ! i), False)]\<rparr>"

definition write_reply :: "proxy_event \<Rightarrow> (int wire_message, string) outcome \<Rightarrow> proxy \<Rightarrow> proxy" where
  "write_reply e reply px =
     (case reply of
        Ok m \<Rightarrow>
          if pe_writes e then px\<lparr>px_replies := px_replies px @ [(pe_handler e, m)]\<rparr>
          else end_handler (pe_handler e) px
      | _ \<Rightarrow> end_handler (pe_handler e) px)"

definition forwarded_request :: "proxy \<Rightarrow> hsm_request_context option \<Rightarrow> bytes \<Rightarrow> hsm_request" where
  "forwarded_request px ctx raw =
     \<lparr>hr_request_id = ucast (px_counter px), hr_context = ctx, hr_raw = raw,
      hr_signer_state = [], hr_requests = []\<rparr>"

definition proxy_handle_message ::
  "proxy_event \<Rightarrow> hsm_request_context option \<Rightarrow> int wire_message \<Rightarrow> proxy \<Rightarrow> proxy" where
  "proxy_handle_message e ctx m px =
     (if wm_typ m = 9 then
        (case from_client_hsmfd_msg m of
           Ok new_ctx \<Rightarrow>
             (case pe_pair e of
                Ok remote \<Rightarrow>
                  write_reply e (message_new_with_fds [0, 109] [remote])
                    (px\<lparr>px_handlers := px_handlers px @ [(Some new_ctx, pe_ping e)]\<rparr>)
              | _ \<Rightarrow> end_handler (pe_handler e) px)
         | _ \<Rightarrow> end_handler (pe_handler e) px)
      else if wm_typ m = 28 then write_reply e (message_new [0, 128, 1]) px
      else
        let req = forwarded_request px ctx (wm_body m);
            px = px\<lparr>px_counter := px_counter px + 1,
                    px_requests := px_requests px @ [(pe_handler e, req)]\<rparr> in
        write_reply e (obind (pe_answer e) message_new) px)"

definition process_round :: "proxy_event \<Rightarrow> proxy \<Rightarrow> proxy" where
  "process_round e px =
     (if pe_handler e < length (px_handlers px) \<and> snd (px_handlers px ! pe_handler e) then
        (case pe_body e of
           None \<Rightarrow> end_handler (pe_handler e) px
         | Some body \<Rightarrow>
             (case message_new body :: (int wire_message, string) outcome of
                Ok m \<Rightarrow> proxy_handle_message e (fst (px_handlers px ! pe_handler e)) m px
              | _ \<Rightarrow> end_handler (pe_handler e) px))
      else px)"

definition run_proxy :: "bool \<Rightarrow> proxy_event list \<Rightarrow> proxy" where
  "run_proxy ping evs = fold process_round evs (proxy_start ping)"

subsection \<open>Lemmas\<close>

lemma length_plain [simp]: "length (plain bs) = length bs"
  by (simp add: plain_def)

lemma plain_append [simp]: "plain (as @ bs) = plain as @ plain bs"
  by (simp add: plain_def)

lemma read_exact_plain: "n = length bs \<Longrightarrow> read_exact n (plain bs @ cs) = Ok (bs, cs)"
  by (simp add: read_exact_def plain_def comp_def)

lemma get_put_frame: "length body < 2 ^ 32 \<Longrightarrow> get_frame (plain (put_frame body) @ cs) = Ok (body, cs)"
  by (simp add: get_frame_def put_frame_def read_exact_plain of_be_bytes_be_bytes)

lemma recv_fds_append: "recv_fds (length fs) (map (\<lambda>f. (0, Some f)) fs @ cs) = Ok (fs, cs)"
  by (induction fs) simp_all

text \<open>
  The invariant of the proxy: ids are counted from 1000; a request carries the context of the
  connection it came from, which only the first connection does not have; and it is of a type
  the proxy does not answer itself.
\<close>

definition proxy_inv :: "proxy \<Rightarrow> bool" where
  "proxy_inv px \<longleftrightarrow>
     px_counter px = word_of_nat (1000 + length (px_requests px)) \<and>
     (\<forall>k < length (px_requests px). hr_request_id (snd (px_requests px ! k)) = word_of_nat (1000 + k)) \<and>
     px_handlers px \<noteq> [] \<and> fst (px_handlers px ! 0) = None \<and>
     (\<forall>i < length (px_handlers px). 0 < i \<longrightarrow> fst (px_handlers px ! i) \<noteq> None) \<and>
     (\<forall>(i, req) \<in> set (px_requests px).
        i < length (px_handlers px) \<and> hr_context req = fst (px_handlers px ! i) \<and>
        of_be_bytes (take 2 (hr_raw req)) \<notin> {9, 28})"

lemma proxy_inv_start: "proxy_inv (proxy_start ping)"
  by (simp add: proxy_inv_def proxy_start_def)

lemma proxy_inv_end: "proxy_inv px \<Longrightarrow> i < length (px_handlers px) \<Longrightarrow> proxy_inv (end_handler i px)"
  by (auto simp: proxy_inv_def end_handler_def nth_list_update)

lemma proxy_inv_reply:
  "proxy_inv px \<Longrightarrow> pe_handler e < length (px_handlers px) \<Longrightarrow> proxy_inv (write_reply e reply px)"
  by (auto simp: write_reply_def proxy_inv_end split: outcome.split)
    (simp add: proxy_inv_def)

lemma proxy_inv_spawn: "proxy_inv px \<Longrightarrow> proxy_inv (px\<lparr>px_handlers := px_handlers px @ [(Some c, b)]\<rparr>)"
  by (auto simp: proxy_inv_def nth_append)

lemma ucast_of_nat_u32: "ucast (word_of_nat n :: u64) = (word_of_nat n :: u32)"
  by (rule bit_word_eqI) (simp add: bit_simps)

lemma proxy_inv_forward:
  assumes "proxy_inv px" "i < length (px_handlers px)" "of_be_bytes (take 2 raw) \<notin> {9, 28}"
  shows "proxy_inv (px\<lparr>px_counter := px_counter px + 1,
    px_requests := px_requests px @ [(i, forwarded_request px (fst (px_handlers px ! i)) raw)]\<rparr>)"
proof -
  let ?n = "length (px_requests px)"
  have "ucast (px_counter px) = (word_of_nat (1000 + ?n) :: u32)"
    using assms(1) by (simp only: proxy_inv_def ucast_of_nat_u32)
  then show ?thesis using assms
    by (auto simp: proxy_inv_def forwarded_request_def nth_append less_Suc_eq)
qed

lemma message_new_Ok:
  "(message_new raw :: (int wire_message, string) outcome) = Ok m \<longleftrightarrow>
     2 \<le> length raw \<and> m = \<lparr>wm_typ = of_be_bytes (take 2 raw), wm_body = raw, wm_fds = []\<rparr>"
  by (auto simp: message_new_def message_new_with_fds_def)

lemma proxy_inv_round:
  assumes "proxy_inv px"
  shows "proxy_inv (process_round e px)"
proof (cases "pe_handler e < length (px_handlers px) \<and> snd (px_handlers px ! pe_handler e)")
  case True
  let ?ctx = "fst (px_handlers px ! pe_handler e)"
  have stop: "proxy_inv (end_handler (pe_handler e) px)" using assms True by (simp add: proxy_inv_end)
  have "proxy_inv (proxy_handle_message e ?ctx m px)"
    if "(message_new body :: (int wire_message, string) outcome) = Ok m" for body m
  proof -
    from that have m: "wm_typ m = of_be_bytes (take 2 (wm_body m))" by (simp add: message_new_Ok)
    consider "wm_typ m = 9" | "wm_typ m = 28" | "wm_typ m \<notin> {9, 28}" by auto
    then show ?thesis
    proof cases
      case 1
      then show ?thesis using assms True stop
        by (auto simp: proxy_handle_message_def intro!: proxy_inv_reply proxy_inv_spawn split: outcome.split)
    next
      case 2
      then show ?thesis using assms True by (simp add: proxy_handle_message_def proxy_inv_reply)
    next
      case 3
      then have "proxy_inv (px\<lparr>px_counter := px_counter px + 1,
          px_requests := px_requests px @ [(pe_handler e, forwarded_request px ?ctx (wm_body m))]\<rparr>)"
        using assms True m by (intro proxy_inv_forward) auto
      from proxy_inv_reply [OF this, of e] show ?thesis using 3 True by (simp add: proxy_handle_message_def Let_def)
    qed
  qed
  with stop True show ?thesis by (auto simp: process_round_def split: option.split outcome.split)
qed (use assms in \<open>auto simp: process_round_def\<close>)

lemma proxy_inv_run: "proxy_inv (run_proxy ping evs)"
proof -
  have "proxy_inv px \<Longrightarrow> proxy_inv (fold process_round evs px)" for px
    by (induction evs arbitrary: px) (simp_all add: proxy_inv_round)
  then show ?thesis by (simp add: run_proxy_def proxy_inv_start)
qed

fun wire_read_all :: "nat \<Rightarrow> 'f cell list \<Rightarrow> ('f wire_message list \<times> 'f cell list, string) outcome" where
  "wire_read_all 0 cs = Ok ([], cs)"
| "wire_read_all (Suc n) cs =
     obind (wire_read cs) (\<lambda>(m, cs). omap (\<lambda>(ms, cs). (m # ms, cs)) (wire_read_all n cs))"

definition wire_ok :: "'f wire_message \<Rightarrow> bool" where
  "wire_ok m \<longleftrightarrow> 2 \<le> length (wm_body m) \<and> length (wm_body m) < 2 ^ 32 \<and>
     wm_typ m = of_be_bytes (take 2 (wm_body m)) \<and> length (wm_fds m) = count_fds (wm_typ m)"

lemma wire_read_write:
  assumes "wire_ok m"
  shows "wire_read (wire_write m @ cs) = Ok (m, cs)"
  using assms get_put_frame [of "wm_body m" "map (\<lambda>f. (0, Some f)) (wm_fds m) @ cs"] recv_fds_append [of "wm_fds m" cs]
  by (cases m) (auto simp: wire_read_def wire_write_def wire_ok_def message_new_def message_new_with_fds_def)

lemma wire_read_all_append:
  "wire_read_all (m + n) cs =
     obind (wire_read_all m cs) (\<lambda>(ms, cs). omap (apfst ((@) ms)) (wire_read_all n cs))"
proof (induction m arbitrary: cs)
  case 0
  show ?case by (cases "wire_read_all n cs") auto
next
  case (Suc m)
  show ?case
  proof (cases "wire_read cs")
    case (Ok r)
    obtain x cs' where r: "r = (x, cs')" by (cases r)
    show ?thesis
    proof (cases "wire_read_all m cs'")
      case (Ok q)
      obtain ms cs2 where "q = (ms, cs2)" by (cases q)
      then show ?thesis using Ok \<open>wire_read cs = Ok r\<close> Suc r
        by (cases "wire_read_all n cs2") auto
    qed (use \<open>wire_read cs = Ok r\<close> Suc r in simp_all)
  qed simp_all
qed

text \<open>A message that is cut off cannot be read.\<close>

lemma recv_fds_short: "length cs < n \<Longrightarrow> \<exists>e. recv_fds n cs = Err e"
proof (induction n cs rule: recv_fds.induct)
  case (4 n b f cs)
  then obtain e where "recv_fds n cs = Err e" by auto
  then show ?case by simp
qed auto

lemma wire_read_cut:
  assumes "wire_ok m" "j < length (wire_write m)"
  shows "\<exists>e. wire_read (take j (wire_write m)) = Err e"
proof (cases "j < length (put_frame (wm_body m))")
  case True
  let ?len = "be_bytes 4 (length (wm_body m))"
  have cut: "take j (wire_write m) = plain (take j (?len @ wm_body m))"
    using True by (simp add: wire_write_def put_frame_def plain_def take_map)
  show ?thesis
  proof (cases "j < 4")
    case True
    then show ?thesis unfolding cut by (simp add: wire_read_def get_frame_def read_exact_def)
  next
    case False
    then have c: "plain (take j (?len @ wm_body m)) = plain ?len @ plain (take (j - 4) (wm_body m))"
      by simp
    have "j - 4 < length (wm_body m)" using True False by (simp add: put_frame_def)
    then show ?thesis unfolding cut c using assms(1)
      by (simp add: wire_read_def get_frame_def read_exact_plain of_be_bytes_be_bytes wire_ok_def)
         (simp add: read_exact_def)
  qed
next
  case False
  let ?n = "j - length (put_frame (wm_body m))"
  have cut: "take j (wire_write m) = plain (put_frame (wm_body m)) @ take ?n (map (\<lambda>f. (0, Some f)) (wm_fds m))"
    using False by (simp add: wire_write_def)
  have "?n < length (wm_fds m)" using assms(2) False by (simp add: wire_write_def)
  then obtain e where "recv_fds (length (wm_fds m)) (take ?n (map (\<lambda>f. (0, Some f)) (wm_fds m))) = Err e"
    using recv_fds_short [of "take ?n (map (\<lambda>f. (0, Some f)) (wm_fds m))"] by auto
  then show ?thesis unfolding cut using assms(1)
      get_put_frame [of "wm_body m" "take ?n (map (\<lambda>f. (0, Some f)) (wm_fds m))"]
    by (auto simp: wire_read_def wire_ok_def)
qed

section \<open>Properties\<close>

text \<open>
  C35: messages survive the wire. Messages whose types announce as many file descriptors as
  they carry, written one after the other to a stream in which a descriptor takes a byte of its
  own, are read back in order with their files, and what stands behind them in the stream is
  left; when the stream ends before the last byte of a message, reading it is an error.
\<close>

theorem wire_roundtrip:
  assumes "\<forall>m \<in> set ms. wire_ok m"
  shows "wire_read_all (length ms) (concat (map wire_write ms) @ cs) = Ok (ms, cs) \<and>
    (\<forall>m j. wire_ok m \<longrightarrow> j < length (wire_write m) \<longrightarrow>
       (\<exists>e. wire_read_all (Suc (length ms)) (concat (map wire_write ms) @ take j (wire_write m)) = Err e))"
proof -
  have all: "wire_read_all (length ms) (concat (map wire_write ms) @ cs) = Ok (ms, cs)" for cs
    using assms by (induction ms) (simp_all add: wire_read_write)
  have "\<exists>e. wire_read_all (Suc (length ms)) (concat (map wire_write ms) @ take j (wire_write m)) = Err e"
    if "wire_ok m" "j < length (wire_write m)" for m j
  proof -
    from wire_read_cut [OF that] obtain e where "wire_read (take j (wire_write m)) = Err e" ..
    then show ?thesis
      using wire_read_all_append [of "length ms" 1 "concat (map wire_write ms) @ take j (wire_write m)"] all
      by simp
  qed
  with all show ?thesis by blast
qed

lemma wire_roundtrip_witness:
  "wire_read_all 2 [(0, None), (0, None), (0, None), (2, None), (0, None), (109, None), (0, Some 5),
      (0, None), (0, None), (0, None), (3, None), (0, None), (128, None), (1, None), (7, Some 6)] =
     Ok ([\<lparr>wm_typ = 109, wm_body = [0, 109], wm_fds = [5 :: nat]\<rparr>, \<lparr>wm_typ = 128, wm_body = [0, 128, 1], wm_fds = []\<rparr>],
         [(7, Some 6)])"
proof -
  let ?ms = "[\<lparr>wm_typ = 109, wm_body = [0, 109], wm_fds = [5 :: nat]\<rparr>, \<lparr>wm_typ = 128, wm_body = [0, 128, 1], wm_fds = []\<rparr>]"
  have "\<forall>m \<in> set ?ms. wire_ok m" by (simp add: wire_ok_def of_be_bytes_def count_fds_def)
  moreover have "put_frame [0, 109] = [0, 0, 0, 2, 0, 109]" "put_frame [0, 128, 1] = [0, 0, 0, 3, 0, 128, 1]"
    by (simp_all add: put_frame_def be_bytes_def upt_rec)
  ultimately show ?thesis using wire_roundtrip [of ?ms "[(7, Some 6)]"]
    by (simp add: wire_write_def plain_def numeral_2_eq_2 del: wire_read_all.simps)
qed

text \<open>
  C25: requests of the proxy can be told apart. Whatever the connections send and in which
  order, the requests forwarded to the plugin have different ids as long as there are no more
  than \<open>2 ^ 32\<close> of them, and each carries the context its connection was opened with, which
  is none exactly for lightningd's own connection.
\<close>

theorem forwarded_requests_are_distinct:
  assumes "length (px_requests (run_proxy ping evs)) \<le> 2 ^ 32"
  shows "distinct (map (hr_request_id \<circ> snd) (px_requests (run_proxy ping evs))) \<and>
    (\<forall>(i, req) \<in> set (px_requests (run_proxy ping evs)).
       i < length (px_handlers (run_proxy ping evs)) \<and>
       hr_context req = fst (px_handlers (run_proxy ping evs) ! i) \<and>
       (hr_context req = None \<longleftrightarrow> i = 0) \<and> of_be_bytes (take 2 (hr_raw req)) \<notin> {9, 28})"
proof -
  let ?px = "run_proxy ping evs"
  have inv: "proxy_inv ?px" by (rule proxy_inv_run)
  have "j = k" if "j < length (px_requests ?px)" "k < length (px_requests ?px)"
    "(word_of_nat (1000 + j) :: u32) = word_of_nat (1000 + k)" for j k
  proof -
    from that(3) have "(word_of_nat j :: u32) = word_of_nat k" by simp
    then have "j mod 2 ^ 32 = k mod 2 ^ 32" by (simp add: word_of_nat_eq_iff take_bit_eq_mod)
    then show "j = k" using that(1,2) assms by simp
  qed
  then have "distinct (map (hr_request_id \<circ> snd) (px_requests ?px))"
    using inv by (auto simp: distinct_conv_nth proxy_inv_def)
  then show ?thesis using inv by (fastforce simp: proxy_inv_def)
qed

definition demo_proxy_events :: "proxy_event list" where
  "demo_proxy_events =
     [\<lparr>pe_handler = 0, pe_body = Some (0 # 9 # replicate 49 1), pe_writes = True, pe_pair = Ok 3, pe_ping = True,
       pe_answer = Err []\<rparr>,
      \<lparr>pe_handler = 1, pe_body = Some [0, 7], pe_writes = True, pe_pair = Err [], pe_ping = True, pe_answer = Ok [0, 1]\<rparr>,
      \<lparr>pe_handler = 0, pe_body = Some [0, 8], pe_writes = True, pe_pair = Err [], pe_ping = True, pe_answer = Ok [0, 1]\<rparr>]"

theorem forwarded_requests_are_distinct_witness:
  "map (hr_request_id \<circ> snd) (px_requests (run_proxy True demo_proxy_events)) = [1000, 1001] \<and>
     distinct (map (hr_request_id \<circ> snd) (px_requests (run_proxy True demo_proxy_events)))"
proof -
  have r: "map (hr_request_id \<circ> snd) (px_requests (run_proxy True demo_proxy_events)) = [1000, 1001]"
    by (simp add: run_proxy_def demo_proxy_events_def proxy_start_def process_round_def message_new_def
        message_new_with_fds_def of_be_bytes_def proxy_handle_message_def from_client_hsmfd_msg_def write_reply_def
        forwarded_request_def Let_def)
  from arg_cong [OF r, of length] have "length (px_requests (run_proxy True demo_proxy_events)) \<le> 2 ^ 32" by simp
  with forwarded_requests_are_distinct [of True demo_proxy_events] r show ?thesis by simp
qed

end
