(* ===== verification/PassFd.thy ===== *)
theory PassFd
  imports SignerProxy
begin

text \<open>
  How messages and file descriptors go over a Unix stream socket: \<open>send_fd\<close> and \<open>recv_fd\<close> of
  \<open>libs/gl-signerproxy/src/passfd.rs\<close> (one byte of data with a control message of type
  \<open>SCM_RIGHTS\<close>), and \<open>DaemonConnection::write\<close> and \<open>read\<close> of \<open>wire.rs\<close> on top of them. The
  kernel is a record of calls on a state \<open>'k\<close> with the constants of libc; a call that waits
  returns \<open>None\<close>. The layout of the control buffer is libc's, so that the buffer is the header
  and the descriptor behind it. The lemmas show that with a kernel that behaves as documented
  the connection implements the stream of bytes and files of \<open>SignerProxy\<close>.
\<close>

subsection \<open>System calls\<close>

record cmsghdr =
  cmsg_level :: int
  cmsg_type :: int
  cmsg_len :: nat

record control_buffer =
  cb_hdr :: cmsghdr
  cb_fd :: int

record msghdr =
  msg_data :: bytes
  msg_control :: control_buffer
  msg_controllen :: nat

datatype io_error = OsError int | UnexpectedEof string | InvalidData string

text \<open>
  \<open>lc_write_all\<close> and \<open>lc_read_exact\<close> are those of the standard library on a \<open>UnixStream\<close>, which
  repeat \<open>write\<close> and \<open>read\<close> until all bytes are through.
\<close>

record 'k libc =
  lc_write_all :: "int \<Rightarrow> bytes \<Rightarrow> 'k \<Rightarrow> 'k \<times> (unit, io_error) outcome"
  lc_read_exact :: "int \<Rightarrow> nat \<Rightarrow> 'k \<Rightarrow> ('k \<times> (bytes, io_error) outcome) option"
  lc_sendmsg :: "int \<Rightarrow> msghdr \<Rightarrow> 'k \<Rightarrow> 'k \<times> int"
  lc_recvmsg :: "int \<Rightarrow> msghdr \<Rightarrow> 'k \<Rightarrow> ('k \<times> int \<times> msghdr) option"
  lc_fcntl :: "int \<Rightarrow> int \<Rightarrow> int \<Rightarrow> 'k \<Rightarrow> 'k \<times> int"
  lc_errno :: "'k \<Rightarrow> int"
  lc_CMSG_SPACE :: "nat \<Rightarrow> nat"
  lc_CMSG_LEN :: "nat \<Rightarrow> nat"
  lc_sizeof_cmsghdr :: nat
  lc_SOL_SOCKET :: int
  lc_SCM_RIGHTS :: int
  lc_F_SETFD :: int
  lc_FD_CLOEXEC :: int

definition size_of_int :: nat where "size_of_int = 4"

text \<open>A buffer of zeros.\<close>

definition zeroed :: control_buffer where
  "zeroed = \<lparr>cb_hdr = \<lparr>cmsg_level = 0, cmsg_type = 0, cmsg_len = 0\<rparr>, cb_fd = 0\<rparr>"

definition fd_message :: "'k libc \<Rightarrow> int \<Rightarrow> msghdr" where
  "fd_message L fd =
     \<lparr>msg_data = [0],
      msg_control = \<lparr>cb_hdr = \<lparr>cmsg_level = lc_SOL_SOCKET L, cmsg_type = lc_SCM_RIGHTS L,
                               cmsg_len = lc_CMSG_LEN L size_of_int\<rparr>, cb_fd = fd\<rparr>,
      msg_controllen = lc_CMSG_SPACE L size_of_int\<rparr>"

definition send_fd :: "'k libc \<Rightarrow> int \<Rightarrow> int \<Rightarrow> 'k \<Rightarrow> 'k \<times> (unit, io_error) outcome" where
  "send_fd L sock fd k =
     (let (k, rv) = lc_sendmsg L sock (fd_message L fd) k in
      if rv < 0 then (k, Err (OsError (lc_errno L k))) else (k, Ok ()))"

definition empty_message :: "'k libc \<Rightarrow> msghdr" where
  "empty_message L =
     \<lparr>msg_data = [0], msg_control = zeroed, msg_controllen = lc_CMSG_SPACE L size_of_int\<rparr>"

definition recv_fd :: "'k libc \<Rightarrow> int \<Rightarrow> 'k \<Rightarrow> ('k \<times> (int, io_error) outcome) option" where
  "recv_fd L sock k =
     (case lc_recvmsg L sock (empty_message L) k of
        None \<Rightarrow> None
      | Some (k, rv, msg) \<Rightarrow>
          Some (if rv = 0 then (k, Err (UnexpectedEof ''0 bytes read''))
          else if rv < 0 then (k, Err (OsError (lc_errno L k)))
          else if rv = 1 then
            if msg_controllen msg < lc_sizeof_cmsghdr L then (k, Err (InvalidData ''bad control msg (header)''))
            else
              let hdr = cb_hdr (msg_control msg) in
              if cmsg_level hdr \<noteq> lc_SOL_SOCKET L \<or> cmsg_type hdr \<noteq> lc_SCM_RIGHTS L
              then (k, Err (InvalidData ''bad control msg (level)''))
              else if msg_controllen msg \<noteq> lc_CMSG_SPACE L size_of_int
              then (k, Err (InvalidData ''bad control msg (len)''))
              else
                let fd = cb_fd (msg_control msg);
                    (k, rv) = lc_fcntl L fd (lc_F_SETFD L) (lc_FD_CLOEXEC L) k in
                if rv < 0 then (k, Err (OsError (lc_errno L k))) else (k, Ok fd)
          else (k, Err (InvalidData ''bad control msg (ret code)''))))"

subsection \<open>\<open>DaemonConnection\<close>\<close>

text \<open>The question mark operator on a call that changes the kernel state, or waits.\<close>

definition kbind ::
  "('k \<times> ('a, 'e) outcome) option \<Rightarrow> ('a \<Rightarrow> 'k \<Rightarrow> ('k \<times> ('b, 'e) outcome) option)
     \<Rightarrow> ('k \<times> ('b, 'e) outcome) option" where
  "kbind c f =
     (case c of
        None \<Rightarrow> None
      | Some (k, Ok x) \<Rightarrow> f x k
      | Some (k, Err e) \<Rightarrow> Some (k, Err e)
      | Some (k, Panic) \<Rightarrow> Some (k, Panic))"

lemma kbind_Ok:
  "kbind c f = Some (k', Ok y) \<longleftrightarrow> (\<exists>k x. c = Some (k, Ok x) \<and> f x k = Some (k', Ok y))"
  by (auto simp: kbind_def split: option.splits prod.splits outcome.splits)

fun send_all :: "'k libc \<Rightarrow> int \<Rightarrow> int list \<Rightarrow> 'k \<Rightarrow> 'k \<times> (unit, io_error) outcome" where
  "send_all L sock [] k = (k, Ok ())"
| "send_all L sock (fd # fds) k =
     (let (k, r) = send_fd L sock fd k in
      case r of Ok _ \<Rightarrow> send_all L sock fds k | Err e \<Rightarrow> (k, Err e) | Panic \<Rightarrow> (k, Panic))"

fun recv_all :: "'k libc \<Rightarrow> int \<Rightarrow> nat \<Rightarrow> 'k \<Rightarrow> ('k \<times> (int list, io_error) outcome) option" where
  "recv_all L sock 0 k = Some (k, Ok [])"
| "recv_all L sock (Suc n) k =
     kbind (recv_fd L sock k) (\<lambda>fd k. kbind (recv_all L sock n k) (\<lambda>fds k. Some (k, Ok (fd # fds))))"

text \<open>The length is cast to 32 bits and written before the body; the descriptors follow.\<close>

definition conn_write :: "'k libc \<Rightarrow> int \<Rightarrow> int wire_message \<Rightarrow> 'k \<Rightarrow> 'k \<times> (unit, io_error) outcome" where
  "conn_write L sock m k =
     (case lc_write_all L sock (be_bytes 4 (length (wm_body m))) k of
        (k, Ok _) \<Rightarrow>
          (case lc_write_all L sock (wm_body m) k of
             (k, Ok _) \<Rightarrow> send_all L sock (wm_fds m) k
           | (k, r) \<Rightarrow> (k, r))
      | (k, r) \<Rightarrow> (k, r))"

definition conn_read :: "'k libc \<Rightarrow> int \<Rightarrow> 'k \<Rightarrow> ('k \<times> (int wire_message, io_error) outcome) option" where
  "conn_read L sock k =
     kbind (lc_read_exact L sock 4 k) (\<lambda>len_buf k.
     kbind (lc_read_exact L sock (of_be_bytes len_buf) k) (\<lambda>buf k.
     if length buf < 2 then Some (k, Panic)
     else kbind (recv_all L sock (count_fds (of_be_bytes (take 2 buf))) k) (\<lambda>fds k.
     Some (k, if fds = [] then message_new buf else message_new_with_fds buf fds))))"

subsection \<open>What the kernel promises\<close>

text \<open>
  What a kernel state says: the open file of a descriptor, whether it is closed on exec, the
  bytes in flight on the stream with the files that come with them, whether the sending end
  has been closed, and whether calls go through, that is, no signal interrupts them and no
  limit on buffers or descriptors is reached.
\<close>

record 'k kernel_view =
  kv_file :: "'k \<Rightarrow> int \<Rightarrow> nat option"
  kv_cloexec :: "'k \<Rightarrow> int \<Rightarrow> bool"
  kv_stream :: "'k \<Rightarrow> nat cell list"
  kv_closed :: "'k \<Rightarrow> bool"
  kv_healthy :: "'k \<Rightarrow> bool"

text \<open>A call that only changes the stream.\<close>

definition only_stream :: "'k kernel_view \<Rightarrow> 'k \<Rightarrow> 'k \<Rightarrow> nat cell list \<Rightarrow> bool" where
  "only_stream V k k' cs \<longleftrightarrow>
     kv_stream V k' = cs \<and> kv_file V k' = kv_file V k \<and> kv_cloexec V k' = kv_cloexec V k \<and>
     kv_closed V k' = kv_closed V k \<and> (kv_healthy V k \<longrightarrow> kv_healthy V k')"

text \<open>
  Received descriptors: they are new and different, each for its file, and not inherited by a
  program the process executes; the descriptors that were open stay as they are.
\<close>

definition received :: "'k kernel_view \<Rightarrow> 'k \<Rightarrow> 'k \<Rightarrow> int list \<Rightarrow> nat list \<Rightarrow> bool" where
  "received V k k' fds fs \<longleftrightarrow>
     distinct fds \<and> map (kv_file V k') fds = map Some fs \<and>
     (\<forall>fd \<in> set fds. kv_file V k fd = None \<and> kv_cloexec V k' fd) \<and>
     (\<forall>d. kv_file V k d \<noteq> None \<longrightarrow> kv_file V k' d = kv_file V k d \<and> kv_cloexec V k' d = kv_cloexec V k d) \<and>
     kv_closed V k' = kv_closed V k \<and> (kv_healthy V k \<longrightarrow> kv_healthy V k')"

text \<open>
  The documented behaviour of a connected pair of Unix stream sockets (\<open>unix(7)\<close>,
  \<open>recvmsg(2)\<close>, \<open>cmsg(3)\<close>) and of \<open>write_all\<close> and \<open>read_exact\<close>. Writing appends; a failed
  \<open>write_all\<close> has appended a part. A byte sent with rights carries the file. Reading from an
  empty stream waits while the other end is open and finds the end of the stream when it is
  closed; \<open>read\<close> drops the files of the bytes it reads. \<open>recvmsg\<close> with room for one byte takes
  the next byte, whatever it is, and its file under a descriptor that was not used; without a
  file, or when the descriptor does not fit, the control buffer is returned empty.
\<close>

locale fd_passing =
  fixes L :: "'k libc" and V :: "'k kernel_view" and tx rx :: int
  assumes space: "0 < lc_sizeof_cmsghdr L" "lc_sizeof_cmsghdr L \<le> lc_CMSG_SPACE L size_of_int"
    and write_all: "\<exists>k' r j. lc_write_all L tx bs k = (k', r) \<and> j \<le> length bs \<and>
      only_stream V k k' (kv_stream V k @ plain (take j bs)) \<and>
      (r = Ok () \<and> j = length bs \<or> (\<exists>e. r = Err e) \<and> \<not> kv_healthy V k)"
    and sendmsg: "\<exists>k' rv. lc_sendmsg L tx (fd_message L fd) k = (k', rv) \<and>
      (case kv_file V k fd of
         Some f \<Rightarrow> rv = 1 \<and> only_stream V k k' (kv_stream V k @ [(0, Some f)]) \<or>
                   rv = -1 \<and> only_stream V k k' (kv_stream V k) \<and> \<not> kv_healthy V k
       | None \<Rightarrow> rv = -1 \<and> only_stream V k k' (kv_stream V k))"
    and read_exact_Ok: "lc_read_exact L rx n k = Some (k', Ok bs) \<Longrightarrow>
      \<exists>cs. read_exact n (kv_stream V k) = Ok (bs, cs) \<and> only_stream V k k' cs"
    and read_exact_total: "kv_healthy V k \<Longrightarrow>
      (case read_exact n (kv_stream V k) of
         Ok (bs, cs) \<Rightarrow> \<exists>k'. lc_read_exact L rx n k = Some (k', Ok bs)
       | _ \<Rightarrow> if kv_closed V k then \<exists>k' e. lc_read_exact L rx n k = Some (k', Err e)
              else lc_read_exact L rx n k = None)"
    and recvmsg_byte: "lc_recvmsg L rx (empty_message L) k = Some (k', 1, m) \<Longrightarrow>
      \<exists>b r cs. kv_stream V k = (b, r) # cs \<and>
        (msg_controllen m = 0 \<and> only_stream V k k' cs \<and> (kv_healthy V k \<longrightarrow> r = None) \<or>
         (\<exists>f fd. r = Some f \<and> msg_control m = msg_control (fd_message L fd) \<and>
            msg_controllen m = lc_CMSG_SPACE L size_of_int \<and> kv_stream V k' = cs \<and>
            kv_closed V k' = kv_closed V k \<and> (kv_healthy V k \<longrightarrow> kv_healthy V k') \<and>
            kv_file V k fd = None \<and> kv_file V k' = (kv_file V k)(fd \<mapsto> f) \<and>
            (\<forall>d. d \<noteq> fd \<longrightarrow> kv_cloexec V k' d = kv_cloexec V k d)))"
    and recvmsg_total: "kv_healthy V k \<Longrightarrow>
      (case kv_stream V k of
         _ # _ \<Rightarrow> \<exists>k' m. lc_recvmsg L rx (empty_message L) k = Some (k', 1, m)
       | [] \<Rightarrow> if kv_closed V k then \<exists>k' m. lc_recvmsg L rx (empty_message L) k = Some (k', 0, m)
               else lc_recvmsg L rx (empty_message L) k = None)"
    and fcntl: "kv_file V k fd \<noteq> None \<Longrightarrow>
      \<exists>k'. lc_fcntl L fd (lc_F_SETFD L) (lc_FD_CLOEXEC L) k = (k', 0) \<and> kv_stream V k' = kv_stream V k \<and>
        kv_file V k' = kv_file V k \<and> kv_cloexec V k' = (kv_cloexec V k)(fd := True) \<and>
        kv_closed V k' = kv_closed V k \<and> (kv_healthy V k \<longrightarrow> kv_healthy V k')"
begin

subsubsection \<open>Writing\<close>

lemma only_stream_trans:
  "only_stream V k k1 (kv_stream V k @ as) \<Longrightarrow> only_stream V k1 k2 (kv_stream V k1 @ bs) \<Longrightarrow>
     only_stream V k k2 (kv_stream V k @ as @ bs)"
  by (auto simp: only_stream_def)

lemma send_all_stream:
  assumes "map (kv_file V k) fds = map Some fs"
  shows "\<exists>k' r j. send_all L tx fds k = (k', r) \<and> j \<le> length fs \<and>
    only_stream V k k' (kv_stream V k @ map (\<lambda>f. (0, Some f)) (take j fs)) \<and>
    (r = Ok () \<and> j = length fs \<or> (\<exists>e. r = Err e) \<and> \<not> kv_healthy V k)"
  using assms
proof (induction fds arbitrary: k fs)
  case Nil
  then show ?case by (auto simp: only_stream_def)
next
  case (Cons fd fds)
  then obtain f fs' where fs: "fs = f # fs'" "kv_file V k fd = Some f" "map (kv_file V k) fds = map Some fs'" by auto
  from sendmsg [of fd k] fs(2) obtain k1 rv where s: "lc_sendmsg L tx (fd_message L fd) k = (k1, rv)"
    "rv = 1 \<and> only_stream V k k1 (kv_stream V k @ [(0, Some f)]) \<or>
     rv = -1 \<and> only_stream V k k1 (kv_stream V k) \<and> \<not> kv_healthy V k" by auto
  show ?case
  proof (cases "rv = 1")
    case True
    with s have k1: "only_stream V k k1 (kv_stream V k @ [(0, Some f)])" by auto
    then have "map (kv_file V k1) fds = map Some fs'" using fs(3) by (simp add: only_stream_def)
    from Cons.IH [OF this] obtain k2 r j where k2: "send_all L tx fds k1 = (k2, r)" "j \<le> length fs'"
      "only_stream V k1 k2 (kv_stream V k1 @ map (\<lambda>f. (0, Some f)) (take j fs'))"
      "r = Ok () \<and> j = length fs' \<or> (\<exists>e. r = Err e) \<and> \<not> kv_healthy V k1" by blast
    have "only_stream V k k2 (kv_stream V k @ map (\<lambda>f. (0, Some f)) (take (Suc j) fs))"
      using only_stream_trans [OF k1 k2(3)] by (simp add: fs(1))
    moreover have "send_all L tx (fd # fds) k = (k2, r)" using s(1) True k2(1) by (simp add: send_fd_def)
    moreover have "r = Ok () \<and> Suc j = length fs \<or> (\<exists>e. r = Err e) \<and> \<not> kv_healthy V k"
      using k2(4) k1 by (auto simp: fs(1) only_stream_def)
    ultimately show ?thesis using k2(2) fs(1) by (intro exI [of _ k2] exI [of _ r] exI [of _ "Suc j"]) simp
  next
    case False
    then show ?thesis using s by (intro exI [of _ k1] exI [of _ "Err (OsError (lc_errno L k1))"] exI [of _ 0])
      (auto simp: send_fd_def)
  qed
qed

lemma conn_write_stream:
  assumes "map (kv_file V k) (wm_fds m) = map Some fs"
  shows "\<exists>k' r sent unsent. conn_write L tx m k = (k', r) \<and>
    sent @ unsent = wire_write \<lparr>wm_typ = wm_typ m, wm_body = wm_body m, wm_fds = fs\<rparr> \<and>
    only_stream V k k' (kv_stream V k @ sent) \<and>
    (r = Ok () \<and> unsent = [] \<or> (\<exists>e. r = Err e) \<and> \<not> kv_healthy V k)"
proof -
  let ?len = "be_bytes 4 (length (wm_body m))" and ?body = "wm_body m"
  let ?fds = "map (\<lambda>f. (0, Some f)) fs"
  have w: "wire_write \<lparr>wm_typ = wm_typ m, wm_body = wm_body m, wm_fds = fs\<rparr> = plain ?len @ plain ?body @ ?fds"
    by (simp add: wire_write_def put_frame_def)
  have written: ?thesis
    if "conn_write L tx m k = (kk, rr)" "wr @ lft = plain ?len @ plain ?body @ ?fds"
      "only_stream V k kk (kv_stream V k @ wr)" "rr = Ok () \<and> lft = [] \<or> (\<exists>e. rr = Err e) \<and> \<not> kv_healthy V k"
    for kk rr wr lft using that unfolding w by blast
  have split: "plain (take j bs) @ plain (drop j bs) = (plain bs :: nat cell list)" for j bs
    by (simp flip: plain_append)
  from write_all [of ?len k] obtain k1 r1 j1 where k1: "lc_write_all L tx ?len k = (k1, r1)"
    "only_stream V k k1 (kv_stream V k @ plain (take j1 ?len))"
    "r1 = Ok () \<and> j1 = length ?len \<or> (\<exists>e. r1 = Err e) \<and> \<not> kv_healthy V k" by blast
  show ?thesis
  proof (cases "r1 = Ok ()")
    case False
    with k1 obtain e where e: "conn_write L tx m k = (k1, Err e)" "\<not> kv_healthy V k" by (auto simp: conn_write_def)
    have "plain (take j1 ?len) @ (plain (drop j1 ?len) @ plain ?body @ ?fds) = plain ?len @ plain ?body @ ?fds"
      by (simp only: split flip: append_assoc)
    from written [OF e(1) this k1(2)] e(2) show ?thesis by simp
  next
    case r1: True
    with k1 have s1: "only_stream V k k1 (kv_stream V k @ plain ?len)" by auto
    from write_all [of ?body k1] obtain k2 r2 j2 where k2: "lc_write_all L tx ?body k1 = (k2, r2)"
      "only_stream V k1 k2 (kv_stream V k1 @ plain (take j2 ?body))"
      "r2 = Ok () \<and> j2 = length ?body \<or> (\<exists>e. r2 = Err e) \<and> \<not> kv_healthy V k1" by blast
    have s2: "only_stream V k k2 (kv_stream V k @ plain ?len @ plain (take j2 ?body))"
      using s1 k2(2) by (rule only_stream_trans)
    have unhealthy: "\<not> kv_healthy V k" if "\<not> kv_healthy V k1" using that s1 by (auto simp: only_stream_def)
    show ?thesis
    proof (cases "r2 = Ok ()")
      case False
      with k1(1) k2 r1 obtain e where e: "conn_write L tx m k = (k2, Err e)" "\<not> kv_healthy V k"
        using unhealthy by (auto simp: conn_write_def)
      have "(plain ?len @ plain (take j2 ?body)) @ (plain (drop j2 ?body) @ ?fds) = plain ?len @ plain ?body @ ?fds"
        using split [of j2 ?body] by (metis append_assoc)
      from written [OF e(1) this] s2 e(2) show ?thesis by simp
    next
      case r2: True
      with k2 have s2: "only_stream V k k2 (kv_stream V k @ plain ?len @ plain ?body)" using s2 by auto
      then have "map (kv_file V k2) (wm_fds m) = map Some fs" using assms by (simp add: only_stream_def)
      from send_all_stream [OF this] obtain k3 r3 j3 where k3: "send_all L tx (wm_fds m) k2 = (k3, r3)"
        "only_stream V k2 k3 (kv_stream V k2 @ map (\<lambda>f. (0, Some f)) (take j3 fs))"
        "r3 = Ok () \<and> j3 = length fs \<or> (\<exists>e. r3 = Err e) \<and> \<not> kv_healthy V k2" by blast
      have c: "conn_write L tx m k = (k3, r3)" using k1(1) k2(1) k3(1) r1 r2 by (simp add: conn_write_def)
      have s3: "only_stream V k k3 (kv_stream V k @ (plain ?len @ plain ?body) @ map (\<lambda>f. (0, Some f)) (take j3 fs))"
        using s2 k3(2) by (rule only_stream_trans)
      have r: "r3 = Ok () \<and> j3 = length fs \<or> (\<exists>e. r3 = Err e) \<and> \<not> kv_healthy V k"
        using k3(3) s2 by (auto simp: only_stream_def)
      have "((plain ?len @ plain ?body) @ map (\<lambda>f. (0, Some f)) (take j3 fs)) @
          map (\<lambda>f. (0, Some f)) (drop j3 fs) = plain ?len @ plain ?body @ ?fds"
        by (simp flip: map_append)
      from written [OF c this] s3 r show ?thesis by auto
    qed
  qed
qed

subsubsection \<open>Reading\<close>

lemma received_stream:
  "only_stream V k k1 cs \<Longrightarrow> received V k1 k' fds fs \<Longrightarrow> received V k k' fds fs"
  by (auto simp: received_def only_stream_def)

lemma received_Nil: "only_stream V k k' cs \<Longrightarrow> received V k k' [] []"
  by (auto simp: received_def only_stream_def)

lemma received_Cons:
  assumes "received V k k1 [fd] [f]" "received V k1 k2 fds fs"
  shows "received V k k2 (fd # fds) (f # fs)"
proof -
  have fd: "kv_file V k1 fd = Some f" "kv_file V k fd = None" using assms(1) by (simp_all add: received_def)
  have open1: "kv_file V k1 d \<noteq> None" if "kv_file V k d \<noteq> None" for d
    using assms(1) that by (auto simp: received_def)
  have "kv_file V k d = None" if "d \<in> set fds" for d
  proof -
    have "kv_file V k1 d = None" using assms(2) that by (simp add: received_def)
    with open1 show ?thesis by blast
  qed
  then show ?thesis using assms fd open1 by (auto simp: received_def)
qed

lemma recv_fd_Ok:
  assumes "recv_fd L rx k = Some (k', Ok fd)"
  shows "\<exists>b f cs. kv_stream V k = (b, Some f) # cs \<and> kv_stream V k' = cs \<and> received V k k' [fd] [f]"
proof -
  obtain k1 rv msg where r: "lc_recvmsg L rx (empty_message L) k = Some (k1, rv, msg)"
    using assms by (cases "lc_recvmsg L rx (empty_message L) k") (auto simp: recv_fd_def)
  have rv: "rv = 1" "\<not> msg_controllen msg < lc_sizeof_cmsghdr L"
    and fc: "\<exists>k2 rv2. lc_fcntl L (cb_fd (msg_control msg)) (lc_F_SETFD L) (lc_FD_CLOEXEC L) k1 = (k2, rv2) \<and>
      0 \<le> rv2 \<and> k' = k2 \<and> fd = cb_fd (msg_control msg)"
    using assms r by (auto simp: recv_fd_def Let_def split: if_splits prod.splits)
  from recvmsg_byte [of k k1 msg] r rv space(1) obtain b f fd' cs where
    m: "kv_stream V k = (b, Some f) # cs" "msg_control msg = msg_control (fd_message L fd')" "kv_stream V k1 = cs"
      "kv_closed V k1 = kv_closed V k" "kv_healthy V k \<longrightarrow> kv_healthy V k1" "kv_file V k fd' = None"
      "kv_file V k1 = (kv_file V k)(fd' \<mapsto> f)" "\<forall>d. d \<noteq> fd' \<longrightarrow> kv_cloexec V k1 d = kv_cloexec V k d" by auto
  have fd: "cb_fd (msg_control msg) = fd'" by (simp add: m(2) fd_message_def)
  from fcntl [of k1 fd'] m(7) fc fd have k': "kv_stream V k' = cs" "fd = fd'" "kv_file V k' = (kv_file V k)(fd' \<mapsto> f)"
      "kv_cloexec V k' = (kv_cloexec V k1)(fd' := True)" "kv_closed V k' = kv_closed V k"
      "kv_healthy V k \<longrightarrow> kv_healthy V k'"
    using m(3-5) by auto
  have "received V k k' [fd] [f]" using k' m(6,8) by (auto simp: received_def)
  then show ?thesis using m(1) k'(1) by blast
qed

lemma recv_fd_total:
  assumes "kv_healthy V k"
  shows "case kv_stream V k of
      [] \<Rightarrow> if kv_closed V k then \<exists>k' e. recv_fd L rx k = Some (k', Err e) else recv_fd L rx k = None
    | (b, None) # cs \<Rightarrow> \<exists>k' e. recv_fd L rx k = Some (k', Err e)
    | (b, Some f) # cs \<Rightarrow> \<exists>k' fd. recv_fd L rx k = Some (k', Ok fd)"
proof (cases "kv_stream V k")
  case Nil
  then show ?thesis using recvmsg_total [OF assms] by (auto simp: recv_fd_def)
next
  case (Cons c cs)
  obtain b r where c: "c = (b, r)" by (cases c)
  from recvmsg_total [OF assms] Cons obtain k1 msg where
    m: "lc_recvmsg L rx (empty_message L) k = Some (k1, 1, msg)" by auto
  show ?thesis
  proof (cases r)
    case None
    then have "msg_controllen msg = 0" using recvmsg_byte [OF m] Cons c by auto
    then show ?thesis using m space(1) Cons c None by (simp add: recv_fd_def)
  next
    case (Some f)
    with recvmsg_byte [OF m] Cons c assms obtain fd where
      fd: "msg_control msg = msg_control (fd_message L fd)" "msg_controllen msg = lc_CMSG_SPACE L size_of_int"
        "kv_file V k1 fd \<noteq> None" by auto
    from fcntl [OF fd(3)] obtain k2 where "lc_fcntl L fd (lc_F_SETFD L) (lc_FD_CLOEXEC L) k1 = (k2, 0)" by blast
    then have "recv_fd L rx k = Some (k2, Ok fd)"
      using m fd(1,2) space by (simp add: recv_fd_def fd_message_def)
    then show ?thesis using Cons c Some by simp
  qed
qed

lemma recv_all_Ok:
  "recv_all L rx n k = Some (k', Ok fds) \<Longrightarrow>
    \<exists>fs cs. recv_fds n (kv_stream V k) = Ok (fs, cs) \<and> kv_stream V k' = cs \<and> received V k k' fds fs"
proof (induction n arbitrary: k fds)
  case 0
  then show ?case by (auto simp: received_def)
next
  case (Suc n)
  then obtain fd k1 fds' where r: "recv_fd L rx k = Some (k1, Ok fd)" "recv_all L rx n k1 = Some (k', Ok fds')"
    "fds = fd # fds'"
    by (auto simp: kbind_Ok)
  from recv_fd_Ok [OF r(1)] Suc.IH [OF r(2)] show ?case using received_Cons by (fastforce simp: r(3))
qed

text \<open>What a healthy kernel makes of a call that finds too little in the stream.\<close>

definition fails_or_waits :: "'k \<Rightarrow> ('k \<times> ('a, io_error) outcome) option \<Rightarrow> bool" where
  "fails_or_waits k c \<longleftrightarrow> (\<exists>k' e. c = Some (k', Err e)) \<or> c = None \<and> \<not> kv_closed V k"

lemma recv_fds_total: "recv_fds n cs \<noteq> Panic"
  by (induction n cs rule: recv_fds.induct) (auto elim!: omap.elims)

lemma recv_all_total:
  "kv_healthy V k \<Longrightarrow>
    (case recv_fds n (kv_stream V k) of
       Ok (fs, cs) \<Rightarrow> \<exists>k' fds. recv_all L rx n k = Some (k', Ok fds)
     | _ \<Rightarrow> fails_or_waits k (recv_all L rx n k))"
proof (induction n arbitrary: k)
  case (Suc n)
  show ?case
  proof (cases "\<exists>b f cs. kv_stream V k = (b, Some f) # cs")
    case True
    then obtain b f cs where s: "kv_stream V k = (b, Some f) # cs" by blast
    with recv_fd_total [OF Suc.prems] obtain k1 fd where r: "recv_fd L rx k = Some (k1, Ok fd)" by auto
    from recv_fd_Ok [OF r] s have k1: "kv_stream V k1 = cs" "kv_healthy V k1" "kv_closed V k1 = kv_closed V k"
      using Suc.prems by (auto simp: received_def)
    show ?thesis using Suc.IH [OF k1(2)] r s k1(1,3)
      by (auto simp: kbind_def fails_or_waits_def split: outcome.splits prod.splits)
  next
    case False
    then show ?thesis using recv_fd_total [OF Suc.prems]
      by (cases "kv_stream V k") (auto simp: kbind_def fails_or_waits_def split: if_splits option.splits)
  qed
qed simp

lemma conn_read_Ok:
  assumes "conn_read L rx k = Some (k', Ok m')"
  shows "\<exists>m cs. wire_read (kv_stream V k) = Ok (m, cs) \<and> kv_stream V k' = cs \<and>
    wm_typ m' = wm_typ m \<and> wm_body m' = wm_body m \<and> received V k k' (wm_fds m') (wm_fds m)"
proof -
  from assms obtain k1 len k2 buf fds where
    1: "lc_read_exact L rx 4 k = Some (k1, Ok len)" and
    2: "lc_read_exact L rx (of_be_bytes len) k1 = Some (k2, Ok buf)" and
    3: "\<not> length buf < 2" "recv_all L rx (count_fds (of_be_bytes (take 2 buf))) k2 = Some (k', Ok fds)" and
    4: "(if fds = [] then message_new buf else message_new_with_fds buf fds :: (_, io_error) outcome) = Ok m'"
    unfolding conn_read_def kbind_Ok by (auto simp: kbind_Ok split: if_splits)
  from read_exact_Ok [OF 1] obtain cs1 where
    s1: "read_exact 4 (kv_stream V k) = Ok (len, cs1)" "only_stream V k k1 cs1" by blast
  from read_exact_Ok [OF 2] obtain cs2 where
    s2: "read_exact (of_be_bytes len) cs1 = Ok (buf, cs2)" "only_stream V k1 k2 cs2"
    using s1(2) by (auto simp: only_stream_def)
  from recv_all_Ok [OF 3(2)] obtain fs cs3 where
    s3: "recv_fds (count_fds (of_be_bytes (take 2 buf))) cs2 = Ok (fs, cs3)" "kv_stream V k' = cs3" "received V k2 k' fds fs"
    using s2(2) by (auto simp: only_stream_def)
  have r: "received V k k' fds fs" using received_stream s1(2) s2(2) s3(3) by blast
  then have "length fds = length fs" unfolding received_def by (metis length_map)
  then have "fds = [] \<longleftrightarrow> fs = []" by auto
  then show ?thesis
    using s1(1) s2(1) s3(1,2) r 3(1) 4
    by (auto simp: wire_read_def get_frame_def message_new_def message_new_with_fds_def split: if_splits)
qed

lemma conn_read_total:
  assumes "kv_healthy V k"
  shows "case wire_read (kv_stream V k) of
      Ok (m, cs) \<Rightarrow> \<exists>k' m'. conn_read L rx k = Some (k', Ok m')
    | Err e \<Rightarrow> fails_or_waits k (conn_read L rx k)
    | Panic \<Rightarrow> \<exists>k'. conn_read L rx k = Some (k', Panic)"
proof (cases "read_exact 4 (kv_stream V k)")
  case (Ok r1)
  obtain len cs1 where r1: "r1 = (len, cs1)" by (cases r1)
  from read_exact_total [OF assms, of 4] Ok r1 obtain k1 where k1: "lc_read_exact L rx 4 k = Some (k1, Ok len)" by auto
  from read_exact_Ok [OF k1] Ok r1 assms have s1: "kv_stream V k1 = cs1" "kv_healthy V k1" "kv_closed V k1 = kv_closed V k"
    by (auto simp: only_stream_def)
  show ?thesis
  proof (cases "read_exact (of_be_bytes len) cs1")
    case o2: (Ok r2)
    obtain buf cs2 where r2: "r2 = (buf, cs2)" by (cases r2)
    from read_exact_total [OF s1(2), of "of_be_bytes len"] o2 r2 s1(1) obtain k2 where
      k2: "lc_read_exact L rx (of_be_bytes len) k1 = Some (k2, Ok buf)" by auto
    from read_exact_Ok [OF k2] o2 r2 s1 have s2: "kv_stream V k2 = cs2" "kv_healthy V k2" "kv_closed V k2 = kv_closed V k"
      by (auto simp: only_stream_def)
    show ?thesis
    proof (cases "length buf < 2")
      case True
      then show ?thesis using Ok r1 o2 r2 k1 k2 by (simp add: wire_read_def get_frame_def conn_read_def kbind_def)
    next
      case False
      then show ?thesis
        using recv_all_total [OF s2(2), of "count_fds (of_be_bytes (take 2 buf))"]
          recv_fds_total [of "count_fds (of_be_bytes (take 2 buf))" cs2] Ok r1 o2 r2 k1 k2 s2(1,3)
        by (auto simp: wire_read_def get_frame_def conn_read_def kbind_def message_new_def message_new_with_fds_def
            fails_or_waits_def split: outcome.splits prod.splits option.splits)
    qed
  next
    case (Err e)
    then show ?thesis using read_exact_total [OF s1(2), of "of_be_bytes len"] Ok r1 k1 s1
      by (auto simp: wire_read_def get_frame_def conn_read_def kbind_def fails_or_waits_def split: if_splits)
  qed (simp add: read_exact_def split: if_splits)
next
  case (Err e)
  then show ?thesis using read_exact_total [OF assms, of 4]
    by (auto simp: wire_read_def get_frame_def conn_read_def kbind_def fails_or_waits_def split: if_splits)
qed (simp add: read_exact_def split: if_splits)

end

subsection \<open>A kernel with interrupts\<close>

text \<open>
  A kernel with a table of descriptors and one connected pair of sockets. \<open>sk_faults\<close> says which
  of the next calls fail, with \<open>ENOBUFS\<close> or, for a receiving call, a full table.
\<close>

record small_kernel =
  sk_files :: "(int \<times> nat) list"
  sk_cloexec :: "int list"
  sk_stream :: "nat cell list"
  sk_closed :: bool
  sk_faults :: "bool list"

definition unused_fd :: "small_kernel \<Rightarrow> int" where
  "unused_fd k = 1 + Max (insert 2 (fst ` set (sk_files k)))"

definition next_call :: "small_kernel \<Rightarrow> small_kernel" where
  "next_call k = k\<lparr>sk_faults := tl (sk_faults k)\<rparr>"

definition faulty :: "small_kernel \<Rightarrow> bool" where
  "faulty k \<longleftrightarrow> sk_faults k \<noteq> [] \<and> hd (sk_faults k)"

definition small_write_all :: "int \<Rightarrow> bytes \<Rightarrow> small_kernel \<Rightarrow> small_kernel \<times> (unit, io_error) outcome" where
  "small_write_all sock bs k =
     (if faulty k then (next_call k\<lparr>sk_stream := sk_stream k @ plain (take 1 bs)\<rparr>, Err (OsError 105))
      else (next_call k\<lparr>sk_stream := sk_stream k @ plain bs\<rparr>, Ok ()))"

definition small_read_exact ::
  "int \<Rightarrow> nat \<Rightarrow> small_kernel \<Rightarrow> (small_kernel \<times> (bytes, io_error) outcome) option" where
  "small_read_exact sock n k =
     (if faulty k then Some (next_call k, Err (OsError 105))
      else if n \<le> length (sk_stream k) then
        Some (next_call k\<lparr>sk_stream := drop n (sk_stream k)\<rparr>, Ok (map fst (take n (sk_stream k))))
      else if sk_closed k then
        Some (next_call k\<lparr>sk_stream := []\<rparr>, Err (UnexpectedEof ''failed to fill whole buffer''))
      else None)"

definition small_message :: "u8 \<Rightarrow> int \<Rightarrow> msghdr" where
  "small_message b fd =
     \<lparr>msg_data = [b], msg_control = \<lparr>cb_hdr = \<lparr>cmsg_level = 1, cmsg_type = 1, cmsg_len = 20\<rparr>, cb_fd = fd\<rparr>,
      msg_controllen = 24\<rparr>"

definition small_sendmsg :: "int \<Rightarrow> msghdr \<Rightarrow> small_kernel \<Rightarrow> small_kernel \<times> int" where
  "small_sendmsg sock m k =
     (case map_of (sk_files k) (cb_fd (msg_control m)) of
        None \<Rightarrow> (next_call k, -1)
      | Some f \<Rightarrow>
          if faulty k then (next_call k, -1)
          else (next_call k\<lparr>sk_stream := sk_stream k @ [(hd (msg_data m), Some f)]\<rparr>, 1))"

definition small_recvmsg :: "int \<Rightarrow> msghdr \<Rightarrow> small_kernel \<Rightarrow> (small_kernel \<times> int \<times> msghdr) option" where
  "small_recvmsg sock m k =
     (case sk_stream k of
        [] \<Rightarrow> if sk_closed k then Some (next_call k, 0, m\<lparr>msg_controllen := 0\<rparr>) else None
      | (b, Some f) # cs \<Rightarrow>
          if faulty k then Some (next_call k\<lparr>sk_stream := cs\<rparr>, 1, m\<lparr>msg_data := [b], msg_controllen := 0\<rparr>)
          else Some (next_call k\<lparr>sk_files := (unused_fd k, f) # sk_files k, sk_stream := cs\<rparr>, 1,
                 small_message b (unused_fd k))
      | (b, None) # cs \<Rightarrow> Some (next_call k\<lparr>sk_stream := cs\<rparr>, 1, m\<lparr>msg_data := [b], msg_controllen := 0\<rparr>))"

definition small_libc :: "small_kernel libc" where
  "small_libc =
     \<lparr>lc_write_all = small_write_all, lc_read_exact = small_read_exact, lc_sendmsg = small_sendmsg,
      lc_recvmsg = small_recvmsg,
      lc_fcntl = (\<lambda>fd cmd flag k. case map_of (sk_files k) fd of
           None \<Rightarrow> (k, -1) | Some f \<Rightarrow> (k\<lparr>sk_cloexec := fd # sk_cloexec k\<rparr>, 0)),
      lc_errno = (\<lambda>k. 105), lc_CMSG_SPACE = (\<lambda>n. 16 + 8 * ((n + 7) div 8)), lc_CMSG_LEN = (\<lambda>n. 16 + n),
      lc_sizeof_cmsghdr = 16, lc_SOL_SOCKET = 1, lc_SCM_RIGHTS = 1, lc_F_SETFD = 2, lc_FD_CLOEXEC = 1\<rparr>"

definition small_view :: "small_kernel kernel_view" where
  "small_view =
     \<lparr>kv_file = map_of \<circ> sk_files, kv_cloexec = (\<lambda>k fd. fd \<in> set (sk_cloexec k)), kv_stream = sk_stream,
      kv_closed = sk_closed, kv_healthy = (\<lambda>k. True \<notin> set (sk_faults k))\<rparr>"

lemma unused_fd_new: "map_of (sk_files k) (unused_fd k) = None"
proof -
  have "x \<le> Max (insert 2 (fst ` set (sk_files k)))" if "x \<in> fst ` set (sk_files k)" for x
    using that by (intro Max_ge) auto
  then have "unused_fd k \<notin> fst ` set (sk_files k)" by (fastforce simp: unused_fd_def)
  then show ?thesis by (simp add: map_of_eq_None_iff)
qed

lemma tl_faults: "True \<notin> set xs \<Longrightarrow> True \<notin> set (tl xs)"
  by (cases xs) auto

lemma healthy_not_faulty: "True \<notin> set (sk_faults k) \<Longrightarrow> \<not> faulty k"
  by (cases "sk_faults k") (auto simp: faulty_def)

lemmas small_defs =
  small_libc_def small_view_def only_stream_def next_call_def small_write_all_def small_read_exact_def
  small_sendmsg_def small_recvmsg_def small_message_def fd_message_def empty_message_def size_of_int_def

interpretation small: fd_passing small_libc small_view tx rx
proof
  show "0 < lc_sizeof_cmsghdr small_libc" "lc_sizeof_cmsghdr small_libc \<le> lc_CMSG_SPACE small_libc size_of_int"
    by (simp_all add: small_libc_def size_of_int_def)
next
  fix bs k
  show "\<exists>k' r j. lc_write_all small_libc tx bs k = (k', r) \<and> j \<le> length bs \<and>
      only_stream small_view k k' (kv_stream small_view k @ plain (take j bs)) \<and>
      (r = Ok () \<and> j = length bs \<or> (\<exists>e. r = Err e) \<and> \<not> kv_healthy small_view k)"
    using healthy_not_faulty [of k] tl_faults [of "sk_faults k"]
    by (cases "faulty k"; cases bs) (fastforce simp: small_defs)+
next
  fix fd k
  show "\<exists>k' rv. lc_sendmsg small_libc tx (fd_message small_libc fd) k = (k', rv) \<and>
      (case kv_file small_view k fd of
         Some f \<Rightarrow> rv = 1 \<and> only_stream small_view k k' (kv_stream small_view k @ [(0, Some f)]) \<or>
                   rv = -1 \<and> only_stream small_view k k' (kv_stream small_view k) \<and> \<not> kv_healthy small_view k
       | None \<Rightarrow> rv = -1 \<and> only_stream small_view k k' (kv_stream small_view k))"
    using healthy_not_faulty [of k] tl_faults [of "sk_faults k"]
    by (auto simp: small_defs split: option.split)
next
  fix n k k' bs
  show "lc_read_exact small_libc rx n k = Some (k', Ok bs) \<Longrightarrow>
      \<exists>cs. read_exact n (kv_stream small_view k) = Ok (bs, cs) \<and> only_stream small_view k k' cs"
    using tl_faults [of "sk_faults k"] by (auto simp: small_defs read_exact_def split: if_splits)
next
  fix n k
  show "kv_healthy small_view k \<Longrightarrow>
      (case read_exact n (kv_stream small_view k) of
         Ok (bs, cs) \<Rightarrow> \<exists>k'. lc_read_exact small_libc rx n k = Some (k', Ok bs)
       | _ \<Rightarrow> if kv_closed small_view k then \<exists>k' e. lc_read_exact small_libc rx n k = Some (k', Err e)
              else lc_read_exact small_libc rx n k = None)"
    using healthy_not_faulty [of k] by (simp add: small_defs read_exact_def)
next
  fix k k' m
  show "lc_recvmsg small_libc rx (empty_message small_libc) k = Some (k', 1, m) \<Longrightarrow>
      \<exists>b r cs. kv_stream small_view k = (b, r) # cs \<and>
        (msg_controllen m = 0 \<and> only_stream small_view k k' cs \<and> (kv_healthy small_view k \<longrightarrow> r = None) \<or>
         (\<exists>f fd. r = Some f \<and> msg_control m = msg_control (fd_message small_libc fd) \<and>
            msg_controllen m = lc_CMSG_SPACE small_libc size_of_int \<and> kv_stream small_view k' = cs \<and>
            kv_closed small_view k' = kv_closed small_view k \<and> (kv_healthy small_view k \<longrightarrow> kv_healthy small_view k') \<and>
            kv_file small_view k fd = None \<and> kv_file small_view k' = (kv_file small_view k)(fd \<mapsto> f) \<and>
            (\<forall>d. d \<noteq> fd \<longrightarrow> kv_cloexec small_view k' d = kv_cloexec small_view k d)))"
    using healthy_not_faulty [of k] tl_faults [of "sk_faults k"] unused_fd_new [of k]
    by (cases "True \<in> set (sk_faults k)")
      (auto simp: small_defs fun_eq_iff split: list.splits option.splits if_splits)
next
  fix k
  show "kv_healthy small_view k \<Longrightarrow>
      (case kv_stream small_view k of
         _ # _ \<Rightarrow> \<exists>k' m. lc_recvmsg small_libc rx (empty_message small_libc) k = Some (k', 1, m)
       | [] \<Rightarrow> if kv_closed small_view k
               then \<exists>k' m. lc_recvmsg small_libc rx (empty_message small_libc) k = Some (k', 0, m)
               else lc_recvmsg small_libc rx (empty_message small_libc) k = None)"
    by (auto simp: small_defs split: list.split option.split)
next
  fix k fd
  show "kv_file small_view k fd \<noteq> None \<Longrightarrow>
      \<exists>k'. lc_fcntl small_libc fd (lc_F_SETFD small_libc) (lc_FD_CLOEXEC small_libc) k = (k', 0) \<and>
        kv_stream small_view k' = kv_stream small_view k \<and> kv_file small_view k' = kv_file small_view k \<and>
        kv_cloexec small_view k' = (kv_cloexec small_view k)(fd := True) \<and>
        kv_closed small_view k' = kv_closed small_view k \<and> (kv_healthy small_view k \<longrightarrow> kv_healthy small_view k')"
    by (auto simp: small_defs fun_eq_iff)
qed

section \<open>Properties\<close>

text \<open>
  C39: a connection of the proxy implements the stream of bytes and files. Over a kernel that
  behaves as documented, \<open>write\<close> appends the message to the stream, or, when a call fails, a
  beginning of it, and reports the error. Whenever \<open>read\<close> returns a message, it is the next one
  of the stream, its descriptors are new and different, each for the open file that was sent
  with the message, and none is inherited by a program the process executes; the descriptors
  that were open before stay as they are. When calls go through, \<open>read\<close> returns the message
  that is there, and otherwise fails, or waits as long as the other end is open.
\<close>

theorem connection_implements_stream:
  assumes "fd_passing L V tx rx"
  shows "(map (kv_file V k) (wm_fds m) = map Some files \<longrightarrow>
      (\<exists>k' r sent unsent. conn_write L tx m k = (k', r) \<and>
        sent @ unsent = wire_write \<lparr>wm_typ = wm_typ m, wm_body = wm_body m, wm_fds = files\<rparr> \<and>
        kv_stream V k' = kv_stream V k @ sent \<and>
        (r = Ok () \<and> unsent = [] \<or> (\<exists>e. r = Err e) \<and> \<not> kv_healthy V k))) \<and>
    (conn_read L rx k = Some (k', Ok m') \<longrightarrow>
      (\<exists>sent cs. wire_read (kv_stream V k) = Ok (sent, cs) \<and> kv_stream V k' = cs \<and>
        wm_typ m' = wm_typ sent \<and> wm_body m' = wm_body sent \<and> received V k k' (wm_fds m') (wm_fds sent))) \<and>
    (kv_healthy V k \<longrightarrow>
      (case wire_read (kv_stream V k) of
         Ok _ \<Rightarrow> \<exists>k' m'. conn_read L rx k = Some (k', Ok m')
       | Err _ \<Rightarrow> (\<exists>k' e. conn_read L rx k = Some (k', Err e)) \<or> conn_read L rx k = None \<and> \<not> kv_closed V k
       | Panic \<Rightarrow> \<exists>k'. conn_read L rx k = Some (k', Panic)))"
proof (intro conjI impI)
  assume "map (kv_file V k) (wm_fds m) = map Some files"
  from fd_passing.conn_write_stream [OF assms this] show "\<exists>k' r sent unsent. conn_write L tx m k = (k', r) \<and>
      sent @ unsent = wire_write \<lparr>wm_typ = wm_typ m, wm_body = wm_body m, wm_fds = files\<rparr> \<and>
      kv_stream V k' = kv_stream V k @ sent \<and> (r = Ok () \<and> unsent = [] \<or> (\<exists>e. r = Err e) \<and> \<not> kv_healthy V k)"
    unfolding only_stream_def by blast
next
  assume "conn_read L rx k = Some (k', Ok m')"
  from fd_passing.conn_read_Ok [OF assms this] show "\<exists>sent cs. wire_read (kv_stream V k) = Ok (sent, cs) \<and>
      kv_stream V k' = cs \<and> wm_typ m' = wm_typ sent \<and> wm_body m' = wm_body sent \<and>
      received V k k' (wm_fds m') (wm_fds sent)" .
next
  assume "kv_healthy V k"
  from fd_passing.conn_read_total [OF assms this] show "case wire_read (kv_stream V k) of
      Ok _ \<Rightarrow> \<exists>k' m'. conn_read L rx k = Some (k', Ok m')
    | Err _ \<Rightarrow> (\<exists>k' e. conn_read L rx k = Some (k', Err e)) \<or> conn_read L rx k = None \<and> \<not> kv_closed V k
    | Panic \<Rightarrow> \<exists>k'. conn_read L rx k = Some (k', Panic)"
    unfolding fd_passing.fails_or_waits_def [OF assms] by (auto split: outcome.splits)
qed

text \<open>A message with a descriptor is on the stream; the descriptor that is received is a new one for its file.\<close>

definition demo_kernel :: small_kernel where
  "demo_kernel = \<lparr>sk_files = [(3, 100), (4, 200)], sk_cloexec = [],
     sk_stream = wire_write \<lparr>wm_typ = 109, wm_body = [0, 109], wm_fds = [200]\<rparr>, sk_closed = False, sk_faults = []\<rparr>"

lemma connection_implements_stream_witness:
  "\<exists>k' m'. conn_read small_libc 4 demo_kernel = Some (k', Ok m') \<and> wm_body m' = [0, 109] \<and>
     map (map_of (sk_files k')) (wm_fds m') = [Some 200] \<and> (\<forall>fd \<in> set (wm_fds m'). fd \<notin> {3, 4}) \<and>
     conn_read small_libc 4 (demo_kernel\<lparr>sk_stream := []\<rparr>) = None"
proof -
  have "wire_ok \<lparr>wm_typ = 109, wm_body = [0, 109], wm_fds = [200 :: nat]\<rparr>"
    by (simp add: wire_ok_def of_be_bytes_def count_fds_def)
  from wire_read_write [OF this, of "[]"] have w: "wire_read (kv_stream small_view demo_kernel) =
      Ok (\<lparr>wm_typ = 109, wm_body = [0, 109], wm_fds = [200]\<rparr>, [])"
    by (simp add: small_view_def demo_kernel_def)
  have h: "kv_healthy small_view demo_kernel" by (simp add: small_view_def demo_kernel_def)
  note c = connection_implements_stream [OF small.fd_passing_axioms, where k = demo_kernel]
  from c h w obtain k' m' where r: "conn_read small_libc 4 demo_kernel = Some (k', Ok m')" by fastforce
  with c w have "received small_view demo_kernel k' (wm_fds m') [200]" "wm_body m' = [0, 109]" by fastforce+
  moreover have "conn_read small_libc 4 (demo_kernel\<lparr>sk_stream := []\<rparr>) = None"
    by (simp add: conn_read_def kbind_def small_libc_def small_read_exact_def demo_kernel_def faulty_def)
  ultimately show ?thesis using r
    by (intro exI [of _ k'] exI [of _ m']) (auto simp: received_def small_view_def demo_kernel_def)
qed

end
