(* ===== verification/Spec2Isabelle.thy ===== *)
theory Spec2Isabelle
  imports Session NodeStreams NodeWrapper PluginStart PluginInit RpcResponses Awaitables Cli PyClient PassFd
begin

text \<open>
  A model of Greenlight, a hosted Core Lightning node whose keys stay with the user, and the
  theorems that say why its parts are correct.

  The program. A node runs lightningd in the cloud without its keys. Every signature that
  lightningd needs is asked for by its hsmd process, which is \<open>libs/gl-signerproxy\<close>: it
  forwards the request to the plugin \<open>libs/gl-plugin\<close>. The plugin stages the request, attaches
  the signer state it keeps and the signed calls the clients have running, and streams it to the
  signer, \<open>libs/gl-client/src/signer\<close>, which runs on a device of the user. The signer merges the
  state, authenticates the attached calls by signature and rune, resolves the request against
  them, lets VLS answer, and returns answer and state, which the plugin merges, stores and
  hands to lightningd. Devices get their certificate and rune from the scheduler
  (\<open>credentials.rs\<close>, \<open>scheduler.rs\<close>) or by pairing with another device (\<open>pairing\<close>). Beside
  that the plugin pays by trampoline, answers hooks and extends calls of lightningd. Users reach
  all of it through the command line \<open>libs/gl-cli\<close> or an application on \<open>libs/gl-sdk\<close>.

  The theories, in the order of the layers:

  \<^item> \<open>Prelude\<close>: machine integers, outcomes of fallible code (\<open>Ok\<close>, \<open>Err\<close>, \<open>Panic\<close>), strings,
    big endian bytes and ordered maps (\<open>bmap\<close> for \<open>BTreeMap\<close>). \<open>Versioned_Store\<close> is the interface
    of a store of versioned entries synchronised by merging, \<open>Codec\<close> that of an encoding which
    delimits itself.
  \<^item> \<open>Persist\<close> (\<open>gl-client/src/persist.rs\<close>): \<open>State\<close> is \<open>signer_state\<close>, with \<open>merge\<close>, \<open>diff\<close>, the
    wire form \<open>state_to_entries\<close> and the \<open>MemoryPersister\<close> on it. Its lemmas show the invariant
    of every operation, that merging takes the entry of the higher version, and how far a signer
    and a node which exchange states agree. Nothing in the code keeps replicas coherent, so no
    coherence is assumed there: a conflict of two values under one version, a deletion and a
    version that runs over are cases of the statement (\<open>session\<close>). It interprets \<open>Versioned_Store\<close>.
  \<^item> \<open>SignerModel\<close>, \<open>Resolver\<close>, \<open>Runes\<close>, \<open>SignerAuth\<close>, \<open>SignerProcess\<close>
    (\<open>gl-client/src/signer\<close>, \<open>runes.rs\<close>): the requests a client can make and their decoders
    (\<open>decode_request\<close>), the table that justifies a message by a request (\<open>resolves_with\<close>), rune
    checks, \<open>check_request_auth\<close>, and \<open>process_request\<close> with the loops around it. They show that
    an answer needs a justification signed by the client or is reported, and that a refusal
    changes nothing but the merged state. Which of the two depends on the build:
    \<open>env_permissive\<close> is the feature \<open>permissive\<close> of \<open>gl-client\<close>, which is on by default, lets the
    unjustified request through after a report, and takes an approver that refuses nothing.
  \<^item> \<open>Stager\<close> (\<open>gl-plugin/src/stager.rs\<close>): the requests that wait for a signer as a transition
    system; \<open>NodeContext\<close> (\<open>gl-client/src/node/service.rs\<close>, \<open>gl-plugin/src/context.rs\<close>): the way
    of a signed call to the context of running calls; \<open>NodeServer\<close> (\<open>gl-plugin/src/hsm.rs\<close>,
    \<open>storage.rs\<close>, \<open>node/mod.rs\<close>): the handlers that join them, whose record \<open>node_server\<close> is the
    state of \<open>PluginNodeServer\<close> with its statics and its database. A signer is counted, gets its
    stream, leaves the count and drops the stream in separate steps; \<open>ns_attaching\<close>, \<open>ns_exiting\<close>
    and \<open>ns_lost\<close> hold what is between, so that the invariant says what the count is worth.
    \<open>Session\<close> composes client, node and signer: a running payment is approved, and an exchange
    brings node, store and signer together.
  \<^item> \<open>SignerProxy\<close> (\<open>gl-signerproxy/src/wire.rs\<close>, \<open>hsmproxy.rs\<close>, \<open>pb.rs\<close>): the frames of the daemon
    protocol and the handlers of connections, with distinct ids for forwarded requests. A
    connection is one stream of bytes, in which a descriptor is a byte that carries a file.
    \<open>PassFd\<close> (\<open>passfd.rs\<close>): the same on system calls, which may wait and fail; its locale is what
    the kernel documents of them, and its theorem says that they implement the stream.
  \<^item> \<open>Pairing\<close> (\<open>gl-client/src/pairing\<close>), \<open>Credentials\<close> (\<open>credentials.rs\<close>, \<open>utils.rs\<close>,
    \<open>scheduler.rs\<close>): which key a new rune is bound to, on the device, at the attestation device
    and at the signer.
  \<^item> \<open>TrampAlloc\<close>, \<open>TrampPay\<close>, \<open>Tlv\<close>, \<open>Lsp\<close>, \<open>GlError\<close> (\<open>gl-plugin/src/tramp.rs\<close>, \<open>tlv.rs\<close>,
    \<open>lsp.rs\<close>, \<open>gl-util/src/error.rs\<close>): the split of a payment over channels, the parts that are
    sent, the payload they carry, the hook for channels opened just in time, the error codes.
  \<^item> \<open>NodeCalls\<close>, \<open>PluginHooks\<close>, \<open>Awaitables\<close>, \<open>Amounts\<close> (\<open>gl-plugin/src/node/mod.rs\<close>,
    \<open>node/wrapper.rs\<close>, \<open>lib.rs\<close>, \<open>awaitables.rs\<close>, \<open>messages.rs\<close>, \<open>requests.rs\<close>,
    \<open>responses.rs\<close>): the calls with logic of the plugin's own, the hooks, the hand written future
    that waits for a channel, and the amounts in the JSON of lightningd.
  \<^item> \<open>Json\<close>, \<open>Messages\<close>, \<open>RpcRequests\<close>, \<open>RpcResponses\<close> (\<open>gl-plugin/src/messages.rs\<close>, \<open>requests.rs\<close>,
    \<open>responses.rs\<close>): the JSON that plugin and lightningd exchange. A struct is a record with a reader
    made of its fields (\<open>read_struct\<close>) or a writer; \<open>json_codec\<close> is the interface of a type that is
    read back as it was written, \<open>rpc_codec\<close> what the envelope \<open>JsonRpc\<close> needs of the two types it
    wraps. Without \<open>preserve_order\<close> the maps of serde_json are sorted, and so are the objects here
    (\<open>json_object\<close>). \<open>PluginInit\<close> (\<open>lib.rs\<close>): the hooks of \<open>PluginHooks\<close> and \<open>Lsp\<close> as handlers of
    JSON, and their registration with the builder of cln_plugin, which is a parameter.
  \<^item> \<open>NodeStreams\<close> (\<open>node/mod.rs\<close>): what the hooks broadcast reaches the clients that listen, in
    order and once, unless a stream is overrun (\<open>listener\<close> is a stream, with its task and its
    client); \<open>NodeWrapper\<close> (\<open>node/wrapper.rs\<close>): the tables of the calls that are passed on;
    \<open>PluginStart\<close> (\<open>config.rs\<close>, \<open>bin/plugin.rs\<close>): the configuration, the start, and the socket
    at which plugin and signer proxy meet.
  \<^item> \<open>Lnurl\<close> (\<open>gl-client/src/lnurl\<close>): the client of LNURL pay and withdraw.
  \<^item> \<open>Client\<close> (\<open>gl-client/src/tls.rs\<close>, \<open>credentials.rs\<close>, \<open>scheduler.rs\<close>, \<open>node/mod.rs\<close>,
    \<open>node/generic.rs\<close>): TLS settings (\<open>tls_config\<close>), the calls of the scheduler and the client of a
    node; one device is one identity on the TLS and on the signature layer. \<open>SignerSetup\<close>
    (\<open>signer/mod.rs\<close>, \<open>report.rs\<close>): \<open>Signer::new\<close> with its policy (\<open>signer_new\<close>), the handlers and
    the outermost loops.
  \<^item> \<open>Sdk\<close> (\<open>gl-sdk\<close>, \<open>gl-sdk-napi\<close>): the objects an application holds and the conversions of its
    values; \<open>PyClient\<close> (\<open>gl-client-py\<close>): the Python classes; \<open>Cli\<close> (\<open>gl-cli\<close>): every command on the
    files of a directory (\<open>cli_world\<close>). They show that the clients of a node are its device, that
    Python's scheduler keeps to its kind, that no command destroys a seed it can read (one it
    cannot read is replaced, which is shown too), that a registration is complete on the disk, and
    that command line and SDK make the same node of a mnemonic.
    \<open>Export\<close> (\<open>export.rs\<close>, \<open>util.rs\<close>): backups, and two tests for a feature bit that agree.

  Reading the definitions. A handler is a function from its input and the state to its outcome
  and the new state; a mutex held over a handler makes the handler one step, and where code
  runs concurrently the interleaving is the order of an explicit list of steps or a relation
  with rule induction (\<open>Stager\<close>, \<open>NodeServer\<close>). What belongs to other crates, to lightningd or
  to generated code (VLS, runeauth, prost, ring, X.509, bech32, URLs, hex, the RPC) is a
  record of functions, and each property names what it needs of them. What \<open>derive\<close> makes of a
  struct for serde is written out as serde documents it (\<open>Json\<close>); the text of JSON is a parameter.

  Bounds. State versions are \<open>64 word\<close>, request ids \<open>32 word\<close>; both wrap. Amounts are natural
  numbers, with the places where a sum or a product wraps in a release build written out; group
  ids of payments are \<open>64 word\<close>. The
  wait for the RPC socket (\<open>rpc_wait\<close>) sleeps 500 ms at a time for at most five seconds, and its
  model is total for that reason; the polling of pairing data stops after ten seconds; the
  back-off of a channel is 250 ms. A stream of payments has room for sixteen events, so 51 rounds
  empty it. Loops on streams recurse on the list of events they receive,
  so no fuel is needed.

  Not modelled: transport and I/O (tonic channels, sockets, the poll functions that only pass a
  poll on, as in \<open>unix.rs\<close>, the files of the log), the inside of VLS and of lightningd, the parsing
  of arguments and the logger, the text of error messages where nothing depends on it, and
  \<open>lsps.rs\<close> of the Python bindings, which is not compiled.
\<close>

end
